(* ===== verification/Prelude.thy ===== *)
theory Prelude
  imports Main "HOL-Library.Word" "HOL-Library.List_Lexorder"
begin

text \<open>
  Shared vocabulary of the development: the machine integers of the Rust source as words, the
  outcome of a call that may fail (\<open>Err\<close>) or panic, byte slices with the bounds checks that
  Rust makes, big-endian encoding, and the generic lemmas the components use.

  Arithmetic on machine integers follows the release profile of the workspace
  (overflow checks and debug assertions off): it wraps. A panic that every profile has (an
  index or slice out of range, \<open>unwrap\<close>, \<open>assert!\<close>, \<open>unreachable!\<close>, a push to a full
  \<open>ArrayVec\<close>) is the value \<open>panic\<close>.
\<close>

unbundle bit_operations_syntax

named_theorems wire_simps \<open>unfolding the slice operations and fixed layouts of the wire format\<close>
named_theorems wf_intros \<open>well-formedness of the values that the operations produce\<close>

section \<open>Machine integers\<close>

type_synonym u8 = "8 word"
type_synonym u16 = "16 word"
type_synonym u32 = "32 word"
type_synonym u64 = "64 word"
type_synonym i8 = "8 word" \<comment> \<open>two's complement, read with \<open>sint\<close>\<close>
type_synonym i16 = "16 word"
type_synonym bytes = "u8 list"

section \<open>Outcomes\<close>

datatype wire_format_error = EnumConversionError | BufferTooShort | CapacityError | Invalid

datatype failure = Wire wire_format_error | Panic

type_synonym 'a res = "failure + 'a"

abbreviation Ok :: "'a \<Rightarrow> 'a res" where
  "Ok x \<equiv> Inr x"

abbreviation Err :: "wire_format_error \<Rightarrow> 'a res" where
  "Err e \<equiv> Inl (Wire e)"

abbreviation panic :: "'a res" where
  "panic \<equiv> Inl Panic"

text \<open>Sequencing: an error or a panic ends the computation (Rust's \<open>?\<close> and unwinding).\<close>

fun andthen :: "'a res \<Rightarrow> ('a \<Rightarrow> 'b res) \<Rightarrow> 'b res" where
  "andthen (Inl e) f = Inl e"
| "andthen (Inr x) f = f x"

text \<open>\<open>Result::unwrap\<close>: an error becomes a panic.\<close>

fun unwrap :: "'a res \<Rightarrow> 'a res" where
  "unwrap (Inl e) = panic"
| "unwrap (Inr x) = Ok x"

definition ok_or :: "'a option \<Rightarrow> wire_format_error \<Rightarrow> 'a res" where
  "ok_or m e = (case m of None \<Rightarrow> Err e | Some x \<Rightarrow> Ok x)"

text \<open>A list of updates performed one after the other.\<close>

fun seqw :: "('a \<Rightarrow> 'a res) list \<Rightarrow> 'a \<Rightarrow> 'a res" where
  "seqw [] s = Ok s"
| "seqw (w # ws) s = andthen (w s) (seqw ws)"

lemma andthen_eq_Ok [simp]:
  "andthen m f = Inr y \<longleftrightarrow> (\<exists>x. m = Inr x \<and> f x = Inr y)"
  by (cases m) auto

lemma andthen_eq_Inl:
  "andthen m f = Inl e \<longleftrightarrow> m = Inl e \<or> (\<exists>x. m = Inr x \<and> f x = Inl e)"
  by (cases m) auto

lemma andthen_Ok_right [simp]: "andthen m Inr = m"
  by (cases m) auto

lemma andthen_assoc: "andthen (andthen m f) g = andthen m (\<lambda>x. andthen (f x) g)"
  by (cases m) auto

lemma unwrap_eq_Ok [simp]: "unwrap m = Inr x \<longleftrightarrow> m = Inr x"
  by (cases m) auto

lemma ok_or_simps [simp]: "ok_or None e = Err e" "ok_or (Some x) e = Ok x"
  by (simp_all add: ok_or_def)

lemma ok_or_eq_Ok [simp]: "ok_or m e = Inr x \<longleftrightarrow> m = Some x"
  by (cases m) simp_all

lemma seqw_append: "seqw (ws @ vs) s = andthen (seqw ws s) (seqw vs)"
proof (induction ws arbitrary: s)
  case Nil
  show ?case by simp
next
  case (Cons w ws)
  then have "seqw (ws @ vs) = (\<lambda>s. andthen (seqw ws s) (seqw vs))" by (rule ext)
  then show ?case by (simp add: andthen_assoc)
qed

text \<open>\<open>outcome T m Q\<close>: a call that returns satisfies \<open>Q\<close>, and if \<open>T\<close> holds it does return.\<close>

definition outcome :: "bool \<Rightarrow> 'a res \<Rightarrow> ('a \<Rightarrow> bool) \<Rightarrow> bool" where
  "outcome T m Q \<longleftrightarrow> (case m of Inl e \<Rightarrow> \<not> T | Inr x \<Rightarrow> Q x)"

lemma outcome_Ok [simp]: "outcome T (Inr x) Q \<longleftrightarrow> Q x"
  by (simp add: outcome_def)

lemma outcome_bind:
  assumes "outcome T m Q" and "\<And>x. Q x \<Longrightarrow> outcome T (f x) R"
  shows "outcome T (andthen m f) R"
  using assms by (cases m) (auto simp: outcome_def)

lemma outcome_bind_pair:
  assumes "outcome T m (\<lambda>(a, b). Q a b)" and "\<And>a b. Q a b \<Longrightarrow> outcome T (f a b) R"
  shows "outcome T (andthen m (\<lambda>(a, b). f a b)) R"
  using assms by (cases m) (auto simp: outcome_def)

lemma outcome_mono: "outcome T m Q \<Longrightarrow> (\<And>x. Q x \<Longrightarrow> R x) \<Longrightarrow> outcome T m R"
  by (cases m) (auto simp: outcome_def)

lemma outcome_call:
  "(T \<Longrightarrow> \<exists>x. m = Inr x) \<Longrightarrow> (\<And>x. m = Inr x \<Longrightarrow> Q x) \<Longrightarrow> outcome T m Q"
  by (cases m) (auto simp: outcome_def)

lemma outcome_returns: "(T \<longrightarrow> (\<exists>x. m = Inr x)) \<Longrightarrow> outcome T m (\<lambda>_. True)"
  by (cases m) (auto simp: outcome_def)

lemma outcome_if:
  "(c \<Longrightarrow> outcome T a Q) \<Longrightarrow> (\<not> c \<Longrightarrow> outcome T b Q) \<Longrightarrow> outcome T (if c then a else b) Q"
  by simp

lemma outcome_OkD: "outcome T m Q \<Longrightarrow> m = Inr x \<Longrightarrow> Q x"
  by (simp add: outcome_def)

lemma outcome_total: "outcome T m Q \<Longrightarrow> T \<Longrightarrow> \<exists>x. m = Inr x \<and> Q x"
  by (cases m) (auto simp: outcome_def)

section \<open>Slices\<close>

text \<open>
  \<open>slice a b bs\<close> is \<open>&bs[a..b]\<close>, \<open>get_range a b bs\<close> is \<open>bs.get(a..b)\<close>, \<open>get_from\<close> is
  \<open>bs.get(a..)\<close>. \<open>put a b src\<close> is \<open>bs[a..b].copy_from_slice(src)\<close>, \<open>put1\<close> and
  \<open>or1\<close> are assignment and \<open>|=\<close> at one index, and \<open>sub a b f\<close> runs \<open>f\<close> on the
  mutable sub-slice \<open>&mut bs[a..b]\<close>.
\<close>

definition get_range :: "nat \<Rightarrow> nat \<Rightarrow> 'a list \<Rightarrow> 'a list option" where
  "get_range a b bs = (if a \<le> b \<and> b \<le> length bs then Some (take (b - a) (drop a bs)) else None)"

definition get_from :: "nat \<Rightarrow> 'a list \<Rightarrow> 'a list option" where
  "get_from a bs = (if a \<le> length bs then Some (drop a bs) else None)"

definition slice :: "nat \<Rightarrow> nat \<Rightarrow> 'a list \<Rightarrow> 'a list res" where
  "slice a b bs = (if a \<le> b \<and> b \<le> length bs then Ok (take (b - a) (drop a bs)) else panic)"

definition index :: "nat \<Rightarrow> 'a list \<Rightarrow> 'a res" where
  "index i bs = (if i < length bs then Ok (bs ! i) else panic)"

definition put :: "nat \<Rightarrow> nat \<Rightarrow> 'a list \<Rightarrow> 'a list \<Rightarrow> 'a list res" where
  "put a b src bs =
     (if a \<le> b \<and> b \<le> length bs \<and> length src = b - a
      then Ok (take a bs @ src @ drop b bs) else panic)"

definition put1 :: "nat \<Rightarrow> 'a \<Rightarrow> 'a list \<Rightarrow> 'a list res" where
  "put1 i x bs = (if i < length bs then Ok (bs[i := x]) else panic)"

definition or1 :: "nat \<Rightarrow> u8 \<Rightarrow> bytes \<Rightarrow> bytes res" where
  "or1 i x bs = (if i < length bs then Ok (bs[i := bs ! i OR x]) else panic)"

definition sub :: "nat \<Rightarrow> nat \<Rightarrow> ('a list \<Rightarrow> 'a list res) \<Rightarrow> 'a list \<Rightarrow> 'a list res" where
  "sub a b f bs = andthen (slice a b bs) (\<lambda>s. andthen (f s) (\<lambda>s'. put a b s' bs))"

declare slice_def [wire_simps] put_def [wire_simps] put1_def [wire_simps] or1_def [wire_simps]
  sub_def [wire_simps] get_range_def [wire_simps] get_from_def [wire_simps] index_def [wire_simps]

lemma put_length: "put a b src bs = Inr bs' \<Longrightarrow> length bs' = length bs"
  by (auto simp: put_def split: if_splits)

lemma put1_length: "put1 i x bs = Inr bs' \<Longrightarrow> length bs' = length bs"
  by (auto simp: put1_def split: if_splits)

lemma or1_length: "or1 i x bs = Inr bs' \<Longrightarrow> length bs' = length bs"
  by (auto simp: or1_def split: if_splits)

lemma sub_length: "sub a b f bs = Inr bs' \<Longrightarrow> length bs' = length bs"
  by (auto simp: sub_def dest: put_length)

section \<open>Big-endian encoding\<close>

fun be_bytes :: "nat \<Rightarrow> 'a::len word \<Rightarrow> bytes" where
  "be_bytes 0 w = []"
| "be_bytes (Suc n) w = be_bytes n (drop_bit 8 w) @ [ucast w]"

definition be_word :: "bytes \<Rightarrow> 'a::len word" where
  "be_word bs = foldl (\<lambda>a b. push_bit 8 a OR ucast b) 0 bs"

lemma length_be_bytes [simp]: "length (be_bytes n w) = n"
  by (induction n w rule: be_bytes.induct) auto

lemma be_word_Nil [simp]: "be_word [] = 0"
  by (simp add: be_word_def)

lemma be_word_snoc [simp]: "be_word (bs @ [b]) = push_bit 8 (be_word bs) OR ucast b"
  by (simp add: be_word_def)

lemma be_word_be_bytes: "be_word (be_bytes n w) = take_bit (8 * n) (w :: 'a::len word)"
proof (induction n arbitrary: w)
  case 0
  then show ?case by simp
next
  case (Suc n)
  have "push_bit 8 (take_bit (8 * n) (drop_bit 8 w)) OR ucast (ucast w :: u8)
      = take_bit (8 * Suc n) w"
    by (rule bit_word_eqI)
      (auto simp: bit_simps)
  with Suc show ?case by simp
qed

lemma be_word_be_bytes_id [simp]:
  "LENGTH('a) \<le> 8 * n \<Longrightarrow> be_word (be_bytes n w) = (w :: 'a::len word)"
  by (simp add: be_word_be_bytes take_bit_word_eq_self)

lemma bit_be_word_less:
  "bit (be_word bs :: 'a::len word) i \<Longrightarrow> i < 8 * length bs"
proof (induction bs arbitrary: i rule: rev_induct)
  case Nil
  then show ?case by simp
next
  case (snoc b bs)
  from snoc.prems have "bit (push_bit 8 (be_word bs :: 'a word)) i \<or> bit (ucast b :: 'a word) i"
    by (simp add: bit_or_iff)
  then show ?case
  proof
    assume "bit (push_bit 8 (be_word bs :: 'a word)) i"
    then have "8 \<le> i" and "bit (be_word bs :: 'a word) (i - 8)"
      by (auto simp: bit_push_bit_iff)
    with snoc.IH [of "i - 8"] show ?thesis by simp
  next
    assume "bit (ucast b :: 'a word) i"
    then have "bit b i" by (simp add: bit_ucast_iff)
    then have "i < 8" using bit_imp_le_length [of b i] by simp
    then show ?thesis by simp
  qed
qed

lemma be_bytes_be_word [simp]:
  assumes "8 * length bs \<le> LENGTH('a::len)"
  shows "be_bytes (length bs) (be_word bs :: 'a word) = bs"
  using assms
proof (induction bs rule: rev_induct)
  case Nil
  show ?case by simp
next
  case (snoc b bs)
  have "drop_bit 8 (push_bit 8 (be_word bs) OR ucast b) = (be_word bs :: 'a word)"
  proof (rule bit_word_eqI)
    fix i assume "i < LENGTH('a)"
    show "bit (drop_bit 8 (push_bit 8 (be_word bs) OR ucast b :: 'a word)) i
        = bit (be_word bs :: 'a word) i"
      using snoc.prems bit_be_word_less [of bs i, where 'a = 'a] bit_imp_le_length [of b "8 + i"]
      by (auto simp: bit_simps)
  qed
  moreover have "ucast (push_bit 8 (be_word bs) OR ucast b :: 'a word) = b"
    using snoc.prems by (intro bit_word_eqI) (auto simp: bit_simps)
  ultimately show ?case using snoc by simp
qed

lemma be_bytes_be_word_len [simp]:
  "length bs = n \<Longrightarrow> 8 * n \<le> LENGTH('a::len) \<Longrightarrow> be_bytes n (be_word bs :: 'a word) = bs"
  using be_bytes_be_word by blast

lemma take_bit_word_eq_self_iff:
  fixes x :: "'a::len word"
  assumes "n < LENGTH('a)"
  shows "take_bit n x = x \<longleftrightarrow> x < 2 ^ n"
proof
  assume "take_bit n x = x"
  then have "x AND mask n = x" by (simp add: take_bit_eq_mask)
  then show "x < 2 ^ n" using and_mask_less_size [of n x] assms by (simp add: word_size)
next
  assume "x < 2 ^ n"
  then show "take_bit n x = x" by (simp add: take_bit_eq_mask less_mask_eq)
qed

lemma be_word_bound:
  assumes "8 * length bs < LENGTH('a)"
  shows "be_word bs < (2 ^ (8 * length bs) :: 'a::len word)"
proof -
  have "take_bit (8 * length bs) (be_word bs) = (be_word bs :: 'a word)"
    using assms by (intro bit_word_eqI) (auto simp: bit_simps dest: bit_be_word_less)
  then show ?thesis using assms
    by (simp add: take_bit_word_eq_self_iff)
qed

text \<open>A range of word values, checked value by value.\<close>

lemma word_range:
  assumes "list_all (\<lambda>n. P (word_of_nat n)) [a..<b]" and "a \<le> unat v" and "unat v < b"
  shows "P (v :: 'a::len word)"
proof -
  from assms have "P (word_of_nat (unat v))"
    by (auto simp only: list_all_iff set_upt atLeastLessThan_iff)
  then show ?thesis by simp
qed

end
