(* ===== verification/Timebase.thy ===== *)
theory Timebase
  imports Prelude Complex_Main
begin

text \<open>
  \<open>statime/src/time\<close>: \<open>Duration\<close> and \<open>Time\<close> are the bits of the fixed-point numbers
  \<open>I96F32\<close> and \<open>U96F32\<close> (nanoseconds in units of 2 to the -32), \<open>TimeInterval\<close> the
  64 bits of an \<open>I48F16\<close>, \<open>Interval\<close> a log-2 number of seconds.

  The \<open>fixed\<close> crate, and the binary64 arithmetic that HOL-Library does not have, are the
  parameter \<open>numlib\<close> of the definitions that use them. The locale \<open>fixed_point\<close> states the
  documented behaviour the code relies on: an operation whose exact result is representable
  returns it. What happens on overflow is left open.
\<close>

section \<open>The numeric libraries\<close>

datatype fmt = I96F32 | U96F32 | I48F16

fun frac_bits :: "fmt \<Rightarrow> nat" where
  "frac_bits I96F32 = 32"
| "frac_bits U96F32 = 32"
| "frac_bits I48F16 = 16"

fun in_range :: "fmt \<Rightarrow> int \<Rightarrow> bool" where
  "in_range I96F32 r \<longleftrightarrow> - (2 ^ 127) \<le> r \<and> r < 2 ^ 127"
| "in_range U96F32 r \<longleftrightarrow> 0 \<le> r \<and> r < 2 ^ 128"
| "in_range I48F16 r \<longleftrightarrow> - (2 ^ 63) \<le> r \<and> r < 2 ^ 63"

type_synonym core_duration = nat \<comment> \<open>\<open>core::time::Duration\<close> in nanoseconds\<close>

text \<open>
  \<open>fx_fit f r\<close> is what \<open>+\<close>, \<open>-\<close>, negation, \<open>abs\<close> and the conversions into format
  \<open>f\<close> return when the exact result is \<open>r\<close> units of that format. The other fields are the
  crate's \<open>*\<close>, \<open>/\<close>, \<open>%\<close>, \<open>frac\<close>, the conversion from \<open>f64\<close>, and the binary64
  operations and \<open>core::time\<close> functions on \<open>f64\<close> that the code uses.
\<close>

record 'f numlib =
  fx_fit :: "fmt \<Rightarrow> int \<Rightarrow> int"
  fx_mul :: "fmt \<Rightarrow> int \<Rightarrow> int \<Rightarrow> int"
  fx_div :: "fmt \<Rightarrow> int \<Rightarrow> int \<Rightarrow> int"
  fx_rem :: "fmt \<Rightarrow> int \<Rightarrow> int \<Rightarrow> int"
  fx_frac :: "fmt \<Rightarrow> int \<Rightarrow> int"
  fx_of_f64 :: "fmt \<Rightarrow> 'f \<Rightarrow> int"
  f_powi2 :: "int \<Rightarrow> 'f" \<comment> \<open>\<open>2.0f64.powi(n)\<close>\<close>
  f_add :: "'f \<Rightarrow> 'f \<Rightarrow> 'f"
  f_mul :: "'f \<Rightarrow> 'f \<Rightarrow> 'f"
  f_of_int :: "int \<Rightarrow> 'f"
  cd_from_secs_f64 :: "'f \<Rightarrow> core_duration res"
  cd_mul_f64 :: "core_duration \<Rightarrow> 'f \<Rightarrow> core_duration res"

section \<open>Duration\<close>

type_synonym duration = int
type_synonym time_interval = "64 word"
type_synonym time = int
type_synonym interval = i8

definition duration_ZERO :: duration where
  "duration_ZERO = 0"

definition duration_from_seconds :: "'f numlib \<Rightarrow> 'f \<Rightarrow> duration" where
  "duration_from_seconds lib secs =
     fx_mul lib I96F32 (fx_of_f64 lib I96F32 secs) (fx_fit lib I96F32 (1000000000 * 2 ^ 32))"

definition duration_from_secs :: "'f numlib \<Rightarrow> 64 word \<Rightarrow> duration" where
  "duration_from_secs lib secs =
     fx_mul lib I96F32 (fx_fit lib I96F32 (sint secs * 2 ^ 32))
       (fx_fit lib I96F32 (1000000000 * 2 ^ 32))"

definition duration_from_millis :: "'f numlib \<Rightarrow> 64 word \<Rightarrow> duration" where
  "duration_from_millis lib millis =
     fx_mul lib I96F32 (fx_fit lib I96F32 (sint millis * 2 ^ 32))
       (fx_fit lib I96F32 (1000000 * 2 ^ 32))"

definition duration_from_micros :: "'f numlib \<Rightarrow> 64 word \<Rightarrow> duration" where
  "duration_from_micros lib micros =
     fx_mul lib I96F32 (fx_fit lib I96F32 (sint micros * 2 ^ 32))
       (fx_fit lib I96F32 (1000 * 2 ^ 32))"

definition duration_from_nanos :: "'f numlib \<Rightarrow> 64 word \<Rightarrow> duration" where
  "duration_from_nanos lib nanos = fx_fit lib I96F32 (sint nanos * 2 ^ 32)"

text \<open>\<open>lossy_into\<close> and \<open>to_num\<close> to an integer type drop the fractional bits.\<close>

definition duration_nanos_rounded :: "duration \<Rightarrow> int" where
  "duration_nanos_rounded d = d div 2 ^ 32"

definition duration_secs :: "'f numlib \<Rightarrow> duration \<Rightarrow> 64 word" where
  "duration_secs lib d =
     word_of_int (fx_div lib I96F32 d (fx_fit lib I96F32 (1000000000 * 2 ^ 32)) div 2 ^ 32)"

definition duration_from_log_interval :: "'f numlib \<Rightarrow> i8 \<Rightarrow> duration" where
  "duration_from_log_interval lib log_interval =
     (let seconds = f_powi2 lib (sint log_interval);
          nanos = f_mul lib seconds (f_of_int lib 1000000000)
      in fx_of_f64 lib I96F32 nanos)"

definition duration_abs :: "'f numlib \<Rightarrow> duration \<Rightarrow> duration" where
  "duration_abs lib d = fx_fit lib I96F32 \<bar>d\<bar>"

text \<open>\<open>From<TimeInterval> for Duration\<close> and back (\<open>to_bits() >> 16\<close>, cut to 64 bits).\<close>

definition duration_from_interval_bits :: "'f numlib \<Rightarrow> time_interval \<Rightarrow> duration" where
  "duration_from_interval_bits lib ti = fx_fit lib I96F32 (sint ti * 2 ^ 16)"

definition time_interval_from_duration :: "duration \<Rightarrow> time_interval" where
  "time_interval_from_duration d = word_of_int (d div 2 ^ 16)"

definition core_duration_from_duration :: "duration \<Rightarrow> core_duration" where
  "core_duration_from_duration d = nat (max 0 (min (2 ^ 64 - 1) (d div 2 ^ 32)))"

definition duration_neg :: "'f numlib \<Rightarrow> duration \<Rightarrow> duration" where
  "duration_neg lib d = fx_fit lib I96F32 (- d)"

definition duration_add :: "'f numlib \<Rightarrow> duration \<Rightarrow> duration \<Rightarrow> duration" where
  "duration_add lib a b = fx_fit lib I96F32 (a + b)"

definition duration_sub :: "'f numlib \<Rightarrow> duration \<Rightarrow> duration \<Rightarrow> duration" where
  "duration_sub lib a b = duration_add lib a (duration_neg lib b)"

text \<open>The right operand of \<open>*\<close> and \<open>/\<close> is first converted to \<open>I96F32\<close>; the code uses
  integer-valued operands here, given as their value.\<close>

definition duration_mul_int :: "'f numlib \<Rightarrow> duration \<Rightarrow> int \<Rightarrow> duration" where
  "duration_mul_int lib d n = fx_mul lib I96F32 d (fx_fit lib I96F32 (n * 2 ^ 32))"

definition duration_div_int :: "'f numlib \<Rightarrow> duration \<Rightarrow> int \<Rightarrow> duration" where
  "duration_div_int lib d n = fx_div lib I96F32 d (fx_fit lib I96F32 (n * 2 ^ 32))"

definition duration_rem :: "'f numlib \<Rightarrow> duration \<Rightarrow> duration \<Rightarrow> duration" where
  "duration_rem lib a b = fx_rem lib I96F32 a b"

section \<open>Interval\<close>

definition interval_ONE_SECOND :: interval where
  "interval_ONE_SECOND = 0"

definition interval_TWO_SECONDS :: interval where
  "interval_TWO_SECONDS = 1"

definition interval_as_f64 :: "'f numlib \<Rightarrow> interval \<Rightarrow> 'f" where
  "interval_as_f64 lib i = f_powi2 lib (sint i)"

definition duration_from_interval :: "'f numlib \<Rightarrow> interval \<Rightarrow> duration" where
  "duration_from_interval lib i =
     (let seconds = interval_as_f64 lib i;
          nanos = f_mul lib seconds (f_of_int lib 1000000000)
      in fx_of_f64 lib I96F32 nanos)"

definition interval_as_duration :: "'f numlib \<Rightarrow> interval \<Rightarrow> duration" where
  "interval_as_duration lib i = duration_from_interval lib i"

definition interval_as_core_duration :: "'f numlib \<Rightarrow> interval \<Rightarrow> core_duration res" where
  "interval_as_core_duration lib i = cd_from_secs_f64 lib (interval_as_f64 lib i)"

section \<open>Time\<close>

definition time_from_secs :: "'f numlib \<Rightarrow> u64 \<Rightarrow> time" where
  "time_from_secs lib secs =
     fx_mul lib U96F32 (fx_fit lib U96F32 (uint secs * 2 ^ 32))
       (fx_fit lib U96F32 (1000000000 * 2 ^ 32))"

definition time_from_millis :: "'f numlib \<Rightarrow> u64 \<Rightarrow> time" where
  "time_from_millis lib millis =
     fx_mul lib U96F32 (fx_fit lib U96F32 (uint millis * 2 ^ 32))
       (fx_fit lib U96F32 (1000000 * 2 ^ 32))"

definition time_from_micros :: "'f numlib \<Rightarrow> u64 \<Rightarrow> time" where
  "time_from_micros lib micros =
     fx_mul lib U96F32 (fx_fit lib U96F32 (uint micros * 2 ^ 32))
       (fx_fit lib U96F32 (1000 * 2 ^ 32))"

definition time_from_nanos :: "'f numlib \<Rightarrow> u64 \<Rightarrow> time" where
  "time_from_nanos lib nanos = fx_fit lib U96F32 (uint nanos * 2 ^ 32)"

definition time_from_nanos_subnanos :: "u64 \<Rightarrow> u32 \<Rightarrow> time" where
  "time_from_nanos_subnanos nanos subnanos =
     uint (push_bit 32 (ucast nanos :: 128 word) OR ucast subnanos)"

definition time_subsec_nanos :: "'f numlib \<Rightarrow> time \<Rightarrow> u32" where
  "time_subsec_nanos lib t =
     word_of_int (fx_rem lib U96F32 t (fx_fit lib U96F32 (1000000000 * 2 ^ 32)) div 2 ^ 32)"

definition time_secs :: "'f numlib \<Rightarrow> time \<Rightarrow> u64" where
  "time_secs lib t =
     word_of_int (fx_div lib U96F32 t (fx_fit lib U96F32 (1000000000 * 2 ^ 32)) div 2 ^ 32)"

text \<open>\<open>subnano\<close>: the fraction of a nanosecond, narrowed to 16 fractional bits.\<close>

definition time_subnano :: "'f numlib \<Rightarrow> time \<Rightarrow> time_interval" where
  "time_subnano lib t = word_of_int (fx_frac lib U96F32 t div 2 ^ 16)"

definition time_add :: "'f numlib \<Rightarrow> time \<Rightarrow> duration \<Rightarrow> time" where
  "time_add lib t d =
     (if d < 0 then fx_fit lib U96F32 (t - \<bar>d\<bar>) else fx_fit lib U96F32 (t + \<bar>d\<bar>))"

definition time_sub :: "'f numlib \<Rightarrow> time \<Rightarrow> duration \<Rightarrow> time" where
  "time_sub lib t d = time_add lib t (duration_neg lib d)"

definition time_diff :: "'f numlib \<Rightarrow> time \<Rightarrow> time \<Rightarrow> duration" where
  "time_diff lib a b = duration_sub lib (fx_fit lib I96F32 a) (fx_fit lib I96F32 b)"

section \<open>The documented behaviour of the libraries\<close>

text \<open>
  The laws: exact results where they are representable; the product and quotient with an
  integer-valued operand; the quotient and remainder of non-negative numbers; the exact value of
  a power of two seconds in nanoseconds.
\<close>

locale fixed_point =
  fixes lib :: "'f numlib"
  assumes fit: "in_range f r \<Longrightarrow> fx_fit lib f r = r"
    and mul_int: "in_range f a \<Longrightarrow> in_range f (n * 2 ^ frac_bits f) \<Longrightarrow> in_range f (a * n) \<Longrightarrow>
      fx_mul lib f a (n * 2 ^ frac_bits f) = a * n"
    and div_int: "in_range f a \<Longrightarrow> in_range f (n * 2 ^ frac_bits f) \<Longrightarrow> 0 < n \<Longrightarrow>
      \<bar>fx_div lib f a (n * 2 ^ frac_bits f) * n - a\<bar> < n"
    and div_nonneg: "in_range f a \<Longrightarrow> in_range f (n * 2 ^ frac_bits f) \<Longrightarrow> 0 \<le> a \<Longrightarrow> 0 < n \<Longrightarrow>
      fx_div lib f a (n * 2 ^ frac_bits f) = a div n"
    and rem_nonneg: "in_range f a \<Longrightarrow> in_range f b \<Longrightarrow> 0 \<le> a \<Longrightarrow> 0 < b \<Longrightarrow> fx_rem lib f a b = a mod b"
    and frac_nonneg: "in_range f a \<Longrightarrow> 0 \<le> a \<Longrightarrow> fx_frac lib f a = a mod 2 ^ frac_bits f"
    and pow2_secs: "0 \<le> k \<Longrightarrow> k \<le> 65 \<Longrightarrow>
      fx_of_f64 lib I96F32 (f_mul lib (f_powi2 lib k) (f_of_int lib 1000000000))
        = 1000000000 * 2 ^ 32 * 2 ^ nat k"
    and pow2_fractions: "- 41 \<le> k \<Longrightarrow> k \<le> 0 \<Longrightarrow>
      fx_of_f64 lib I96F32 (f_mul lib (f_powi2 lib k) (f_of_int lib 1000000000))
        = 1000000000 * 2 ^ 32 div 2 ^ nat (- k)"
begin

lemma duration_add_exact:
  "in_range I96F32 (a + b) \<Longrightarrow> duration_add lib a b = a + b"
  by (simp add: duration_add_def fit del: in_range.simps)

lemma duration_neg_exact:
  "in_range I96F32 (- a) \<Longrightarrow> duration_neg lib a = - a"
  by (simp add: duration_neg_def fit del: in_range.simps)

lemma duration_sub_exact:
  "in_range I96F32 (- b) \<Longrightarrow> in_range I96F32 (a - b) \<Longrightarrow> duration_sub lib a b = a - b"
  by (simp add: duration_sub_def duration_neg_exact duration_add_exact del: in_range.simps)

lemma time_add_exact:
  "in_range U96F32 (t + d) \<Longrightarrow> time_add lib t d = t + d"
  by (auto simp: time_add_def fit simp del: in_range.simps)

lemma time_sub_exact:
  "in_range I96F32 (- d) \<Longrightarrow> in_range U96F32 (t - d) \<Longrightarrow> time_sub lib t d = t - d"
  by (simp add: time_sub_def duration_neg_exact time_add_exact del: in_range.simps)

lemma time_diff_exact:
  assumes "0 \<le> a" "0 \<le> b" "a < 2 ^ 127" "b < 2 ^ 127"
  shows "time_diff lib a b = a - b"
proof -
  have "in_range I96F32 a" "in_range I96F32 b" "in_range I96F32 (- b)" "in_range I96F32 (a - b)"
    using assms by auto
  then show ?thesis
    by (simp add: time_diff_def fit duration_sub_exact del: in_range.simps)
qed

lemma div2_exact:
  assumes "in_range I96F32 (2 * q)"
  shows "duration_div_int lib (2 * q) 2 = q"
proof -
  have two: "in_range I96F32 (2 * 2 ^ 32)" by simp
  have "\<bar>fx_div lib I96F32 (2 * q) (2 * 2 ^ 32) * 2 - 2 * q\<bar> < 2"
    using div_int [of I96F32 "2 * q" 2] assms two by (simp del: in_range.simps)
  then have "fx_div lib I96F32 (2 * q) (2 * 2 ^ 32) = q" by arith
  then show ?thesis using two by (simp add: duration_div_int_def fit del: in_range.simps)
qed

lemma interval_bits_exact: "duration_from_interval_bits lib ti = sint ti * 2 ^ 16"
proof -
  have "- (2 ^ 63) \<le> sint ti" and "sint ti < 2 ^ 63"
    using sint_ge [of ti] sint_lt [of ti] by simp_all
  then have "in_range I96F32 (sint ti * 2 ^ 16)" by simp
  then show ?thesis by (simp only: duration_from_interval_bits_def fit)
qed

lemma time_secs_exact:
  assumes "in_range U96F32 t"
  shows "time_secs lib t = word_of_int (t div (1000000000 * 2 ^ 32))"
proof -
  have c: "in_range U96F32 (1000000000 * 2 ^ 32)" by simp
  have "fx_div lib U96F32 t (1000000000 * 2 ^ 32) = t div 1000000000"
    using div_nonneg [of U96F32 t 1000000000] assms c by simp
  then show ?thesis
    using c zdiv_zmult2_eq [of "2 ^ 32" t 1000000000]
    by (simp add: time_secs_def fit del: in_range.simps)
qed

lemma time_subsec_exact:
  assumes "in_range U96F32 t"
  shows "time_subsec_nanos lib t = word_of_int (t mod (1000000000 * 2 ^ 32) div 2 ^ 32)"
proof -
  have c: "in_range U96F32 (1000000000 * 2 ^ 32)" by simp
  have "fx_rem lib U96F32 t (1000000000 * 2 ^ 32) = t mod (1000000000 * 2 ^ 32)"
    using rem_nonneg [of U96F32 t "1000000000 * 2 ^ 32"] assms c by simp
  then show ?thesis
    using c by (simp add: time_subsec_nanos_def fit del: in_range.simps)
qed

lemma time_subnano_exact:
  assumes "in_range U96F32 t"
  shows "time_subnano lib t = word_of_int (t mod 2 ^ 32 div 2 ^ 16)"
  using frac_nonneg [of U96F32 t] assms by (simp add: time_subnano_def)

end

text \<open>
  A reference library: exact arithmetic for \<open>f64\<close> (on rationals for the examples, or on reals
  where a square root is needed), and two's complement wrap-around for a fixed-point result out of
  range.
\<close>

fun wrap_fmt :: "fmt \<Rightarrow> int \<Rightarrow> int" where
  "wrap_fmt I96F32 r = (r + 2 ^ 127) mod 2 ^ 128 - 2 ^ 127"
| "wrap_fmt U96F32 r = r mod 2 ^ 128"
| "wrap_fmt I48F16 r = (r + 2 ^ 63) mod 2 ^ 64 - 2 ^ 63"

definition trunc_div :: "int \<Rightarrow> int \<Rightarrow> int" where
  "trunc_div a b = (if b = 0 then 0 else sgn a * sgn b * (\<bar>a\<bar> div \<bar>b\<bar>))"

definition numlib_exact :: "'f::floor_ceiling numlib" where
  "numlib_exact = \<lparr>
     fx_fit = wrap_fmt,
     fx_mul = (\<lambda>f a b. wrap_fmt f (a * b div 2 ^ frac_bits f)),
     fx_div = (\<lambda>f a b. wrap_fmt f (trunc_div (a * 2 ^ frac_bits f) b)),
     fx_rem = (\<lambda>f a b. a - trunc_div a b * b),
     fx_frac = (\<lambda>f a. a mod 2 ^ frac_bits f),
     fx_of_f64 = (\<lambda>f x. wrap_fmt f (round (x * 2 ^ frac_bits f))),
     f_powi2 = (\<lambda>n. if 0 \<le> n then 2 ^ nat n else 1 / 2 ^ nat (- n)),
     f_add = (+),
     f_mul = (*),
     f_of_int = of_int,
     cd_from_secs_f64 = (\<lambda>x. if 0 \<le> x \<and> x < 2 ^ 64 then Ok (nat (round (x * 1000000000))) else panic),
     cd_mul_f64 = (\<lambda>d x. if 0 \<le> x \<and> x * of_nat d < 2 ^ 64 * 1000000000
                        then Ok (nat (round (x * of_nat d))) else panic)\<rparr>"

abbreviation numlib_ref :: "rat numlib" where
  "numlib_ref \<equiv> numlib_exact"

lemmas numlib_ref_def = numlib_exact_def

lemma wrap_fmt_id: "in_range f r \<Longrightarrow> wrap_fmt f r = r"
  by (cases f) (auto simp: mod_pos_pos_trivial)

lemma trunc_div_cancel: "0 < c \<Longrightarrow> trunc_div (a * c) (b * c) = trunc_div a b"
  by (auto simp: trunc_div_def sgn_mult abs_mult)

lemma trunc_div_pos: "0 < n \<Longrightarrow> trunc_div a n = sgn a * (\<bar>a\<bar> div n)"
  by (simp add: trunc_div_def)

lemma trunc_div_error: "0 < n \<Longrightarrow> \<bar>trunc_div a n * n - a\<bar> < n"
proof -
  assume n: "0 < n"
  have "\<bar>a\<bar> div n * n = \<bar>a\<bar> - \<bar>a\<bar> mod n" by (simp add: minus_mod_eq_div_mult)
  moreover have "0 \<le> \<bar>a\<bar> mod n" "\<bar>a\<bar> mod n < n" using n by simp_all
  ultimately show ?thesis
    using n by (cases "a < 0") (auto simp: trunc_div_pos sgn_if)
qed

lemma trunc_div_range: "0 < n \<Longrightarrow> in_range f a \<Longrightarrow> in_range f (trunc_div a n)"
proof -
  assume n: "0 < n" and a: "in_range f a"
  have "\<bar>a\<bar> div n \<le> \<bar>a\<bar> div 1" "0 \<le> \<bar>a\<bar> div n"
    using n zdiv_mono2 [of "\<bar>a\<bar>" 1 n] by (simp_all add: pos_imp_zdiv_nonneg_iff)
  with a show ?thesis
    by (cases f) (auto simp: trunc_div_pos [OF n] sgn_if split: if_splits)
qed

text \<open>The reference library satisfies the laws.\<close>

lemma ref_pow2_secs:
  assumes "0 \<le> k" "k \<le> (65::int)"
  shows "wrap_fmt I96F32 (round ((2::'f::floor_ceiling) ^ nat k * 1000000000 * 2 ^ 32)) = 1000000000 * 2 ^ 32 * 2 ^ nat k"
proof -
  have "(2::'f) ^ nat k * 1000000000 * 2 ^ 32 = of_int (1000000000 * 2 ^ 32 * 2 ^ nat k)"
    by simp
  then have "round ((2::'f) ^ nat k * 1000000000 * 2 ^ 32) = 1000000000 * 2 ^ 32 * 2 ^ nat k"
    by (metis round_of_int)
  moreover have r: "in_range I96F32 (1000000000 * 2 ^ 32 * x)" if "0 \<le> x" "x \<le> 2 ^ 65" for x
    using that by simp
  have "(2::int) ^ nat k \<le> 2 ^ 65"
    using assms by (intro power_increasing) auto
  then have "in_range I96F32 (1000000000 * 2 ^ 32 * 2 ^ nat k)"
    by (intro r) auto
  ultimately show ?thesis by (simp only: wrap_fmt_id)
qed

lemma ref_pow2_fractions:
  assumes "- 41 \<le> k" "k \<le> (0::int)"
  shows "wrap_fmt I96F32 (round (1 / 2 ^ nat (- k) * (1000000000::'f::floor_ceiling) * 2 ^ 32))
    = 1000000000 * 2 ^ 32 div 2 ^ nat (- k)"
proof -
  have "nat (- k) \<le> 41" using assms by simp
  then obtain j where j: "41 = nat (- k) + j" by (metis le_Suc_ex)
  then have "(2::int) ^ 41 = 2 ^ (j + nat (- k))" by (simp only: add.commute)
  then have "(2::int) ^ 41 = 2 ^ j * 2 ^ nat (- k)" by (simp only: power_add)
  then have e: "(1000000000 * 2 ^ 32 :: int) = 1953125 * 2 ^ j * 2 ^ nat (- k)" by simp
  have "(1000000000 * 2 ^ 32 :: 'f) = of_int (1000000000 * 2 ^ 32)" by simp
  also have "\<dots> = of_int (1953125 * 2 ^ j * 2 ^ nat (- k))" by (simp only: e)
  finally have "1 / 2 ^ nat (- k) * (1000000000::'f) * 2 ^ 32 = of_int (1953125 * 2 ^ j)"
    by (simp add: field_simps)
  then have "round (1 / 2 ^ nat (- k) * (1000000000::'f) * 2 ^ 32) = 1953125 * 2 ^ j"
    by (metis round_of_int)
  moreover have "1000000000 * 2 ^ 32 div 2 ^ nat (- k) = (1953125 * 2 ^ j :: int)"
    by (simp only: e) simp
  moreover have r: "in_range I96F32 (1953125 * x)" if "0 \<le> x" "x \<le> 2 ^ 41" for x
    using that by simp
  have "(2::int) ^ j \<le> 2 ^ 41"
    using j by (intro power_increasing) auto
  then have "in_range I96F32 (1953125 * 2 ^ j)"
    by (intro r) auto
  ultimately show ?thesis by (simp only: wrap_fmt_id)
qed

interpretation num_exact: fixed_point "numlib_exact :: 'f::floor_ceiling numlib"
proof unfold_locales
  fix f r assume "in_range f r"
  then show "fx_fit (numlib_exact :: 'f numlib) f r = r" by (simp add: numlib_exact_def wrap_fmt_id)
next
  fix f a n assume "in_range f a" "in_range f (n * 2 ^ frac_bits f)" "in_range f (a * n)"
  then show "fx_mul (numlib_exact :: 'f numlib) f a (n * 2 ^ frac_bits f) = a * n"
    by (simp add: numlib_exact_def wrap_fmt_id mult.assoc [symmetric])
next
  fix f a n assume "in_range f a" "in_range f (n * 2 ^ frac_bits f)" "0 < n"
  then show "\<bar>fx_div (numlib_exact :: 'f numlib) f a (n * 2 ^ frac_bits f) * n - a\<bar> < n"
    by (simp add: numlib_exact_def trunc_div_cancel wrap_fmt_id trunc_div_range trunc_div_error)
next
  fix f a n assume "in_range f a" "in_range f (n * 2 ^ frac_bits f)" "0 \<le> a" "0 < n"
  then show "fx_div (numlib_exact :: 'f numlib) f a (n * 2 ^ frac_bits f) = a div n"
    by (simp add: numlib_exact_def trunc_div_cancel wrap_fmt_id trunc_div_range)
      (simp add: trunc_div_pos sgn_if)
next
  fix f a b assume "in_range f a" "in_range f b" "0 \<le> a" "0 < b"
  then show "fx_rem (numlib_exact :: 'f numlib) f a b = a mod b"
    by (simp add: numlib_exact_def trunc_div_pos sgn_if minus_div_mult_eq_mod)
next
  fix f a assume "in_range f a" "0 \<le> a"
  then show "fx_frac (numlib_exact :: 'f numlib) f a = a mod 2 ^ frac_bits f" by (simp add: numlib_exact_def)
next
  fix k :: int assume "0 \<le> k" "k \<le> 65"
  then show "fx_of_f64 (numlib_exact :: 'f numlib) I96F32
      (f_mul (numlib_exact :: 'f numlib) (f_powi2 (numlib_exact :: 'f numlib) k) (f_of_int (numlib_exact :: 'f numlib) 1000000000))
      = 1000000000 * 2 ^ 32 * 2 ^ nat k"
    using ref_pow2_secs [of k] by (simp add: numlib_exact_def)
next
  fix k :: int assume "- 41 \<le> k" "k \<le> 0"
  then show "fx_of_f64 (numlib_exact :: 'f numlib) I96F32
      (f_mul (numlib_exact :: 'f numlib) (f_powi2 (numlib_exact :: 'f numlib) k) (f_of_int (numlib_exact :: 'f numlib) 1000000000))
      = 1000000000 * 2 ^ 32 div 2 ^ nat (- k)"
    using ref_pow2_fractions [of k] by (auto simp: numlib_exact_def)
qed

lemma fixed_point_ref: "fixed_point numlib_ref"
  by (rule num_exact.fixed_point_axioms)

end
