(* ===== verification/CommonTypes.thy ===== *)
theory CommonTypes
  imports Timebase
begin

text \<open>
  \<open>statime/src/datastructures/common\<close>: the data types of the protocol and their wire formats.
  The trait \<open>WireFormat\<close> is the locale \<open>wire_format\<close>: a value has an encoding of a fixed
  size, \<open>serialize\<close> writes exactly these bytes at the start of its buffer and panics on a shorter
  one, \<open>deserialize\<close> reads them back. It is interpreted for every type that implements the trait.
\<close>

section \<open>The contract of the trait WireFormat\<close>

locale wire_format =
  fixes ser :: "'a \<Rightarrow> bytes \<Rightarrow> bytes res"
    and de :: "bytes \<Rightarrow> 'a res"
    and enc :: "'a \<Rightarrow> bytes"
    and size :: nat
    and shape :: "'a \<Rightarrow> bool" \<comment> \<open>what the Rust type guarantees\<close>
    and canon :: "'a \<Rightarrow> bool" \<comment> \<open>values that the wire format can represent\<close>
  assumes length_enc: "shape x \<Longrightarrow> length (enc x) = size"
    and ser_enc: "shape x \<Longrightarrow> size \<le> length buf \<Longrightarrow> ser x buf = Ok (enc x @ drop size buf)"
    and ser_short: "shape x \<Longrightarrow> length buf < size \<Longrightarrow> ser x buf = panic"
    and de_enc: "canon x \<Longrightarrow> de (enc x @ rest) = Ok x"
    and de_total: "size \<le> length buf \<Longrightarrow> \<exists>x. de buf = Ok x \<and> canon x"
    and de_short: "length buf < size \<Longrightarrow> de buf = panic"
    and canon_shape: "canon x \<Longrightarrow> shape x"
begin

text \<open>Writing a field into a sub-slice, and reading it back from a slice of the result.\<close>

lemma sub_ser:
  assumes "shape x" and "b \<le> length buf" and "b = a + size"
  shows "sub a b (ser x) buf = Ok (take a buf @ enc x @ drop b buf)"
  using assms by (simp add: sub_def slice_def put_def ser_enc length_enc)

lemma de_enc_exact: "canon x \<Longrightarrow> de (enc x) = Ok x"
  using de_enc [of x "[]"] by simp

lemma ser_de:
  assumes "canon x" and "size \<le> length buf"
  shows "andthen (ser x buf) de = Ok x"
  using assms by (simp add: ser_enc canon_shape de_enc)

lemma ser_length: "shape x \<Longrightarrow> ser x buf = Inr buf' \<Longrightarrow> length buf' = length buf"
  by (cases "size \<le> length buf") (auto simp: ser_enc ser_short length_enc)

lemma de_OkD:
  assumes "de buf = Inr x" shows "size \<le> length buf" and "canon x"
proof -
  show s: "size \<le> length buf" using assms de_short [of buf] by (cases "size \<le> length buf") auto
  show "canon x" using de_total [OF s] assms by auto
qed

end

section \<open>TimeInterval\<close>

definition time_interval_serialize :: "time_interval \<Rightarrow> bytes \<Rightarrow> bytes res" where
  "time_interval_serialize ti buffer = put 0 8 (be_bytes 8 ti) buffer"

definition time_interval_deserialize :: "bytes \<Rightarrow> time_interval res" where
  "time_interval_deserialize buffer = andthen (slice 0 8 buffer) (\<lambda>s. Ok (be_word s))"

interpretation ti: wire_format time_interval_serialize time_interval_deserialize "be_bytes 8" 8
  "\<lambda>_. True" "\<lambda>_. True"
  by unfold_locales
    (auto simp: time_interval_serialize_def time_interval_deserialize_def put_def slice_def)

section \<open>ClockIdentity and PortIdentity\<close>

type_synonym clock_identity = bytes \<comment> \<open>\<open>[u8; 8]\<close>, ordered lexicographically\<close>

definition wf_clock_identity :: "clock_identity \<Rightarrow> bool" where
  "wf_clock_identity ci \<longleftrightarrow> length ci = 8"

definition clock_identity_default :: clock_identity where
  "clock_identity_default = replicate 8 0"

definition clock_identity_from_mac_address :: "bytes \<Rightarrow> clock_identity res" where
  "clock_identity_from_mac_address addr = put 0 6 addr (replicate 8 0)"

definition clock_identity_serialize :: "clock_identity \<Rightarrow> bytes \<Rightarrow> bytes res" where
  "clock_identity_serialize ci buffer = put 0 8 ci buffer"

definition clock_identity_deserialize :: "bytes \<Rightarrow> clock_identity res" where
  "clock_identity_deserialize buffer = slice 0 8 buffer"

interpretation ci: wire_format clock_identity_serialize clock_identity_deserialize "\<lambda>ci. ci" 8
  wf_clock_identity wf_clock_identity
  by unfold_locales
    (auto simp: clock_identity_serialize_def clock_identity_deserialize_def put_def slice_def
      wf_clock_identity_def)

record port_identity =
  pi_clock_identity :: clock_identity
  pi_port_number :: u16

definition port_identity_default :: port_identity where
  "port_identity_default = \<lparr>pi_clock_identity = clock_identity_default, pi_port_number = 0\<rparr>"

definition wf_port_identity :: "port_identity \<Rightarrow> bool" where
  "wf_port_identity p \<longleftrightarrow> wf_clock_identity (pi_clock_identity p)"

definition port_identity_serialize :: "port_identity \<Rightarrow> bytes \<Rightarrow> bytes res" where
  "port_identity_serialize p = seqw
    [sub 0 8 (clock_identity_serialize (pi_clock_identity p)),
     put 8 10 (be_bytes 2 (pi_port_number p))]"

definition port_identity_deserialize :: "bytes \<Rightarrow> port_identity res" where
  "port_identity_deserialize buffer =
     andthen (slice 0 8 buffer) (\<lambda>s.
     andthen (clock_identity_deserialize s) (\<lambda>ci.
     andthen (slice 8 10 buffer) (\<lambda>n.
     Ok \<lparr>pi_clock_identity = ci, pi_port_number = be_word n\<rparr>)))"

definition port_identity_enc :: "port_identity \<Rightarrow> bytes" where
  "port_identity_enc p = pi_clock_identity p @ be_bytes 2 (pi_port_number p)"

lemma take_take_drop_append: "a \<le> b \<Longrightarrow> take a xs @ take (b - a) (drop a xs) = take b xs"
  by (metis le_add_diff_inverse take_add)

interpretation pid: wire_format port_identity_serialize port_identity_deserialize
  port_identity_enc 10 wf_port_identity wf_port_identity
proof unfold_locales
  fix x :: port_identity and buf :: bytes
  assume x: "wf_port_identity x"
  then show "length (port_identity_enc x) = 10"
    by (simp add: port_identity_enc_def wf_port_identity_def wf_clock_identity_def)
  show "port_identity_deserialize (port_identity_enc x @ rest) = Ok x" for rest
    using x by (simp add: port_identity_deserialize_def port_identity_enc_def slice_def
      clock_identity_deserialize_def wf_port_identity_def wf_clock_identity_def)
  show "wf_port_identity x" by (fact x)
  { assume "10 \<le> length buf"
    with x show "port_identity_serialize x buf = Ok (port_identity_enc x @ drop 10 buf)"
      by (simp add: port_identity_serialize_def port_identity_enc_def wf_port_identity_def
        ci.sub_ser put_def wf_clock_identity_def) }
  { assume "length buf < 10"
    with x show "port_identity_serialize x buf = panic"
      by (cases "8 \<le> length buf")
        (auto simp: port_identity_serialize_def wf_port_identity_def ci.sub_ser put_def
          wf_clock_identity_def, simp add: sub_def slice_def) }
next
  fix buf :: bytes
  show "10 \<le> length buf \<Longrightarrow> \<exists>x. port_identity_deserialize buf = Ok x \<and> wf_port_identity x"
    by (simp add: port_identity_deserialize_def slice_def clock_identity_deserialize_def
      wf_port_identity_def wf_clock_identity_def)
  show "length buf < 10 \<Longrightarrow> port_identity_deserialize buf = panic"
    by (cases "8 \<le> length buf")
      (auto simp: port_identity_deserialize_def slice_def clock_identity_deserialize_def)
qed

section \<open>WireTimestamp\<close>

record wire_timestamp =
  wt_seconds :: u64
  wt_nanos :: u32

definition wire_timestamp_default :: wire_timestamp where
  "wire_timestamp_default = \<lparr>wt_seconds = 0, wt_nanos = 0\<rparr>"

definition canon_timestamp :: "wire_timestamp \<Rightarrow> bool" where
  "canon_timestamp t \<longleftrightarrow> wt_seconds t < 2 ^ 48"

definition wire_timestamp_serialize :: "wire_timestamp \<Rightarrow> bytes \<Rightarrow> bytes res" where
  "wire_timestamp_serialize t = seqw
    [put 0 6 (take 6 (drop 2 (be_bytes 8 (wt_seconds t)))),
     put 6 10 (be_bytes 4 (wt_nanos t))]"

definition wire_timestamp_deserialize :: "bytes \<Rightarrow> wire_timestamp res" where
  "wire_timestamp_deserialize buffer =
     andthen (slice 0 6 buffer) (\<lambda>s.
     andthen (put 2 8 s (replicate 8 0)) (\<lambda>seconds_buffer.
     andthen (slice 6 10 buffer) (\<lambda>n.
     Ok \<lparr>wt_seconds = be_word seconds_buffer, wt_nanos = be_word n\<rparr>)))"

definition wire_timestamp_enc :: "wire_timestamp \<Rightarrow> bytes" where
  "wire_timestamp_enc t = be_bytes 6 (wt_seconds t) @ be_bytes 4 (wt_nanos t)"

text \<open>Conversions with \<open>Time\<close>: \<open>From<WireTimestamp> for Time\<close> and \<open>From<Time> for WireTimestamp\<close>.\<close>

definition time_from_wire_timestamp :: "'f numlib \<Rightarrow> wire_timestamp \<Rightarrow> time" where
  "time_from_wire_timestamp lib ts =
     fx_fit lib U96F32 ((uint (wt_seconds ts) * 1000000000 + uint (wt_nanos ts)) * 2 ^ 32)"

definition wire_timestamp_from_time :: "'f numlib \<Rightarrow> time \<Rightarrow> wire_timestamp" where
  "wire_timestamp_from_time lib t =
     \<lparr>wt_seconds = time_secs lib t, wt_nanos = time_subsec_nanos lib t\<rparr>"

lemma drop_be_bytes: "k \<le> n \<Longrightarrow> drop k (be_bytes n w) = be_bytes (n - k) w"
proof (induction n arbitrary: w)
  case (Suc n)
  then show ?case by (cases "k = Suc n") (auto simp: Suc_diff_le)
qed simp

lemma seconds_bytes: "take 6 (drop 2 (be_bytes 8 (s::u64))) = be_bytes 6 s"
  by (simp add: drop_be_bytes)

lemma be_word_pad: "be_word (replicate k 0 @ bs) = be_word bs"
  by (induction k) (simp_all add: be_word_def)

lemma seconds_roundtrip: "s < 2 ^ 48 \<Longrightarrow> be_word (be_bytes 6 s) = (s::u64)"
  using take_bit_word_eq_self_iff [of 48 s] by (simp add: be_word_be_bytes)

interpretation wts: wire_format wire_timestamp_serialize wire_timestamp_deserialize
  wire_timestamp_enc 10 "\<lambda>_. True" canon_timestamp
proof unfold_locales
  fix x :: wire_timestamp and buf :: bytes
  show "length (wire_timestamp_enc x) = 10" by (simp add: wire_timestamp_enc_def)
  show "10 \<le> length buf \<Longrightarrow> wire_timestamp_serialize x buf = Ok (wire_timestamp_enc x @ drop 10 buf)"
    by (simp add: wire_timestamp_serialize_def wire_timestamp_enc_def seconds_bytes put_def)
  show "length buf < 10 \<Longrightarrow> wire_timestamp_serialize x buf = panic"
    by (cases "6 \<le> length buf") (auto simp: wire_timestamp_serialize_def seconds_bytes put_def)
  show "canon_timestamp x \<Longrightarrow> wire_timestamp_deserialize (wire_timestamp_enc x @ rest) = Ok x" for rest
    using be_word_pad [of 2 "be_bytes 6 (wt_seconds x)", where 'a = 64]
    by (simp add: wire_timestamp_deserialize_def wire_timestamp_enc_def slice_def put_def
      canon_timestamp_def seconds_roundtrip numeral_2_eq_2)
  show "10 \<le> length buf \<Longrightarrow> \<exists>x. wire_timestamp_deserialize buf = Ok x \<and> canon_timestamp x"
    using be_word_pad [of 2 "take 6 buf", where 'a = 64] be_word_bound [of "take 6 buf", where 'a = 64]
    by (simp add: wire_timestamp_deserialize_def slice_def put_def canon_timestamp_def min_def
      numeral_2_eq_2)
  show "length buf < 10 \<Longrightarrow> wire_timestamp_deserialize buf = panic"
    by (cases "6 \<le> length buf") (auto simp: wire_timestamp_deserialize_def slice_def put_def)
qed simp

section \<open>Orderings\<close>

datatype ordering = Less | Equal | Greater

definition cmp :: "'a::linorder \<Rightarrow> 'a \<Rightarrow> ordering" where
  "cmp a b = (if a < b then Less else if a = b then Equal else Greater)"

fun then_cmp :: "ordering \<Rightarrow> ordering \<Rightarrow> ordering" where
  "then_cmp Equal o2 = o2"
| "then_cmp Less o2 = Less"
| "then_cmp Greater o2 = Greater"

fun reverse_ordering :: "ordering \<Rightarrow> ordering" where
  "reverse_ordering Less = Greater"
| "reverse_ordering Equal = Equal"
| "reverse_ordering Greater = Less"

lemma cmp_simps [simp]:
  "cmp a b = Less \<longleftrightarrow> a < b" "cmp a b = Equal \<longleftrightarrow> a = b" "cmp a b = Greater \<longleftrightarrow> b < a"
  by (auto simp: cmp_def)

lemma cmp_swap: "cmp b a = reverse_ordering (cmp a b)"
  by (auto simp: cmp_def)

lemma then_cmp_reverse:
  "reverse_ordering (then_cmp x y) = then_cmp (reverse_ordering x) (reverse_ordering y)"
  by (cases x) simp_all

lemma then_cmp_eq_iff:
  "then_cmp x y = Equal \<longleftrightarrow> x = Equal \<and> y = Equal"
  "then_cmp x y = Less \<longleftrightarrow> x = Less \<or> x = Equal \<and> y = Less"
  "then_cmp x y = Greater \<longleftrightarrow> x = Greater \<or> x = Equal \<and> y = Greater"
  by (cases x; simp)+

lemma reverse_ordering_eq_iff [simp]:
  "reverse_ordering x = Less \<longleftrightarrow> x = Greater"
  "reverse_ordering x = Equal \<longleftrightarrow> x = Equal"
  "reverse_ordering x = Greater \<longleftrightarrow> x = Less"
  by (cases x; simp)+

section \<open>ClockAccuracy, ClockQuality, TimeSource, LeapIndicator\<close>

datatype clock_accuracy =
    CA_Reserved
  | CA_PS1 | CA_PS2_5 | CA_PS10 | CA_PS25 | CA_PS100 | CA_PS250
  | CA_NS1 | CA_NS2_5 | CA_NS10 | CA_NS25 | CA_NS100 | CA_NS250
  | CA_US1 | CA_US2_5 | CA_US10 | CA_US25 | CA_US100 | CA_US250
  | CA_MS1 | CA_MS2_5 | CA_MS10 | CA_MS25 | CA_MS100 | CA_MS250
  | CA_S1 | CA_S10 | CA_SGT10
  | CA_ProfileSpecific u8
  | CA_Unknown

fun clock_accuracy_to_primitive :: "clock_accuracy \<Rightarrow> u8" where
  "clock_accuracy_to_primitive CA_Reserved = 0x00"
| "clock_accuracy_to_primitive CA_PS1 = 0x17"
| "clock_accuracy_to_primitive CA_PS2_5 = 0x18"
| "clock_accuracy_to_primitive CA_PS10 = 0x19"
| "clock_accuracy_to_primitive CA_PS25 = 0x1a"
| "clock_accuracy_to_primitive CA_PS100 = 0x1b"
| "clock_accuracy_to_primitive CA_PS250 = 0x1c"
| "clock_accuracy_to_primitive CA_NS1 = 0x1d"
| "clock_accuracy_to_primitive CA_NS2_5 = 0x1e"
| "clock_accuracy_to_primitive CA_NS10 = 0x1f"
| "clock_accuracy_to_primitive CA_NS25 = 0x20"
| "clock_accuracy_to_primitive CA_NS100 = 0x21"
| "clock_accuracy_to_primitive CA_NS250 = 0x22"
| "clock_accuracy_to_primitive CA_US1 = 0x23"
| "clock_accuracy_to_primitive CA_US2_5 = 0x24"
| "clock_accuracy_to_primitive CA_US10 = 0x25"
| "clock_accuracy_to_primitive CA_US25 = 0x26"
| "clock_accuracy_to_primitive CA_US100 = 0x27"
| "clock_accuracy_to_primitive CA_US250 = 0x28"
| "clock_accuracy_to_primitive CA_MS1 = 0x29"
| "clock_accuracy_to_primitive CA_MS2_5 = 0x2a"
| "clock_accuracy_to_primitive CA_MS10 = 0x2b"
| "clock_accuracy_to_primitive CA_MS25 = 0x2c"
| "clock_accuracy_to_primitive CA_MS100 = 0x2d"
| "clock_accuracy_to_primitive CA_MS250 = 0x2e"
| "clock_accuracy_to_primitive CA_S1 = 0x2f"
| "clock_accuracy_to_primitive CA_S10 = 0x30"
| "clock_accuracy_to_primitive CA_SGT10 = 0x31"
| "clock_accuracy_to_primitive (CA_ProfileSpecific value) = 0x80 + value"
| "clock_accuracy_to_primitive CA_Unknown = 0xfe"

definition clock_accuracy_from_primitive :: "u8 \<Rightarrow> clock_accuracy" where
  "clock_accuracy_from_primitive value =
     (if value \<le> 0x16 \<or> 0x32 \<le> value \<and> value \<le> 0x7f \<or> value = 0xff then CA_Reserved
      else if value = 0x17 then CA_PS1
      else if value = 0x18 then CA_PS2_5
      else if value = 0x19 then CA_PS10
      else if value = 0x1a then CA_PS25
      else if value = 0x1b then CA_PS100
      else if value = 0x1c then CA_PS250
      else if value = 0x1d then CA_NS1
      else if value = 0x1e then CA_NS2_5
      else if value = 0x1f then CA_NS10
      else if value = 0x20 then CA_NS25
      else if value = 0x21 then CA_NS100
      else if value = 0x22 then CA_NS250
      else if value = 0x23 then CA_US1
      else if value = 0x24 then CA_US2_5
      else if value = 0x25 then CA_US10
      else if value = 0x26 then CA_US25
      else if value = 0x27 then CA_US100
      else if value = 0x28 then CA_US250
      else if value = 0x29 then CA_MS1
      else if value = 0x2a then CA_MS2_5
      else if value = 0x2b then CA_MS10
      else if value = 0x2c then CA_MS25
      else if value = 0x2d then CA_MS100
      else if value = 0x2e then CA_MS250
      else if value = 0x2f then CA_S1
      else if value = 0x30 then CA_S10
      else if value = 0x31 then CA_SGT10
      else if 0x80 \<le> value \<and> value \<le> 0xfd then CA_ProfileSpecific (value - 0x80)
      else CA_Unknown)"

definition clock_accuracy_cmp_numeric :: "clock_accuracy \<Rightarrow> clock_accuracy \<Rightarrow> ordering" where
  "clock_accuracy_cmp_numeric a b =
     cmp (clock_accuracy_to_primitive a) (clock_accuracy_to_primitive b)"

text \<open>The accuracies that parsing can produce: profile specific values stay below \<open>0x7e\<close>.\<close>

fun canon_accuracy :: "clock_accuracy \<Rightarrow> bool" where
  "canon_accuracy (CA_ProfileSpecific v) \<longleftrightarrow> v < 0x7e"
| "canon_accuracy _ \<longleftrightarrow> True"

lemma clock_accuracy_from_profile:
  assumes "0x80 \<le> v" "v \<le> 0xfd"
  shows "clock_accuracy_from_primitive v = CA_ProfileSpecific (v - 0x80)"
proof -
  have u: "128 \<le> unat v" "unat v \<le> 253" using assms by (simp_all add: word_le_nat_alt)
  have neq: "v \<noteq> w" if "unat w < 128 \<or> 253 < unat w" for w
    using that u by auto
  show ?thesis
    using u by (simp add: clock_accuracy_from_primitive_def neq word_le_nat_alt)
qed

lemma clock_accuracy_named:
  assumes "0x17 \<le> v" "v \<le> 0x31"
  shows "canon_accuracy (clock_accuracy_from_primitive v)
    \<and> clock_accuracy_to_primitive (clock_accuracy_from_primitive v) = v"
proof (rule word_range [of _ 23 50])
  show "list_all (\<lambda>n. canon_accuracy (clock_accuracy_from_primitive (word_of_nat n))
    \<and> clock_accuracy_to_primitive (clock_accuracy_from_primitive (word_of_nat n)) = word_of_nat n)
    [23..<50]"
    by code_simp
qed (use assms in \<open>simp_all add: word_le_nat_alt\<close>)

lemma clock_accuracy_reserved:
  "v \<le> 0x16 \<or> 0x32 \<le> v \<and> v \<le> 0x7f \<or> v = 0xff \<Longrightarrow> clock_accuracy_from_primitive v = CA_Reserved"
  by (simp add: clock_accuracy_from_primitive_def)

lemma u8_regions:
  obtains "(v::u8) \<le> 0x16 \<or> 0x32 \<le> v \<and> v \<le> 0x7f \<or> v = 0xff" | "0x17 \<le> v" "v \<le> 0x31"
    | "0x80 \<le> v" "v \<le> 0xfd" | "v = 0xfe"
proof -
  have v: "unat v < 256" using unsigned_less [of v] by simp
  have eq: "v = 0xfe \<longleftrightarrow> unat v = 254" "v = 0xff \<longleftrightarrow> unat v = 255"
    by (simp_all add: word_unat_eq_iff)
  show thesis using v that unfolding eq word_le_nat_alt
    by (simp; linarith)
qed

lemma clock_accuracy_to_from:
  assumes "clock_accuracy_from_primitive v \<noteq> CA_Reserved"
  shows "clock_accuracy_to_primitive (clock_accuracy_from_primitive v) = v"
  using assms
  by (cases rule: u8_regions [of v])
    (simp_all add: clock_accuracy_reserved clock_accuracy_named clock_accuracy_from_profile,
      simp add: clock_accuracy_from_primitive_def)

lemma canon_from_primitive: "canon_accuracy (clock_accuracy_from_primitive v)"
proof (cases rule: u8_regions [of v])
  case 3
  then have "unat (v - 0x80) < 126"
    by (simp add: word_le_nat_alt unat_sub)
  with 3 show ?thesis by (simp add: clock_accuracy_from_profile word_less_nat_alt)
next
  case 4
  then show ?thesis by (simp add: clock_accuracy_from_primitive_def)
qed (simp_all add: clock_accuracy_reserved clock_accuracy_named)

lemma clock_accuracy_from_to:
  "canon_accuracy a \<Longrightarrow> clock_accuracy_from_primitive (clock_accuracy_to_primitive a) = a"
proof (cases a)
  case (CA_ProfileSpecific v)
  assume "canon_accuracy a"
  with CA_ProfileSpecific have v: "unat v < 126" by (simp add: word_less_nat_alt)
  then have "unat (0x80 + v) = 128 + unat v" by (simp add: unat_word_ariths)
  with v have "clock_accuracy_from_primitive (0x80 + v) = CA_ProfileSpecific v"
    by (subst clock_accuracy_from_profile) (simp_all add: word_le_nat_alt)
  then show ?thesis by (simp add: CA_ProfileSpecific)
qed (simp_all add: clock_accuracy_from_primitive_def)

record clock_quality =
  cq_clock_class :: u8
  cq_clock_accuracy :: clock_accuracy
  cq_offset_scaled_log_variance :: u16

definition clock_quality_default :: clock_quality where
  "clock_quality_default = \<lparr>cq_clock_class = 248, cq_clock_accuracy = CA_Unknown,
     cq_offset_scaled_log_variance = 0x8000 - (23 * 256)\<rparr>"

definition clock_quality_serialize :: "clock_quality \<Rightarrow> bytes \<Rightarrow> bytes res" where
  "clock_quality_serialize q = seqw
    [put1 0 (cq_clock_class q),
     put1 1 (clock_accuracy_to_primitive (cq_clock_accuracy q)),
     put 2 4 (be_bytes 2 (cq_offset_scaled_log_variance q))]"

definition clock_quality_deserialize :: "bytes \<Rightarrow> clock_quality res" where
  "clock_quality_deserialize buffer =
     andthen (index 0 buffer) (\<lambda>cls.
     andthen (index 1 buffer) (\<lambda>acc.
     andthen (slice 2 4 buffer) (\<lambda>v.
     Ok \<lparr>cq_clock_class = cls, cq_clock_accuracy = clock_accuracy_from_primitive acc,
         cq_offset_scaled_log_variance = be_word v\<rparr>)))"

definition clock_quality_enc :: "clock_quality \<Rightarrow> bytes" where
  "clock_quality_enc q = [cq_clock_class q, clock_accuracy_to_primitive (cq_clock_accuracy q)]
     @ be_bytes 2 (cq_offset_scaled_log_variance q)"

definition canon_quality :: "clock_quality \<Rightarrow> bool" where
  "canon_quality q \<longleftrightarrow> canon_accuracy (cq_clock_accuracy q)"

lemma list4_split: "4 \<le> length buf \<Longrightarrow> \<exists>a b c d r. buf = a # b # c # d # r"
  by (auto simp: numeral_eq_Suc Suc_le_length_iff)

interpretation cq: wire_format clock_quality_serialize clock_quality_deserialize
  clock_quality_enc 4 "\<lambda>_. True" canon_quality
proof unfold_locales
  fix x :: clock_quality and buf :: bytes
  show "length (clock_quality_enc x) = 4" by (simp add: clock_quality_enc_def)
  show "4 \<le> length buf \<Longrightarrow> clock_quality_serialize x buf = Ok (clock_quality_enc x @ drop 4 buf)"
    using list4_split [of buf]
    by (auto simp: clock_quality_serialize_def clock_quality_enc_def put_def put1_def)
  show "length buf < 4 \<Longrightarrow> clock_quality_serialize x buf = panic"
    by (auto simp: clock_quality_serialize_def put_def put1_def)
  show "canon_quality x \<Longrightarrow> clock_quality_deserialize (clock_quality_enc x @ rest) = Ok x" for rest
    by (simp add: clock_quality_deserialize_def clock_quality_enc_def index_def slice_def
      canon_quality_def clock_accuracy_from_to)
  show "4 \<le> length buf \<Longrightarrow> \<exists>x. clock_quality_deserialize buf = Ok x \<and> canon_quality x"
    using list4_split [of buf]
    by (auto simp: clock_quality_deserialize_def index_def slice_def canon_quality_def
      canon_from_primitive)
  show "length buf < 4 \<Longrightarrow> clock_quality_deserialize buf = panic"
    by (auto simp: clock_quality_deserialize_def index_def slice_def)
qed simp

datatype time_source =
    TS_AtomicClock | TS_Gnss | TS_TerrestrialRadio | TS_SerialTimeCode | TS_Ptp | TS_Ntp
  | TS_HandSet | TS_Other | TS_InternalOscillator | TS_ProfileSpecific u8 | TS_Reserved
  | TS_Unknown u8

fun time_source_to_primitive :: "time_source \<Rightarrow> u8" where
  "time_source_to_primitive TS_AtomicClock = 0x10"
| "time_source_to_primitive TS_Gnss = 0x20"
| "time_source_to_primitive TS_TerrestrialRadio = 0x30"
| "time_source_to_primitive TS_SerialTimeCode = 0x39"
| "time_source_to_primitive TS_Ptp = 0x40"
| "time_source_to_primitive TS_Ntp = 0x50"
| "time_source_to_primitive TS_HandSet = 0x60"
| "time_source_to_primitive TS_Other = 0x90"
| "time_source_to_primitive TS_InternalOscillator = 0xa0"
| "time_source_to_primitive (TS_ProfileSpecific p) = 0xf0 + p"
| "time_source_to_primitive TS_Reserved = 0xff"
| "time_source_to_primitive (TS_Unknown v) = v"

definition time_source_from_primitive :: "u8 \<Rightarrow> time_source" where
  "time_source_from_primitive value =
     (if value = 0x10 then TS_AtomicClock
      else if value = 0x20 then TS_Gnss
      else if value = 0x30 then TS_TerrestrialRadio
      else if value = 0x39 then TS_SerialTimeCode
      else if value = 0x40 then TS_Ptp
      else if value = 0x50 then TS_Ntp
      else if value = 0x60 then TS_HandSet
      else if value = 0x90 then TS_Other
      else if value = 0xa0 then TS_InternalOscillator
      else if 0xf0 \<le> value \<and> value \<le> 0xfe then TS_ProfileSpecific (value - 0xf0)
      else if value = 0xff then TS_Reserved
      else TS_Unknown value)"

text \<open>Every byte is a time source, and printing it gives the byte back.\<close>

lemma time_source_to_from: "time_source_to_primitive (time_source_from_primitive v) = v"
  by (simp add: time_source_from_primitive_def)

definition canon_source :: "time_source \<Rightarrow> bool" where
  "canon_source s \<longleftrightarrow> time_source_from_primitive (time_source_to_primitive s) = s"

datatype leap_indicator = NoLeap | Leap61 | Leap59

section \<open>Time stamps under the laws of the numeric library\<close>

lemma time_split_nanos:
  fixes t :: int
  shows "(t div (1000000000 * 2 ^ 32) * 1000000000 + t mod (1000000000 * 2 ^ 32) div 2 ^ 32) * 2 ^ 32
    = t - t mod 2 ^ 32"
proof -
  let ?s = "1000000000 * 2 ^ 32 :: int"
  have "t mod ?s div 2 ^ 32 * 2 ^ 32 = t mod ?s - t mod ?s mod 2 ^ 32"
    by (rule minus_mod_eq_div_mult [symmetric])
  moreover have "t mod ?s mod 2 ^ 32 = t mod 2 ^ 32" by (rule mod_mod_cancel) simp
  moreover have "t div ?s * ?s + t mod ?s = t" by (rule div_mult_mod_eq)
  ultimately show ?thesis by (simp only: distrib_right mult.assoc)
qed

context fixed_point
begin

lemma time_from_wire_exact:
  "time_from_wire_timestamp lib ts = (uint (wt_seconds ts) * 1000000000 + uint (wt_nanos ts)) * 2 ^ 32"
proof -
  have "0 \<le> uint (wt_seconds ts)" "uint (wt_seconds ts) < 2 ^ 64"
    "0 \<le> uint (wt_nanos ts)" "uint (wt_nanos ts) < 2 ^ 32"
    using uint_lt2p [of "wt_seconds ts"] uint_lt2p [of "wt_nanos ts"] by simp_all
  then have "in_range U96F32 ((uint (wt_seconds ts) * 1000000000 + uint (wt_nanos ts)) * 2 ^ 32)"
    by simp
  then show ?thesis by (simp only: time_from_wire_timestamp_def fit)
qed

text \<open>A time on the wire is the time without its fraction of a nanosecond.\<close>

lemma time_wire_roundtrip:
  assumes "0 \<le> t" and "t < 2 ^ 64 * (1000000000 * 2 ^ 32)"
  shows "time_from_wire_timestamp lib (wire_timestamp_from_time lib t) = t - t mod 2 ^ 32"
proof -
  let ?s = "1000000000 * 2 ^ 32 :: int"
  have r: "in_range U96F32 t" using assms by simp
  have "uint (word_of_int (t div ?s) :: u64) = t div ?s"
    using assms by (simp add: uint_word_of_int pos_imp_zdiv_nonneg_iff div_less_iff_less_mult)
  moreover have "0 \<le> t mod ?s" "t mod ?s < ?s" by simp_all
  then have "uint (word_of_int (t mod ?s div 2 ^ 32) :: u32) = t mod ?s div 2 ^ 32"
    by (simp add: uint_word_of_int take_bit_eq_mod)
  moreover have "(t div ?s * 1000000000 + t mod ?s div 2 ^ 32) * 2 ^ 32 = t - t mod 2 ^ 32"
    using time_split_nanos [of t] by simp
  ultimately show ?thesis
    unfolding time_from_wire_exact wire_timestamp_from_time_def
    by (simp only: time_secs_exact [OF r] time_subsec_exact [OF r] wire_timestamp.select_convs)
qed

end

end
