(* ===== verification/MsgHeader.thy ===== *)
theory MsgHeader
  imports CommonTypes
begin

text \<open>
  \<open>statime/src/datastructures/messages/header.rs\<close> and \<open>control_field.rs\<close>: the 34-byte header
  that every message starts with. \<open>serialize_header\<close> is translated write by write;
  \<open>header_enc\<close> is the layout it produces, and the lemmas show that it produces exactly that and
  that \<open>deserialize_header\<close> inverts it.
\<close>

section \<open>MessageType and ControlField\<close>

datatype message_type =
    MT_Sync | MT_DelayReq | MT_PDelayReq | MT_PDelayResp | MT_FollowUp | MT_DelayResp
  | MT_PDelayRespFollowUp | MT_Announce | MT_Signaling | MT_Management

fun message_type_as_u8 :: "message_type \<Rightarrow> u8" where
  "message_type_as_u8 MT_Sync = 0x0"
| "message_type_as_u8 MT_DelayReq = 0x1"
| "message_type_as_u8 MT_PDelayReq = 0x2"
| "message_type_as_u8 MT_PDelayResp = 0x3"
| "message_type_as_u8 MT_FollowUp = 0x8"
| "message_type_as_u8 MT_DelayResp = 0x9"
| "message_type_as_u8 MT_PDelayRespFollowUp = 0xa"
| "message_type_as_u8 MT_Announce = 0xb"
| "message_type_as_u8 MT_Signaling = 0xc"
| "message_type_as_u8 MT_Management = 0xd"

definition message_type_try_from :: "u8 \<Rightarrow> message_type res" where
  "message_type_try_from value =
     (if value = 0x0 then Ok MT_Sync
      else if value = 0x1 then Ok MT_DelayReq
      else if value = 0x2 then Ok MT_PDelayReq
      else if value = 0x3 then Ok MT_PDelayResp
      else if value = 0x8 then Ok MT_FollowUp
      else if value = 0x9 then Ok MT_DelayResp
      else if value = 0xa then Ok MT_PDelayRespFollowUp
      else if value = 0xb then Ok MT_Announce
      else if value = 0xc then Ok MT_Signaling
      else if value = 0xd then Ok MT_Management
      else Err EnumConversionError)"

datatype control_field = CF_Sync | CF_DelayReq | CF_FollowUp | CF_DelayResp | CF_Management
  | CF_AllOthers

fun control_field_to_primitive :: "control_field \<Rightarrow> u8" where
  "control_field_to_primitive CF_Sync = 0x00"
| "control_field_to_primitive CF_DelayReq = 0x01"
| "control_field_to_primitive CF_FollowUp = 0x02"
| "control_field_to_primitive CF_DelayResp = 0x03"
| "control_field_to_primitive CF_Management = 0x04"
| "control_field_to_primitive CF_AllOthers = 0x05"

fun control_field_from :: "message_type \<Rightarrow> control_field" where
  "control_field_from MT_Sync = CF_Sync"
| "control_field_from MT_DelayReq = CF_DelayReq"
| "control_field_from MT_FollowUp = CF_FollowUp"
| "control_field_from MT_DelayResp = CF_DelayResp"
| "control_field_from MT_Management = CF_Management"
| "control_field_from _ = CF_AllOthers"

section \<open>SdoId and PtpVersion\<close>

type_synonym sdo_id = u16

definition sdo_id_high_byte :: "sdo_id \<Rightarrow> u8" where
  "sdo_id_high_byte s = ucast (drop_bit 8 s)"

definition sdo_id_low_byte :: "sdo_id \<Rightarrow> u8" where
  "sdo_id_low_byte s = ucast s"

definition sdo_id_try_from :: "u16 \<Rightarrow> sdo_id option" where
  "sdo_id_try_from s = (if s \<le> 0xfff then Some s else None)"

record ptp_version =
  pv_major :: u8
  pv_minor :: u8

definition ptp_version_new :: "u8 \<Rightarrow> u8 \<Rightarrow> ptp_version option" where
  "ptp_version_new major minor =
     (if 0x10 \<le> major \<or> 0x10 \<le> minor then None
      else Some \<lparr>pv_major = major, pv_minor = minor\<rparr>)"

definition ptp_version_as_byte :: "ptp_version \<Rightarrow> u8" where
  "ptp_version_as_byte v = push_bit 4 (pv_minor v) OR pv_major v"

definition ptp_version_from_byte :: "u8 \<Rightarrow> ptp_version" where
  "ptp_version_from_byte byte = \<lparr>pv_major = byte AND 0x0f, pv_minor = drop_bit 4 byte\<rparr>"

section \<open>Header\<close>

record header =
  hd_sdo_id :: sdo_id
  hd_version :: ptp_version
  hd_domain_number :: u8
  hd_alternate_master_flag :: bool
  hd_two_step_flag :: bool
  hd_unicast_flag :: bool
  hd_ptp_profile_specific_1 :: bool
  hd_ptp_profile_specific_2 :: bool
  hd_leap61 :: bool
  hd_leap59 :: bool
  hd_current_utc_offset_valid :: bool
  hd_ptp_timescale :: bool
  hd_time_tracable :: bool
  hd_frequency_tracable :: bool
  hd_synchronization_uncertain :: bool
  hd_correction_field :: time_interval
  hd_source_port_identity :: port_identity
  hd_sequence_id :: u16
  hd_log_message_interval :: i8

record deserialized_header =
  dh_header :: header
  dh_message_type :: message_type
  dh_message_length :: u16

definition header_new :: "u8 \<Rightarrow> header" where
  "header_new minor_ptp_version = \<lparr>
     hd_sdo_id = 0,
     hd_version = \<lparr>pv_major = 2, pv_minor = minor_ptp_version\<rparr>,
     hd_domain_number = 0,
     hd_alternate_master_flag = False,
     hd_two_step_flag = False,
     hd_unicast_flag = False,
     hd_ptp_profile_specific_1 = False,
     hd_ptp_profile_specific_2 = False,
     hd_leap61 = False,
     hd_leap59 = False,
     hd_current_utc_offset_valid = False,
     hd_ptp_timescale = False,
     hd_time_tracable = False,
     hd_frequency_tracable = False,
     hd_synchronization_uncertain = False,
     hd_correction_field = 0,
     hd_source_port_identity = port_identity_default,
     hd_sequence_id = 0,
     hd_log_message_interval = 0\<rparr>"

definition header_wire_size :: nat where
  "header_wire_size = 34"

text \<open>\<open>(b as u8) << k\<close> and \<open>(byte & (1 << k)) > 0\<close>.\<close>

definition flag :: "nat \<Rightarrow> bool \<Rightarrow> u8" where
  "flag k b = push_bit k (of_bool b)"

definition has_flag :: "nat \<Rightarrow> u8 \<Rightarrow> bool" where
  "has_flag k byte \<longleftrightarrow> 0 < byte AND push_bit k 1"

definition serialize_header :: "header \<Rightarrow> message_type \<Rightarrow> nat \<Rightarrow> bytes \<Rightarrow> bytes res" where
  "serialize_header h content_type content_length = seqw
    [put1 0 (push_bit 4 (sdo_id_high_byte (hd_sdo_id h)) OR (message_type_as_u8 content_type AND 0x0f)),
     put1 1 (ptp_version_as_byte (hd_version h)),
     put 2 4 (be_bytes 2 (word_of_nat (content_length + header_wire_size) :: u16)),
     put1 4 (hd_domain_number h),
     put1 5 (sdo_id_low_byte (hd_sdo_id h)),
     put1 6 0,
     put1 7 0,
     or1 6 (flag 0 (hd_alternate_master_flag h)),
     or1 6 (flag 1 (hd_two_step_flag h)),
     or1 6 (flag 2 (hd_unicast_flag h)),
     or1 6 (flag 5 (hd_ptp_profile_specific_1 h)),
     or1 6 (flag 6 (hd_ptp_profile_specific_2 h)),
     or1 7 (flag 0 (hd_leap61 h)),
     or1 7 (flag 1 (hd_leap59 h)),
     or1 7 (flag 2 (hd_current_utc_offset_valid h)),
     or1 7 (flag 3 (hd_ptp_timescale h)),
     or1 7 (flag 4 (hd_time_tracable h)),
     or1 7 (flag 5 (hd_frequency_tracable h)),
     or1 7 (flag 6 (hd_synchronization_uncertain h)),
     sub 8 16 (time_interval_serialize (hd_correction_field h)),
     put 16 20 [0, 0, 0, 0],
     sub 20 30 (port_identity_serialize (hd_source_port_identity h)),
     put 30 32 (be_bytes 2 (hd_sequence_id h)),
     put1 32 (control_field_to_primitive (control_field_from content_type)),
     put1 33 (hd_log_message_interval h)]"

definition deserialize_header :: "bytes \<Rightarrow> deserialized_header res" where
  "deserialize_header buffer =
     (if length buffer < 34 then Err BufferTooShort
      else
        andthen (index 0 buffer) (\<lambda>b0.
        andthen (index 1 buffer) (\<lambda>b1.
        andthen (index 4 buffer) (\<lambda>b4.
        andthen (index 5 buffer) (\<lambda>b5.
        andthen (index 6 buffer) (\<lambda>b6.
        andthen (index 7 buffer) (\<lambda>b7.
        andthen (andthen (slice 8 16 buffer) time_interval_deserialize) (\<lambda>correction_field.
        andthen (andthen (slice 20 30 buffer) port_identity_deserialize) (\<lambda>source_port_identity.
        andthen (slice 30 32 buffer) (\<lambda>sequence_id.
        andthen (index 33 buffer) (\<lambda>b33.
        andthen (message_type_try_from (b0 AND 0x0f)) (\<lambda>message_type.
        andthen (slice 2 4 buffer) (\<lambda>message_length.
        Ok \<lparr>dh_header = \<lparr>
              hd_sdo_id = push_bit 4 (ucast (b0 AND 0xf0)) OR ucast b5,
              hd_version = ptp_version_from_byte b1,
              hd_domain_number = b4,
              hd_alternate_master_flag = has_flag 0 b6,
              hd_two_step_flag = has_flag 1 b6,
              hd_unicast_flag = has_flag 2 b6,
              hd_ptp_profile_specific_1 = has_flag 5 b6,
              hd_ptp_profile_specific_2 = has_flag 6 b6,
              hd_leap61 = has_flag 0 b7,
              hd_leap59 = has_flag 1 b7,
              hd_current_utc_offset_valid = has_flag 2 b7,
              hd_ptp_timescale = has_flag 3 b7,
              hd_time_tracable = has_flag 4 b7,
              hd_frequency_tracable = has_flag 5 b7,
              hd_synchronization_uncertain = has_flag 6 b7,
              hd_correction_field = correction_field,
              hd_source_port_identity = source_port_identity,
              hd_sequence_id = be_word sequence_id,
              hd_log_message_interval = b33\<rparr>,
            dh_message_type = message_type,
            dh_message_length = be_word message_length\<rparr>)))))))))))))"

section \<open>The layout of a header\<close>

definition header_flags6 :: "header \<Rightarrow> u8" where
  "header_flags6 h = flag 0 (hd_alternate_master_flag h) OR flag 1 (hd_two_step_flag h)
     OR flag 2 (hd_unicast_flag h) OR flag 5 (hd_ptp_profile_specific_1 h)
     OR flag 6 (hd_ptp_profile_specific_2 h)"

definition header_flags7 :: "header \<Rightarrow> u8" where
  "header_flags7 h = flag 0 (hd_leap61 h) OR flag 1 (hd_leap59 h)
     OR flag 2 (hd_current_utc_offset_valid h) OR flag 3 (hd_ptp_timescale h)
     OR flag 4 (hd_time_tracable h) OR flag 5 (hd_frequency_tracable h)
     OR flag 6 (hd_synchronization_uncertain h)"

definition header_enc :: "header \<Rightarrow> message_type \<Rightarrow> u16 \<Rightarrow> bytes" where
  "header_enc h ty len =
     [push_bit 4 (sdo_id_high_byte (hd_sdo_id h)) OR message_type_as_u8 ty,
      ptp_version_as_byte (hd_version h)]
     @ be_bytes 2 len
     @ [hd_domain_number h, sdo_id_low_byte (hd_sdo_id h), header_flags6 h, header_flags7 h]
     @ be_bytes 8 (hd_correction_field h)
     @ [0, 0, 0, 0]
     @ port_identity_enc (hd_source_port_identity h)
     @ be_bytes 2 (hd_sequence_id h)
     @ [control_field_to_primitive (control_field_from ty), hd_log_message_interval h]"

text \<open>The headers that the wire format can represent: a 12-bit sdoId, 4-bit version numbers.\<close>

definition canon_header :: "header \<Rightarrow> bool" where
  "canon_header h \<longleftrightarrow> hd_sdo_id h < 2 ^ 12 \<and> pv_major (hd_version h) < 2 ^ 4
     \<and> pv_minor (hd_version h) < 2 ^ 4 \<and> wf_port_identity (hd_source_port_identity h)"

lemma length_port_identity_enc: "wf_port_identity p \<Longrightarrow> length (port_identity_enc p) = 10"
  by (rule pid.length_enc)

lemma length_header_enc:
  "wf_port_identity (hd_source_port_identity h) \<Longrightarrow> length (header_enc h ty len) = 34"
  by (simp add: header_enc_def length_port_identity_enc del: be_bytes.simps)

lemma put1_alt:
  "put1 i x bs = (if i < length bs then Ok (take i bs @ [x] @ drop (Suc i) bs) else panic)"
  by (simp add: put1_def upd_conv_take_nth_drop)

lemma or1_alt:
  "or1 i x bs = (if i < length bs then Ok (take i bs @ [bs ! i OR x] @ drop (Suc i) bs) else panic)"
  by (simp add: or1_def upd_conv_take_nth_drop)

lemma message_type_low_nibble [simp]: "message_type_as_u8 ty AND 0x0f = message_type_as_u8 ty"
  by (cases ty) simp_all

lemma serialize_header_enc:
  assumes "wf_port_identity (hd_source_port_identity h)" and "34 \<le> length buf"
  shows "serialize_header h ty n buf = Ok (header_enc h ty (word_of_nat (n + 34)) @ drop 34 buf)"
  using assms
  by (simp add: serialize_header_def header_enc_def header_wire_size_def put1_alt or1_alt put_def
    ti.sub_ser pid.sub_ser length_port_identity_enc nth_append header_flags6_def header_flags7_def
    or.assoc del: be_bytes.simps) auto

text \<open>Reading single bits and nibbles back.\<close>

lemma has_flag_bit: "k < 8 \<Longrightarrow> has_flag k byte \<longleftrightarrow> bit byte k"
proof -
  assume k: "k < 8"
  have "byte AND push_bit k 1 = (if bit byte k then push_bit k 1 else 0)"
    by (rule bit_word_eqI) (auto simp: bit_simps)
  moreover have "bit (push_bit k 1 :: u8) k" using k by (simp add: bit_simps)
  then have "0 < (push_bit k 1 :: u8)" by (metis bit_0_eq bot2E bot_apply word_gt_0)
  ultimately show ?thesis by (simp only: has_flag_def) (simp del: push_bit_of_1)
qed

lemma bit_flag: "bit (flag k b) i \<longleftrightarrow> b \<and> i = k \<and> k < 8"
  by (auto simp: flag_def bit_simps)

lemma has_flags6 [simp]:
  "has_flag 0 (header_flags6 h) = hd_alternate_master_flag h"
  "has_flag (Suc 0) (header_flags6 h) = hd_two_step_flag h"
  "has_flag 2 (header_flags6 h) = hd_unicast_flag h"
  "has_flag 5 (header_flags6 h) = hd_ptp_profile_specific_1 h"
  "has_flag 6 (header_flags6 h) = hd_ptp_profile_specific_2 h"
  by (simp_all add: has_flag_bit header_flags6_def bit_or_iff bit_flag)

lemma has_flags7 [simp]:
  "has_flag 0 (header_flags7 h) = hd_leap61 h"
  "has_flag (Suc 0) (header_flags7 h) = hd_leap59 h"
  "has_flag 2 (header_flags7 h) = hd_current_utc_offset_valid h"
  "has_flag 3 (header_flags7 h) = hd_ptp_timescale h"
  "has_flag 4 (header_flags7 h) = hd_time_tracable h"
  "has_flag 5 (header_flags7 h) = hd_frequency_tracable h"
  "has_flag 6 (header_flags7 h) = hd_synchronization_uncertain h"
  by (simp_all add: has_flag_bit header_flags7_def bit_or_iff bit_flag)

lemma bit_nibble: "a < (2 ^ 4 :: u8) \<Longrightarrow> bit a i \<Longrightarrow> i < 4"
  using take_bit_word_eq_self_iff [of 4 a] bit_take_bit_iff [of 4 a i] by simp

lemma bit_nibble16: "a < (16 :: u8) \<Longrightarrow> bit a i \<Longrightarrow> i < 4"
  using bit_nibble [of a i] by simp

lemma version_roundtrip:
  "pv_major v < 2 ^ 4 \<Longrightarrow> pv_minor v < 2 ^ 4 \<Longrightarrow> ptp_version_from_byte (ptp_version_as_byte v) = v"
proof -
  assume v: "pv_major v < 2 ^ 4" "pv_minor v < 2 ^ 4"
  have m: "(0x0f :: u8) = mask 4" by (simp add: mask_eq_exp_minus_1)
  have "(push_bit 4 (pv_minor v) OR pv_major v) AND 0x0f = pv_major v"
    unfolding m using v by (intro bit_word_eqI) (auto simp: bit_simps dest: bit_nibble16)
  moreover have "drop_bit 4 (push_bit 4 (pv_minor v) OR pv_major v) = pv_minor v"
    using v by (intro bit_word_eqI) (auto simp: bit_simps dest: bit_nibble16)
  ultimately show ?thesis by (simp add: ptp_version_from_byte_def ptp_version_as_byte_def)
qed

lemma message_type_nibble: "message_type_as_u8 ty < 2 ^ 4"
  by (cases ty) simp_all

lemma message_type_roundtrip: "message_type_try_from (message_type_as_u8 ty) = Ok ty"
  by (cases ty) (simp_all add: message_type_try_from_def)

lemma low_nibble_type:
  "(push_bit 4 a OR message_type_as_u8 ty) AND 0x0f = message_type_as_u8 ty"
proof -
  have m: "(0x0f :: u8) = mask 4" by (simp add: mask_eq_exp_minus_1)
  show ?thesis
    unfolding m by (intro bit_word_eqI) (auto simp: bit_simps dest: bit_nibble [OF message_type_nibble])
qed

lemma sdo_roundtrip:
  assumes "s < (2 ^ 12 :: u16)"
  shows "push_bit 4 (ucast ((push_bit 4 (sdo_id_high_byte s) OR message_type_as_u8 ty) AND 0xf0))
    OR ucast (sdo_id_low_byte s) = s"
proof -
  have m: "(0xf0 :: u8) = push_bit 4 (mask 4)" by (simp add: mask_eq_exp_minus_1 push_bit_eq_mult)
  have s: "bit s i \<Longrightarrow> i < 12" for i
    using take_bit_word_eq_self_iff [of 12 s] bit_take_bit_iff [of 12 s i] assms by simp
  show ?thesis
    unfolding m sdo_id_high_byte_def sdo_id_low_byte_def
    by (intro bit_word_eqI)
      (auto simp: bit_simps dest: s bit_nibble [OF message_type_nibble])
qed

text \<open>Parsing succeeds on every buffer of 34 bytes whose message type is known, and inverts the
  layout.\<close>

lemma deserialize_header_enc:
  assumes "canon_header h"
  shows "deserialize_header (header_enc h ty len @ rest)
    = Ok \<lparr>dh_header = h, dh_message_type = ty, dh_message_length = len\<rparr>"
proof -
  have l: "34 \<le> length (header_enc h ty len @ rest)"
    using assms by (simp add: length_header_enc canon_header_def)
  show ?thesis
    using assms l
    by (simp add: deserialize_header_def index_def slice_def canon_header_def header_enc_def nth_append
      length_port_identity_enc low_nibble_type message_type_roundtrip sdo_roundtrip
      version_roundtrip ti.de_enc_exact pid.de_enc_exact del: be_bytes.simps)
qed

lemma message_type_try_from_no_panic: "message_type_try_from v \<noteq> panic"
  by (simp add: message_type_try_from_def)

lemma deserialize_header_no_panic: "deserialize_header buffer \<noteq> panic"
proof (cases "34 \<le> length buffer")
  case True
  then obtain c p where "andthen (slice 8 16 buffer) time_interval_deserialize = Ok c"
    and "andthen (slice 20 30 buffer) port_identity_deserialize = Ok p"
    using ti.de_total [of "take 8 (drop 8 buffer)"] pid.de_total [of "take 10 (drop 20 buffer)"]
    by (auto simp: slice_def)
  with True message_type_try_from_no_panic [of "buffer ! 0 AND 0x0f"] show ?thesis
    by (cases "message_type_try_from (buffer ! 0 AND 0x0f)")
      (auto simp: deserialize_header_def index_def slice_def)
qed (simp add: deserialize_header_def)

lemma word_shift_bound:
  fixes w :: u8
  shows "drop_bit 4 w < 2 ^ 4" and "w AND 0x0f < 2 ^ 4"
proof -
  have "take_bit 4 (drop_bit 4 w) = drop_bit 4 w"
  proof (rule bit_word_eqI)
    fix i assume "i < LENGTH(8)"
    show "bit (take_bit 4 (drop_bit 4 w)) i = bit (drop_bit 4 w) i"
      using bit_imp_le_length [of w "4 + i"] by (auto simp: bit_simps)
  qed
  then show "drop_bit 4 w < 2 ^ 4" using take_bit_word_eq_self_iff [of 4 "drop_bit 4 w"] by simp
  have m: "(0x0f :: u8) = mask 4" by (simp add: mask_eq_exp_minus_1)
  show "w AND 0x0f < 2 ^ 4"
    unfolding m using and_mask_less_size [of 4 w] by (simp add: word_size)
qed

lemma sdo_bound: "push_bit 4 (ucast (a AND 0xf0 :: u8)) OR ucast (b :: u8) < (2 ^ 12 :: u16)"
proof -
  let ?x = "push_bit 4 (ucast (a AND 0xf0)) OR ucast b :: u16"
  have "take_bit 12 ?x = ?x"
  proof (rule bit_word_eqI)
    fix i assume "i < LENGTH(16)"
    show "bit (take_bit 12 ?x) i = bit ?x i"
      using bit_imp_le_length [of b i] bit_imp_le_length [of a "i - 4"] by (auto simp: bit_simps)
  qed
  then show ?thesis using take_bit_word_eq_self_iff [of 12 ?x] by simp
qed

lemma deserialize_header_OkD:
  assumes "deserialize_header buffer = Inr d"
  shows "34 \<le> length buffer" and "canon_header (dh_header d)"
    and "message_type_try_from (buffer ! 0 AND 0x0f) = Ok (dh_message_type d)"
proof -
  from assms show len: "34 \<le> length buffer"
    by (simp add: deserialize_header_def split: if_splits)
  from assms len have "port_identity_deserialize (take 10 (drop 20 buffer))
      = Ok (hd_source_port_identity (dh_header d))"
    by (auto simp: deserialize_header_def slice_def index_def)
  then have "wf_port_identity (hd_source_port_identity (dh_header d))"
    by (rule pid.de_OkD)
  with assms len show "canon_header (dh_header d)"
    using sdo_bound word_shift_bound
    by (auto simp: deserialize_header_def slice_def index_def canon_header_def
      ptp_version_from_byte_def)
  from assms len show "message_type_try_from (buffer ! 0 AND 0x0f) = Ok (dh_message_type d)"
    by (auto simp: deserialize_header_def slice_def index_def split: if_splits)
qed

section \<open>Properties\<close>

text \<open>\<open>serialize_header\<close> writes the 34-byte layout of the standard at the start of its buffer
  and nothing else, and \<open>deserialize_header\<close> reads the same header, message type and length back
  from it.\<close>

theorem header_roundtrip:
  assumes "canon_header h" and "34 \<le> length buf" and "n + 34 < 2 ^ 16"
  shows "\<exists>buf'. serialize_header h ty n buf = Ok buf' \<and> drop 34 buf' = drop 34 buf
    \<and> take 34 buf' = header_enc h ty (word_of_nat (n + 34))
    \<and> deserialize_header buf' = Ok \<lparr>dh_header = h, dh_message_type = ty,
        dh_message_length = word_of_nat (n + 34)\<rparr>"
  using assms length_header_enc [of h]
  by (auto simp: canon_header_def serialize_header_enc intro!: deserialize_header_enc)

theorem header_roundtrip_witness:
  "\<exists>buf'. serialize_header (header_new 1) MT_Sync 10 (replicate 44 0) = Ok buf'
    \<and> deserialize_header buf' = Ok \<lparr>dh_header = header_new 1, dh_message_type = MT_Sync,
        dh_message_length = 44\<rparr>"
  using header_roundtrip [of "header_new 1" "replicate 44 0" 10 MT_Sync]
  by (auto simp: canon_header_def header_new_def port_identity_default_def wf_port_identity_def
    wf_clock_identity_def clock_identity_default_def)

end
