(* ===== verification/Datasets.thy ===== *)
theory Datasets
  imports MsgHeader
begin

text \<open>
  \<open>statime/src/datastructures/datasets\<close> and \<open>statime/src/config\<close>: the data sets of a PTP
  instance and the configuration of an instance and of its ports. \<open>ptp_instance_state\<close> is
  \<open>PtpInstanceState\<close> of \<open>ptp_instance.rs\<close>. The random number generator of a port is a
  parameter: \<open>open01\<close> returns a sample and the next generator state.
\<close>

section \<open>Configuration\<close>

record instance_config =
  ic_clock_identity :: clock_identity
  ic_priority_1 :: u8
  ic_priority_2 :: u8
  ic_domain_number :: u8
  ic_sdo_id :: sdo_id
  ic_slave_only :: bool
  ic_path_trace :: bool
  ic_clock_quality :: clock_quality

datatype delay_mechanism = E2E interval | P2P interval

datatype ptp_minor_version = PMV_Zero | PMV_One

definition ptp_minor_version_try_from :: "u8 \<Rightarrow> ptp_minor_version option" where
  "ptp_minor_version_try_from value =
     (if value = 0 then Some PMV_Zero else if value = 1 then Some PMV_One else None)"

fun ptp_minor_version_into :: "ptp_minor_version \<Rightarrow> u8" where
  "ptp_minor_version_into PMV_Zero = 0"
| "ptp_minor_version_into PMV_One = 1"

text \<open>\<open>acceptable_master_list\<close> is its \<open>is_acceptable\<close> method.\<close>

record port_config =
  pc_acceptable_master_list :: "clock_identity \<Rightarrow> bool"
  pc_delay_mechanism :: delay_mechanism
  pc_announce_interval :: interval
  pc_announce_receipt_timeout :: u8
  pc_sync_interval :: interval
  pc_master_only :: bool
  pc_delay_asymmetry :: duration
  pc_minor_ptp_version :: ptp_minor_version

definition min_delay_req_interval :: "port_config \<Rightarrow> interval" where
  "min_delay_req_interval c =
     (case pc_delay_mechanism c of E2E interval \<Rightarrow> interval | P2P interval \<Rightarrow> interval)"

definition announce_duration ::
  "'f numlib \<Rightarrow> ('r \<Rightarrow> 'f \<times> 'r) \<Rightarrow> port_config \<Rightarrow> 'r \<Rightarrow> (core_duration \<times> 'r) res" where
  "announce_duration lib open01 c rng =
     (let (sample, rng') = open01 rng;
          factor = f_add lib (f_of_int lib 1) sample
      in andthen (interval_as_core_duration lib (pc_announce_interval c)) (\<lambda>duration.
         andthen (cd_mul_f64 lib duration
           (f_mul lib factor (f_of_int lib (uint (pc_announce_receipt_timeout c))))) (\<lambda>d.
         Ok (d, rng'))))"

text \<open>The implementations of \<open>AcceptableMasterList\<close> (\<open>bmc/acceptable_master.rs\<close>).\<close>

definition accept_any_master :: "clock_identity \<Rightarrow> bool" where
  "accept_any_master identity = True"

definition accept_listed :: "clock_identity list \<Rightarrow> clock_identity \<Rightarrow> bool" where
  "accept_listed l identity = List.member l identity"

definition accept_option :: "(clock_identity \<Rightarrow> bool) option \<Rightarrow> clock_identity \<Rightarrow> bool" where
  "accept_option m identity = (case m of Some is_acceptable \<Rightarrow> is_acceptable identity | None \<Rightarrow> True)"

section \<open>Data sets\<close>

record default_ds =
  dd_clock_identity :: clock_identity
  dd_number_ports :: u16
  dd_clock_quality :: clock_quality
  dd_priority_1 :: u8
  dd_priority_2 :: u8
  dd_domain_number :: u8
  dd_slave_only :: bool
  dd_sdo_id :: sdo_id

definition default_ds_new :: "instance_config \<Rightarrow> default_ds" where
  "default_ds_new config = \<lparr>
     dd_clock_identity = ic_clock_identity config,
     dd_number_ports = 0,
     dd_clock_quality = ic_clock_quality config,
     dd_priority_1 = ic_priority_1 config,
     dd_priority_2 = ic_priority_2 config,
     dd_domain_number = ic_domain_number config,
     dd_slave_only = ic_slave_only config,
     dd_sdo_id = ic_sdo_id config\<rparr>"

record current_ds =
  cd_steps_removed :: u16

definition current_ds_default :: current_ds where
  "current_ds_default = \<lparr>cd_steps_removed = 0\<rparr>"

record parent_ds =
  pd_parent_port_identity :: port_identity
  pd_grandmaster_identity :: clock_identity
  pd_grandmaster_clock_quality :: clock_quality
  pd_grandmaster_priority_1 :: u8
  pd_grandmaster_priority_2 :: u8

definition parent_ds_new :: "default_ds \<Rightarrow> parent_ds" where
  "parent_ds_new d = \<lparr>
     pd_parent_port_identity = \<lparr>pi_clock_identity = dd_clock_identity d, pi_port_number = 0\<rparr>,
     pd_grandmaster_identity = dd_clock_identity d,
     pd_grandmaster_clock_quality = dd_clock_quality d,
     pd_grandmaster_priority_1 = dd_priority_1 d,
     pd_grandmaster_priority_2 = dd_priority_2 d\<rparr>"

definition MAX_DATA_LEN :: nat where
  "MAX_DATA_LEN = 1024"

text \<open>\<open>list\<close> is an \<open>ArrayVec\<close> of capacity \<open>MAX_DATA_LEN / 8\<close>.\<close>

record path_trace_ds =
  pt_list :: "clock_identity list"
  pt_enable :: bool

definition path_trace_capacity :: nat where
  "path_trace_capacity = MAX_DATA_LEN div 8"

definition path_trace_ds_new :: "bool \<Rightarrow> path_trace_ds" where
  "path_trace_ds_new enable = \<lparr>pt_list = [], pt_enable = enable\<rparr>"

record time_properties_ds =
  tp_current_utc_offset :: "i16 option"
  tp_leap_indicator :: leap_indicator
  tp_time_traceable :: bool
  tp_frequency_traceable :: bool
  tp_ptp_timescale :: bool
  tp_time_source :: time_source

definition new_ptp_time ::
  "i16 option \<Rightarrow> leap_indicator \<Rightarrow> bool \<Rightarrow> bool \<Rightarrow> time_source \<Rightarrow> time_properties_ds" where
  "new_ptp_time current_utc_offset leap time_traceable frequency_traceable source = \<lparr>
     tp_current_utc_offset = current_utc_offset,
     tp_leap_indicator = leap,
     tp_time_traceable = time_traceable,
     tp_frequency_traceable = frequency_traceable,
     tp_ptp_timescale = True,
     tp_time_source = source\<rparr>"

definition new_arbitrary_time :: "bool \<Rightarrow> bool \<Rightarrow> time_source \<Rightarrow> time_properties_ds" where
  "new_arbitrary_time time_traceable frequency_traceable source = \<lparr>
     tp_current_utc_offset = None,
     tp_leap_indicator = NoLeap,
     tp_time_traceable = time_traceable,
     tp_frequency_traceable = frequency_traceable,
     tp_ptp_timescale = False,
     tp_time_source = source\<rparr>"

section \<open>PtpInstanceState\<close>

record ptp_instance_state =
  is_default_ds :: default_ds
  is_current_ds :: current_ds
  is_parent_ds :: parent_ds
  is_path_trace_ds :: path_trace_ds
  is_time_properties_ds :: time_properties_ds

text \<open>What the Rust types guarantee of a state: eight-byte identities, a 12-bit sdoId (the only
  constructors of \<open>SdoId\<close> check it) and a path trace within its capacity.\<close>

definition wf_default_ds :: "default_ds \<Rightarrow> bool" where
  "wf_default_ds d \<longleftrightarrow> wf_clock_identity (dd_clock_identity d) \<and> dd_sdo_id d < 2 ^ 12"

definition wf_parent_ds :: "parent_ds \<Rightarrow> bool" where
  "wf_parent_ds p \<longleftrightarrow> wf_port_identity (pd_parent_port_identity p)
     \<and> wf_clock_identity (pd_grandmaster_identity p)"

definition wf_path_trace_ds :: "path_trace_ds \<Rightarrow> bool" where
  "wf_path_trace_ds p \<longleftrightarrow> length (pt_list p) \<le> path_trace_capacity
     \<and> list_all wf_clock_identity (pt_list p)"

definition wf_instance_state :: "ptp_instance_state \<Rightarrow> bool" where
  "wf_instance_state s \<longleftrightarrow> wf_default_ds (is_default_ds s) \<and> wf_parent_ds (is_parent_ds s)
     \<and> wf_path_trace_ds (is_path_trace_ds s)"

end
