(* ===== verification/Tlv.thy ===== *)
theory Tlv
  imports CommonTypes
begin

text \<open>
  \<open>statime/src/datastructures/common/tlv.rs\<close>: TLV types, single TLVs, the set of TLVs at the
  end of a message (\<open>TlvSet\<close>, the bytes that \<open>deserialize\<close> has scanned), its iterator and the
  builder that \<open>send_announce\<close> fills. The lemmas show that a set that was scanned can be
  iterated without a panic, and that iterating it gives back exactly the TLVs in its bytes.
\<close>

section \<open>TlvType\<close>

datatype tlv_type =
    TT_Reserved u16 | TT_Management | TT_ManagementErrorStatus | TT_OrganizationExtension
  | TT_RequestUnicastTransmission | TT_GrantUnicastTransmission | TT_CancelUnicastTransmission
  | TT_AcknowledgeCancelUnicastTransmission | TT_PathTrace | TT_AlternateTimeOffsetIndicator
  | TT_Legacy u16 | TT_Experimental u16 | TT_OrganizationExtensionPropagate
  | TT_EnhancedAccuracyMetrics | TT_OrganizationExtensionDoNotPropagate | TT_L1Sync
  | TT_PortCommunicationAvailability | TT_ProtocolAddress | TT_SlaveRxSyncTimingData
  | TT_SlaveRxSyncComputedData | TT_SlaveTxEventTimestamps | TT_CumulativeRateRatio | TT_Pad
  | TT_Authentication

fun tlv_type_to_primitive :: "tlv_type \<Rightarrow> u16" where
  "tlv_type_to_primitive (TT_Reserved value) = value"
| "tlv_type_to_primitive TT_Management = 0x0001"
| "tlv_type_to_primitive TT_ManagementErrorStatus = 0x0002"
| "tlv_type_to_primitive TT_OrganizationExtension = 0x0003"
| "tlv_type_to_primitive TT_RequestUnicastTransmission = 0x0004"
| "tlv_type_to_primitive TT_GrantUnicastTransmission = 0x0005"
| "tlv_type_to_primitive TT_CancelUnicastTransmission = 0x0006"
| "tlv_type_to_primitive TT_AcknowledgeCancelUnicastTransmission = 0x0007"
| "tlv_type_to_primitive TT_PathTrace = 0x0008"
| "tlv_type_to_primitive TT_AlternateTimeOffsetIndicator = 0x0009"
| "tlv_type_to_primitive (TT_Legacy value) = value"
| "tlv_type_to_primitive (TT_Experimental value) = value"
| "tlv_type_to_primitive TT_OrganizationExtensionPropagate = 0x4000"
| "tlv_type_to_primitive TT_EnhancedAccuracyMetrics = 0x4001"
| "tlv_type_to_primitive TT_OrganizationExtensionDoNotPropagate = 0x8000"
| "tlv_type_to_primitive TT_L1Sync = 0x8001"
| "tlv_type_to_primitive TT_PortCommunicationAvailability = 0x8002"
| "tlv_type_to_primitive TT_ProtocolAddress = 0x8003"
| "tlv_type_to_primitive TT_SlaveRxSyncTimingData = 0x8004"
| "tlv_type_to_primitive TT_SlaveRxSyncComputedData = 0x8005"
| "tlv_type_to_primitive TT_SlaveTxEventTimestamps = 0x8006"
| "tlv_type_to_primitive TT_CumulativeRateRatio = 0x8007"
| "tlv_type_to_primitive TT_Pad = 0x8008"
| "tlv_type_to_primitive TT_Authentication = 0x8009"

text \<open>The arms of \<open>from_primitive\<close> that match ranges.\<close>

definition tlv_value_reserved :: "u16 \<Rightarrow> bool" where
  "tlv_value_reserved value \<longleftrightarrow> value = 0x0000 \<or> 0x000a \<le> value \<and> value \<le> 0x1fff
     \<or> 0x2030 \<le> value \<and> value \<le> 0x3fff \<or> 0x4002 \<le> value \<and> value \<le> 0x7eff
     \<or> 0x800a \<le> value \<and> value \<le> 0xffef \<or> 0xfff0 \<le> value"

definition tlv_value_legacy :: "u16 \<Rightarrow> bool" where
  "tlv_value_legacy value \<longleftrightarrow> 0x2000 \<le> value \<and> value \<le> 0x2003"

definition tlv_value_experimental :: "u16 \<Rightarrow> bool" where
  "tlv_value_experimental value \<longleftrightarrow>
     0x2004 \<le> value \<and> value \<le> 0x202f \<or> 0x7f00 \<le> value \<and> value \<le> 0x7fff"

definition tlv_type_from_primitive :: "u16 \<Rightarrow> tlv_type" where
  "tlv_type_from_primitive value =
     (if tlv_value_reserved value then TT_Reserved value
      else if tlv_value_legacy value then TT_Legacy value
      else if tlv_value_experimental value then TT_Experimental value
      else if value = 0x0001 then TT_Management
      else if value = 0x0002 then TT_ManagementErrorStatus
      else if value = 0x0003 then TT_OrganizationExtension
      else if value = 0x0004 then TT_RequestUnicastTransmission
      else if value = 0x0005 then TT_GrantUnicastTransmission
      else if value = 0x0006 then TT_CancelUnicastTransmission
      else if value = 0x0007 then TT_AcknowledgeCancelUnicastTransmission
      else if value = 0x0008 then TT_PathTrace
      else if value = 0x0009 then TT_AlternateTimeOffsetIndicator
      else if value = 0x4000 then TT_OrganizationExtensionPropagate
      else if value = 0x4001 then TT_EnhancedAccuracyMetrics
      else if value = 0x8000 then TT_OrganizationExtensionDoNotPropagate
      else if value = 0x8001 then TT_L1Sync
      else if value = 0x8002 then TT_PortCommunicationAvailability
      else if value = 0x8003 then TT_ProtocolAddress
      else if value = 0x8004 then TT_SlaveRxSyncTimingData
      else if value = 0x8005 then TT_SlaveRxSyncComputedData
      else if value = 0x8006 then TT_SlaveTxEventTimestamps
      else if value = 0x8007 then TT_CumulativeRateRatio
      else if value = 0x8008 then TT_Pad
      else TT_Authentication)"

definition tlv_type_announce_propagate :: "tlv_type \<Rightarrow> bool" where
  "tlv_type_announce_propagate t =
     (let p = tlv_type_to_primitive t
      in p = 0x0008 \<or> p = 0x0009 \<or> 0x4000 \<le> p \<and> p \<le> 0x7fff)"

text \<open>Every 16-bit value is a TLV type, and printing it gives the value back.\<close>

lemma tlv_type_named:
  assumes "a \<le> unat v" "unat v < b"
    and "list_all (\<lambda>n. tlv_type_to_primitive (tlv_type_from_primitive (word_of_nat n)) = word_of_nat n)
      [a..<b]"
  shows "tlv_type_to_primitive (tlv_type_from_primitive v) = v"
  using assms by (intro word_range [of "\<lambda>v. tlv_type_to_primitive (tlv_type_from_primitive v) = v"])

lemma tlv_value_regions:
  "tlv_value_reserved v \<or> tlv_value_legacy v \<or> tlv_value_experimental v
    \<or> 1 \<le> unat v \<and> unat v < 10 \<or> 16384 \<le> unat v \<and> unat v < 16386
    \<or> 32768 \<le> unat v \<and> unat v < 32778"
proof -
  have z: "v = 0 \<longleftrightarrow> unat v = 0" by (simp add: unat_eq_0)
  show ?thesis
    unfolding tlv_value_reserved_def tlv_value_legacy_def tlv_value_experimental_def
      word_le_nat_alt z
    by simp linarith
qed

lemmas tlv_value_defs = tlv_value_reserved_def tlv_value_legacy_def tlv_value_experimental_def

lemma tlv_type_to_from: "tlv_type_to_primitive (tlv_type_from_primitive v) = v"
proof -
  consider "tlv_value_reserved v \<or> tlv_value_legacy v \<or> tlv_value_experimental v"
    | "1 \<le> unat v" "unat v < 10" | "16384 \<le> unat v" "unat v < 16386"
    | "32768 \<le> unat v" "unat v < 32778"
    using tlv_value_regions [of v] by blast
  then show ?thesis
  proof cases
    case 1
    then show ?thesis by (auto simp: tlv_type_from_primitive_def)
  next
    case 2
    then show ?thesis by (rule tlv_type_named) code_simp
  next
    case 3
    then show ?thesis by (rule tlv_type_named) (simp add: tlv_type_from_primitive_def tlv_value_defs)
  next
    case 4
    then show ?thesis by (rule tlv_type_named) (simp add: tlv_type_from_primitive_def tlv_value_defs)
  qed
qed

definition canon_tlv_type :: "tlv_type \<Rightarrow> bool" where
  "canon_tlv_type t \<longleftrightarrow> tlv_type_from_primitive (tlv_type_to_primitive t) = t"

lemma canon_tlv_type_from [simp]: "canon_tlv_type (tlv_type_from_primitive v)"
  by (simp add: canon_tlv_type_def tlv_type_to_from)

section \<open>Tlv\<close>

record tlv =
  tlv_type :: tlv_type
  tlv_value :: bytes

definition tlv_wire_size :: "tlv \<Rightarrow> nat" where
  "tlv_wire_size t = 4 + length (tlv_value t)"

definition tlv_serialize :: "tlv \<Rightarrow> bytes \<Rightarrow> bytes res" where
  "tlv_serialize t = seqw
    [put 0 2 (be_bytes 2 (tlv_type_to_primitive (tlv_type t))),
     put 2 4 (be_bytes 2 (word_of_nat (length (tlv_value t)) :: u16)),
     put 4 (4 + length (tlv_value t)) (tlv_value t)]"

definition tlv_deserialize :: "bytes \<Rightarrow> tlv res" where
  "tlv_deserialize buffer =
     (if length buffer < 4 then Err BufferTooShort
      else let ty = tlv_type_from_primitive (be_word [buffer ! 0, buffer ! 1]);
               len = unat (be_word [buffer ! 2, buffer ! 3] :: u16)
           in if length buffer < 4 + len then Err BufferTooShort
              else Ok \<lparr>tlv_type = ty, tlv_value = take len (drop 4 buffer)\<rparr>)"

definition tlv_enc :: "tlv \<Rightarrow> bytes" where
  "tlv_enc t = be_bytes 2 (tlv_type_to_primitive (tlv_type t))
     @ be_bytes 2 (word_of_nat (length (tlv_value t)) :: u16) @ tlv_value t"

text \<open>A TLV whose length field can hold the length of its value.\<close>

definition canon_tlv :: "tlv \<Rightarrow> bool" where
  "canon_tlv t \<longleftrightarrow> canon_tlv_type (tlv_type t) \<and> length (tlv_value t) < 2 ^ 16"

lemma length_tlv_enc [simp]: "length (tlv_enc t) = tlv_wire_size t"
  by (simp add: tlv_enc_def tlv_wire_size_def)

lemma tlv_serialize_enc:
  "tlv_wire_size t \<le> length buf \<Longrightarrow>
   tlv_serialize t buf = Ok (tlv_enc t @ drop (tlv_wire_size t) buf)"
  by (auto simp: tlv_serialize_def tlv_enc_def tlv_wire_size_def put_def add.commute)

lemma tlv_serialize_short:
  "length buf < tlv_wire_size t \<Longrightarrow> tlv_serialize t buf = panic"
  by (auto simp: tlv_serialize_def tlv_wire_size_def put_def)

lemma be_bytes_2: "be_bytes 2 w = [ucast (drop_bit 8 w), ucast w]"
  by (simp add: numeral_2_eq_2)

lemma be_bytes_2_nth: "[be_bytes 2 w ! 0, be_bytes 2 w ! Suc 0] = be_bytes 2 (w :: u16)"
  by (simp add: be_bytes_2)

lemma nth_two_fields:
  fixes a b :: u16
  shows "(be_bytes 2 a @ be_bytes 2 b @ r) ! 0 = be_bytes 2 a ! 0"
    "(be_bytes 2 a @ be_bytes 2 b @ r) ! Suc 0 = be_bytes 2 a ! Suc 0"
    "(be_bytes 2 a @ be_bytes 2 b @ r) ! 2 = be_bytes 2 b ! 0"
    "(be_bytes 2 a @ be_bytes 2 b @ r) ! 3 = be_bytes 2 b ! Suc 0"
  by (simp_all add: be_bytes_2)

lemma unat_length_field: "n < 2 ^ 16 \<Longrightarrow> unat (word_of_nat n :: u16) = n"
  by (simp add: unsigned_of_nat take_bit_nat_eq_self)

lemma tlv_deserialize_enc:
  assumes "canon_tlv t"
  shows "tlv_deserialize (tlv_enc t @ rest) = Ok t"
proof -
  have len: "unat (word_of_nat (length (tlv_value t)) :: u16) = length (tlv_value t)"
    using assms by (simp add: canon_tlv_def unat_length_field)
  show ?thesis
    using assms len
    by (simp add: tlv_deserialize_def tlv_enc_def nth_two_fields be_bytes_2_nth canon_tlv_def
      canon_tlv_type_def Let_def del: be_bytes.simps)
qed

section \<open>TlvSet\<close>

type_synonym tlv_set = bytes

definition tlv_set_serialize :: "tlv_set \<Rightarrow> bytes \<Rightarrow> (bytes \<times> nat) res" where
  "tlv_set_serialize s buffer =
     (if length s \<le> length buffer then Ok (s @ drop (length s) buffer, length s)
      else Err BufferTooShort)"

text \<open>The length field of the TLV at the start of a buffer.\<close>

definition tlv_length_field :: "bytes \<Rightarrow> nat" where
  "tlv_length_field buffer = unat (be_word [buffer ! 2, buffer ! 3] :: u16)"

text \<open>The loop of \<open>TlvSet::deserialize\<close>, with the running total.\<close>

function tlv_set_scan :: "bytes \<Rightarrow> nat \<Rightarrow> nat res" where
  "tlv_set_scan buffer total_length =
     (if 4 < length buffer then
        (if tlv_length_field buffer mod 2 \<noteq> 0 then Err Invalid
         else case get_from (4 + tlv_length_field buffer) buffer of
             None \<Rightarrow> Err BufferTooShort
           | Some rest \<Rightarrow> tlv_set_scan rest (total_length + (4 + tlv_length_field buffer)))
      else if buffer \<noteq> [] then Err BufferTooShort
      else Ok total_length)"
  by pat_completeness auto
termination
  by (relation "measure (\<lambda>(b, _). length b)") (auto simp: get_from_def split: if_splits)

definition tlv_set_deserialize :: "bytes \<Rightarrow> tlv_set res" where
  "tlv_set_deserialize buffer =
     andthen (tlv_set_scan buffer 0) (\<lambda>total_length. slice 0 total_length buffer)"

text \<open>\<open>TlvSetIterator::next\<close>, and all the TLVs it yields.\<close>

definition tlv_iter_next :: "bytes \<Rightarrow> (tlv \<times> bytes) option res" where
  "tlv_iter_next buffer =
     (if length buffer \<le> 4 then Ok None
      else andthen (unwrap (tlv_deserialize buffer)) (\<lambda>t.
           andthen (slice (tlv_wire_size t) (length buffer) buffer) (\<lambda>rest.
           Ok (Some (t, rest)))))"

lemma tlv_iter_next_shrinks:
  "tlv_iter_next buffer = Inr (Some (t, rest)) \<Longrightarrow> length rest < length buffer"
  by (auto simp: tlv_iter_next_def slice_def tlv_wire_size_def split: if_splits)

function tlvs :: "bytes \<Rightarrow> tlv list res" where
  "tlvs buffer =
     (case tlv_iter_next buffer of
        Inl e \<Rightarrow> Inl e
      | Inr None \<Rightarrow> Ok []
      | Inr (Some (t, rest)) \<Rightarrow> andthen (tlvs rest) (\<lambda>ts. Ok (t # ts)))"
  by pat_completeness auto
termination
  by (relation "measure length") (auto dest: tlv_iter_next_shrinks)

declare tlv_set_scan.simps [simp del] tlvs.simps [simp del]

definition announce_propagate_tlv :: "tlv_set \<Rightarrow> tlv list res" where
  "announce_propagate_tlv s =
     andthen (tlvs s) (\<lambda>ts. Ok (filter (\<lambda>t. tlv_type_announce_propagate (tlv_type t)) ts))"

section \<open>TlvSetBuilder\<close>

record tlv_set_builder =
  tb_buffer :: bytes
  tb_used :: nat

definition tlv_set_builder_new :: "bytes \<Rightarrow> tlv_set_builder" where
  "tlv_set_builder_new buffer = \<lparr>tb_buffer = buffer, tb_used = 0\<rparr>"

definition tlv_set_builder_add :: "tlv \<Rightarrow> tlv_set_builder \<Rightarrow> tlv_set_builder res" where
  "tlv_set_builder_add t b =
     andthen (sub (tb_used b) (length (tb_buffer b)) (tlv_serialize t) (tb_buffer b)) (\<lambda>buffer.
     Ok \<lparr>tb_buffer = buffer, tb_used = tb_used b + tlv_wire_size t\<rparr>)"

definition tlv_set_builder_build :: "tlv_set_builder \<Rightarrow> tlv_set res" where
  "tlv_set_builder_build b = slice 0 (tb_used b) (tb_buffer b)"

section \<open>What the operations guarantee\<close>

lemma tlv_deserialize_OkD:
  assumes "tlv_deserialize buffer = Inr t"
  shows "canon_tlv t" and "tlv_wire_size t \<le> length buffer"
    and "buffer = tlv_enc t @ drop (tlv_wire_size t) buffer"
proof -
  let ?len = "be_word [buffer ! 2, buffer ! 3] :: u16"
  from assms have b: "4 + unat ?len \<le> length buffer"
    and t: "t = \<lparr>tlv_type = tlv_type_from_primitive (be_word [buffer ! 0, buffer ! 1]),
      tlv_value = take (unat ?len) (drop 4 buffer)\<rparr>"
    by (auto simp: tlv_deserialize_def Let_def split: if_splits)
  have l: "length (tlv_value t) = unat ?len" using b t by simp
  have "unat ?len < 2 ^ 16" using unsigned_less [of ?len] by simp
  then show "canon_tlv t" using l t by (simp add: canon_tlv_def)
  show "tlv_wire_size t \<le> length buffer" using l b by (simp add: tlv_wire_size_def)
  obtain a0 a1 a2 a3 r where buf: "buffer = a0 # a1 # a2 # a3 # r"
    using list4_split [of buffer] b by auto
  have e: "be_bytes 2 (be_word [x, y] :: u16) = [x, y]" for x y by simp
  have d: "drop (4 + n) (a0 # a1 # a2 # a3 # r) = drop n r" for n by (simp add: numeral_eq_Suc)
  show "buffer = tlv_enc t @ drop (tlv_wire_size t) buffer"
    using l b
    by (simp add: tlv_enc_def tlv_wire_size_def t buf tlv_type_to_from e d del: be_bytes.simps)
qed

lemma tlv_iter_next_ok:
  assumes "4 < length buffer" and "4 + tlv_length_field buffer \<le> length buffer"
  obtains t where "tlv_iter_next buffer = Ok (Some (t, drop (4 + tlv_length_field buffer) buffer))"
    and "tlv_deserialize buffer = Ok t" and "tlv_wire_size t = 4 + tlv_length_field buffer"
proof -
  obtain t where t: "tlv_deserialize buffer = Ok t" "tlv_wire_size t = 4 + tlv_length_field buffer"
    using assms by (auto simp: tlv_deserialize_def tlv_length_field_def tlv_wire_size_def Let_def)
  with assms that show thesis by (simp add: tlv_iter_next_def slice_def)
qed

text \<open>A set that \<open>deserialize\<close> accepts is the whole buffer; scanning never panics.\<close>

lemma tlv_set_scan_Ok_iff:
  "tlv_set_scan buffer n = Inr m \<longleftrightarrow> buffer = [] \<and> m = n
     \<or> 4 < length buffer \<and> even (tlv_length_field buffer)
       \<and> 4 + tlv_length_field buffer \<le> length buffer
       \<and> tlv_set_scan (drop (4 + tlv_length_field buffer) buffer)
           (n + (4 + tlv_length_field buffer)) = Inr m"
  by (subst tlv_set_scan.simps) (auto simp: get_from_def even_iff_mod_2_eq_zero)

lemma tlv_set_scan_total: "tlv_set_scan buffer n = Inr m \<Longrightarrow> m = n + length buffer"
proof (induction buffer n arbitrary: m rule: tlv_set_scan.induct)
  case (1 buffer n)
  from "1.prems" show ?case
    by (subst (asm) tlv_set_scan_Ok_iff)
      (auto dest!: "1.IH" [rotated 3] simp: get_from_def)
qed

lemma tlv_set_scan_no_panic: "tlv_set_scan buffer n \<noteq> panic"
proof (induction buffer n rule: tlv_set_scan.induct)
  case (1 buffer n)
  then show ?case
    by (subst tlv_set_scan.simps) (auto split: if_splits option.splits)
qed

lemma tlv_set_scan_shift:
  "tlv_set_scan buffer n = Inr m \<Longrightarrow> tlv_set_scan buffer k = Inr (k + length buffer)"
proof (induction buffer n arbitrary: m k rule: tlv_set_scan.induct)
  case (1 buffer n)
  let ?l = "4 + tlv_length_field buffer"
  from "1.prems" consider "buffer = []"
    | "4 < length buffer" "even (tlv_length_field buffer)" "?l \<le> length buffer"
      "tlv_set_scan (drop ?l buffer) (n + ?l) = Inr m"
    by (subst (asm) tlv_set_scan_Ok_iff) blast
  then show ?case
  proof cases
    case 1
    then show ?thesis by (simp add: tlv_set_scan.simps)
  next
    case 2
    have "tlv_set_scan (drop ?l buffer) (k + ?l) = Inr (k + length buffer)"
      using "1.IH" [OF 2(1) _ _ 2(4), of "k + ?l"] 2(2,3)
      by (simp add: get_from_def even_iff_mod_2_eq_zero)
    then show ?thesis
      using 2 by (subst tlv_set_scan_Ok_iff) simp
  qed
qed

definition wf_tlv_set :: "tlv_set \<Rightarrow> bool" where
  "wf_tlv_set s \<longleftrightarrow> tlv_set_scan s 0 = Ok (length s)"

lemma tlv_set_deserialize_OkD:
  "tlv_set_deserialize buffer = Inr s \<Longrightarrow> s = buffer \<and> wf_tlv_set s"
  using tlv_set_scan_total [of buffer 0]
  by (auto simp: tlv_set_deserialize_def slice_def wf_tlv_set_def split: if_splits)

lemma tlv_set_deserialize_iff [simp]:
  "tlv_set_deserialize buffer = Inr s \<longleftrightarrow> s = buffer \<and> wf_tlv_set buffer"
  using tlv_set_deserialize_OkD [of buffer s]
  by (auto simp: tlv_set_deserialize_def slice_def wf_tlv_set_def)

lemma tlv_set_deserialize_no_panic: "tlv_set_deserialize buffer \<noteq> panic"
  using tlv_set_scan_no_panic [of buffer 0] tlv_set_scan_total [of buffer 0]
  by (cases "tlv_set_scan buffer 0") (auto simp: tlv_set_deserialize_def slice_def)

lemma wf_tlv_set_Nil [simp]: "wf_tlv_set []"
  by (simp add: wf_tlv_set_def tlv_set_scan.simps)

text \<open>One step of the scan: a valid set is empty or a TLV in front of a valid set.\<close>

lemma wf_tlv_set_step:
  "wf_tlv_set s \<longleftrightarrow> s = [] \<or> 4 < length s \<and> even (tlv_length_field s)
     \<and> 4 + tlv_length_field s \<le> length s \<and> wf_tlv_set (drop (4 + tlv_length_field s) s)"
proof (cases "4 < length s")
  case True
  let ?d = "drop (4 + tlv_length_field s) s"
  have "tlv_set_scan ?d (4 + tlv_length_field s) = Inr (length s)
      \<longleftrightarrow> tlv_set_scan ?d 0 = Inr (length ?d)" if "4 + tlv_length_field s \<le> length s"
    using that tlv_set_scan_shift [of ?d "4 + tlv_length_field s" "length s" 0]
      tlv_set_scan_shift [of ?d 0 "length ?d" "4 + tlv_length_field s"]
    by auto
  with True show ?thesis
    unfolding wf_tlv_set_def by (subst tlv_set_scan_Ok_iff) auto
next
  case False
  then show ?thesis
    unfolding wf_tlv_set_def by (subst tlv_set_scan_Ok_iff) auto
qed

lemma tlv_length_field_enc:
  "canon_tlv t \<Longrightarrow> tlv_length_field (tlv_enc t @ r) = length (tlv_value t)"
  by (simp add: tlv_length_field_def tlv_enc_def nth_two_fields be_bytes_2_nth canon_tlv_def
    unat_length_field del: be_bytes.simps)

text \<open>The lists of TLVs that a message can carry: even lengths, and a last TLV that is not empty.\<close>

definition wf_tlvs :: "tlv list \<Rightarrow> bool" where
  "wf_tlvs ts \<longleftrightarrow> list_all (\<lambda>t. canon_tlv t \<and> even (length (tlv_value t))) ts
     \<and> (ts \<noteq> [] \<longrightarrow> tlv_value (last ts) \<noteq> [])"

definition tlvs_enc :: "tlv list \<Rightarrow> bytes" where
  "tlvs_enc ts = concat (map tlv_enc ts)"

lemma tlvs_enc_simps [simp]:
  "tlvs_enc [] = []" "tlvs_enc (t # ts) = tlv_enc t @ tlvs_enc ts"
  "tlvs_enc (ts @ us) = tlvs_enc ts @ tlvs_enc us"
  by (simp_all add: tlvs_enc_def)

lemma tlv_enc_not_Nil [simp]: "tlv_enc t \<noteq> []"
  using length_tlv_enc [of t] by (auto simp: tlv_wire_size_def simp del: length_tlv_enc)

lemma tlvs_enc_eq_Nil [simp]: "tlvs_enc ts = [] \<longleftrightarrow> ts = []"
  by (cases ts) simp_all

lemma tlvs_step:
  assumes "4 < length s" and "tlv_deserialize s = Ok t"
  shows "tlvs s = andthen (tlvs (drop (tlv_wire_size t) s)) (\<lambda>ts. Ok (t # ts))"
  using assms tlv_deserialize_OkD(2) [OF assms(2)]
  by (subst tlvs.simps) (simp add: tlv_iter_next_def slice_def)

lemma tlvs_wf:
  "wf_tlv_set s \<Longrightarrow> \<exists>ts. tlvs s = Ok ts \<and> wf_tlvs ts \<and> s = tlvs_enc ts"
proof (induction s rule: length_induct)
  case (1 s)
  show ?case
  proof (cases "s = []")
    case True
    then show ?thesis
      by (subst tlvs.simps) (simp add: tlv_iter_next_def wf_tlvs_def)
  next
    case False
    let ?d = "drop (4 + tlv_length_field s) s"
    from False "1.prems" have s: "4 < length s" "even (tlv_length_field s)"
        "4 + tlv_length_field s \<le> length s" "wf_tlv_set ?d"
      by (metis wf_tlv_set_step)+
    from s obtain ts where ts: "tlvs ?d = Ok ts" "wf_tlvs ts" "?d = tlvs_enc ts"
      using "1.IH" by force
    from s obtain t where t: "tlv_deserialize s = Ok t" "tlv_wire_size t = 4 + tlv_length_field s"
      using tlv_iter_next_ok by blast
    have s_eq: "s = tlv_enc t @ tlvs_enc ts"
      using tlv_deserialize_OkD(3) [OF t(1)] t(2) ts(3) by simp
    have "wf_tlvs (t # ts)"
      using ts(2) t(2) s s_eq tlv_deserialize_OkD(1) [OF t(1)]
      by (auto simp: wf_tlvs_def tlv_wire_size_def)
    then show ?thesis
      using tlvs_step [OF s(1) t(1)] t(2) ts s_eq by auto
  qed
qed

lemma wf_tlvs_enc: "wf_tlvs ts \<Longrightarrow> wf_tlv_set (tlvs_enc ts)"
proof (induction ts)
  case (Cons t ts)
  have t: "canon_tlv t" "even (length (tlv_value t))" using Cons.prems by (simp_all add: wf_tlvs_def)
  have ts: "wf_tlv_set (tlvs_enc ts)"
    using Cons by (auto simp: wf_tlvs_def split: if_splits)
  have "4 < length (tlvs_enc (t # ts))"
    using Cons.prems by (cases ts) (auto simp: wf_tlvs_def tlv_wire_size_def)
  with t ts show ?case
    by (subst wf_tlv_set_step)
      (simp add: tlv_length_field_enc, simp add: tlv_wire_size_def)
qed simp

lemma tlvs_enc_inj:
  "list_all canon_tlv ts \<Longrightarrow> list_all canon_tlv us \<Longrightarrow> tlvs_enc ts = tlvs_enc us \<Longrightarrow> ts = us"
proof (induction ts arbitrary: us)
  case Nil
  from Nil.prems(3) show ?case by (cases us) simp_all
next
  case (Cons t ts)
  from Cons.prems(3) obtain u vs where u: "us = u # vs" by (cases us) simp_all
  with Cons.prems have e: "tlv_enc t @ tlvs_enc ts = tlv_enc u @ tlvs_enc vs"
    and "canon_tlv t" "canon_tlv u" by simp_all
  then have "t = u"
    using tlv_deserialize_enc [of t "tlvs_enc ts"] tlv_deserialize_enc [of u "tlvs_enc vs"] by simp
  with Cons u e show ?case by simp
qed

lemma tlvs_all_canon: "wf_tlvs ts \<Longrightarrow> list_all canon_tlv ts"
  by (simp add: wf_tlvs_def list_all_iff)

lemma tlvs_of_enc: "wf_tlvs ts \<Longrightarrow> tlvs (tlvs_enc ts) = Ok ts"
  using tlvs_wf [OF wf_tlvs_enc [of ts]] tlvs_enc_inj [of ts] tlvs_all_canon by blast

lemma wf_tlvs_tl: "wf_tlvs (t # ts) \<Longrightarrow> wf_tlvs ts"
  by (auto simp: wf_tlvs_def split: if_splits)

lemma tlv_iter_next_enc:
  assumes "wf_tlvs (t # ts)"
  shows "tlv_iter_next (tlvs_enc (t # ts)) = Ok (Some (t, tlvs_enc ts))"
proof -
  have "4 < length (tlvs_enc (t # ts))"
    using assms by (cases ts) (auto simp: wf_tlvs_def tlv_wire_size_def)
  moreover have "canon_tlv t" using assms by (simp add: wf_tlvs_def)
  ultimately show ?thesis
    by (simp add: tlv_iter_next_def tlv_deserialize_enc slice_def)
qed

text \<open>The builder: what has been added so far is the encoding of the added TLVs.\<close>

definition builds :: "tlv list \<Rightarrow> tlv_set_builder \<Rightarrow> bool" where
  "builds ts b \<longleftrightarrow> tb_used b = length (tlvs_enc ts) \<and> tb_used b \<le> length (tb_buffer b)
     \<and> take (tb_used b) (tb_buffer b) = tlvs_enc ts"

lemma builds_new: "builds [] (tlv_set_builder_new buffer)"
  by (simp add: builds_def tlv_set_builder_new_def)

lemma builds_add:
  assumes "builds ts b"
  shows "if tb_used b + tlv_wire_size t \<le> length (tb_buffer b)
    then (\<exists>b'. tlv_set_builder_add t b = Ok b' \<and> builds (ts @ [t]) b'
      \<and> length (tb_buffer b') = length (tb_buffer b))
    else tlv_set_builder_add t b = panic"
  using assms tlv_serialize_short [of "drop (tb_used b) (tb_buffer b)" t]
  by (auto simp: builds_def tlv_set_builder_add_def sub_def slice_def tlv_serialize_enc put_def)

lemma builds_build: "builds ts b \<Longrightarrow> tlv_set_builder_build b = Ok (tlvs_enc ts)"
  unfolding builds_def tlv_set_builder_build_def slice_def by fastforce

section \<open>Properties\<close>

text \<open>C24: \<open>TlvSet::deserialize\<close> accepts exactly the concatenations of TLVs of even length whose
  last TLV is not empty; the set is then the whole buffer, and iterating it, which unwraps a parse
  of every TLV, does not panic and yields exactly these TLVs.\<close>

theorem tlv_set_accepts_iff:
  "tlv_set_deserialize buffer = Ok s \<longleftrightarrow>
   s = buffer \<and> (\<exists>ts. wf_tlvs ts \<and> tlvs_enc ts = buffer \<and> tlvs buffer = Ok ts)"
  using tlvs_wf [of buffer] wf_tlvs_enc by auto

text \<open>A set whose last TLV has an empty value is rejected as too short, although
  \<open>Tlv::deserialize\<close> accepts that TLV: the loop stops at four remaining bytes.\<close>

theorem tlv_set_rejects_empty_last:
  assumes "list_all (\<lambda>t. canon_tlv t \<and> even (length (tlv_value t))) ts"
    and "canon_tlv t" and "tlv_value t = []"
  shows "tlv_deserialize (tlv_enc t) = Ok t
    \<and> tlv_set_deserialize (tlvs_enc (ts @ [t])) = Err BufferTooShort"
proof -
  have l: "length (tlv_enc t) = 4" using assms(3) by (simp add: tlv_wire_size_def)
  have "tlv_set_scan (tlvs_enc (ts @ [t])) n = Err BufferTooShort" for n
    using assms(1)
  proof (induction ts arbitrary: n)
    case Nil
    then show ?case using l by (subst tlv_set_scan.simps) auto
  next
    case (Cons u us)
    let ?s = "tlvs_enc ((u # us) @ [t])"
    have s: "4 < length ?s" "tlv_length_field ?s = length (tlv_value u)"
      "4 + length (tlv_value u) \<le> length ?s" "drop (4 + length (tlv_value u)) ?s = tlvs_enc (us @ [t])"
      using Cons.prems l by (simp_all add: tlv_length_field_enc) (simp_all add: tlv_wire_size_def)
    then show ?case
      using Cons by (subst tlv_set_scan.simps) (simp add: get_from_def even_iff_mod_2_eq_zero)
  qed
  then show ?thesis
    using tlv_deserialize_enc [OF assms(2), of "[]"] by (simp add: tlv_set_deserialize_def)
qed

theorem tlv_set_rejects_empty_last_witness:
  "tlv_set_deserialize (tlvs_enc [\<lparr>tlv_type = TT_PathTrace, tlv_value = [1, 2]\<rparr>,
     \<lparr>tlv_type = TT_Pad, tlv_value = []\<rparr>]) = Err BufferTooShort"
proof -
  have "canon_tlv_type TT_PathTrace" "canon_tlv_type TT_Pad"
    by (simp_all add: canon_tlv_type_def tlv_type_from_primitive_def tlv_value_defs)
  then show ?thesis
    using tlv_set_rejects_empty_last [of "[\<lparr>tlv_type = TT_PathTrace, tlv_value = [1, 2]\<rparr>]"
      "\<lparr>tlv_type = TT_Pad, tlv_value = []\<rparr>"]
    by (simp add: canon_tlv_def)
qed

text \<open>Adding TLVs to a \<open>TlvSetBuilder\<close> one by one and building gives their concatenation when
  it fits the buffer, and panics otherwise.\<close>

theorem tlv_set_builder_builds:
  "andthen (foldl (\<lambda>r t. andthen r (tlv_set_builder_add t)) (Ok (tlv_set_builder_new buffer)) ts)
     tlv_set_builder_build
   = (if length (tlvs_enc ts) \<le> length buffer then Ok (tlvs_enc ts) else panic)"
proof -
  let ?run = "foldl (\<lambda>r t. andthen r (tlv_set_builder_add t)) (Ok (tlv_set_builder_new buffer))"
  have "if length (tlvs_enc ts) \<le> length buffer
      then \<exists>b. ?run ts = Ok b \<and> builds ts b \<and> length (tb_buffer b) = length buffer
      else ?run ts = panic"
  proof (induction ts rule: rev_induct)
    case Nil
    then show ?case by (simp add: builds_new) (simp add: tlv_set_builder_new_def)
  next
    case (snoc t ts)
    show ?case
    proof (cases "length (tlvs_enc ts) \<le> length buffer")
      case True
      with snoc obtain b where b: "?run ts = Ok b" "builds ts b" "length (tb_buffer b) = length buffer"
        by auto
      then show ?thesis using builds_add [OF b(2), of t] by (auto simp: builds_def split: if_splits)
    qed (use snoc in simp)
  qed
  then show ?thesis by (auto simp: builds_build split: if_splits)
qed

end
