(* ===== verification/Messages.thy ===== *)
theory Messages
  imports Datasets Tlv
begin

text \<open>
  \<open>statime/src/datastructures/messages\<close>: the ten message bodies, \<open>Message::serialize\<close> and
  \<open>Message::deserialize\<close>, and the constructors of the messages the ports send.

  The locale \<open>message_content\<close> is the contract that \<open>Message\<close> relies on and every body keeps: a
  fixed size, a layout (which may leave a reserved byte of the buffer as it was), and a parser
  that returns an error on a short buffer and otherwise inverts the layout.
\<close>

section \<open>The contract of a message body\<close>

locale message_content =
  fixes ser :: "'a \<Rightarrow> bytes \<Rightarrow> bytes res"
    and de :: "bytes \<Rightarrow> 'a res"
    and layout :: "'a \<Rightarrow> bytes \<Rightarrow> bytes"
    and size :: nat
    and shape :: "'a \<Rightarrow> bool"
    and canon :: "'a \<Rightarrow> bool"
  assumes length_layout: "shape x \<Longrightarrow> size \<le> length buf \<Longrightarrow> length (layout x buf) = size"
    and ser_layout: "shape x \<Longrightarrow> size \<le> length buf \<Longrightarrow> ser x buf = Ok (layout x buf @ drop size buf)"
    and de_layout: "canon x \<Longrightarrow> size \<le> length buf \<Longrightarrow> de (layout x buf @ rest) = Ok x"
    and de_total: "size \<le> length buf \<Longrightarrow> \<exists>x. de buf = Ok x \<and> canon x"
    and de_short: "length buf < size \<Longrightarrow> de buf = Err BufferTooShort"
    and canon_shape: "canon x \<Longrightarrow> shape x"
begin

lemma de_no_panic: "de buf \<noteq> panic"
  using de_total [of buf] de_short [of buf] by (cases "size \<le> length buf") auto

lemma de_Ok_canon: "de buf = Inr x \<Longrightarrow> canon x"
  using de_total [of buf] de_short [of buf] by (cases "size \<le> length buf") auto

lemma de_Ok_size: "de buf = Inr x \<Longrightarrow> size \<le> length buf"
  using de_short [of buf] by (cases "size \<le> length buf") auto

lemma ser_exact: "shape x \<Longrightarrow> length buf = size \<Longrightarrow> ser x buf = Ok (layout x buf)"
  by (simp add: ser_layout)

end

section \<open>Sync, DelayReq and FollowUp\<close>

record sync_message =
  sy_origin_timestamp :: wire_timestamp

definition sync_serialize_content :: "sync_message \<Rightarrow> bytes \<Rightarrow> bytes res" where
  "sync_serialize_content m = sub 0 10 (wire_timestamp_serialize (sy_origin_timestamp m))"

definition sync_deserialize_content :: "bytes \<Rightarrow> sync_message res" where
  "sync_deserialize_content buffer =
     (case get_range 0 10 buffer of
        None \<Rightarrow> Err BufferTooShort
      | Some s \<Rightarrow> andthen (wire_timestamp_deserialize s) (\<lambda>t. Ok \<lparr>sy_origin_timestamp = t\<rparr>))"

record delay_req_message =
  dq_origin_timestamp :: wire_timestamp

definition delay_req_serialize_content :: "delay_req_message \<Rightarrow> bytes \<Rightarrow> bytes res" where
  "delay_req_serialize_content m = sub 0 10 (wire_timestamp_serialize (dq_origin_timestamp m))"

definition delay_req_deserialize_content :: "bytes \<Rightarrow> delay_req_message res" where
  "delay_req_deserialize_content buffer =
     andthen (ok_or (get_range 0 10 buffer) BufferTooShort) (\<lambda>s.
     andthen (wire_timestamp_deserialize s) (\<lambda>t.
     Ok \<lparr>dq_origin_timestamp = t\<rparr>))"

record follow_up_message =
  fu_precise_origin_timestamp :: wire_timestamp

definition follow_up_serialize_content :: "follow_up_message \<Rightarrow> bytes \<Rightarrow> bytes res" where
  "follow_up_serialize_content m =
     sub 0 10 (wire_timestamp_serialize (fu_precise_origin_timestamp m))"

definition follow_up_deserialize_content :: "bytes \<Rightarrow> follow_up_message res" where
  "follow_up_deserialize_content buffer =
     andthen (ok_or (get_range 0 10 buffer) BufferTooShort) (\<lambda>s.
     andthen (wire_timestamp_deserialize s) (\<lambda>t.
     Ok \<lparr>fu_precise_origin_timestamp = t\<rparr>))"

text \<open>Parsing a timestamp from the first ten bytes.\<close>

lemma timestamp_field:
  assumes "10 \<le> length buf"
  obtains t where "wire_timestamp_deserialize (take 10 buf) = Ok t" "canon_timestamp t"
  using wts.de_total [of "take 10 buf"] assms by auto

interpretation sync_c: message_content sync_serialize_content sync_deserialize_content
  "\<lambda>m _. wire_timestamp_enc (sy_origin_timestamp m)" 10 "\<lambda>_. True"
  "\<lambda>m. canon_timestamp (sy_origin_timestamp m)"
  by unfold_locales
    (auto simp: sync_serialize_content_def sync_deserialize_content_def wts.length_enc
      get_range_def wts.sub_ser wts.de_enc_exact elim: timestamp_field)

interpretation delay_req_c: message_content delay_req_serialize_content
  delay_req_deserialize_content "\<lambda>m _. wire_timestamp_enc (dq_origin_timestamp m)" 10 "\<lambda>_. True"
  "\<lambda>m. canon_timestamp (dq_origin_timestamp m)"
  by unfold_locales
    (auto simp: delay_req_serialize_content_def delay_req_deserialize_content_def wts.length_enc
      get_range_def wts.sub_ser wts.de_enc_exact elim: timestamp_field)

interpretation follow_up_c: message_content follow_up_serialize_content
  follow_up_deserialize_content "\<lambda>m _. wire_timestamp_enc (fu_precise_origin_timestamp m)" 10
  "\<lambda>_. True" "\<lambda>m. canon_timestamp (fu_precise_origin_timestamp m)"
  by unfold_locales
    (auto simp: follow_up_serialize_content_def follow_up_deserialize_content_def wts.length_enc
      get_range_def wts.sub_ser wts.de_enc_exact elim: timestamp_field)

section \<open>DelayResp, PDelayReq, PDelayResp and PDelayRespFollowUp\<close>

record delay_resp_message =
  dr_receive_timestamp :: wire_timestamp
  dr_requesting_port_identity :: port_identity

definition delay_resp_serialize_content :: "delay_resp_message \<Rightarrow> bytes \<Rightarrow> bytes res" where
  "delay_resp_serialize_content m = seqw
    [sub 0 10 (wire_timestamp_serialize (dr_receive_timestamp m)),
     sub 10 20 (port_identity_serialize (dr_requesting_port_identity m))]"

definition delay_resp_deserialize_content :: "bytes \<Rightarrow> delay_resp_message res" where
  "delay_resp_deserialize_content buffer =
     andthen (ok_or (get_range 0 20 buffer) BufferTooShort) (\<lambda>s.
     andthen (andthen (slice 0 10 s) wire_timestamp_deserialize) (\<lambda>t.
     andthen (andthen (slice 10 20 s) port_identity_deserialize) (\<lambda>p.
     Ok \<lparr>dr_receive_timestamp = t, dr_requesting_port_identity = p\<rparr>)))"

record pdelay_req_message =
  pq_origin_timestamp :: wire_timestamp

definition pdelay_req_serialize_content :: "pdelay_req_message \<Rightarrow> bytes \<Rightarrow> bytes res" where
  "pdelay_req_serialize_content m buffer =
     (if length buffer < 20 then Err BufferTooShort
      else seqw
        [sub 0 10 (wire_timestamp_serialize (pq_origin_timestamp m)),
         put 10 20 (replicate 10 0)] buffer)"

definition pdelay_req_deserialize_content :: "bytes \<Rightarrow> pdelay_req_message res" where
  "pdelay_req_deserialize_content buffer =
     andthen (ok_or (get_range 0 20 buffer) BufferTooShort) (\<lambda>s.
     andthen (wire_timestamp_deserialize s) (\<lambda>t.
     Ok \<lparr>pq_origin_timestamp = t\<rparr>))"

record pdelay_resp_message =
  pr_request_receive_timestamp :: wire_timestamp
  pr_requesting_port_identity :: port_identity

definition pdelay_resp_serialize_content :: "pdelay_resp_message \<Rightarrow> bytes \<Rightarrow> bytes res" where
  "pdelay_resp_serialize_content m buffer =
     (if length buffer < 20 then Err BufferTooShort
      else seqw
        [sub 0 10 (wire_timestamp_serialize (pr_request_receive_timestamp m)),
         sub 10 20 (port_identity_serialize (pr_requesting_port_identity m))] buffer)"

definition pdelay_resp_deserialize_content :: "bytes \<Rightarrow> pdelay_resp_message res" where
  "pdelay_resp_deserialize_content buffer =
     (if length buffer < 20 then Err BufferTooShort
      else
        andthen (andthen (slice 0 10 buffer) wire_timestamp_deserialize) (\<lambda>t.
        andthen (andthen (slice 10 20 buffer) port_identity_deserialize) (\<lambda>p.
        Ok \<lparr>pr_request_receive_timestamp = t, pr_requesting_port_identity = p\<rparr>)))"

record pdelay_resp_follow_up_message =
  pf_response_origin_timestamp :: wire_timestamp
  pf_requesting_port_identity :: port_identity

definition pdelay_resp_follow_up_serialize_content ::
  "pdelay_resp_follow_up_message \<Rightarrow> bytes \<Rightarrow> bytes res" where
  "pdelay_resp_follow_up_serialize_content m buffer =
     (if length buffer < 20 then Err BufferTooShort
      else seqw
        [sub 0 10 (wire_timestamp_serialize (pf_response_origin_timestamp m)),
         sub 10 20 (port_identity_serialize (pf_requesting_port_identity m))] buffer)"

definition pdelay_resp_follow_up_deserialize_content ::
  "bytes \<Rightarrow> pdelay_resp_follow_up_message res" where
  "pdelay_resp_follow_up_deserialize_content buffer =
     (if length buffer < 20 then Err BufferTooShort
      else
        andthen (andthen (slice 0 10 buffer) wire_timestamp_deserialize) (\<lambda>t.
        andthen (andthen (slice 10 20 buffer) port_identity_deserialize) (\<lambda>p.
        Ok \<lparr>pf_response_origin_timestamp = t, pf_requesting_port_identity = p\<rparr>)))"

text \<open>The two fields of these bodies: a timestamp and the identity of the requesting port.\<close>

lemma ts_pid_fields:
  assumes "20 \<le> length buf"
  obtains t p where "20 \<le> length buf"
    "wire_timestamp_deserialize (take 10 buf) = Ok t" "canon_timestamp t"
    "port_identity_deserialize (take 10 (drop 10 buf)) = Ok p" "wf_port_identity p"
  using wts.de_total [of "take 10 buf"] pid.de_total [of "take 10 (drop 10 buf)"] assms by auto

lemmas content_simps = wts.length_enc get_range_def slice_def wts.sub_ser wts.de_enc_exact
  pid.length_enc pid.de_enc_exact pid.sub_ser

interpretation delay_resp_c: message_content delay_resp_serialize_content
  delay_resp_deserialize_content
  "\<lambda>m _. wire_timestamp_enc (dr_receive_timestamp m) @ port_identity_enc (dr_requesting_port_identity m)"
  20 "\<lambda>m. wf_port_identity (dr_requesting_port_identity m)"
  "\<lambda>m. canon_timestamp (dr_receive_timestamp m) \<and> wf_port_identity (dr_requesting_port_identity m)"
proof unfold_locales
  fix buf :: bytes
  assume "20 \<le> length buf"
  then show "\<exists>x. delay_resp_deserialize_content buf = Ok x
      \<and> canon_timestamp (dr_receive_timestamp x) \<and> wf_port_identity (dr_requesting_port_identity x)"
    by (rule ts_pid_fields) (simp add: delay_resp_deserialize_content_def content_simps drop_take min.absorb2)
qed (auto simp: delay_resp_serialize_content_def delay_resp_deserialize_content_def content_simps)

interpretation pdelay_req_c: message_content pdelay_req_serialize_content
  pdelay_req_deserialize_content
  "\<lambda>m _. wire_timestamp_enc (pq_origin_timestamp m) @ replicate 10 0" 20 "\<lambda>_. True"
  "\<lambda>m. canon_timestamp (pq_origin_timestamp m)"
proof unfold_locales
  fix buf :: bytes
  assume "20 \<le> length buf"
  then show "\<exists>x. pdelay_req_deserialize_content buf = Ok x \<and> canon_timestamp (pq_origin_timestamp x)"
    using wts.de_total [of "take 20 buf"]
    by (force simp: pdelay_req_deserialize_content_def content_simps)
qed (auto simp: pdelay_req_serialize_content_def pdelay_req_deserialize_content_def content_simps
  wts.de_enc put_def)

interpretation pdelay_resp_c: message_content pdelay_resp_serialize_content
  pdelay_resp_deserialize_content
  "\<lambda>m _. wire_timestamp_enc (pr_request_receive_timestamp m)
     @ port_identity_enc (pr_requesting_port_identity m)"
  20 "\<lambda>m. wf_port_identity (pr_requesting_port_identity m)"
  "\<lambda>m. canon_timestamp (pr_request_receive_timestamp m)
     \<and> wf_port_identity (pr_requesting_port_identity m)"
proof unfold_locales
  fix buf :: bytes
  assume "20 \<le> length buf"
  then show "\<exists>x. pdelay_resp_deserialize_content buf = Ok x
      \<and> canon_timestamp (pr_request_receive_timestamp x)
      \<and> wf_port_identity (pr_requesting_port_identity x)"
    by (rule ts_pid_fields) (simp add: pdelay_resp_deserialize_content_def content_simps)
qed (auto simp: pdelay_resp_serialize_content_def pdelay_resp_deserialize_content_def content_simps)

interpretation pdelay_resp_follow_up_c: message_content pdelay_resp_follow_up_serialize_content
  pdelay_resp_follow_up_deserialize_content
  "\<lambda>m _. wire_timestamp_enc (pf_response_origin_timestamp m)
     @ port_identity_enc (pf_requesting_port_identity m)"
  20 "\<lambda>m. wf_port_identity (pf_requesting_port_identity m)"
  "\<lambda>m. canon_timestamp (pf_response_origin_timestamp m)
     \<and> wf_port_identity (pf_requesting_port_identity m)"
proof unfold_locales
  fix buf :: bytes
  assume "20 \<le> length buf"
  then show "\<exists>x. pdelay_resp_follow_up_deserialize_content buf = Ok x
      \<and> canon_timestamp (pf_response_origin_timestamp x)
      \<and> wf_port_identity (pf_requesting_port_identity x)"
    by (rule ts_pid_fields) (simp add: pdelay_resp_follow_up_deserialize_content_def content_simps)
qed (auto simp: pdelay_resp_follow_up_serialize_content_def
  pdelay_resp_follow_up_deserialize_content_def content_simps)

section \<open>Signaling and Management\<close>

record signaling_message =
  sg_target_port_identity :: port_identity

definition signaling_serialize_content :: "signaling_message \<Rightarrow> bytes \<Rightarrow> bytes res" where
  "signaling_serialize_content m buffer =
     (if length buffer < 10 then Err BufferTooShort
      else sub 0 10 (port_identity_serialize (sg_target_port_identity m)) buffer)"

definition signaling_deserialize_content :: "bytes \<Rightarrow> signaling_message res" where
  "signaling_deserialize_content buffer =
     andthen (ok_or (get_range 0 10 buffer) BufferTooShort) (\<lambda>s.
     andthen (port_identity_deserialize s) (\<lambda>p.
     Ok \<lparr>sg_target_port_identity = p\<rparr>))"

datatype management_action = MA_Reserved | MA_GET | MA_SET | MA_RESPONSE | MA_COMMAND | MA_ACKNOWLEDGE

fun management_action_to_primitive :: "management_action \<Rightarrow> u8" where
  "management_action_to_primitive MA_GET = 0x0"
| "management_action_to_primitive MA_SET = 0x1"
| "management_action_to_primitive MA_RESPONSE = 0x2"
| "management_action_to_primitive MA_COMMAND = 0x3"
| "management_action_to_primitive MA_ACKNOWLEDGE = 0x4"
| "management_action_to_primitive MA_Reserved = 0x5"

definition management_action_from_primitive :: "u8 \<Rightarrow> management_action" where
  "management_action_from_primitive value =
     (if value = 0x0 then MA_GET
      else if value = 0x1 then MA_SET
      else if value = 0x2 then MA_RESPONSE
      else if value = 0x3 then MA_COMMAND
      else if value = 0x4 then MA_ACKNOWLEDGE
      else MA_Reserved)"

record management_message =
  mg_target_port_identity :: port_identity
  mg_starting_boundary_hops :: u8
  mg_boundary_hops :: u8
  mg_action :: management_action

definition management_serialize_content :: "management_message \<Rightarrow> bytes \<Rightarrow> bytes res" where
  "management_serialize_content m = seqw
    [sub 0 10 (port_identity_serialize (mg_target_port_identity m)),
     put1 11 (mg_starting_boundary_hops m),
     put1 12 (mg_boundary_hops m),
     put1 13 (management_action_to_primitive (mg_action m))]"

definition management_deserialize_content :: "bytes \<Rightarrow> management_message res" where
  "management_deserialize_content buffer =
     (if length buffer < 14 then Err BufferTooShort
      else
        andthen (andthen (slice 0 10 buffer) port_identity_deserialize) (\<lambda>p.
        andthen (index 11 buffer) (\<lambda>sh.
        andthen (index 12 buffer) (\<lambda>bh.
        andthen (index 13 buffer) (\<lambda>a.
        Ok \<lparr>mg_target_port_identity = p, mg_starting_boundary_hops = sh, mg_boundary_hops = bh,
            mg_action = management_action_from_primitive a\<rparr>)))))"

definition management_layout :: "management_message \<Rightarrow> bytes \<Rightarrow> bytes" where
  "management_layout m buf = port_identity_enc (mg_target_port_identity m)
     @ [buf ! 10, mg_starting_boundary_hops m, mg_boundary_hops m,
        management_action_to_primitive (mg_action m)]"

lemma management_action_from_to: "management_action_from_primitive (management_action_to_primitive a) = a"
  by (cases a) (simp_all add: management_action_from_primitive_def)

interpretation signaling_c: message_content signaling_serialize_content
  signaling_deserialize_content "\<lambda>m _. port_identity_enc (sg_target_port_identity m)" 10
  "\<lambda>m. wf_port_identity (sg_target_port_identity m)"
  "\<lambda>m. wf_port_identity (sg_target_port_identity m)"
proof unfold_locales
  fix buf :: bytes
  assume "10 \<le> length buf"
  then show "\<exists>x. signaling_deserialize_content buf = Ok x
      \<and> wf_port_identity (sg_target_port_identity x)"
    using pid.de_total [of "take 10 buf"]
    by (force simp: signaling_deserialize_content_def content_simps)
qed (auto simp: signaling_serialize_content_def signaling_deserialize_content_def content_simps
  pid.sub_ser)

lemma take_one_drop: "i < length buf \<Longrightarrow> take (Suc 0) (drop i buf) = [buf ! i]"
  by (simp add: list_eq_iff_nth_eq)

interpretation management_c: message_content management_serialize_content
  management_deserialize_content management_layout 14
  "\<lambda>m. wf_port_identity (mg_target_port_identity m)"
  "\<lambda>m. wf_port_identity (mg_target_port_identity m)"
proof unfold_locales
  fix buf :: bytes and x :: management_message
  show "14 \<le> length buf \<Longrightarrow> \<exists>x. management_deserialize_content buf = Ok x
      \<and> wf_port_identity (mg_target_port_identity x)"
    using pid.de_total [of "take 10 buf"]
    by (force simp: management_deserialize_content_def content_simps index_def)
  assume "wf_port_identity (mg_target_port_identity x)" and "14 \<le> length buf"
  then show "management_serialize_content x buf = Ok (management_layout x buf @ drop 14 buf)"
    by (simp add: management_serialize_content_def management_layout_def content_simps pid.sub_ser
      put1_alt) (auto simp: drop_take take_one_drop)
qed (auto simp: management_deserialize_content_def content_simps management_layout_def
  pid.sub_ser index_def nth_append management_action_from_to)

section \<open>Announce\<close>

record announce_message =
  am_header :: header
  am_origin_timestamp :: wire_timestamp
  am_current_utc_offset :: i16
  am_grandmaster_priority_1 :: u8
  am_grandmaster_clock_quality :: clock_quality
  am_grandmaster_priority_2 :: u8
  am_grandmaster_identity :: clock_identity
  am_steps_removed :: u16
  am_time_source :: time_source

definition announce_serialize_content :: "announce_message \<Rightarrow> bytes \<Rightarrow> bytes res" where
  "announce_serialize_content m buffer =
     (if length buffer < 30 then Err BufferTooShort
      else seqw
        [sub 0 10 (wire_timestamp_serialize (am_origin_timestamp m)),
         put 10 12 (be_bytes 2 (am_current_utc_offset m)),
         put1 13 (am_grandmaster_priority_1 m),
         sub 14 18 (clock_quality_serialize (am_grandmaster_clock_quality m)),
         put1 18 (am_grandmaster_priority_2 m),
         sub 19 27 (clock_identity_serialize (am_grandmaster_identity m)),
         put 27 29 (be_bytes 2 (am_steps_removed m)),
         put1 29 (time_source_to_primitive (am_time_source m))] buffer)"

definition announce_deserialize_content :: "header \<Rightarrow> bytes \<Rightarrow> announce_message res" where
  "announce_deserialize_content header buffer =
     (if length buffer < 30 then Err BufferTooShort
      else
        andthen (andthen (slice 0 10 buffer) wire_timestamp_deserialize) (\<lambda>ts.
        andthen (slice 10 12 buffer) (\<lambda>off.
        andthen (index 13 buffer) (\<lambda>p1.
        andthen (andthen (slice 14 18 buffer) clock_quality_deserialize) (\<lambda>q.
        andthen (index 18 buffer) (\<lambda>p2.
        andthen (andthen (slice 19 27 buffer) clock_identity_deserialize) (\<lambda>gm.
        andthen (slice 27 29 buffer) (\<lambda>steps.
        andthen (index 29 buffer) (\<lambda>src.
        Ok \<lparr>am_header = header,
            am_origin_timestamp = ts,
            am_current_utc_offset = be_word off,
            am_grandmaster_priority_1 = p1,
            am_grandmaster_clock_quality = q,
            am_grandmaster_priority_2 = p2,
            am_grandmaster_identity = gm,
            am_steps_removed = be_word steps,
            am_time_source = time_source_from_primitive src\<rparr>)))))))))"

definition announce_layout :: "announce_message \<Rightarrow> bytes \<Rightarrow> bytes" where
  "announce_layout m buf = wire_timestamp_enc (am_origin_timestamp m)
     @ be_bytes 2 (am_current_utc_offset m)
     @ [buf ! 12, am_grandmaster_priority_1 m]
     @ clock_quality_enc (am_grandmaster_clock_quality m)
     @ [am_grandmaster_priority_2 m]
     @ am_grandmaster_identity m
     @ be_bytes 2 (am_steps_removed m)
     @ [time_source_to_primitive (am_time_source m)]"

definition canon_announce :: "announce_message \<Rightarrow> bool" where
  "canon_announce m \<longleftrightarrow> canon_timestamp (am_origin_timestamp m)
     \<and> canon_quality (am_grandmaster_clock_quality m) \<and> wf_clock_identity (am_grandmaster_identity m)
     \<and> canon_source (am_time_source m)"

definition time_properties :: "announce_message \<Rightarrow> time_properties_ds" where
  "time_properties m =
     (let leap = (if hd_leap59 (am_header m) then Leap59
                  else if hd_leap61 (am_header m) then Leap61
                  else NoLeap);
          current_utc_offset = (if hd_current_utc_offset_valid (am_header m)
                                then Some (am_current_utc_offset m) else None)
      in \<lparr>tp_current_utc_offset = current_utc_offset,
          tp_leap_indicator = leap,
          tp_time_traceable = hd_time_tracable (am_header m),
          tp_frequency_traceable = hd_frequency_tracable (am_header m),
          tp_ptp_timescale = hd_ptp_timescale (am_header m),
          tp_time_source = am_time_source m\<rparr>)"

lemma canon_source_from [simp]: "canon_source (time_source_from_primitive v)"
  by (simp add: canon_source_def time_source_to_from)

lemma wf_identity_length: "wf_clock_identity ci \<Longrightarrow> length ci = 8"
  by (simp add: wf_clock_identity_def)

interpretation announce_c: message_content announce_serialize_content
  "announce_deserialize_content h" announce_layout 30
  "\<lambda>m. wf_clock_identity (am_grandmaster_identity m)"
  "\<lambda>m. canon_announce m \<and> am_header m = h" for h
proof unfold_locales
  fix buf rest :: bytes and x :: announce_message
  assume b: "30 \<le> length buf"
  then obtain ts q gm where "wire_timestamp_deserialize (take 10 buf) = Ok ts" "canon_timestamp ts"
    "clock_quality_deserialize (take 4 (drop 14 buf)) = Ok q" "canon_quality q"
    "clock_identity_deserialize (take 8 (drop 19 buf)) = Ok gm" "wf_clock_identity gm"
    using wts.de_total [of "take 10 buf"] cq.de_total [of "take 4 (drop 14 buf)"]
      ci.de_total [of "take 8 (drop 19 buf)"] by auto
  with b show "\<exists>x. announce_deserialize_content h buf = Ok x \<and> canon_announce x \<and> am_header x = h"
    by (simp add: announce_deserialize_content_def content_simps index_def canon_announce_def)
  { assume "wf_clock_identity (am_grandmaster_identity x)"
    with b show "length (announce_layout x buf) = 30"
      by (simp add: announce_layout_def wts.length_enc cq.length_enc wf_identity_length
        del: be_bytes.simps)
    from \<open>wf_clock_identity (am_grandmaster_identity x)\<close> b
    show "announce_serialize_content x buf = Ok (announce_layout x buf @ drop 30 buf)"
      by (simp add: announce_serialize_content_def announce_layout_def wts.length_enc
        cq.length_enc wf_identity_length wts.sub_ser cq.sub_ser ci.sub_ser put_def put1_alt
        del: be_bytes.simps) (auto simp: drop_take take_one_drop) }
  { assume "canon_announce x \<and> am_header x = h"
    then show "announce_deserialize_content h (announce_layout x buf @ rest) = Ok x"
      by (simp add: announce_deserialize_content_def announce_layout_def slice_def index_def
        wts.length_enc cq.length_enc wf_identity_length canon_announce_def nth_append
        wts.de_enc_exact cq.de_enc_exact ci.de_enc_exact canon_source_def del: be_bytes.simps) }
qed (auto simp: announce_deserialize_content_def canon_announce_def)

section \<open>MessageBody and Message\<close>

datatype message_body =
    MB_Sync sync_message | MB_DelayReq delay_req_message | MB_PDelayReq pdelay_req_message
  | MB_PDelayResp pdelay_resp_message | MB_FollowUp follow_up_message
  | MB_DelayResp delay_resp_message | MB_PDelayRespFollowUp pdelay_resp_follow_up_message
  | MB_Announce announce_message | MB_Signaling signaling_message | MB_Management management_message

record message =
  ms_header :: header
  ms_body :: message_body
  ms_suffix :: tlv_set

fun body_wire_size :: "message_body \<Rightarrow> nat" where
  "body_wire_size (MB_Sync m) = 10"
| "body_wire_size (MB_DelayReq m) = 10"
| "body_wire_size (MB_PDelayReq m) = 20"
| "body_wire_size (MB_PDelayResp m) = 20"
| "body_wire_size (MB_FollowUp m) = 10"
| "body_wire_size (MB_DelayResp m) = 20"
| "body_wire_size (MB_PDelayRespFollowUp m) = 20"
| "body_wire_size (MB_Announce m) = 30"
| "body_wire_size (MB_Signaling m) = 10"
| "body_wire_size (MB_Management m) = 14"

fun content_type :: "message_body \<Rightarrow> message_type" where
  "content_type (MB_Sync m) = MT_Sync"
| "content_type (MB_DelayReq m) = MT_DelayReq"
| "content_type (MB_PDelayReq m) = MT_PDelayReq"
| "content_type (MB_PDelayResp m) = MT_PDelayResp"
| "content_type (MB_FollowUp m) = MT_FollowUp"
| "content_type (MB_DelayResp m) = MT_DelayResp"
| "content_type (MB_PDelayRespFollowUp m) = MT_PDelayRespFollowUp"
| "content_type (MB_Announce m) = MT_Announce"
| "content_type (MB_Signaling m) = MT_Signaling"
| "content_type (MB_Management m) = MT_Management"

fun body_serialize :: "message_body \<Rightarrow> bytes \<Rightarrow> bytes res" where
  "body_serialize (MB_Sync m) buffer = sync_serialize_content m buffer"
| "body_serialize (MB_DelayReq m) buffer = delay_req_serialize_content m buffer"
| "body_serialize (MB_PDelayReq m) buffer = pdelay_req_serialize_content m buffer"
| "body_serialize (MB_PDelayResp m) buffer = pdelay_resp_serialize_content m buffer"
| "body_serialize (MB_FollowUp m) buffer = follow_up_serialize_content m buffer"
| "body_serialize (MB_DelayResp m) buffer = delay_resp_serialize_content m buffer"
| "body_serialize (MB_PDelayRespFollowUp m) buffer = pdelay_resp_follow_up_serialize_content m buffer"
| "body_serialize (MB_Announce m) buffer = announce_serialize_content m buffer"
| "body_serialize (MB_Signaling m) buffer = signaling_serialize_content m buffer"
| "body_serialize (MB_Management m) buffer = management_serialize_content m buffer"

fun body_deserialize :: "message_type \<Rightarrow> header \<Rightarrow> bytes \<Rightarrow> message_body res" where
  "body_deserialize MT_Sync h buffer = andthen (sync_deserialize_content buffer) (\<lambda>m. Ok (MB_Sync m))"
| "body_deserialize MT_DelayReq h buffer =
     andthen (delay_req_deserialize_content buffer) (\<lambda>m. Ok (MB_DelayReq m))"
| "body_deserialize MT_PDelayReq h buffer =
     andthen (pdelay_req_deserialize_content buffer) (\<lambda>m. Ok (MB_PDelayReq m))"
| "body_deserialize MT_PDelayResp h buffer =
     andthen (pdelay_resp_deserialize_content buffer) (\<lambda>m. Ok (MB_PDelayResp m))"
| "body_deserialize MT_FollowUp h buffer =
     andthen (follow_up_deserialize_content buffer) (\<lambda>m. Ok (MB_FollowUp m))"
| "body_deserialize MT_DelayResp h buffer =
     andthen (delay_resp_deserialize_content buffer) (\<lambda>m. Ok (MB_DelayResp m))"
| "body_deserialize MT_PDelayRespFollowUp h buffer =
     andthen (pdelay_resp_follow_up_deserialize_content buffer) (\<lambda>m. Ok (MB_PDelayRespFollowUp m))"
| "body_deserialize MT_Announce h buffer =
     andthen (announce_deserialize_content h buffer) (\<lambda>m. Ok (MB_Announce m))"
| "body_deserialize MT_Signaling h buffer =
     andthen (signaling_deserialize_content buffer) (\<lambda>m. Ok (MB_Signaling m))"
| "body_deserialize MT_Management h buffer =
     andthen (management_deserialize_content buffer) (\<lambda>m. Ok (MB_Management m))"

definition message_wire_size :: "message \<Rightarrow> nat" where
  "message_wire_size m =
     header_wire_size + body_wire_size (ms_body m) + length (ms_suffix m)"

text \<open>The result is the written buffer and the number of bytes used. The two \<open>split_at_mut\<close> panic
  on a short buffer; the three parts are written into their sub-slices.\<close>

definition message_serialize :: "message \<Rightarrow> bytes \<Rightarrow> (bytes \<times> nat) res" where
  "message_serialize m buffer =
     (let size = body_wire_size (ms_body m) in
      andthen (slice 0 34 buffer) (\<lambda>hbuf.
      andthen (slice 34 (34 + size) buffer) (\<lambda>bbuf.
      andthen (slice (34 + size) (length buffer) buffer) (\<lambda>tbuf.
      andthen (unwrap (serialize_header (ms_header m) (content_type (ms_body m))
                 (size + length (ms_suffix m)) hbuf)) (\<lambda>hbuf'.
      andthen (unwrap (body_serialize (ms_body m) bbuf)) (\<lambda>bbuf'.
      andthen (unwrap (tlv_set_serialize (ms_suffix m) tbuf)) (\<lambda>(tbuf', _).
      Ok (hbuf' @ bbuf' @ tbuf', message_wire_size m))))))))"

definition message_deserialize :: "bytes \<Rightarrow> message res" where
  "message_deserialize buffer =
     andthen (deserialize_header buffer) (\<lambda>d.
     if dh_message_length d < 34 then Err Invalid
     else
       andthen (ok_or (get_range 34 (unat (dh_message_length d)) buffer) BufferTooShort) (\<lambda>content_buffer.
       andthen (body_deserialize (dh_message_type d) (dh_header d) content_buffer) (\<lambda>body.
       andthen (ok_or (get_from (body_wire_size body) content_buffer) BufferTooShort) (\<lambda>tlv_buffer.
       andthen (tlv_set_deserialize tlv_buffer) (\<lambda>suffix.
       Ok \<lparr>ms_header = dh_header d, ms_body = body, ms_suffix = suffix\<rparr>)))))"

definition is_compatible :: "bytes \<Rightarrow> bool" where
  "is_compatible buffer \<longleftrightarrow> 2 \<le> length buffer \<and> buffer ! 1 AND 0xf = 2"

section \<open>The layout of a message\<close>

fun body_layout :: "message_body \<Rightarrow> bytes \<Rightarrow> bytes" where
  "body_layout (MB_Sync m) buf = wire_timestamp_enc (sy_origin_timestamp m)"
| "body_layout (MB_DelayReq m) buf = wire_timestamp_enc (dq_origin_timestamp m)"
| "body_layout (MB_PDelayReq m) buf = wire_timestamp_enc (pq_origin_timestamp m) @ replicate 10 0"
| "body_layout (MB_PDelayResp m) buf = wire_timestamp_enc (pr_request_receive_timestamp m)
     @ port_identity_enc (pr_requesting_port_identity m)"
| "body_layout (MB_FollowUp m) buf = wire_timestamp_enc (fu_precise_origin_timestamp m)"
| "body_layout (MB_DelayResp m) buf = wire_timestamp_enc (dr_receive_timestamp m)
     @ port_identity_enc (dr_requesting_port_identity m)"
| "body_layout (MB_PDelayRespFollowUp m) buf = wire_timestamp_enc (pf_response_origin_timestamp m)
     @ port_identity_enc (pf_requesting_port_identity m)"
| "body_layout (MB_Announce m) buf = announce_layout m buf"
| "body_layout (MB_Signaling m) buf = port_identity_enc (sg_target_port_identity m)"
| "body_layout (MB_Management m) buf = management_layout m buf"

text \<open>What the types guarantee of a body, and the bodies that the wire format represents exactly;
  the header inside an announce body is the header of its message.\<close>

fun wf_body :: "message_body \<Rightarrow> bool" where
  "wf_body (MB_PDelayResp m) \<longleftrightarrow> wf_port_identity (pr_requesting_port_identity m)"
| "wf_body (MB_DelayResp m) \<longleftrightarrow> wf_port_identity (dr_requesting_port_identity m)"
| "wf_body (MB_PDelayRespFollowUp m) \<longleftrightarrow> wf_port_identity (pf_requesting_port_identity m)"
| "wf_body (MB_Announce m) \<longleftrightarrow> wf_clock_identity (am_grandmaster_identity m)"
| "wf_body (MB_Signaling m) \<longleftrightarrow> wf_port_identity (sg_target_port_identity m)"
| "wf_body (MB_Management m) \<longleftrightarrow> wf_port_identity (mg_target_port_identity m)"
| "wf_body _ \<longleftrightarrow> True"

fun canon_body :: "header \<Rightarrow> message_body \<Rightarrow> bool" where
  "canon_body h (MB_Sync m) \<longleftrightarrow> canon_timestamp (sy_origin_timestamp m)"
| "canon_body h (MB_DelayReq m) \<longleftrightarrow> canon_timestamp (dq_origin_timestamp m)"
| "canon_body h (MB_PDelayReq m) \<longleftrightarrow> canon_timestamp (pq_origin_timestamp m)"
| "canon_body h (MB_PDelayResp m) \<longleftrightarrow> canon_timestamp (pr_request_receive_timestamp m)
     \<and> wf_port_identity (pr_requesting_port_identity m)"
| "canon_body h (MB_FollowUp m) \<longleftrightarrow> canon_timestamp (fu_precise_origin_timestamp m)"
| "canon_body h (MB_DelayResp m) \<longleftrightarrow> canon_timestamp (dr_receive_timestamp m)
     \<and> wf_port_identity (dr_requesting_port_identity m)"
| "canon_body h (MB_PDelayRespFollowUp m) \<longleftrightarrow> canon_timestamp (pf_response_origin_timestamp m)
     \<and> wf_port_identity (pf_requesting_port_identity m)"
| "canon_body h (MB_Announce m) \<longleftrightarrow> canon_announce m \<and> am_header m = h"
| "canon_body h (MB_Signaling m) \<longleftrightarrow> wf_port_identity (sg_target_port_identity m)"
| "canon_body h (MB_Management m) \<longleftrightarrow> wf_port_identity (mg_target_port_identity m)"

definition wf_message :: "message \<Rightarrow> bool" where
  "wf_message m \<longleftrightarrow> wf_port_identity (hd_source_port_identity (ms_header m)) \<and> wf_body (ms_body m)"

definition canon_message :: "message \<Rightarrow> bool" where
  "canon_message m \<longleftrightarrow> canon_header (ms_header m) \<and> canon_body (ms_header m) (ms_body m)
     \<and> wf_tlv_set (ms_suffix m) \<and> message_wire_size m < 2 ^ 16"

lemma canon_body_wf: "canon_body h b \<Longrightarrow> wf_body b"
  by (cases b) (simp_all add: canon_announce_def)

lemma canon_message_wf: "canon_message m \<Longrightarrow> wf_message m"
  by (auto simp: canon_message_def wf_message_def canon_header_def intro: canon_body_wf)

lemma length_body_layout:
  "wf_body b \<Longrightarrow> length buf = body_wire_size b \<Longrightarrow> length (body_layout b buf) = body_wire_size b"
  by (cases b)
    (simp_all add: sync_c.length_layout delay_req_c.length_layout pdelay_req_c.length_layout
      pdelay_resp_c.length_layout follow_up_c.length_layout delay_resp_c.length_layout
      pdelay_resp_follow_up_c.length_layout announce_c.length_layout signaling_c.length_layout
      management_c.length_layout wts.length_enc pid.length_enc)

lemma body_serialize_layout:
  "wf_body b \<Longrightarrow> length buf = body_wire_size b \<Longrightarrow> body_serialize b buf = Ok (body_layout b buf)"
  by (cases b)
    (simp_all add: sync_c.ser_exact delay_req_c.ser_exact pdelay_req_c.ser_exact
      pdelay_resp_c.ser_exact follow_up_c.ser_exact delay_resp_c.ser_exact
      pdelay_resp_follow_up_c.ser_exact announce_c.ser_exact signaling_c.ser_exact
      management_c.ser_exact)

lemma body_deserialize_layout:
  "canon_body h b \<Longrightarrow> length buf = body_wire_size b \<Longrightarrow>
   body_deserialize (content_type b) h (body_layout b buf @ rest) = Ok b"
  using sync_c.de_layout [of _ buf rest] delay_req_c.de_layout [of _ buf rest]
    pdelay_req_c.de_layout [of _ buf rest] pdelay_resp_c.de_layout [of _ buf rest]
    follow_up_c.de_layout [of _ buf rest] delay_resp_c.de_layout [of _ buf rest]
    pdelay_resp_follow_up_c.de_layout [of _ buf rest] announce_c.de_layout [of _ h buf rest]
    signaling_c.de_layout [of _ buf rest] management_c.de_layout [of _ buf rest]
  by (cases b) simp_all

lemmas content_no_panic = sync_c.de_no_panic delay_req_c.de_no_panic pdelay_req_c.de_no_panic
  pdelay_resp_c.de_no_panic follow_up_c.de_no_panic delay_resp_c.de_no_panic
  pdelay_resp_follow_up_c.de_no_panic announce_c.de_no_panic signaling_c.de_no_panic
  management_c.de_no_panic

lemma body_deserialize_no_panic: "body_deserialize ty h buf \<noteq> panic"
  by (cases ty) (simp_all add: andthen_eq_Inl content_no_panic)

lemma body_deserialize_OkD:
  "body_deserialize ty h buf = Inr b \<Longrightarrow>
   canon_body h b \<and> body_wire_size b \<le> length buf \<and> content_type b = ty"
  by (cases ty)
    (auto dest: sync_c.de_Ok_canon delay_req_c.de_Ok_canon pdelay_req_c.de_Ok_canon
      pdelay_resp_c.de_Ok_canon follow_up_c.de_Ok_canon delay_resp_c.de_Ok_canon
      pdelay_resp_follow_up_c.de_Ok_canon announce_c.de_Ok_canon signaling_c.de_Ok_canon
      management_c.de_Ok_canon sync_c.de_Ok_size delay_req_c.de_Ok_size pdelay_req_c.de_Ok_size
      pdelay_resp_c.de_Ok_size follow_up_c.de_Ok_size delay_resp_c.de_Ok_size
      pdelay_resp_follow_up_c.de_Ok_size announce_c.de_Ok_size signaling_c.de_Ok_size
      management_c.de_Ok_size)

definition message_layout :: "message \<Rightarrow> bytes \<Rightarrow> bytes" where
  "message_layout m buf =
     header_enc (ms_header m) (content_type (ms_body m)) (word_of_nat (message_wire_size m))
     @ body_layout (ms_body m) (take (body_wire_size (ms_body m)) (drop 34 buf))
     @ ms_suffix m"

lemma message_serialize_layout:
  assumes "wf_message m" and "message_wire_size m \<le> length buf"
  shows "message_serialize m buf
    = Ok (message_layout m buf @ drop (message_wire_size m) buf, message_wire_size m)"
proof -
  let ?n = "body_wire_size (ms_body m)"
  have h: "wf_port_identity (hd_source_port_identity (ms_header m))" and b: "wf_body (ms_body m)"
    and s: "34 + ?n + length (ms_suffix m) \<le> length buf"
    using assms by (simp_all add: wf_message_def message_wire_size_def header_wire_size_def)
  have "serialize_header (ms_header m) (content_type (ms_body m)) (?n + length (ms_suffix m)) (take 34 buf)
    = Ok (header_enc (ms_header m) (content_type (ms_body m)) (word_of_nat (message_wire_size m)))"
    using serialize_header_enc [OF h, of "take 34 buf"] s
    by (simp add: message_wire_size_def header_wire_size_def algebra_simps)
  moreover have "body_serialize (ms_body m) (take ?n (drop 34 buf))
      = Ok (body_layout (ms_body m) (take ?n (drop 34 buf)))"
    using b s by (intro body_serialize_layout) simp_all
  ultimately show ?thesis
    using s by (simp add: message_serialize_def Let_def slice_def tlv_set_serialize_def
      message_layout_def message_wire_size_def header_wire_size_def algebra_simps)
qed

lemma message_serialize_short:
  assumes "wf_message m" and "length buf < message_wire_size m"
  shows "message_serialize m buf = panic"
proof (cases "34 + body_wire_size (ms_body m) \<le> length buf")
  case True
  have "body_serialize (ms_body m) (take (body_wire_size (ms_body m)) (drop 34 buf))
      = Ok (body_layout (ms_body m) (take (body_wire_size (ms_body m)) (drop 34 buf)))"
    using True assms by (intro body_serialize_layout) (simp_all add: wf_message_def)
  with True assms show ?thesis
    using serialize_header_enc [of "ms_header m" "take 34 buf"]
    by (simp add: message_serialize_def Let_def slice_def tlv_set_serialize_def
      message_wire_size_def header_wire_size_def wf_message_def)
next
  case False
  then show ?thesis by (auto simp: message_serialize_def Let_def slice_def)
qed

lemma length_message_layout:
  assumes "wf_message m" and "message_wire_size m \<le> length buf"
  shows "length (message_layout m buf) = message_wire_size m"
  using assms length_body_layout [of "ms_body m" "take (body_wire_size (ms_body m)) (drop 34 buf)"]
  by (simp add: message_layout_def wf_message_def length_header_enc message_wire_size_def
    header_wire_size_def)

lemma message_deserialize_layout:
  assumes "canon_message m" and "message_wire_size m \<le> length buf"
  shows "message_deserialize (message_layout m buf @ rest) = Ok m"
proof -
  let ?n = "body_wire_size (ms_body m)"
  let ?lay = "body_layout (ms_body m) (take ?n (drop 34 buf))"
  let ?h = "header_enc (ms_header m) (content_type (ms_body m)) (word_of_nat (message_wire_size m))"
  have wf: "wf_message m" using assms(1) by (rule canon_message_wf)
  have lh: "length ?h = 34" using wf by (simp add: wf_message_def length_header_enc)
  have len: "unat (word_of_nat (message_wire_size m) :: u16) = message_wire_size m"
    using assms(1) by (simp add: canon_message_def unat_length_field)
  have lb: "length ?lay = ?n"
    using wf assms(2) by (intro length_body_layout)
      (simp_all add: wf_message_def message_wire_size_def header_wire_size_def)
  have "body_deserialize (content_type (ms_body m)) (ms_header m) (?lay @ ms_suffix m) = Ok (ms_body m)"
    using assms by (intro body_deserialize_layout)
      (simp_all add: canon_message_def message_wire_size_def header_wire_size_def)
  moreover have "\<not> word_of_nat (message_wire_size m) < (34 :: u16)"
    using len by (simp add: word_less_nat_alt message_wire_size_def header_wire_size_def)
  moreover have "get_range 34 (message_wire_size m) (message_layout m buf @ rest)
      = Some (?lay @ ms_suffix m)"
    using lh lb by (simp add: get_range_def message_layout_def message_wire_size_def header_wire_size_def)
  moreover have "deserialize_header (message_layout m buf @ rest)
      = Ok \<lparr>dh_header = ms_header m, dh_message_type = content_type (ms_body m),
             dh_message_length = word_of_nat (message_wire_size m)\<rparr>"
    using assms(1) by (simp add: message_layout_def deserialize_header_enc canon_message_def)
  ultimately show ?thesis
    using assms(1) lb by (simp add: message_deserialize_def len get_from_def canon_message_def)
qed

lemma message_deserialize_not_panic: "message_deserialize buffer \<noteq> panic"
  by (auto simp: message_deserialize_def andthen_eq_Inl deserialize_header_no_panic ok_or_def
    body_deserialize_no_panic tlv_set_deserialize_no_panic split: if_splits option.splits)

lemma message_deserialize_OkD:
  assumes "message_deserialize buffer = Inr m"
  shows "canon_message m" and "message_wire_size m \<le> length buffer"
proof -
  from assms obtain d content where d: "deserialize_header buffer = Ok d"
    and l: "\<not> dh_message_length d < 34"
    and c: "get_range 34 (unat (dh_message_length d)) buffer = Some content"
    and b: "body_deserialize (dh_message_type d) (dh_header d) content = Ok (ms_body m)"
    and h: "ms_header m = dh_header d"
    and s: "get_from (body_wire_size (ms_body m)) content = Some (ms_suffix m)" "wf_tlv_set (ms_suffix m)"
    by (auto simp: message_deserialize_def split: if_splits)
  have body: "canon_body (ms_header m) (ms_body m)" "body_wire_size (ms_body m) \<le> length content"
    using body_deserialize_OkD [OF b] h by simp_all
  have "34 \<le> unat (dh_message_length d)" using l by (simp add: word_less_nat_alt)
  moreover have "length content = unat (dh_message_length d) - 34"
      and le: "unat (dh_message_length d) \<le> length buffer"
    using c by (auto simp: get_range_def split: if_splits)
  moreover have "length (ms_suffix m) = length content - body_wire_size (ms_body m)"
    using s(1) by (metis get_from_def length_drop option.distinct(1) option.inject)
  ultimately have w: "message_wire_size m = unat (dh_message_length d)"
    using body(2) by (simp add: message_wire_size_def header_wire_size_def)
  with le show "message_wire_size m \<le> length buffer" by simp
  have "message_wire_size m < 2 ^ 16"
    using unsigned_less [of "dh_message_length d"] w by simp
  then show "canon_message m"
    using body s deserialize_header_OkD(2) [OF d] h by (simp add: canon_message_def)
qed

section \<open>The messages that ports send\<close>

definition base_header :: "default_ds \<Rightarrow> port_identity \<Rightarrow> u16 \<Rightarrow> u8 \<Rightarrow> header" where
  "base_header d port_identity sequence_id minor_ptp_version =
     (header_new minor_ptp_version)\<lparr>
       hd_sdo_id := dd_sdo_id d,
       hd_domain_number := dd_domain_number d,
       hd_source_port_identity := port_identity,
       hd_sequence_id := sequence_id\<rparr>"

definition msg_sync :: "default_ds \<Rightarrow> port_identity \<Rightarrow> u16 \<Rightarrow> u8 \<Rightarrow> message" where
  "msg_sync d port_identity sequence_id minor_ptp_version = \<lparr>
     ms_header = (base_header d port_identity sequence_id minor_ptp_version)\<lparr>hd_two_step_flag := True\<rparr>,
     ms_body = MB_Sync \<lparr>sy_origin_timestamp = wire_timestamp_default\<rparr>,
     ms_suffix = []\<rparr>"

definition msg_follow_up ::
  "'f numlib \<Rightarrow> default_ds \<Rightarrow> port_identity \<Rightarrow> u16 \<Rightarrow> time \<Rightarrow> u8 \<Rightarrow> message" where
  "msg_follow_up lib d port_identity sequence_id timestamp minor_ptp_version = \<lparr>
     ms_header = (base_header d port_identity sequence_id minor_ptp_version)
       \<lparr>hd_correction_field := time_subnano lib timestamp\<rparr>,
     ms_body = MB_FollowUp
       \<lparr>fu_precise_origin_timestamp = wire_timestamp_from_time lib timestamp\<rparr>,
     ms_suffix = []\<rparr>"

definition msg_announce :: "ptp_instance_state \<Rightarrow> port_identity \<Rightarrow> u16 \<Rightarrow> u8 \<Rightarrow> message" where
  "msg_announce global port_identity sequence_id minor_ptp_version =
     (let tp = is_time_properties_ds global;
          header = (base_header (is_default_ds global) port_identity sequence_id minor_ptp_version)\<lparr>
            hd_leap59 := (tp_leap_indicator tp = Leap59),
            hd_leap61 := (tp_leap_indicator tp = Leap61),
            hd_current_utc_offset_valid := (tp_current_utc_offset tp \<noteq> None),
            hd_ptp_timescale := tp_ptp_timescale tp,
            hd_time_tracable := tp_time_traceable tp,
            hd_frequency_tracable := tp_frequency_traceable tp\<rparr>
      in \<lparr>ms_header = header,
          ms_body = MB_Announce \<lparr>
            am_header = header,
            am_origin_timestamp = wire_timestamp_default,
            am_current_utc_offset = (case tp_current_utc_offset tp of None \<Rightarrow> 0 | Some off \<Rightarrow> off),
            am_grandmaster_priority_1 = pd_grandmaster_priority_1 (is_parent_ds global),
            am_grandmaster_clock_quality = pd_grandmaster_clock_quality (is_parent_ds global),
            am_grandmaster_priority_2 = pd_grandmaster_priority_2 (is_parent_ds global),
            am_grandmaster_identity = pd_grandmaster_identity (is_parent_ds global),
            am_steps_removed = cd_steps_removed (is_current_ds global),
            am_time_source = tp_time_source tp\<rparr>,
          ms_suffix = []\<rparr>)"

definition msg_delay_req :: "default_ds \<Rightarrow> port_identity \<Rightarrow> u16 \<Rightarrow> u8 \<Rightarrow> message" where
  "msg_delay_req d port_identity sequence_id minor_ptp_version = \<lparr>
     ms_header = (base_header d port_identity sequence_id minor_ptp_version)
       \<lparr>hd_log_message_interval := 0x7f\<rparr>,
     ms_body = MB_DelayReq \<lparr>dq_origin_timestamp = wire_timestamp_default\<rparr>,
     ms_suffix = []\<rparr>"

definition msg_delay_resp ::
  "'f numlib \<Rightarrow> header \<Rightarrow> delay_req_message \<Rightarrow> port_identity \<Rightarrow> interval \<Rightarrow> time \<Rightarrow> message" where
  "msg_delay_resp lib request_header request port_identity min_interval timestamp = \<lparr>
     ms_header = request_header\<lparr>
       hd_two_step_flag := False,
       hd_source_port_identity := port_identity,
       hd_correction_field := word_of_int (fx_fit lib I48F16
         (sint (hd_correction_field request_header) + sint (time_subnano lib timestamp))),
       hd_log_message_interval := min_interval\<rparr>,
     ms_body = MB_DelayResp \<lparr>
       dr_receive_timestamp = wire_timestamp_from_time lib timestamp,
       dr_requesting_port_identity = hd_source_port_identity request_header\<rparr>,
     ms_suffix = []\<rparr>"

definition msg_pdelay_req :: "default_ds \<Rightarrow> port_identity \<Rightarrow> u16 \<Rightarrow> u8 \<Rightarrow> message" where
  "msg_pdelay_req d port_identity sequence_id minor_ptp_version = \<lparr>
     ms_header = base_header d port_identity sequence_id minor_ptp_version,
     ms_body = MB_PDelayReq \<lparr>pq_origin_timestamp = wire_timestamp_default\<rparr>,
     ms_suffix = []\<rparr>"

definition msg_pdelay_resp ::
  "'f numlib \<Rightarrow> default_ds \<Rightarrow> port_identity \<Rightarrow> header \<Rightarrow> time \<Rightarrow> u8 \<Rightarrow> message" where
  "msg_pdelay_resp lib d port_identity request_header timestamp minor_ptp_version = \<lparr>
     ms_header = (base_header d port_identity (hd_sequence_id request_header) minor_ptp_version)\<lparr>
       hd_two_step_flag := True,
       hd_correction_field := hd_correction_field request_header\<rparr>,
     ms_body = MB_PDelayResp \<lparr>
       pr_request_receive_timestamp = wire_timestamp_from_time lib timestamp,
       pr_requesting_port_identity = hd_source_port_identity request_header\<rparr>,
     ms_suffix = []\<rparr>"

definition msg_pdelay_resp_follow_up ::
  "'f numlib \<Rightarrow> default_ds \<Rightarrow> port_identity \<Rightarrow> port_identity \<Rightarrow> u16 \<Rightarrow> time \<Rightarrow> u8 \<Rightarrow> message" where
  "msg_pdelay_resp_follow_up lib d port_identity requestor_identity sequence_id timestamp
     minor_ptp_version = \<lparr>
     ms_header = base_header d port_identity sequence_id minor_ptp_version,
     ms_body = MB_PDelayRespFollowUp \<lparr>
       pf_response_origin_timestamp = wire_timestamp_from_time lib timestamp,
       pf_requesting_port_identity = requestor_identity\<rparr>,
     ms_suffix = []\<rparr>"

lemma base_header_simps [simp]:
  "hd_source_port_identity (base_header d p s v) = p"
  "hd_sequence_id (base_header d p s v) = s"
  "hd_sdo_id (base_header d p s v) = dd_sdo_id d"
  "hd_domain_number (base_header d p s v) = dd_domain_number d"
  "hd_version (base_header d p s v) = \<lparr>pv_major = 2, pv_minor = v\<rparr>"
  by (simp_all add: base_header_def header_new_def)

lemma wf_sent_messages [wf_intros]:
  "wf_port_identity p \<Longrightarrow> wf_message (msg_sync d p s v)"
  "wf_port_identity p \<Longrightarrow> wf_message (msg_follow_up lib d p s t v)"
  "wf_port_identity p \<Longrightarrow> wf_message (msg_delay_req d p s v)"
  "wf_port_identity p \<Longrightarrow> wf_message (msg_pdelay_req d p s v)"
  "wf_port_identity p \<Longrightarrow> wf_port_identity (hd_source_port_identity h) \<Longrightarrow>
    wf_message (msg_delay_resp lib h r p i t)"
  "wf_port_identity p \<Longrightarrow> wf_port_identity (hd_source_port_identity h) \<Longrightarrow>
    wf_message (msg_pdelay_resp lib d p h t v)"
  "wf_port_identity p \<Longrightarrow> wf_port_identity q \<Longrightarrow>
    wf_message (msg_pdelay_resp_follow_up lib d p q s t v)"
  "wf_port_identity p \<Longrightarrow> wf_parent_ds (is_parent_ds g) \<Longrightarrow> wf_message (msg_announce g p s v)"
  by (simp_all add: wf_message_def msg_sync_def msg_follow_up_def msg_delay_req_def
    msg_pdelay_req_def msg_delay_resp_def msg_pdelay_resp_def msg_pdelay_resp_follow_up_def
    msg_announce_def Let_def wf_parent_ds_def)

lemma sent_message_sizes [simp]:
  "message_wire_size (msg_sync d p s v) = 44"
  "message_wire_size (msg_follow_up lib d p s t v) = 44"
  "message_wire_size (msg_delay_req d p s v) = 44"
  "message_wire_size (msg_pdelay_req d p s v) = 54"
  "message_wire_size (msg_delay_resp lib h r p i t) = 54"
  "message_wire_size (msg_pdelay_resp lib d p h t v) = 54"
  "message_wire_size (msg_pdelay_resp_follow_up lib d p q s t v) = 54"
  "message_wire_size (msg_announce g p s v) = 64"
  by (simp_all add: message_wire_size_def header_wire_size_def msg_sync_def msg_follow_up_def
    msg_delay_req_def msg_pdelay_req_def msg_delay_resp_def msg_pdelay_resp_def
    msg_pdelay_resp_follow_up_def msg_announce_def Let_def)

section \<open>Properties\<close>

text \<open>C18: parsing never panics: whatever bytes arrive, \<open>Message::deserialize\<close> returns a message or an
  error; when it returns a message, the message is canonical, fits the input, and its TLVs can be
  iterated without a panic.\<close>

theorem message_parse_safe:
  "message_deserialize buffer \<noteq> panic
   \<and> (\<forall>m. message_deserialize buffer = Ok m \<longrightarrow>
        canon_message m \<and> message_wire_size m \<le> length buffer
        \<and> (\<exists>ts. tlvs (ms_suffix m) = Ok ts \<and> tlvs_enc ts = ms_suffix m))"
  using message_deserialize_not_panic [of buffer] message_deserialize_OkD [of buffer] tlvs_wf
  by (fastforce simp: canon_message_def)

theorem message_parse_safe_witness:
  "message_deserialize [] \<noteq> panic \<and> message_deserialize [] = Err BufferTooShort"
  using message_parse_safe [of "[]"] by (simp add: message_deserialize_def deserialize_header_def)

text \<open>C19: serializing a canonical message into a buffer that is large enough and parsing the result
  gives the message back, also when other bytes follow; the rest of the buffer is not touched.\<close>

theorem message_roundtrip:
  assumes "canon_message m" and "message_wire_size m \<le> length buf"
  shows "\<exists>buf'. message_serialize m buf = Ok (buf', message_wire_size m) \<and> length buf' = length buf
    \<and> drop (message_wire_size m) buf' = drop (message_wire_size m) buf
    \<and> (\<forall>rest. message_deserialize (take (message_wire_size m) buf' @ rest) = Ok m)"
  using message_serialize_layout [OF canon_message_wf [OF assms(1)] assms(2)]
    length_message_layout [OF canon_message_wf [OF assms(1)] assms(2)]
    message_deserialize_layout [OF assms] assms(2)
  by simp

definition example_sync :: message where
  "example_sync = \<lparr>ms_header = (header_new 1)\<lparr>hd_sequence_id := 7, hd_two_step_flag := True\<rparr>,
     ms_body = MB_Sync \<lparr>sy_origin_timestamp = \<lparr>wt_seconds = 1169232218, wt_nanos = 175326816\<rparr>\<rparr>,
     ms_suffix = []\<rparr>"

lemma canon_example_sync: "canon_message example_sync" "message_wire_size example_sync = 44"
  by (simp_all add: canon_message_def example_sync_def message_wire_size_def header_wire_size_def
    canon_header_def header_new_def canon_timestamp_def port_identity_default_def
    wf_port_identity_def wf_clock_identity_def clock_identity_default_def)

theorem message_roundtrip_witness:
  "\<exists>buf'. message_serialize example_sync (replicate 64 0) = Ok (buf', 44)
    \<and> message_deserialize (take 44 buf') = Ok example_sync"
proof -
  obtain buf' where "message_serialize example_sync (replicate 64 0) = Ok (buf', 44)"
      and "\<forall>rest. message_deserialize (take 44 buf' @ rest) = Ok example_sync"
    using message_roundtrip [OF canon_example_sync(1), of "replicate 64 0"] canon_example_sync(2)
    by auto
  then show ?thesis by (metis append_Nil2)
qed

text \<open>A message that was parsed can be serialized again, into any buffer at least as long as the
  input, without an error or a panic; it takes no more bytes than the input, and parsing it again
  gives the same message (the fuzz target of the crate).\<close>

theorem message_reserialize:
  assumes "message_deserialize input = Ok m" and "length input \<le> length buf"
  shows "\<exists>buf' n. message_serialize m buf = Ok (buf', n) \<and> n \<le> length input
    \<and> message_deserialize (take n buf') = Ok m"
proof -
  have c: "canon_message m" "message_wire_size m \<le> length input"
    using message_deserialize_OkD assms(1) by blast+
  then have w: "wf_message m" "message_wire_size m \<le> length buf"
    using assms(2) canon_message_wf by simp_all
  then show ?thesis
    using c message_serialize_layout [OF w] length_message_layout [OF w]
      message_deserialize_layout [OF c(1) w(2), of "[]"]
    by simp
qed

theorem message_reserialize_witness:
  "\<exists>buf' n. message_serialize example_sync (replicate 1024 0) = Ok (buf', n) \<and> n \<le> 44
    \<and> message_deserialize (take n buf') = Ok example_sync"
proof -
  let ?input = "message_layout example_sync (replicate 44 0)"
  have "length ?input = 44"
    using length_message_layout [OF canon_message_wf [OF canon_example_sync(1)], of "replicate 44 0"]
      canon_example_sync(2) by simp
  moreover have "message_deserialize ?input = Ok example_sync"
    using message_deserialize_layout [OF canon_example_sync(1), of "replicate 44 0" "[]"]
      canon_example_sync(2) by simp
  ultimately show ?thesis
    using message_reserialize [of ?input example_sync "replicate 1024 0"] by simp
qed

text \<open>\<open>Message::serialize\<close> never returns an error: it succeeds when the buffer has room for
  the message, and panics otherwise, although its documentation promises an error.\<close>

theorem message_serialize_outcome:
  assumes "wf_message m"
  shows "(message_serialize m buf = panic \<longleftrightarrow> length buf < message_wire_size m)
    \<and> (\<forall>e. message_serialize m buf \<noteq> Err e)"
  using message_serialize_layout [OF assms, of buf] message_serialize_short [OF assms, of buf]
  by (cases "message_wire_size m \<le> length buf") auto

theorem message_serialize_outcome_witness:
  "message_serialize example_sync (replicate 43 0) = panic"
  using message_serialize_outcome [OF canon_message_wf [OF canon_example_sync(1)], of "replicate 43 0"]
    canon_example_sync(2) by simp

end
