(* ===== verification/DatasetComparison.thy ===== *)
theory DatasetComparison
  imports Messages "HOL-Library.Product_Lexorder"
begin

text \<open>
  \<open>statime/src/bmc/dataset_comparison.rs\<close>: the data set comparison algorithm of IEEE 1588
  (figures 34 and 35). The lemmas show that the \<open>unreachable!\<close> arm is unreachable, that swapping
  the operands mirrors the result, and that on data sets that agree about their grandmasters the
  algorithm is a lexicographic comparison, so it is a total preorder there.
\<close>

record comparison_dataset =
  ds_gm_priority_1 :: u8
  ds_gm_identity :: clock_identity
  ds_gm_clock_quality :: clock_quality
  ds_gm_priority_2 :: u8
  ds_steps_removed :: u16
  ds_identity_of_senders :: clock_identity
  ds_identity_of_receiver :: port_identity

datatype dataset_ordering = Better | BetterByTopology | Error1 | Error2 | WorseByTopology | Worse

fun as_ordering :: "dataset_ordering \<Rightarrow> ordering" where
  "as_ordering Better = Greater"
| "as_ordering BetterByTopology = Greater"
| "as_ordering Error1 = Equal"
| "as_ordering Error2 = Equal"
| "as_ordering WorseByTopology = Less"
| "as_ordering Worse = Less"

definition from_announce_message :: "announce_message \<Rightarrow> port_identity \<Rightarrow> comparison_dataset" where
  "from_announce_message message port_receiver_identity = \<lparr>
     ds_gm_priority_1 = am_grandmaster_priority_1 message,
     ds_gm_identity = am_grandmaster_identity message,
     ds_gm_clock_quality = am_grandmaster_clock_quality message,
     ds_gm_priority_2 = am_grandmaster_priority_2 message,
     ds_steps_removed = am_steps_removed message,
     ds_identity_of_senders =
       pi_clock_identity (hd_source_port_identity (am_header message)),
     ds_identity_of_receiver = port_receiver_identity\<rparr>"

definition from_own_data :: "default_ds \<Rightarrow> comparison_dataset" where
  "from_own_data data = \<lparr>
     ds_gm_priority_1 = dd_priority_1 data,
     ds_gm_identity = dd_clock_identity data,
     ds_gm_clock_quality = dd_clock_quality data,
     ds_gm_priority_2 = dd_priority_2 data,
     ds_steps_removed = 0,
     ds_identity_of_senders = dd_clock_identity data,
     ds_identity_of_receiver = \<lparr>pi_clock_identity = dd_clock_identity data, pi_port_number = 0\<rparr>\<rparr>"

definition quality_ordering :: "comparison_dataset \<Rightarrow> comparison_dataset \<Rightarrow> ordering" where
  "quality_ordering a b =
     (let qa = ds_gm_clock_quality a; qb = ds_gm_clock_quality b in
      then_cmp (then_cmp (then_cmp (then_cmp (then_cmp
        (cmp (ds_gm_priority_1 a) (ds_gm_priority_1 b))
        (cmp (cq_clock_class qa) (cq_clock_class qb)))
        (clock_accuracy_cmp_numeric (cq_clock_accuracy qa) (cq_clock_accuracy qb)))
        (cmp (cq_offset_scaled_log_variance qa) (cq_offset_scaled_log_variance qb)))
        (cmp (ds_gm_priority_2 a) (ds_gm_priority_2 b)))
        (cmp (ds_gm_identity a) (ds_gm_identity b)))"

definition compare_different_identity ::
  "comparison_dataset \<Rightarrow> comparison_dataset \<Rightarrow> dataset_ordering res" where
  "compare_different_identity a b =
     (case quality_ordering a b of
        Equal \<Rightarrow> panic
      | Greater \<Rightarrow> Ok Worse
      | Less \<Rightarrow> Ok Better)"

text \<open>The difference is an \<open>i32\<close> of two values below \<open>2 ^ 16\<close>, so it cannot overflow.\<close>

definition compare_same_identity ::
  "comparison_dataset \<Rightarrow> comparison_dataset \<Rightarrow> dataset_ordering" where
  "compare_same_identity a b =
     (let diff = uint (ds_steps_removed a) - uint (ds_steps_removed b) in
      if 2 \<le> diff then Worse
      else if diff \<le> - 2 then Better
      else if diff = 1 then
        (case cmp (pi_clock_identity (ds_identity_of_receiver a)) (ds_identity_of_senders a) of
           Less \<Rightarrow> Worse | Equal \<Rightarrow> Error1 | Greater \<Rightarrow> WorseByTopology)
      else if diff = - 1 then
        (case cmp (pi_clock_identity (ds_identity_of_receiver b)) (ds_identity_of_senders b) of
           Less \<Rightarrow> Better | Equal \<Rightarrow> Error1 | Greater \<Rightarrow> BetterByTopology)
      else
        (case then_cmp (cmp (ds_identity_of_senders a) (ds_identity_of_senders b))
                (cmp (pi_port_number (ds_identity_of_receiver a))
                     (pi_port_number (ds_identity_of_receiver b))) of
           Less \<Rightarrow> BetterByTopology | Equal \<Rightarrow> Error2 | Greater \<Rightarrow> WorseByTopology))"

definition compare :: "comparison_dataset \<Rightarrow> comparison_dataset \<Rightarrow> dataset_ordering res" where
  "compare a b =
     (if ds_gm_identity a = ds_gm_identity b then Ok (compare_same_identity a b)
      else compare_different_identity a b)"

section \<open>The comparison always returns, and is antisymmetric\<close>

text \<open>The result without the \<open>unreachable!\<close> arm.\<close>

definition ds_compare :: "comparison_dataset \<Rightarrow> comparison_dataset \<Rightarrow> dataset_ordering" where
  "ds_compare a b =
     (if ds_gm_identity a = ds_gm_identity b then compare_same_identity a b
      else if quality_ordering a b = Less then Better else Worse)"

lemma quality_ordering_Equal: "quality_ordering a b = Equal \<Longrightarrow> ds_gm_identity a = ds_gm_identity b"
  by (simp add: quality_ordering_def Let_def then_cmp_eq_iff)

lemma compare_Ok [simp]: "compare a b = Ok (ds_compare a b)"
  using quality_ordering_Equal [of a b]
  by (cases "quality_ordering a b") (auto simp: compare_def compare_different_identity_def ds_compare_def)

fun mirror :: "dataset_ordering \<Rightarrow> dataset_ordering" where
  "mirror Better = Worse"
| "mirror BetterByTopology = WorseByTopology"
| "mirror Error1 = Error1"
| "mirror Error2 = Error2"
| "mirror WorseByTopology = BetterByTopology"
| "mirror Worse = Better"

lemma as_ordering_mirror: "as_ordering (mirror x) = reverse_ordering (as_ordering x)"
  by (cases x) simp_all

lemma quality_ordering_swap: "quality_ordering b a = reverse_ordering (quality_ordering a b)"
  by (simp add: quality_ordering_def Let_def clock_accuracy_cmp_numeric_def then_cmp_reverse
    flip: cmp_swap)

text \<open>The five rows of figure 35.\<close>

lemma steps_cases:
  fixes d :: int
  obtains "2 \<le> d" | "d \<le> - 2" | "d = 1" | "d = - 1" | "d = 0"
  by linarith

lemma compare_same_identity_rows:
  fixes a b
  defines "diff \<equiv> uint (ds_steps_removed a) - uint (ds_steps_removed b)"
  shows "2 \<le> diff \<Longrightarrow> compare_same_identity a b = Worse"
    and "diff \<le> - 2 \<Longrightarrow> compare_same_identity a b = Better"
    and "diff = 1 \<Longrightarrow> compare_same_identity a b =
      (case cmp (pi_clock_identity (ds_identity_of_receiver a)) (ds_identity_of_senders a) of
         Less \<Rightarrow> Worse | Equal \<Rightarrow> Error1 | Greater \<Rightarrow> WorseByTopology)"
    and "diff = - 1 \<Longrightarrow> compare_same_identity a b =
      (case cmp (pi_clock_identity (ds_identity_of_receiver b)) (ds_identity_of_senders b) of
         Less \<Rightarrow> Better | Equal \<Rightarrow> Error1 | Greater \<Rightarrow> BetterByTopology)"
    and "diff = 0 \<Longrightarrow> compare_same_identity a b =
      (case then_cmp (cmp (ds_identity_of_senders a) (ds_identity_of_senders b))
              (cmp (pi_port_number (ds_identity_of_receiver a))
                   (pi_port_number (ds_identity_of_receiver b))) of
         Less \<Rightarrow> BetterByTopology | Equal \<Rightarrow> Error2 | Greater \<Rightarrow> WorseByTopology)"
  by (simp_all only: compare_same_identity_def Let_def diff_def) simp_all

lemma compare_same_identity_swap: "compare_same_identity b a = mirror (compare_same_identity a b)"
proof (cases rule: steps_cases [of "uint (ds_steps_removed a) - uint (ds_steps_removed b)"])
  case 1
  then show ?thesis
    using compare_same_identity_rows(1) [of a b] compare_same_identity_rows(2) [of b a] by simp
next
  case 2
  then show ?thesis
    using compare_same_identity_rows(2) [of a b] compare_same_identity_rows(1) [of b a] by simp
next
  case 3
  then show ?thesis
    using compare_same_identity_rows(3) [of a b] compare_same_identity_rows(4) [of b a]
    by (cases "cmp (pi_clock_identity (ds_identity_of_receiver a)) (ds_identity_of_senders a)") simp_all
next
  case 4
  then show ?thesis
    using compare_same_identity_rows(4) [of a b] compare_same_identity_rows(3) [of b a]
    by (cases "cmp (pi_clock_identity (ds_identity_of_receiver b)) (ds_identity_of_senders b)") simp_all
next
  case 5
  let ?x = "cmp (ds_identity_of_senders a) (ds_identity_of_senders b)"
  let ?y = "cmp (pi_port_number (ds_identity_of_receiver a)) (pi_port_number (ds_identity_of_receiver b))"
  have "then_cmp (cmp (ds_identity_of_senders b) (ds_identity_of_senders a))
      (cmp (pi_port_number (ds_identity_of_receiver b)) (pi_port_number (ds_identity_of_receiver a)))
    = reverse_ordering (then_cmp ?x ?y)"
    by (simp only: then_cmp_reverse cmp_swap [of "ds_identity_of_senders b"]
      cmp_swap [of "pi_port_number (ds_identity_of_receiver b)"])
  then show ?thesis
    using 5 compare_same_identity_rows(5) [of b a] compare_same_identity_rows(5) [of a b]
    by (cases "then_cmp ?x ?y") simp_all
qed

lemma ds_compare_swap: "ds_compare b a = mirror (ds_compare a b)"
  using quality_ordering_swap [of b a] quality_ordering_Equal [of a b]
  by (cases "quality_ordering a b") (auto simp: ds_compare_def compare_same_identity_swap [of b a])

section \<open>A reference definition: a lexicographic key\<close>

definition gm_attributes :: "comparison_dataset \<Rightarrow> u8 \<times> u8 \<times> u8 \<times> u16 \<times> u8" where
  "gm_attributes a = (ds_gm_priority_1 a, cq_clock_class (ds_gm_clock_quality a),
     clock_accuracy_to_primitive (cq_clock_accuracy (ds_gm_clock_quality a)),
     cq_offset_scaled_log_variance (ds_gm_clock_quality a), ds_gm_priority_2 a)"

type_synonym ds_key =
  "((u8 \<times> u8 \<times> u8 \<times> u16 \<times> u8) \<times> clock_identity) \<times> u16 \<times> clock_identity \<times> u16"

definition key :: "comparison_dataset \<Rightarrow> ds_key" where
  "key a = ((gm_attributes a, ds_gm_identity a), ds_steps_removed a, ds_identity_of_senders a,
     pi_port_number (ds_identity_of_receiver a))"

text \<open>Two data sets that name the same grandmaster agree about its attributes; a data set that was
  received from another clock.\<close>

definition agree :: "comparison_dataset \<Rightarrow> comparison_dataset \<Rightarrow> bool" where
  "agree a b \<longleftrightarrow> (ds_gm_identity a = ds_gm_identity b \<longrightarrow> gm_attributes a = gm_attributes b)"

definition foreign :: "comparison_dataset \<Rightarrow> bool" where
  "foreign a \<longleftrightarrow> pi_clock_identity (ds_identity_of_receiver a) \<noteq> ds_identity_of_senders a"

lemma cmp_prod: "cmp (a, b) (c, d) = then_cmp (cmp a c) (cmp b d)"
  by (auto simp: cmp_def)

lemma then_cmp_assoc: "then_cmp (then_cmp x y) z = then_cmp x (then_cmp y z)"
  by (cases x) simp_all

lemma quality_ordering_key:
  "quality_ordering a b = cmp (gm_attributes a, ds_gm_identity a) (gm_attributes b, ds_gm_identity b)"
  by (simp add: quality_ordering_def Let_def gm_attributes_def cmp_prod then_cmp_assoc
    clock_accuracy_cmp_numeric_def)

lemma compare_same_identity_key:
  assumes "foreign a" "foreign b"
  shows "as_ordering (compare_same_identity a b)
    = cmp (ds_steps_removed b, ds_identity_of_senders b, pi_port_number (ds_identity_of_receiver b))
          (ds_steps_removed a, ds_identity_of_senders a, pi_port_number (ds_identity_of_receiver a))"
    (is "_ = cmp (?sb, ?kb) (?sa, ?ka)")
proof -
  let ?d = "uint ?sa - uint ?sb"
  have steps: "cmp ?sb ?sa = cmp (uint ?sb) (uint ?sa)"
    by (simp add: cmp_def word_less_def word_uint_eq_iff)
  show ?thesis
  proof (cases rule: steps_cases [of ?d])
    case 1
    then have "cmp ?sb ?sa = Less" unfolding steps by simp
    with 1 show ?thesis by (simp only: compare_same_identity_rows(1) cmp_prod) simp
  next
    case 2
    then have "cmp ?sb ?sa = Greater" unfolding steps by simp
    with 2 show ?thesis by (simp only: compare_same_identity_rows(2) cmp_prod) simp
  next
    case 3
    then have "cmp ?sb ?sa = Less" unfolding steps by simp
    with 3 assms show ?thesis
      by (simp only: compare_same_identity_rows(3) cmp_prod)
        (simp add: foreign_def split: ordering.split)
  next
    case 4
    then have "cmp ?sb ?sa = Greater" unfolding steps by simp
    with 4 assms show ?thesis
      by (simp only: compare_same_identity_rows(4) cmp_prod)
        (simp add: foreign_def split: ordering.split)
  next
    case 5
    then have "cmp ?sb ?sa = Equal" unfolding steps by simp
    with 5 show ?thesis
      by (simp only: compare_same_identity_rows(5) cmp_prod cmp_swap [of "ds_identity_of_senders b"]
          cmp_swap [of "pi_port_number (ds_identity_of_receiver b)"] then_cmp.simps
          then_cmp_reverse [symmetric])
        (cases "then_cmp (cmp (ds_identity_of_senders a) (ds_identity_of_senders b))
           (cmp (pi_port_number (ds_identity_of_receiver a)) (pi_port_number (ds_identity_of_receiver b)))",
          simp_all)
  qed
qed

lemma ds_compare_key:
  assumes "foreign a" "foreign b" "agree a b"
  shows "as_ordering (ds_compare a b) = cmp (key b) (key a)"
proof (cases "ds_gm_identity a = ds_gm_identity b")
  case True
  then show ?thesis
    using assms by (simp add: ds_compare_def compare_same_identity_key key_def cmp_prod agree_def)
      (simp add: cmp_def)
next
  case False
  then have "quality_ordering a b \<noteq> Equal" using quality_ordering_Equal by blast
  then show ?thesis
    using False quality_ordering_swap [of b a]
    by (cases "quality_ordering a b")
      (auto simp: ds_compare_def key_def cmp_prod [of "(gm_attributes b, ds_gm_identity b)"]
        simp flip: quality_ordering_key)
qed

section \<open>Properties\<close>

text \<open>The comparison of two data sets never reaches its \<open>unreachable!\<close> arm, and swapping the
  operands mirrors the result: the two sides never both think that they are better.\<close>

theorem compare_antisymmetric:
  "\<exists>r. compare a b = Ok r \<and> compare b a = Ok (mirror r)
    \<and> as_ordering (mirror r) = reverse_ordering (as_ordering r)"
  using ds_compare_swap [of b a] by (simp add: as_ordering_mirror)

text \<open>C20: on data sets that were received from another clock and that agree about the attributes of
  a grandmaster they share, the comparison is the lexicographic order of priority 1, class,
  accuracy, variance, priority 2, grandmaster identity, steps removed, sender and receiving port.\<close>

theorem compare_is_lexicographic:
  assumes "foreign a" and "foreign b" and "agree a b"
  shows "\<exists>r. compare a b = Ok r \<and> as_ordering r = cmp (key b) (key a)"
  using ds_compare_key [OF assms] by simp

definition example_dataset :: "u8 \<Rightarrow> u8 \<Rightarrow> u16 \<Rightarrow> comparison_dataset" where
  "example_dataset priority gm steps = \<lparr>ds_gm_priority_1 = priority, ds_gm_identity = replicate 8 gm,
     ds_gm_clock_quality = clock_quality_default, ds_gm_priority_2 = 128, ds_steps_removed = steps,
     ds_identity_of_senders = replicate 8 2,
     ds_identity_of_receiver = \<lparr>pi_clock_identity = replicate 8 1, pi_port_number = 1\<rparr>\<rparr>"

theorem compare_is_lexicographic_witness:
  "\<exists>r. compare (example_dataset 1 5 3) (example_dataset 1 5 4) = Ok r
    \<and> as_ordering r = cmp (key (example_dataset 1 5 4)) (key (example_dataset 1 5 3))"
  using compare_is_lexicographic [of "example_dataset 1 5 3" "example_dataset 1 5 4"]
  by (simp add: foreign_def agree_def gm_attributes_def example_dataset_def numeral_eq_Suc)

text \<open>Without that agreement the comparison is not transitive: three data sets can form a cycle
  in which each is better than the next.\<close>

theorem compare_can_cycle:
  "\<exists>a b c. foreign a \<and> foreign b \<and> foreign c
    \<and> compare a b = Ok Better \<and> compare b c = Ok Better \<and> compare c a = Ok Better"
proof -
  let ?a = "example_dataset 1 5 9" and ?b = "example_dataset 2 6 0" and ?c = "example_dataset 3 5 0"
  have "foreign ?a" "foreign ?b" "foreign ?c"
    by (simp_all add: foreign_def example_dataset_def numeral_eq_Suc)
  moreover have "compare ?a ?b = Ok Better" "compare ?b ?c = Ok Better" "compare ?c ?a = Ok Better"
    by code_simp+
  ultimately show ?thesis by blast
qed

end
