(* ===== verification/ForeignMaster.thy ===== *)
theory ForeignMaster
  imports DatasetComparison
begin

text \<open>
  \<open>statime/src/bmc/foreign_master.rs\<close>: the foreign masters a port has heard of and their recent
  announce messages. The loops that run over the list backwards and remove elements are translated
  as such; the lemmas give their meaning as a filter, and show the invariant of the list:
  the capacities, one entry per port identity, no empty entry, and only messages that passed
  qualification.
\<close>

definition FOREIGN_MASTER_TIME_WINDOW :: int where
  "FOREIGN_MASTER_TIME_WINDOW = 4"

definition FOREIGN_MASTER_THRESHOLD :: nat where
  "FOREIGN_MASTER_THRESHOLD = 2"

definition MAX_ANNOUNCE_MESSAGES :: nat where
  "MAX_ANNOUNCE_MESSAGES = 8"

definition MAX_FOREIGN_MASTERS :: nat where
  "MAX_FOREIGN_MASTERS = 8"

record foreign_announce_message =
  fa_header :: header
  fa_message :: announce_message
  fa_age :: duration

record foreign_master =
  fm_port_identity :: port_identity
  fm_announce_messages :: "foreign_announce_message list"

record foreign_master_list =
  fl_foreign_masters :: "foreign_master list"
  fl_own_port_announce_interval :: time_interval
  fl_own_port_identity :: port_identity

section \<open>ArrayVec\<close>

text \<open>\<open>push\<close> on an \<open>ArrayVec\<close> of capacity \<open>cap\<close>, and \<open>remove(i)\<close>.\<close>

definition av_push :: "nat \<Rightarrow> 'a list \<Rightarrow> 'a \<Rightarrow> 'a list res" where
  "av_push cap xs x = (if length xs < cap then Ok (xs @ [x]) else panic)"

definition av_remove :: "nat \<Rightarrow> 'a list \<Rightarrow> ('a \<times> 'a list) res" where
  "av_remove i xs = (if i < length xs then Ok (xs ! i, take i xs @ drop (Suc i) xs) else panic)"

section \<open>ForeignMaster\<close>

definition foreign_master_new :: "header \<Rightarrow> announce_message \<Rightarrow> foreign_master res" where
  "foreign_master_new header announce_message =
     andthen (av_push MAX_ANNOUNCE_MESSAGES []
       \<lparr>fa_header = header, fa_message = announce_message, fa_age = duration_ZERO\<rparr>) (\<lambda>messages.
     Ok \<lparr>fm_port_identity = hd_source_port_identity (am_header announce_message),
         fm_announce_messages = messages\<rparr>)"

definition cutoff_age :: "'f numlib \<Rightarrow> time_interval \<Rightarrow> duration" where
  "cutoff_age lib announce_interval =
     duration_mul_int lib (duration_from_interval_bits lib announce_interval) FOREIGN_MASTER_TIME_WINDOW"

definition purge_old_messages :: "'f numlib \<Rightarrow> time_interval \<Rightarrow> foreign_master \<Rightarrow> foreign_master \<times> bool" where
  "purge_old_messages lib announce_interval fm =
     (let messages = filter (\<lambda>m. fa_age m < cutoff_age lib announce_interval) (fm_announce_messages fm)
      in (fm\<lparr>fm_announce_messages := messages\<rparr>, messages = []))"

definition fm_register_announce_message ::
  "'f numlib \<Rightarrow> header \<Rightarrow> announce_message \<Rightarrow> time_interval \<Rightarrow> duration \<Rightarrow> foreign_master \<Rightarrow>
   foreign_master res" where
  "fm_register_announce_message lib header announce_message announce_interval age fm =
     (let fm' = fst (purge_old_messages lib announce_interval fm);
          new_message = \<lparr>fa_header = header, fa_message = announce_message, fa_age = age\<rparr>
      in case av_push MAX_ANNOUNCE_MESSAGES (fm_announce_messages fm') new_message of
           Inr messages \<Rightarrow> Ok (fm'\<lparr>fm_announce_messages := messages\<rparr>)
         | Inl _ \<Rightarrow>
             andthen (av_remove 0 (fm_announce_messages fm')) (\<lambda>(_, rest).
             andthen (av_push MAX_ANNOUNCE_MESSAGES rest new_message) (\<lambda>messages.
             Ok (fm'\<lparr>fm_announce_messages := messages\<rparr>))))"

definition fm_step_age ::
  "'f numlib \<Rightarrow> duration \<Rightarrow> time_interval \<Rightarrow> foreign_master \<Rightarrow> foreign_master \<times> bool" where
  "fm_step_age lib step announce_interval fm =
     purge_old_messages lib announce_interval
       (fm\<lparr>fm_announce_messages :=
         map (\<lambda>m. m\<lparr>fa_age := duration_add lib (fa_age m) step\<rparr>) (fm_announce_messages fm)\<rparr>)"

section \<open>ForeignMasterList\<close>

definition foreign_master_list_new :: "time_interval \<Rightarrow> port_identity \<Rightarrow> foreign_master_list" where
  "foreign_master_list_new own_port_announce_interval own_port_identity = \<lparr>
     fl_foreign_masters = [],
     fl_own_port_announce_interval = own_port_announce_interval,
     fl_own_port_identity = own_port_identity\<rparr>"

text \<open>\<open>for i in (0..len).rev()\<close>: the first argument is the number of indices still to visit.\<close>

fun fl_step_age_loop ::
  "nat \<Rightarrow> 'f numlib \<Rightarrow> duration \<Rightarrow> time_interval \<Rightarrow> foreign_master list \<Rightarrow> foreign_master list res" where
  "fl_step_age_loop 0 lib step announce_interval masters = Ok masters"
| "fl_step_age_loop (Suc i) lib step announce_interval masters =
     andthen (index i masters) (\<lambda>fm.
       let (fm', empty) = fm_step_age lib step announce_interval fm;
           masters' = masters[i := fm']
       in if empty
          then andthen (av_remove i masters') (\<lambda>(_, masters'').
                 fl_step_age_loop i lib step announce_interval masters'')
          else fl_step_age_loop i lib step announce_interval masters')"

definition fl_step_age :: "'f numlib \<Rightarrow> duration \<Rightarrow> foreign_master_list \<Rightarrow> foreign_master_list res" where
  "fl_step_age lib step fl =
     andthen (fl_step_age_loop (length (fl_foreign_masters fl)) lib step
                (fl_own_port_announce_interval fl) (fl_foreign_masters fl)) (\<lambda>masters.
     Ok (fl\<lparr>fl_foreign_masters := masters\<rparr>))"

fun take_qualified_loop ::
  "nat \<Rightarrow> foreign_master list \<Rightarrow> foreign_announce_message list \<Rightarrow>
   (foreign_master list \<times> foreign_announce_message list) res" where
  "take_qualified_loop 0 masters acc = Ok (masters, acc)"
| "take_qualified_loop (Suc i) masters acc =
     andthen (index i masters) (\<lambda>fm.
       if FOREIGN_MASTER_THRESHOLD \<le> length (fm_announce_messages fm)
       then
         andthen (av_remove (length (fm_announce_messages fm) - 1) (fm_announce_messages fm)) (\<lambda>(m, rest).
         andthen (av_push MAX_FOREIGN_MASTERS acc m) (\<lambda>acc'.
         take_qualified_loop i (masters[i := fm\<lparr>fm_announce_messages := rest\<rparr>]) acc'))
       else take_qualified_loop i masters acc)"

definition take_qualified_announce_messages ::
  "foreign_master_list \<Rightarrow> (foreign_master_list \<times> foreign_announce_message list) res" where
  "take_qualified_announce_messages fl =
     andthen (take_qualified_loop (length (fl_foreign_masters fl)) (fl_foreign_masters fl) [])
       (\<lambda>(masters, qualified). Ok (fl\<lparr>fl_foreign_masters := masters\<rparr>, qualified))"

definition get_foreign_master :: "port_identity \<Rightarrow> foreign_master list \<Rightarrow> foreign_master option" where
  "get_foreign_master port_identity masters = find (\<lambda>fm. fm_port_identity fm = port_identity) masters"

text \<open>\<open>get_foreign_master_mut\<close> followed by an update of the master that was found.\<close>

fun update_foreign_master ::
  "port_identity \<Rightarrow> (foreign_master \<Rightarrow> foreign_master res) \<Rightarrow> foreign_master list \<Rightarrow>
   foreign_master list res" where
  "update_foreign_master port_identity f [] = Ok []"
| "update_foreign_master port_identity f (fm # fms) =
     (if fm_port_identity fm = port_identity
      then andthen (f fm) (\<lambda>fm'. Ok (fm' # fms))
      else andthen (update_foreign_master port_identity f fms) (\<lambda>fms'. Ok (fm # fms')))"

definition is_announce_message_qualified :: "foreign_master_list \<Rightarrow> announce_message \<Rightarrow> bool" where
  "is_announce_message_qualified fl announce_message =
     (let source_identity = hd_source_port_identity (am_header announce_message) in
      if pi_clock_identity source_identity = pi_clock_identity (fl_own_port_identity fl) then False
      else
        let too_old =
          (case get_foreign_master source_identity (fl_foreign_masters fl) of
             None \<Rightarrow> False
           | Some foreign_master \<Rightarrow>
               (if fm_announce_messages foreign_master = [] then False
                else
                  let announce_sequence_id = hd_sequence_id (am_header announce_message);
                      last_sequence_id = hd_sequence_id (fa_header (last (fm_announce_messages foreign_master)))
                  in 0x7fff \<le> announce_sequence_id - last_sequence_id))
        in if too_old then False
           else if 255 \<le> am_steps_removed announce_message then False
           else True)"

definition fl_register_announce_message ::
  "'f numlib \<Rightarrow> header \<Rightarrow> announce_message \<Rightarrow> duration \<Rightarrow> foreign_master_list \<Rightarrow>
   foreign_master_list res" where
  "fl_register_announce_message lib header announce_message age fl =
     (if \<not> is_announce_message_qualified fl announce_message then Ok fl
      else
        let source = hd_source_port_identity (am_header announce_message) in
        case get_foreign_master source (fl_foreign_masters fl) of
          Some _ \<Rightarrow>
            andthen (update_foreign_master source
                (fm_register_announce_message lib header announce_message
                  (fl_own_port_announce_interval fl) age) (fl_foreign_masters fl)) (\<lambda>masters.
            Ok (fl\<lparr>fl_foreign_masters := masters\<rparr>))
        | None \<Rightarrow>
            (if length (fl_foreign_masters fl) < MAX_FOREIGN_MASTERS
             then
               andthen (foreign_master_new header announce_message) (\<lambda>fm.
               andthen (av_push MAX_FOREIGN_MASTERS (fl_foreign_masters fl) fm) (\<lambda>masters.
               Ok (fl\<lparr>fl_foreign_masters := masters\<rparr>)))
             else Ok fl))"

section \<open>What the loops compute\<close>

definition aged :: "'f numlib \<Rightarrow> duration \<Rightarrow> time_interval \<Rightarrow> foreign_master \<Rightarrow> foreign_master" where
  "aged lib step announce_interval fm = fst (fm_step_age lib step announce_interval fm)"

lemma fm_step_age_eq:
  "fm_step_age lib step i fm = (aged lib step i fm, fm_announce_messages (aged lib step i fm) = [])"
  by (simp add: aged_def fm_step_age_def purge_old_messages_def Let_def)

lemma fl_step_age_loop_eq:
  "n \<le> length masters \<Longrightarrow> fl_step_age_loop n lib step i masters
    = Ok (filter (\<lambda>fm. fm_announce_messages fm \<noteq> []) (map (aged lib step i) (take n masters))
          @ drop n masters)"
proof (induction n arbitrary: masters)
  case (Suc n)
  then have n: "n < length masters" by simp
  have t: "take (Suc n) masters = take n masters @ [masters ! n]"
    using n by (rule take_Suc_conv_app_nth)
  have d: "drop n masters = masters ! n # drop (Suc n) masters"
    using n by (simp add: Cons_nth_drop_Suc)
  show ?case
    using n Suc.IH [of "take n masters @ drop (Suc n) masters"]
      Suc.IH [of "masters[n := aged lib step i (masters ! n)]"]
    by (simp add: index_def fm_step_age_eq av_remove_def t d drop_update_swap)
qed simp

lemma fl_step_age_eq:
  "fl_step_age lib step fl = Ok (fl\<lparr>fl_foreign_masters :=
     filter (\<lambda>fm. fm_announce_messages fm \<noteq> [])
       (map (aged lib step (fl_own_port_announce_interval fl)) (fl_foreign_masters fl))\<rparr>)"
  by (simp add: fl_step_age_def fl_step_age_loop_eq)

definition qualifies :: "foreign_master \<Rightarrow> bool" where
  "qualifies fm \<longleftrightarrow> FOREIGN_MASTER_THRESHOLD \<le> length (fm_announce_messages fm)"

definition taken :: "foreign_master \<Rightarrow> foreign_master" where
  "taken fm = (if qualifies fm
     then fm\<lparr>fm_announce_messages := butlast (fm_announce_messages fm)\<rparr> else fm)"

lemma take_qualified_loop_eq:
  "n \<le> length masters \<Longrightarrow> length acc + n \<le> MAX_FOREIGN_MASTERS \<Longrightarrow>
   take_qualified_loop n masters acc
    = Ok (map taken (take n masters) @ drop n masters,
          acc @ rev (map (\<lambda>fm. last (fm_announce_messages fm)) (filter qualifies (take n masters))))"
proof (induction n arbitrary: masters acc)
  case (Suc n)
  then have n: "n < length masters" by simp
  let ?fm = "masters ! n"
  have t: "take (Suc n) masters = take n masters @ [?fm]"
    using n by (rule take_Suc_conv_app_nth)
  have d: "drop n masters = ?fm # drop (Suc n) masters"
    using n by (simp add: Cons_nth_drop_Suc)
  show ?case
  proof (cases "qualifies ?fm")
    case True
    then have ne: "fm_announce_messages ?fm \<noteq> []"
      by (auto simp: qualifies_def FOREIGN_MASTER_THRESHOLD_def)
    then have m: "fm_announce_messages ?fm ! (length (fm_announce_messages ?fm) - 1)
        = last (fm_announce_messages ?fm)"
      by (simp add: last_conv_nth)
    have b: "take (length (fm_announce_messages ?fm) - 1) (fm_announce_messages ?fm)
        = butlast (fm_announce_messages ?fm)"
      by (simp add: butlast_conv_take)
    show ?thesis
      using True ne n Suc.prems m b
        Suc.IH [of "masters[n := taken ?fm]" "acc @ [last (fm_announce_messages ?fm)]"]
      by (simp add: index_def av_remove_def av_push_def t d drop_update_swap qualifies_def taken_def)
  next
    case False
    then show ?thesis
      using n Suc.prems Suc.IH [of masters acc]
      by (simp add: index_def t d qualifies_def taken_def)
  qed
qed simp

section \<open>The invariant of the list\<close>

text \<open>The identities in an announce message have eight bytes each, as all parsed messages have.\<close>

definition sound_announce :: "announce_message \<Rightarrow> bool" where
  "sound_announce a \<longleftrightarrow> wf_port_identity (hd_source_port_identity (am_header a))
     \<and> wf_clock_identity (am_grandmaster_identity a)"

definition wf_foreign_master :: "port_identity \<Rightarrow> foreign_master \<Rightarrow> bool" where
  "wf_foreign_master own fm \<longleftrightarrow>
     fm_announce_messages fm \<noteq> []
     \<and> length (fm_announce_messages fm) \<le> MAX_ANNOUNCE_MESSAGES
     \<and> pi_clock_identity (fm_port_identity fm) \<noteq> pi_clock_identity own
     \<and> list_all (\<lambda>m. hd_source_port_identity (am_header (fa_message m)) = fm_port_identity fm
         \<and> am_steps_removed (fa_message m) < 255 \<and> sound_announce (fa_message m)) (fm_announce_messages fm)"

definition wf_foreign_master_list :: "foreign_master_list \<Rightarrow> bool" where
  "wf_foreign_master_list fl \<longleftrightarrow>
     length (fl_foreign_masters fl) \<le> MAX_FOREIGN_MASTERS
     \<and> distinct (map fm_port_identity (fl_foreign_masters fl))
     \<and> list_all (wf_foreign_master (fl_own_port_identity fl)) (fl_foreign_masters fl)"

definition known_masters :: "foreign_master_list \<Rightarrow> port_identity set" where
  "known_masters fl = fm_port_identity ` set (fl_foreign_masters fl)"

lemma wf_foreign_master_list_new: "wf_foreign_master_list (foreign_master_list_new i p)"
  by (simp add: wf_foreign_master_list_def foreign_master_list_new_def)

lemma aged_identity [simp]: "fm_port_identity (aged lib step i fm) = fm_port_identity fm"
  by (simp add: aged_def fm_step_age_def purge_old_messages_def Let_def)

lemma wf_aged:
  assumes "wf_foreign_master own fm" and "fm_announce_messages (aged lib step i fm) \<noteq> []"
  shows "wf_foreign_master own (aged lib step i fm)"
  using assms
  by (auto simp: wf_foreign_master_def aged_def fm_step_age_def purge_old_messages_def Let_def
    list_all_iff intro: le_trans [OF length_filter_le])

lemma distinct_map_filter_map:
  "distinct (map f xs) \<Longrightarrow> (\<And>x. f (g x) = f x) \<Longrightarrow> distinct (map f (filter P (map g xs)))"
  by (induction xs) auto

lemma wf_fl_step_age:
  assumes "wf_foreign_master_list fl"
  shows "\<exists>fl'. fl_step_age lib step fl = Ok fl' \<and> wf_foreign_master_list fl'
    \<and> fl_own_port_identity fl' = fl_own_port_identity fl \<and> known_masters fl' \<subseteq> known_masters fl"
  using assms
  by (auto simp: fl_step_age_eq wf_foreign_master_list_def list_all_iff wf_aged known_masters_def
    intro: distinct_map_filter_map le_trans [OF length_filter_le])

lemma taken_identity [simp]: "fm_port_identity (taken fm) = fm_port_identity fm"
  by (simp add: taken_def)

lemma wf_taken: "wf_foreign_master own fm \<Longrightarrow> wf_foreign_master own (taken fm)"
  by (auto simp: wf_foreign_master_def taken_def qualifies_def FOREIGN_MASTER_THRESHOLD_def
    list_all_iff butlast_conv_take dest: in_set_takeD)

lemma take_qualified_eq:
  assumes "wf_foreign_master_list fl"
  shows "take_qualified_announce_messages fl
    = Ok (fl\<lparr>fl_foreign_masters := map taken (fl_foreign_masters fl)\<rparr>,
          rev (map (\<lambda>fm. last (fm_announce_messages fm)) (filter qualifies (fl_foreign_masters fl))))"
  using assms
  by (simp add: take_qualified_announce_messages_def take_qualified_loop_eq wf_foreign_master_list_def)

lemma wf_take_qualified:
  "wf_foreign_master_list fl \<Longrightarrow>
   wf_foreign_master_list (fl\<lparr>fl_foreign_masters := map taken (fl_foreign_masters fl)\<rparr>)"
  by (auto simp: wf_foreign_master_list_def list_all_iff wf_taken comp_def)

text \<open>Registering a message at a known master appends it, and drops the oldest when full.\<close>

definition recent :: "'f numlib \<Rightarrow> time_interval \<Rightarrow> foreign_master \<Rightarrow> foreign_announce_message list" where
  "recent lib i fm = filter (\<lambda>m. fa_age m < cutoff_age lib i) (fm_announce_messages fm)"

lemma fm_register_eq:
  assumes "length (fm_announce_messages fm) \<le> MAX_ANNOUNCE_MESSAGES"
  shows "fm_register_announce_message lib h a i age fm
    = Ok (fm\<lparr>fm_announce_messages :=
        (if length (recent lib i fm) < MAX_ANNOUNCE_MESSAGES then recent lib i fm
         else tl (recent lib i fm)) @ [\<lparr>fa_header = h, fa_message = a, fa_age = age\<rparr>]\<rparr>)"
proof -
  have "length (recent lib i fm) \<le> MAX_ANNOUNCE_MESSAGES"
    using assms by (auto simp: recent_def intro: le_trans [OF length_filter_le])
  moreover have "drop (Suc 0) xs = tl xs" for xs :: "foreign_announce_message list"
    by (simp add: drop_Suc)
  ultimately show ?thesis
    by (auto simp: fm_register_announce_message_def purge_old_messages_def Let_def av_push_def
      av_remove_def recent_def MAX_ANNOUNCE_MESSAGES_def)
qed

lemma wf_fm_register:
  assumes "wf_foreign_master own fm" and "am_steps_removed a < 255" and "sound_announce a"
    and "hd_source_port_identity (am_header a) = fm_port_identity fm"
  obtains fm' where "fm_register_announce_message lib h a i age fm = Ok fm'"
    and "wf_foreign_master own fm'" and "fm_port_identity fm' = fm_port_identity fm"
    and "last (fm_announce_messages fm') = \<lparr>fa_header = h, fa_message = a, fa_age = age\<rparr>"
proof
  let ?ms = "if length (recent lib i fm) < MAX_ANNOUNCE_MESSAGES then recent lib i fm
    else tl (recent lib i fm)"
  let ?m = "\<lparr>fa_header = h, fa_message = a, fa_age = age\<rparr>"
  let ?fm' = "fm\<lparr>fm_announce_messages := ?ms @ [?m]\<rparr>"
  have len: "length (fm_announce_messages fm) \<le> MAX_ANNOUNCE_MESSAGES"
    using assms(1) by (simp add: wf_foreign_master_def)
  then show "fm_register_announce_message lib h a i age fm = Ok ?fm'" by (rule fm_register_eq)
  have "length (recent lib i fm) \<le> MAX_ANNOUNCE_MESSAGES"
    using len by (auto simp: recent_def intro: le_trans [OF length_filter_le])
  then have l: "length ?ms < MAX_ANNOUNCE_MESSAGES" by (auto simp: MAX_ANNOUNCE_MESSAGES_def)
  have "set ?ms \<subseteq> set (fm_announce_messages fm)"
    by (auto simp: recent_def dest: list.set_sel(2) [rotated])
      (metis (no_types, lifting) filter_is_subset list.set_sel(2) subsetD tl_Nil)
  with l assms show "wf_foreign_master own ?fm'"
    by (auto simp: wf_foreign_master_def list_all_iff)
qed simp_all

lemma update_foreign_master_Ok:
  assumes "\<And>fm. fm \<in> set fms \<Longrightarrow> fm_port_identity fm = p \<Longrightarrow>
      \<exists>fm'. f fm = Ok fm' \<and> P fm' \<and> fm_port_identity fm' = p"
    and "list_all P fms"
  shows "\<exists>fms'. update_foreign_master p f fms = Ok fms' \<and> list_all P fms'
    \<and> map fm_port_identity fms' = map fm_port_identity fms"
  using assms
proof (induction fms)
  case (Cons fm fms)
  show ?case
  proof (cases "fm_port_identity fm = p")
    case True
    then obtain fm' where "f fm = Ok fm'" "P fm'" "fm_port_identity fm' = p"
      using Cons.prems(1) [of fm] by auto
    with True Cons.prems(2) show ?thesis by simp
  next
    case False
    then show ?thesis using Cons by fastforce
  qed
qed simp

lemma get_foreign_master_None:
  "get_foreign_master p fms = None \<longleftrightarrow> p \<notin> fm_port_identity ` set fms"
  by (auto simp: get_foreign_master_def find_None_iff)

lemma qualified_foreign:
  "is_announce_message_qualified fl a \<Longrightarrow>
   pi_clock_identity (hd_source_port_identity (am_header a)) \<noteq> pi_clock_identity (fl_own_port_identity fl)
   \<and> am_steps_removed a < 255"
  by (auto simp: is_announce_message_qualified_def Let_def split: if_splits)

lemma wf_fl_register:
  assumes "wf_foreign_master_list fl" and "sound_announce a"
  shows "\<exists>fl'. fl_register_announce_message lib h a age fl = Ok fl' \<and> wf_foreign_master_list fl'
    \<and> fl_own_port_identity fl' = fl_own_port_identity fl
    \<and> known_masters fl' \<subseteq> insert (hd_source_port_identity (am_header a)) (known_masters fl)"
proof (cases "is_announce_message_qualified fl a")
  case True
  let ?p = "hd_source_port_identity (am_header a)"
  let ?own = "fl_own_port_identity fl"
  have q: "pi_clock_identity ?p \<noteq> pi_clock_identity ?own" "am_steps_removed a < 255"
    using qualified_foreign [OF True] by simp_all
  show ?thesis
  proof (cases "get_foreign_master ?p (fl_foreign_masters fl)")
    case None
    then have "?p \<notin> fm_port_identity ` set (fl_foreign_masters fl)"
      by (simp add: get_foreign_master_None)
    then show ?thesis
      using assms True q None
      by (auto simp: fl_register_announce_message_def Let_def foreign_master_new_def av_push_def
        MAX_ANNOUNCE_MESSAGES_def MAX_FOREIGN_MASTERS_def wf_foreign_master_list_def
        wf_foreign_master_def known_masters_def)
  next
    case (Some fm)
    have "\<exists>fms'. update_foreign_master ?p (fm_register_announce_message lib h a
        (fl_own_port_announce_interval fl) age) (fl_foreign_masters fl) = Ok fms'
        \<and> list_all (wf_foreign_master ?own) fms'
        \<and> map fm_port_identity fms' = map fm_port_identity (fl_foreign_masters fl)"
    proof (rule update_foreign_master_Ok)
      fix fm assume fm: "fm \<in> set (fl_foreign_masters fl)" "fm_port_identity fm = ?p"
      then have "wf_foreign_master ?own fm"
        using assms by (simp add: wf_foreign_master_list_def list_all_iff)
      then show "\<exists>fm'. fm_register_announce_message lib h a (fl_own_port_announce_interval fl) age fm = Ok fm'
          \<and> wf_foreign_master ?own fm' \<and> fm_port_identity fm' = ?p"
        using q fm assms(2) by (metis wf_fm_register)
    qed (use assms in \<open>simp add: wf_foreign_master_list_def\<close>)
    then obtain fms' where u: "update_foreign_master ?p (fm_register_announce_message lib h a
        (fl_own_port_announce_interval fl) age) (fl_foreign_masters fl) = Ok fms'"
      "list_all (wf_foreign_master ?own) fms'"
      "map fm_port_identity fms' = map fm_port_identity (fl_foreign_masters fl)" by blast
    then have "length fms' = length (fl_foreign_masters fl)"
      and "fm_port_identity ` set fms' = fm_port_identity ` set (fl_foreign_masters fl)"
      by (metis length_map, metis list.set_map)
    with u assms True Some show ?thesis
      by (auto simp: fl_register_announce_message_def Let_def wf_foreign_master_list_def
        known_masters_def)
  qed
qed (use assms in \<open>auto simp: fl_register_announce_message_def\<close>)

section \<open>Examples\<close>

definition example_announce :: "u8 \<Rightarrow> announce_message" where
  "example_announce c = \<lparr>
     am_header = (header_new 1)\<lparr>hd_source_port_identity :=
       \<lparr>pi_clock_identity = replicate 8 c, pi_port_number = 1\<rparr>\<rparr>,
     am_origin_timestamp = wire_timestamp_default,
     am_current_utc_offset = 37,
     am_grandmaster_priority_1 = 128,
     am_grandmaster_clock_quality = clock_quality_default,
     am_grandmaster_priority_2 = 128,
     am_grandmaster_identity = replicate 8 c,
     am_steps_removed = 0,
     am_time_source = TS_Gnss\<rparr>"

lemma example_announce_simps [simp]:
  "hd_source_port_identity (am_header (example_announce c))
    = \<lparr>pi_clock_identity = replicate 8 c, pi_port_number = 1\<rparr>"
  "am_steps_removed (example_announce c) = 0"
  by (simp_all add: example_announce_def)

lemma example_cutoff: "cutoff_age numlib_ref 65536 = 4 * 65536 * 65536"
  by (simp add: cutoff_age_def FOREIGN_MASTER_TIME_WINDOW_def duration_mul_int_def
    duration_from_interval_bits_def numlib_ref_def)

definition example_received :: "u8 \<Rightarrow> duration \<Rightarrow> foreign_announce_message" where
  "example_received c age = \<lparr>fa_header = am_header (example_announce c), fa_message = example_announce c,
     fa_age = age\<rparr>"

definition example_masters :: "duration list \<Rightarrow> foreign_master_list" where
  "example_masters ages = (foreign_master_list_new 65536 port_identity_default)\<lparr>fl_foreign_masters :=
     [\<lparr>fm_port_identity = \<lparr>pi_clock_identity = replicate 8 7, pi_port_number = 1\<rparr>,
       fm_announce_messages = map (example_received 7) ages\<rparr>]\<rparr>"

lemma sound_example: "sound_announce (example_announce c)"
  by (simp add: sound_announce_def example_announce_def wf_port_identity_def wf_clock_identity_def)

lemma wf_example_masters: "wf_foreign_master_list (example_masters [1, 2])"
  by (simp add: wf_foreign_master_list_def example_masters_def foreign_master_list_new_def
    wf_foreign_master_def example_received_def sound_example MAX_FOREIGN_MASTERS_def MAX_ANNOUNCE_MESSAGES_def
    port_identity_default_def clock_identity_default_def word_gt_0)

section \<open>Properties\<close>

text \<open>C23: the invariant of the list of foreign masters is kept by every operation, and none of them
  panics: at most eight masters, one entry per port identity, one to eight messages per entry, all
  of them from that port, from another clock and fewer than 255 steps away, with identities of eight
  bytes.\<close>

theorem foreign_master_list_invariant:
  assumes "wf_foreign_master_list fl" and "sound_announce a"
  shows "(\<exists>fl'. fl_register_announce_message lib h a age fl = Ok fl' \<and> wf_foreign_master_list fl')
    \<and> (\<exists>fl'. fl_step_age lib step fl = Ok fl' \<and> wf_foreign_master_list fl')
    \<and> (\<exists>fl' ms. take_qualified_announce_messages fl = Ok (fl', ms) \<and> wf_foreign_master_list fl')"
  using wf_fl_register [OF assms, of lib h age] wf_fl_step_age [OF assms(1), of lib step]
    take_qualified_eq [OF assms(1)] wf_take_qualified [OF assms(1)]
  by blast

theorem foreign_master_list_invariant_witness:
  "\<exists>fl'. fl_register_announce_message numlib_ref (am_header (example_announce 7)) (example_announce 7) 5
      (example_masters [1, 2]) = Ok fl' \<and> wf_foreign_master_list fl'"
  using foreign_master_list_invariant [OF wf_example_masters sound_example] by blast

text \<open>The loop of \<open>step_age\<close>, which runs over the indices backwards and removes entries while it
  runs, ages every message, drops the messages that are outside the time window, and drops exactly
  the masters that are left without a message, keeping the order of the others.\<close>

theorem step_age_is_filter:
  "fl_step_age lib step fl = Ok (fl\<lparr>fl_foreign_masters :=
     filter (\<lambda>fm. fm_announce_messages fm \<noteq> [])
       (map (\<lambda>fm. fm\<lparr>fm_announce_messages :=
          filter (\<lambda>m. fa_age m < cutoff_age lib (fl_own_port_announce_interval fl))
            (map (\<lambda>m. m\<lparr>fa_age := duration_add lib (fa_age m) step\<rparr>) (fm_announce_messages fm))\<rparr>)
         (fl_foreign_masters fl))\<rparr>)"
proof -
  have "aged lib step i = (\<lambda>fm. fm\<lparr>fm_announce_messages := filter (\<lambda>m. fa_age m < cutoff_age lib i)
      (map (\<lambda>m. m\<lparr>fa_age := duration_add lib (fa_age m) step\<rparr>) (fm_announce_messages fm))\<rparr>)" for i
    by (rule ext) (simp add: aged_def fm_step_age_def purge_old_messages_def Let_def)
  then show ?thesis by (simp only: fl_step_age_eq)
qed

text \<open>The qualified messages are exactly the most recent message of every foreign master with at
  least two messages, each of which is removed from its master; other masters do not change.\<close>

theorem take_qualified_is_last_of_threshold:
  assumes "wf_foreign_master_list fl"
  shows "\<exists>fl' ms. take_qualified_announce_messages fl = Ok (fl', ms)
    \<and> ms = rev (map (\<lambda>fm. last (fm_announce_messages fm))
        (filter (\<lambda>fm. 2 \<le> length (fm_announce_messages fm)) (fl_foreign_masters fl)))
    \<and> fl_foreign_masters fl' = map (\<lambda>fm. if 2 \<le> length (fm_announce_messages fm)
        then fm\<lparr>fm_announce_messages := butlast (fm_announce_messages fm)\<rparr> else fm) (fl_foreign_masters fl)"
proof -
  have q: "qualifies = (\<lambda>fm. 2 \<le> length (fm_announce_messages fm))"
    by (rule ext) (simp add: qualifies_def FOREIGN_MASTER_THRESHOLD_def)
  have "taken = (\<lambda>fm. if 2 \<le> length (fm_announce_messages fm)
      then fm\<lparr>fm_announce_messages := butlast (fm_announce_messages fm)\<rparr> else fm)"
    by (rule ext) (simp only: taken_def q)
  then show ?thesis using take_qualified_eq [OF assms] unfolding q by simp
qed

theorem take_qualified_is_last_of_threshold_witness:
  "\<exists>fl'. take_qualified_announce_messages (example_masters [1, 2]) = Ok (fl', [example_received 7 2])"
  using take_qualified_is_last_of_threshold [OF wf_example_masters]
  by (auto simp: example_masters_def)

text \<open>One announce message that is received twice makes its sender a qualified foreign master: the
  check for a newer sequence number accepts an equal one.\<close>

theorem duplicate_announce_qualifies:
  assumes "pi_clock_identity (hd_source_port_identity (am_header a)) \<noteq> pi_clock_identity own"
    and "am_steps_removed a < 255" and "hd_sequence_id h = hd_sequence_id (am_header a)"
    and "0 < cutoff_age lib i"
  shows "\<exists>fl1 fl2 fl3. fl_register_announce_message lib h a duration_ZERO (foreign_master_list_new i own) = Ok fl1
    \<and> fl_register_announce_message lib h a duration_ZERO fl1 = Ok fl2
    \<and> take_qualified_announce_messages fl2
        = Ok (fl3, [\<lparr>fa_header = h, fa_message = a, fa_age = duration_ZERO\<rparr>])"
proof -
  let ?p = "hd_source_port_identity (am_header a)"
  let ?m = "\<lparr>fa_header = h, fa_message = a, fa_age = duration_ZERO\<rparr>"
  let ?fl = "\<lambda>ms. (foreign_master_list_new i own)\<lparr>fl_foreign_masters :=
    [\<lparr>fm_port_identity = ?p, fm_announce_messages = ms\<rparr>]\<rparr>"
  have s: "\<not> 255 \<le> am_steps_removed a" using assms(2) by (simp add: not_le)
  have "fl_register_announce_message lib h a duration_ZERO (foreign_master_list_new i own) = Ok (?fl [?m])"
    using assms s
    by (simp add: fl_register_announce_message_def is_announce_message_qualified_def Let_def
      foreign_master_list_new_def get_foreign_master_def foreign_master_new_def av_push_def
      MAX_ANNOUNCE_MESSAGES_def MAX_FOREIGN_MASTERS_def)
  moreover have "fl_register_announce_message lib h a duration_ZERO (?fl [?m]) = Ok (?fl [?m, ?m])"
    using assms s
    by (simp add: fl_register_announce_message_def is_announce_message_qualified_def Let_def
      foreign_master_list_new_def get_foreign_master_def fm_register_announce_message_def
      purge_old_messages_def av_push_def MAX_ANNOUNCE_MESSAGES_def duration_ZERO_def)
  moreover have "take_qualified_announce_messages (?fl [?m, ?m]) = Ok (?fl [?m], [?m])"
    by (simp add: take_qualified_announce_messages_def foreign_master_list_new_def index_def
      FOREIGN_MASTER_THRESHOLD_def av_remove_def av_push_def MAX_FOREIGN_MASTERS_def)
  ultimately show ?thesis by blast
qed

theorem duplicate_announce_qualifies_witness:
  "\<exists>fl1 fl2 fl3. fl_register_announce_message numlib_ref (am_header (example_announce 7))
      (example_announce 7) duration_ZERO (foreign_master_list_new 65536 port_identity_default) = Ok fl1
    \<and> fl_register_announce_message numlib_ref (am_header (example_announce 7))
      (example_announce 7) duration_ZERO fl1 = Ok fl2
    \<and> take_qualified_announce_messages fl2 = Ok (fl3, [\<lparr>fa_header = am_header (example_announce 7),
        fa_message = example_announce 7, fa_age = duration_ZERO\<rparr>])"
  by (rule duplicate_announce_qualifies)
    (simp_all add: example_cutoff port_identity_default_def clock_identity_default_def word_gt_0)

end
