(* ===== verification/PortTypes.thy ===== *)
theory PortTypes
  imports Messages
begin

text \<open>
  The data types of a port: \<open>statime/src/port/state.rs\<close>, \<open>sequence_id.rs\<close>,
  \<open>measurement.rs\<close>, \<open>actions.rs\<close> and the data types of \<open>statime/src/filters/mod.rs\<close>.
  The lemmas say what draining a \<open>PortActionIterator\<close> yields: its actions, then one
  \<open>ForwardTLV\<close> for every TLV that has to be propagated, in the order of the message.
\<close>

section \<open>States\<close>

datatype sync_state = SY_Empty | SY_Measuring u16 "time option" "time option"

datatype delay_state = DS_Empty | DS_Measuring u16 "time option" "time option"

record slave_state =
  ss_remote_master :: port_identity
  ss_sync_state :: sync_state
  ss_delay_state :: delay_state
  ss_last_raw_sync_offset :: "duration option"

definition slave_state_new :: "port_identity \<Rightarrow> slave_state" where
  "slave_state_new remote_master = \<lparr>
     ss_remote_master = remote_master,
     ss_sync_state = SY_Empty,
     ss_delay_state = DS_Empty,
     ss_last_raw_sync_offset = None\<rparr>"

datatype port_state = PS_Faulty | PS_Listening | PS_Master | PS_Passive | PS_Slave slave_state

fun is_slave_state :: "port_state \<Rightarrow> bool" where
  "is_slave_state (PS_Slave s) \<longleftrightarrow> True"
| "is_slave_state _ \<longleftrightarrow> False"

datatype peer_delay_state =
    PD_Empty
  | PD_Measuring u16 "port_identity option" "time option" "time option" "time option" "time option"
  | PD_PostMeasurement u16 port_identity

section \<open>SequenceIdGenerator\<close>

type_synonym sequence_id_generator = u16

definition sequence_id_generator_new :: sequence_id_generator where
  "sequence_id_generator_new = 0"

definition generate :: "sequence_id_generator \<Rightarrow> u16 \<times> sequence_id_generator" where
  "generate current = (current, current + 1)"

section \<open>Measurements and filter results\<close>

record measurement =
  me_event_time :: time
  me_offset :: "duration option"
  me_delay :: "duration option"
  me_peer_delay :: "duration option"
  me_raw_sync_offset :: "duration option"
  me_raw_delay_offset :: "duration option"

definition measurement_default :: measurement where
  "measurement_default = \<lparr>me_event_time = 0, me_offset = None, me_delay = None,
     me_peer_delay = None, me_raw_sync_offset = None, me_raw_delay_offset = None\<rparr>"

record filter_update =
  up_next_update :: "core_duration option"
  up_mean_delay :: "duration option"

record filter_estimate =
  fe_offset_from_master :: duration
  fe_mean_delay :: duration

section \<open>Actions\<close>

record forwarded_tlv =
  ft_tlv :: tlv
  ft_sender_identity :: port_identity

definition forwarded_tlv_size :: "forwarded_tlv \<Rightarrow> nat" where
  "forwarded_tlv_size t = tlv_wire_size (ft_tlv t)"

datatype timestamp_context =
    TC_Sync u16 | TC_DelayReq u16 | TC_PDelayReq u16 | TC_PDelayResp u16 port_identity

text \<open>\<open>SendEvent context data link_local\<close> and \<open>SendGeneral data link_local\<close> as in the source.\<close>

datatype port_action =
    SendEvent timestamp_context bytes bool
  | SendGeneral bytes bool
  | ResetAnnounceTimer core_duration
  | ResetSyncTimer core_duration
  | ResetDelayRequestTimer core_duration
  | ResetAnnounceReceiptTimer core_duration
  | ResetFilterUpdateTimer core_duration
  | ForwardTLV forwarded_tlv

definition MAX_ACTIONS :: nat where
  "MAX_ACTIONS = 2"

record port_action_iterator =
  ai_internal :: "port_action list"
  ai_tlvs :: bytes
  ai_sender_identity :: port_identity

definition actions_empty :: port_action_iterator where
  "actions_empty = \<lparr>ai_internal = [], ai_tlvs = [], ai_sender_identity = port_identity_default\<rparr>"

text \<open>The macro \<open>actions![...]\<close>: at most two actions, so the pushes never exceed \<open>MAX_ACTIONS\<close>.\<close>

definition actions :: "port_action list \<Rightarrow> port_action_iterator" where
  "actions l = \<lparr>ai_internal = l, ai_tlvs = [], ai_sender_identity = port_identity_default\<rparr>"

definition actions_from_filter :: "filter_update \<Rightarrow> port_action_iterator" where
  "actions_from_filter update =
     (case up_next_update update of
        Some duration \<Rightarrow> actions [ResetFilterUpdateTimer duration]
      | None \<Rightarrow> actions [])"

definition with_forward_tlvs :: "port_action_iterator \<Rightarrow> bytes \<Rightarrow> port_identity \<Rightarrow> port_action_iterator" where
  "with_forward_tlvs it tlv_bytes sender_identity =
     \<lparr>ai_internal = ai_internal it, ai_tlvs = tlv_bytes, ai_sender_identity = sender_identity\<rparr>"

text \<open>The loop in \<open>PortActionIterator::next\<close> that skips TLVs that are not propagated, with the
  state in which it leaves the TLV iterator.\<close>

function next_forward_tlv :: "bytes \<Rightarrow> (tlv option \<times> bytes) res" where
  "next_forward_tlv buffer =
     (case tlv_iter_next buffer of
        Inl e \<Rightarrow> Inl e
      | Inr None \<Rightarrow> Ok (None, buffer)
      | Inr (Some (t, rest)) \<Rightarrow>
          (if tlv_type_announce_propagate (tlv_type t) then Ok (Some t, rest)
           else next_forward_tlv rest))"
  by pat_completeness auto
termination
  by (relation "measure length") (auto dest: tlv_iter_next_shrinks)

declare next_forward_tlv.simps [simp del]

definition action_iterator_next ::
  "port_action_iterator \<Rightarrow> (port_action option \<times> port_action_iterator) res" where
  "action_iterator_next it =
     (case ai_internal it of
        a # as \<Rightarrow> Ok (Some a, it\<lparr>ai_internal := as\<rparr>)
      | [] \<Rightarrow>
          andthen (next_forward_tlv (ai_tlvs it)) (\<lambda>(r, rest).
          Ok (map_option (\<lambda>t. ForwardTLV \<lparr>ft_tlv = t, ft_sender_identity = ai_sender_identity it\<rparr>) r,
              it\<lparr>ai_tlvs := rest\<rparr>)))"

lemma next_forward_tlv_shrinks:
  "next_forward_tlv buffer = Inr (Some t, rest) \<Longrightarrow> length rest < length buffer"
proof (induction buffer rule: next_forward_tlv.induct)
  case (1 buffer)
  show ?case
  proof (cases "tlv_iter_next buffer")
    case (Inr r)
    with "1.prems" obtain u rest' where r: "r = Some (u, rest')"
      by (subst (asm) next_forward_tlv.simps) (auto split: option.splits)
    have "length rest' < length buffer" using Inr r tlv_iter_next_shrinks by blast
    moreover have "next_forward_tlv buffer = (if tlv_type_announce_propagate (tlv_type u)
        then Ok (Some u, rest') else next_forward_tlv rest')"
      using Inr r by (simp add: next_forward_tlv.simps [of buffer])
    then have "length rest \<le> length rest'"
      using "1.prems" "1.IH" [OF Inr r refl] by (auto split: if_splits)
    ultimately show ?thesis by simp
  qed (use "1.prems" in \<open>simp add: next_forward_tlv.simps\<close>)
qed

text \<open>All the actions a caller obtains by calling \<open>next\<close> until it returns \<open>None\<close>.\<close>

function drain :: "port_action_iterator \<Rightarrow> port_action list res" where
  "drain it =
     (case action_iterator_next it of
        Inl e \<Rightarrow> Inl e
      | Inr (None, _) \<Rightarrow> Ok []
      | Inr (Some a, it') \<Rightarrow> andthen (drain it') (\<lambda>as. Ok (a # as)))"
  by pat_completeness auto
termination
  by (relation "measure (\<lambda>it. length (ai_internal it) + length (ai_tlvs it))")
    (auto simp: action_iterator_next_def dest: next_forward_tlv_shrinks split: list.splits)

declare drain.simps [simp del]

section \<open>What draining an iterator yields\<close>

definition forwards :: "port_identity \<Rightarrow> tlv list \<Rightarrow> port_action list" where
  "forwards sender ts = map (\<lambda>t. ForwardTLV \<lparr>ft_tlv = t, ft_sender_identity = sender\<rparr>)
     (filter (\<lambda>t. tlv_type_announce_propagate (tlv_type t)) ts)"

lemma drain_Cons:
  "drain \<lparr>ai_internal = a # as, ai_tlvs = b, ai_sender_identity = p\<rparr>
    = andthen (drain \<lparr>ai_internal = as, ai_tlvs = b, ai_sender_identity = p\<rparr>) (\<lambda>l. Ok (a # l))"
  by (subst drain.simps) (simp add: action_iterator_next_def)

lemma drain_skip:
  assumes "tlv_iter_next b = Ok (Some (t, rest))"
  shows "drain \<lparr>ai_internal = [], ai_tlvs = b, ai_sender_identity = p\<rparr>
    = andthen (drain \<lparr>ai_internal = [], ai_tlvs = rest, ai_sender_identity = p\<rparr>)
        (\<lambda>l. Ok (forwards p [t] @ l))"
proof (cases "tlv_type_announce_propagate (tlv_type t)")
  case True
  then have "next_forward_tlv b = Ok (Some t, rest)"
    using assms by (subst next_forward_tlv.simps) simp
  then show ?thesis
    using True by (subst drain.simps) (simp add: action_iterator_next_def forwards_def)
next
  case False
  then have "next_forward_tlv b = next_forward_tlv rest"
    using assms by (subst next_forward_tlv.simps) simp
  then have "drain \<lparr>ai_internal = [], ai_tlvs = b, ai_sender_identity = p\<rparr>
      = drain \<lparr>ai_internal = [], ai_tlvs = rest, ai_sender_identity = p\<rparr>"
    by (subst (1 2) drain.simps) (simp add: action_iterator_next_def)
  then show ?thesis using False by (simp add: forwards_def)
qed

lemma drain_tlvs:
  "wf_tlvs ts \<Longrightarrow> drain \<lparr>ai_internal = [], ai_tlvs = tlvs_enc ts, ai_sender_identity = p\<rparr>
    = Ok (forwards p ts)"
proof (induction ts)
  case Nil
  then show ?case
    by (subst drain.simps)
      (simp add: action_iterator_next_def next_forward_tlv.simps tlv_iter_next_def forwards_def)
next
  case (Cons t ts)
  then have "tlv_iter_next (tlvs_enc (t # ts)) = Ok (Some (t, tlvs_enc ts))"
    by (intro tlv_iter_next_enc)
  moreover have "wf_tlvs ts" using Cons.prems by (rule wf_tlvs_tl)
  ultimately show ?case
    using Cons.IH by (simp add: drain_skip forwards_def del: tlvs_enc_simps)
qed

lemma drain_eq:
  "wf_tlvs ts \<Longrightarrow> drain \<lparr>ai_internal = as, ai_tlvs = tlvs_enc ts, ai_sender_identity = p\<rparr>
    = Ok (as @ forwards p ts)"
  by (induction as) (simp_all add: drain_tlvs drain_Cons)

section \<open>Properties\<close>

text \<open>Whatever message was parsed, a caller that drains the actions of a port gets the actions
  in order, followed by one \<open>ForwardTLV\<close> for each TLV of the message that has to be propagated,
  in the order of the message, and no panic.\<close>

theorem drain_actions:
  assumes "message_deserialize data = Ok m"
  shows "\<exists>ts. tlvs (ms_suffix m) = Ok ts
    \<and> drain (with_forward_tlvs (actions acts) (ms_suffix m) sender)
        = Ok (acts @ map (\<lambda>t. ForwardTLV \<lparr>ft_tlv = t, ft_sender_identity = sender\<rparr>)
            (filter (\<lambda>t. tlv_type_announce_propagate (tlv_type t)) ts))"
proof -
  have "wf_tlv_set (ms_suffix m)"
    using message_deserialize_OkD(1) [OF assms] by (simp add: canon_message_def)
  then obtain ts where "tlvs (ms_suffix m) = Ok ts" "wf_tlvs ts" "ms_suffix m = tlvs_enc ts"
    using tlvs_wf by blast
  then show ?thesis
    using drain_eq [of ts acts sender]
    by (simp add: with_forward_tlvs_def actions_def forwards_def)
qed

theorem drain_actions_witness:
  "\<exists>ts. tlvs (ms_suffix example_sync) = Ok ts
    \<and> drain (with_forward_tlvs (actions [ResetSyncTimer 5]) (ms_suffix example_sync) port_identity_default)
        = Ok ([ResetSyncTimer 5] @ map (\<lambda>t. ForwardTLV \<lparr>ft_tlv = t, ft_sender_identity = port_identity_default\<rparr>)
            (filter (\<lambda>t. tlv_type_announce_propagate (tlv_type t)) ts))"
  by (rule drain_actions [of "message_layout example_sync (replicate 44 0) @ []"],
      rule message_deserialize_layout [OF canon_example_sync(1)]) (simp add: canon_example_sync(2))

end
