(* ===== verification/Bmca.thy ===== *)
theory Bmca
  imports ForeignMaster PortTypes
begin

text \<open>
  \<open>statime/src/bmc/bmca.rs\<close>: the best master clock algorithm of a port and the state decision
  algorithm. The lemmas show that none of it panics, that \<open>find_best_announce_message\<close> returns the
  least message in the lexicographic order of \<open>DatasetComparison\<close>, and when each recommended
  state is chosen.
\<close>

record best_announce_message =
  ba_header :: header
  ba_message :: announce_message
  ba_age :: duration
  ba_identity :: port_identity

datatype message_comparison = MC_Better | MC_Same | MC_Worse best_announce_message

datatype recommended_state =
    RS_M1 default_ds | RS_M2 default_ds | RS_M3 announce_message
  | RS_P1 announce_message | RS_P2 announce_message | RS_S1 announce_message

record bmca =
  bm_foreign_master_list :: foreign_master_list
  bm_acceptable_master_list :: "clock_identity \<Rightarrow> bool"
  bm_own_port_identity :: port_identity

section \<open>Comparing announce messages\<close>

definition ba_dataset :: "best_announce_message \<Rightarrow> comparison_dataset" where
  "ba_dataset m = from_announce_message (ba_message m) (ba_identity m)"

definition compare_dataset :: "best_announce_message \<Rightarrow> best_announce_message \<Rightarrow> dataset_ordering res" where
  "compare_dataset self other = compare (ba_dataset self) (ba_dataset other)"

definition ba_compare :: "best_announce_message \<Rightarrow> best_announce_message \<Rightarrow> ordering res" where
  "ba_compare self other =
     (let tie_break = cmp (ba_age other) (ba_age self)
      in andthen (compare_dataset self other) (\<lambda>d. Ok (then_cmp (as_ordering d) tie_break)))"

text \<open>\<open>Iterator::max_by\<close>: the later of two elements that compare equal is kept.\<close>

fun max_by :: "('a \<Rightarrow> 'a \<Rightarrow> ordering res) \<Rightarrow> 'a \<Rightarrow> 'a list \<Rightarrow> 'a res" where
  "max_by f best [] = Ok best"
| "max_by f best (x # xs) =
     andthen (f best x) (\<lambda>c. max_by f (if c = Greater then best else x) xs)"

definition find_best_announce_message ::
  "best_announce_message list \<Rightarrow> best_announce_message option res" where
  "find_best_announce_message announce_messages =
     (case announce_messages of
        [] \<Rightarrow> Ok None
      | m # ms \<Rightarrow> andthen (max_by ba_compare m ms) (\<lambda>best. Ok (Some best)))"

section \<open>The state decision algorithm\<close>

definition compare_d0_best ::
  "comparison_dataset \<Rightarrow> best_announce_message option \<Rightarrow> message_comparison res" where
  "compare_d0_best d0 opt_best =
     (case opt_best of
        None \<Rightarrow> Ok MC_Better
      | Some best \<Rightarrow>
          andthen (compare d0 (ba_dataset best)) (\<lambda>d.
          Ok (case as_ordering d of
                Less \<Rightarrow> MC_Worse best | Equal \<Rightarrow> MC_Same | Greater \<Rightarrow> MC_Better)))"

definition calculate_recommended_state_low_class ::
  "default_ds \<Rightarrow> best_announce_message option \<Rightarrow> recommended_state res" where
  "calculate_recommended_state_low_class own_data best_port_announce_message =
     andthen (compare_d0_best (from_own_data own_data) best_port_announce_message) (\<lambda>c.
     Ok (case c of
           MC_Better \<Rightarrow> RS_M1 own_data
         | MC_Same \<Rightarrow> RS_M1 own_data
         | MC_Worse port \<Rightarrow> RS_P1 (ba_message port)))"

definition compare_global_and_port ::
  "best_announce_message \<Rightarrow> best_announce_message \<Rightarrow> recommended_state res" where
  "compare_global_and_port global_message port_message =
     (if global_message = port_message then Ok (RS_S1 (ba_message global_message))
      else
        andthen (compare (ba_dataset global_message) (ba_dataset port_message)) (\<lambda>d.
        Ok (if d = BetterByTopology then RS_P2 (ba_message port_message)
            else RS_M3 (ba_message global_message))))"

definition calculate_recommended_state_high_class ::
  "default_ds \<Rightarrow> best_announce_message option \<Rightarrow> best_announce_message option \<Rightarrow>
   recommended_state res" where
  "calculate_recommended_state_high_class own_data best_global best_port =
     andthen (compare_d0_best (from_own_data own_data) best_global) (\<lambda>c.
     case c of
       MC_Better \<Rightarrow> Ok (RS_M2 own_data)
     | MC_Same \<Rightarrow> Ok (RS_M2 own_data)
     | MC_Worse global_message \<Rightarrow>
         (case best_port of
            None \<Rightarrow> Ok (RS_M3 (ba_message global_message))
          | Some port_message \<Rightarrow> compare_global_and_port global_message port_message))"

definition calculate_recommended_state ::
  "default_ds \<Rightarrow> best_announce_message option \<Rightarrow> best_announce_message option \<Rightarrow> port_state \<Rightarrow>
   recommended_state option res" where
  "calculate_recommended_state own_data best_global best_port port_state =
     (if best_port = None \<and> port_state = PS_Listening then Ok None
      else if 1 \<le> cq_clock_class (dd_clock_quality own_data)
              \<and> cq_clock_class (dd_clock_quality own_data) \<le> 127
      then andthen (calculate_recommended_state_low_class own_data best_port) (\<lambda>r. Ok (Some r))
      else andthen (calculate_recommended_state_high_class own_data best_global best_port)
             (\<lambda>r. Ok (Some r)))"

section \<open>The algorithm of one port\<close>

definition bmca_new :: "(clock_identity \<Rightarrow> bool) \<Rightarrow> time_interval \<Rightarrow> port_identity \<Rightarrow> bmca" where
  "bmca_new acceptable_master_list own_port_announce_interval own_port_identity = \<lparr>
     bm_foreign_master_list =
       foreign_master_list_new own_port_announce_interval own_port_identity,
     bm_acceptable_master_list = acceptable_master_list,
     bm_own_port_identity = own_port_identity\<rparr>"

definition bmca_step_age :: "'f numlib \<Rightarrow> duration \<Rightarrow> bmca \<Rightarrow> bmca res" where
  "bmca_step_age lib step b =
     andthen (fl_step_age lib step (bm_foreign_master_list b)) (\<lambda>fl.
     Ok (b\<lparr>bm_foreign_master_list := fl\<rparr>))"

definition bmca_register_announce_message ::
  "'f numlib \<Rightarrow> header \<Rightarrow> announce_message \<Rightarrow> bmca \<Rightarrow> (bmca \<times> bool) res" where
  "bmca_register_announce_message lib header announce_message b =
     (let source = hd_source_port_identity (am_header announce_message) in
      if source \<noteq> bm_own_port_identity b \<and> bm_acceptable_master_list b (pi_clock_identity source)
      then
        andthen (fl_register_announce_message lib header announce_message duration_ZERO
                   (bm_foreign_master_list b)) (\<lambda>fl.
        Ok (b\<lparr>bm_foreign_master_list := fl\<rparr>, True))
      else Ok (b, False))"

definition reregister_announce_message ::
  "'f numlib \<Rightarrow> header \<Rightarrow> announce_message \<Rightarrow> duration \<Rightarrow> bmca \<Rightarrow> bmca res" where
  "reregister_announce_message lib header announce_message age b =
     (let source = hd_source_port_identity (am_header announce_message) in
      if source \<noteq> bm_own_port_identity b \<and> bm_acceptable_master_list b (pi_clock_identity source)
      then
        andthen (fl_register_announce_message lib header announce_message age
                   (bm_foreign_master_list b)) (\<lambda>fl.
        Ok (b\<lparr>bm_foreign_master_list := fl\<rparr>))
      else Ok b)"

definition to_best :: "port_identity \<Rightarrow> foreign_announce_message \<Rightarrow> best_announce_message" where
  "to_best own m = \<lparr>ba_header = fa_header m, ba_message = fa_message m, ba_age = fa_age m,
     ba_identity = own\<rparr>"

definition take_best_port_announce_message ::
  "'f numlib \<Rightarrow> bmca \<Rightarrow> (bmca \<times> best_announce_message option) res" where
  "take_best_port_announce_message lib b =
     andthen (take_qualified_announce_messages (bm_foreign_master_list b)) (\<lambda>(fl, announce_messages).
     let b' = b\<lparr>bm_foreign_master_list := fl\<rparr> in
     andthen (find_best_announce_message (map (to_best (bm_own_port_identity b)) announce_messages)) (\<lambda>erbest.
     case erbest of
       None \<Rightarrow> Ok (b', None)
     | Some best \<Rightarrow>
         andthen (reregister_announce_message lib (ba_header best) (ba_message best) (ba_age best) b') (\<lambda>b''.
         Ok (b'', Some best))))"

section \<open>Choosing the best message\<close>

lemma ba_compare_Ok:
  "ba_compare a b = Ok (then_cmp (as_ordering (ds_compare (ba_dataset a) (ba_dataset b)))
     (cmp (ba_age b) (ba_age a)))"
  by (simp add: ba_compare_def compare_dataset_def)

lemma max_by_Ok:
  assumes "\<And>a b. f a b = Ok (g a b)"
  shows "\<exists>m. max_by f best xs = Ok m \<and> m \<in> insert best (set xs)"
proof (induction xs arbitrary: best)
  case (Cons x xs)
  show ?case
    using Cons.IH [of best] Cons.IH [of x] by (auto simp: assms)
qed simp

lemma max_by_least:
  fixes k :: "'a \<Rightarrow> 'b::linorder"
  assumes "\<And>a b. a \<in> S \<Longrightarrow> b \<in> S \<Longrightarrow> f a b = Ok (cmp (k b) (k a))"
    and "insert best (set xs) \<subseteq> S"
  shows "\<exists>m. max_by f best xs = Ok m \<and> m \<in> insert best (set xs)
    \<and> (\<forall>x \<in> insert best (set xs). k m \<le> k x)"
  using assms(2)
proof (induction xs arbitrary: best)
  case (Cons x xs)
  let ?b = "if cmp (k x) (k best) = Greater then best else x"
  have le: "k ?b \<le> k best" "k ?b \<le> k x" by auto
  have step: "max_by f best (x # xs) = max_by f ?b xs"
    using assms(1) [of best x] Cons.prems by simp
  have "insert ?b (set xs) \<subseteq> S" using Cons.prems by simp
  then obtain m where "max_by f ?b xs = Ok m" "m \<in> insert ?b (set xs)"
      "\<forall>y \<in> insert ?b (set xs). k m \<le> k y"
    using Cons.IH [of ?b] by blast
  with le show ?case
    unfolding step by (intro exI [of _ m]) (auto split: if_splits intro: order_trans)
qed simp

lemma find_best_Ok:
  "\<exists>r. find_best_announce_message ms = Ok r \<and> (r = None \<longleftrightarrow> ms = []) \<and> set_option r \<subseteq> set ms"
proof (cases ms)
  case (Cons m rest)
  then show ?thesis
    using max_by_Ok [of ba_compare, OF ba_compare_Ok, of m rest]
    by (auto simp: find_best_announce_message_def)
qed (simp add: find_best_announce_message_def)

definition ba_key :: "best_announce_message \<Rightarrow> ds_key \<times> duration" where
  "ba_key m = (key (ba_dataset m), ba_age m)"

definition consistent :: "best_announce_message set \<Rightarrow> bool" where
  "consistent S \<longleftrightarrow> (\<forall>a \<in> S. foreign (ba_dataset a) \<and> (\<forall>b \<in> S. agree (ba_dataset a) (ba_dataset b)))"

lemma ba_compare_key:
  assumes "consistent S" "a \<in> S" "b \<in> S"
  shows "ba_compare a b = Ok (cmp (ba_key b) (ba_key a))"
  using assms
  by (simp add: ba_compare_Ok ds_compare_key consistent_def ba_key_def cmp_prod [of "key _" "ba_age _"])

lemma find_best_least:
  assumes "consistent (set ms)" "find_best_announce_message ms = Inr (Some best)"
  shows "best \<in> set ms \<and> (\<forall>m \<in> set ms. ba_key best \<le> ba_key m)"
proof -
  obtain m rest where ms: "ms = m # rest"
    using assms(2) by (cases ms) (auto simp: find_best_announce_message_def)
  have "\<exists>r. max_by ba_compare m rest = Ok r \<and> r \<in> insert m (set rest)
      \<and> (\<forall>x \<in> insert m (set rest). ba_key r \<le> ba_key x)"
    by (rule max_by_least [of "set ms"]) (use assms(1) ms ba_compare_key in auto)
  with assms(2) ms show ?thesis by (auto simp: find_best_announce_message_def)
qed

section \<open>Recommended states\<close>

lemma calculate_recommended_state_Ok: "\<exists>r. calculate_recommended_state d g p s = Ok r"
  by (auto simp: calculate_recommended_state_def calculate_recommended_state_low_class_def
    calculate_recommended_state_high_class_def compare_d0_best_def compare_global_and_port_def
    split: option.split message_comparison.split)

lemma recommended_S1_iff:
  "calculate_recommended_state d g p s = Inr (Some (RS_S1 a)) \<longleftrightarrow>
   \<not> (1 \<le> cq_clock_class (dd_clock_quality d) \<and> cq_clock_class (dd_clock_quality d) \<le> 127)
   \<and> g \<noteq> None \<and> g = p \<and> a = ba_message (the g)
   \<and> as_ordering (ds_compare (from_own_data d) (ba_dataset (the g))) = Less"
  by (auto simp: calculate_recommended_state_def calculate_recommended_state_low_class_def
    calculate_recommended_state_high_class_def compare_d0_best_def compare_global_and_port_def
    split: option.splits message_comparison.splits ordering.splits if_splits)

section \<open>The invariant of the algorithm of a port\<close>

definition wf_bmca :: "bmca \<Rightarrow> bool" where
  "wf_bmca b \<longleftrightarrow> wf_foreign_master_list (bm_foreign_master_list b)
     \<and> fl_own_port_identity (bm_foreign_master_list b) = bm_own_port_identity b
     \<and> (\<forall>p \<in> known_masters (bm_foreign_master_list b). bm_acceptable_master_list b (pi_clock_identity p))"

text \<open>What never changes: the identity of the port and its list of acceptable masters.\<close>

definition same_bmca_config :: "bmca \<Rightarrow> bmca \<Rightarrow> bool" where
  "same_bmca_config b b' \<longleftrightarrow> bm_own_port_identity b' = bm_own_port_identity b
     \<and> bm_acceptable_master_list b' = bm_acceptable_master_list b"

lemma wf_bmca_new: "wf_bmca (bmca_new acceptable i p)"
  using wf_foreign_master_list_new [of i p]
  by (simp add: wf_bmca_def bmca_new_def known_masters_def foreign_master_list_new_def)

lemma wf_bmca_step_age:
  assumes "wf_bmca b"
  shows "\<exists>b'. bmca_step_age lib step b = Ok b' \<and> wf_bmca b' \<and> same_bmca_config b b'"
  using wf_fl_step_age [of "bm_foreign_master_list b" lib step] assms
  by (fastforce simp: wf_bmca_def bmca_step_age_def same_bmca_config_def)

lemma wf_bmca_register:
  assumes "wf_bmca b" and "sound_announce a"
  shows "\<exists>b' r. bmca_register_announce_message lib h a b = Ok (b', r) \<and> wf_bmca b'
    \<and> same_bmca_config b b'"
  using wf_fl_register [of "bm_foreign_master_list b" a lib h duration_ZERO] assms
  by (fastforce simp: wf_bmca_def bmca_register_announce_message_def same_bmca_config_def Let_def)

lemma wf_bmca_reregister:
  assumes "wf_bmca b" and "sound_announce a"
  shows "\<exists>b'. reregister_announce_message lib h a age b = Ok b' \<and> wf_bmca b'
    \<and> same_bmca_config b b'"
  using wf_fl_register [of "bm_foreign_master_list b" a lib h age] assms
  by (fastforce simp: wf_bmca_def reregister_announce_message_def same_bmca_config_def Let_def)

lemma known_masters_taken:
  "known_masters (fl\<lparr>fl_foreign_masters := map taken (fl_foreign_masters fl)\<rparr>) = known_masters fl"
  by (simp add: known_masters_def image_image)

text \<open>A message that a port offers to the algorithm: received by this port, sent by another clock
  that is acceptable, and fewer than 255 steps away.\<close>

definition offered :: "bmca \<Rightarrow> best_announce_message \<Rightarrow> bool" where
  "offered b m \<longleftrightarrow> ba_identity m = bm_own_port_identity b
     \<and> foreign (ba_dataset m) \<and> am_steps_removed (ba_message m) < 255 \<and> sound_announce (ba_message m)
     \<and> bm_acceptable_master_list b
         (pi_clock_identity (hd_source_port_identity (am_header (ba_message m))))"

lemma offered_to_best:
  assumes "wf_bmca b" and "fm \<in> set (fl_foreign_masters (bm_foreign_master_list b))"
    and "m \<in> set (fm_announce_messages fm)"
  shows "offered b (to_best (bm_own_port_identity b) m)"
proof -
  have fm: "wf_foreign_master (bm_own_port_identity b) fm"
    and acc: "bm_acceptable_master_list b (pi_clock_identity (fm_port_identity fm))"
    using assms(1,2) by (auto simp: wf_bmca_def wf_foreign_master_list_def list_all_iff known_masters_def)
  with assms(3) show ?thesis
    by (auto simp: offered_def to_best_def ba_dataset_def foreign_def from_announce_message_def
      wf_foreign_master_def list_all_iff)
qed

lemma wf_take_best:
  assumes "wf_bmca b"
  shows "\<exists>b' r. take_best_port_announce_message lib b = Ok (b', r) \<and> wf_bmca b'
    \<and> same_bmca_config b b' \<and> pred_option (offered b) r"
proof -
  let ?fl = "bm_foreign_master_list b"
  let ?fl' = "?fl\<lparr>fl_foreign_masters := map taken (fl_foreign_masters ?fl)\<rparr>"
  let ?b = "b\<lparr>bm_foreign_master_list := ?fl'\<rparr>"
  let ?q = "rev (map (\<lambda>fm. last (fm_announce_messages fm)) (filter qualifies (fl_foreign_masters ?fl)))"
  let ?ms = "map (to_best (bm_own_port_identity b)) ?q"
  have wf: "wf_foreign_master_list ?fl" using assms by (simp add: wf_bmca_def)
  have wfb: "wf_bmca ?b" and cfg: "same_bmca_config b ?b"
    using assms wf_take_qualified [OF wf] known_masters_taken [of ?fl]
    by (auto simp: wf_bmca_def same_bmca_config_def)
  have "fm_announce_messages fm \<noteq> []" if "fm \<in> set (fl_foreign_masters ?fl)" for fm
    using wf that by (auto simp: wf_foreign_master_list_def wf_foreign_master_def list_all_iff)
  then have off: "offered b m" if "m \<in> set ?ms" for m
    using that assms by (auto intro: offered_to_best)
  obtain r where r: "find_best_announce_message ?ms = Ok r" "set_option r \<subseteq> set ?ms"
    using find_best_Ok [of ?ms] by blast
  show ?thesis
  proof (cases r)
    case None
    with r wfb cfg show ?thesis
      by (simp add: take_best_port_announce_message_def take_qualified_eq [OF wf])
  next
    case (Some best)
    have off_best: "offered b best" using r(2) Some off by auto
    then have sound: "sound_announce (ba_message best)" by (simp add: offered_def)
    obtain b' where b': "reregister_announce_message lib (ba_header best) (ba_message best) (ba_age best) ?b
        = Ok b'" "wf_bmca b'" "same_bmca_config ?b b'"
      using wf_bmca_reregister [OF wfb sound] by blast
    with off_best Some r b' cfg show ?thesis
      by (simp add: take_best_port_announce_message_def take_qualified_eq [OF wf] same_bmca_config_def)
  qed
qed

section \<open>Properties\<close>

text \<open>C21: among announce messages that come from other clocks and agree about their grandmasters, the
  best message is one of them and none is better: its lexicographic key is least, and among messages
  with the same key it is the youngest.\<close>

theorem best_message_is_least:
  assumes "consistent (set ms)"
  shows "if ms = [] then find_best_announce_message ms = Ok None
    else \<exists>best \<in> set ms. find_best_announce_message ms = Ok (Some best)
      \<and> (\<forall>m \<in> set ms. (key (ba_dataset best), ba_age best) \<le> (key (ba_dataset m), ba_age m))"
proof -
  obtain r where r: "find_best_announce_message ms = Ok r" "r = None \<longleftrightarrow> ms = []"
    using find_best_Ok [of ms] by blast
  show ?thesis
  proof (cases r)
    case (Some best)
    then show ?thesis
      using r find_best_least [OF assms, of best] by (auto simp: ba_key_def)
  qed (use r in simp)
qed

definition example_best :: "u8 \<Rightarrow> duration \<Rightarrow> best_announce_message" where
  "example_best c age = \<lparr>ba_header = am_header (example_announce c), ba_message = example_announce c,
     ba_age = age, ba_identity = \<lparr>pi_clock_identity = replicate 8 1, pi_port_number = 1\<rparr>\<rparr>"

lemma consistent_example: "consistent (set [example_best 7 3, example_best 9 0])"
proof -
  have "foreign (ba_dataset (example_best 7 3))" "foreign (ba_dataset (example_best 9 0))"
    by code_simp+
  moreover have "agree (ba_dataset (example_best 7 3)) (ba_dataset (example_best 9 0))"
    "agree (ba_dataset (example_best 9 0)) (ba_dataset (example_best 7 3))"
    by code_simp+
  ultimately show ?thesis by (simp add: consistent_def) (simp add: agree_def)
qed

theorem best_message_is_least_witness:
  "\<exists>best \<in> set [example_best 7 3, example_best 9 0].
     find_best_announce_message [example_best 7 3, example_best 9 0] = Ok (Some best)"
  using best_message_is_least [OF consistent_example] by auto

text \<open>C22: the state decision always returns, and it recommends the slave state exactly when the clock
  class of the instance is not in 1..127, the best message of the port is also the best message of
  the instance, and the instance's own data set is worse than it.\<close>

theorem slave_recommended_iff:
  "(\<exists>r. calculate_recommended_state d ebest erbest s = Ok r)
   \<and> ((\<exists>a. calculate_recommended_state d ebest erbest s = Ok (Some (RS_S1 a))) \<longleftrightarrow>
      \<not> (1 \<le> cq_clock_class (dd_clock_quality d) \<and> cq_clock_class (dd_clock_quality d) \<le> 127)
      \<and> (\<exists>m. ebest = Some m \<and> erbest = Some m
          \<and> (\<exists>o'. compare (from_own_data d) (ba_dataset m) = Ok o' \<and> as_ordering o' = Less)))"
  using calculate_recommended_state_Ok [of d ebest erbest s]
  by (cases ebest) (auto simp: recommended_S1_iff)

text \<open>A port's selection of its best message keeps the invariant, never panics, and the message
  it offers was received by this port from another clock that is on the list of acceptable masters,
  and is fewer than 255 steps away.\<close>

theorem take_best_offers_acceptable:
  assumes "wf_bmca b"
  shows "\<exists>b' r. take_best_port_announce_message lib b = Ok (b', r) \<and> wf_bmca b'
    \<and> bm_own_port_identity b' = bm_own_port_identity b
    \<and> (case r of None \<Rightarrow> True | Some m \<Rightarrow>
        ba_identity m = bm_own_port_identity b \<and> am_steps_removed (ba_message m) < 255
        \<and> (let sender = pi_clock_identity (hd_source_port_identity (am_header (ba_message m)))
           in sender \<noteq> pi_clock_identity (bm_own_port_identity b) \<and> bm_acceptable_master_list b sender))"
proof -
  obtain b' r where "take_best_port_announce_message lib b = Ok (b', r)" "wf_bmca b'"
    "same_bmca_config b b'" "pred_option (offered b) r"
    using wf_take_best [OF assms] by blast
  then show ?thesis
    by (intro exI [of _ b'] exI [of _ r])
      (auto simp: same_bmca_config_def offered_def foreign_def ba_dataset_def
        from_announce_message_def Let_def split: option.split)
qed

theorem take_best_offers_acceptable_witness:
  "\<exists>b' r. take_best_port_announce_message numlib_ref
      (bmca_new accept_any_master 65536 port_identity_default) = Ok (b', r) \<and> wf_bmca b'"
  using take_best_offers_acceptable [OF wf_bmca_new] by blast

end
