(* ===== verification/Port.thy ===== *)
theory Port
  imports Bmca
begin

text \<open>
  \<open>statime/src/port/mod.rs\<close>: the state of a port, its construction, the change of its state
  and its type states. The generic parameters of \<open>Port\<close> (random number generator, clock and
  filter) are the parameter record \<open>host\<close>; every function of theirs that may panic returns a
  \<open>res\<close>. The shared \<open>PtpInstanceState\<close> is an argument of the operations that read it and a
  result of those that write it.
\<close>

section \<open>The generic parameters of a port\<close>

record ('f, 'r, 'c, 'k, 'q) host =
  ho_num :: "'f numlib"
  ho_open01 :: "'r \<Rightarrow> 'f \<times> 'r"
  ho_set_properties :: "time_properties_ds \<Rightarrow> 'c \<Rightarrow> 'c"
  ho_filter_new :: "'k \<Rightarrow> 'q"
  ho_filter_measurement :: "measurement \<Rightarrow> 'q \<Rightarrow> 'c \<Rightarrow> ('q \<times> 'c \<times> filter_update) res"
  ho_filter_update :: "'q \<Rightarrow> 'c \<Rightarrow> ('q \<times> 'c \<times> filter_update) res"
  ho_filter_demobilize :: "'q \<Rightarrow> 'c \<Rightarrow> 'c res"
  ho_filter_estimates :: "'q \<Rightarrow> filter_estimate"

section \<open>The port\<close>

text \<open>The type states: \<open>Running\<close> is \<open>unit\<close>, \<open>InBmca\<close> has two fields.\<close>

record in_bmca =
  ib_pending_action :: port_action_iterator
  ib_local_best :: "best_announce_message option"

record ('l, 'r, 'c, 'k, 'q) port =
  po_config :: port_config
  po_filter_config :: 'k
  po_clock :: 'c
  po_port_identity :: port_identity
  po_port_state :: port_state
  po_bmca :: bmca
  po_packet_buffer :: bytes
  po_lifecycle :: 'l
  po_rng :: 'r
  po_multiport_disable :: "duration option"
  po_announce_seq_ids :: sequence_id_generator
  po_sync_seq_ids :: sequence_id_generator
  po_delay_seq_ids :: sequence_id_generator
  po_pdelay_seq_ids :: sequence_id_generator
  po_filter :: 'q
  po_mean_delay :: "duration option"
  po_peer_delay_state :: peer_delay_state

type_synonym ('r, 'c, 'k, 'q) running_port = "(unit, 'r, 'c, 'k, 'q) port"
type_synonym ('r, 'c, 'k, 'q) bmca_port = "(in_bmca, 'r, 'c, 'k, 'q) port"

definition port_new ::
  "('f, 'r, 'c, 'k, 'q) host \<Rightarrow> port_config \<Rightarrow> 'k \<Rightarrow> 'c \<Rightarrow> port_identity \<Rightarrow> 'r \<Rightarrow>
   ('r, 'c, 'k, 'q) bmca_port res" where
  "port_new host config filter_config clock port_identity rng =
     andthen (announce_duration (ho_num host) (ho_open01 host) config rng) (\<lambda>(duration, rng').
     Ok \<lparr>po_config = config,
         po_filter_config = filter_config,
         po_clock = clock,
         po_port_identity = port_identity,
         po_port_state = PS_Listening,
         po_bmca = bmca_new (pc_acceptable_master_list config)
           (time_interval_from_duration (interval_as_duration (ho_num host) (pc_announce_interval config)))
           port_identity,
         po_packet_buffer = replicate MAX_DATA_LEN 0,
         po_lifecycle = \<lparr>ib_pending_action = actions [ResetAnnounceReceiptTimer duration],
                         ib_local_best = None\<rparr>,
         po_rng = rng',
         po_multiport_disable = None,
         po_announce_seq_ids = sequence_id_generator_new,
         po_sync_seq_ids = sequence_id_generator_new,
         po_delay_seq_ids = sequence_id_generator_new,
         po_pdelay_seq_ids = sequence_id_generator_new,
         po_filter = ho_filter_new host filter_config,
         po_mean_delay = None,
         po_peer_delay_state = PD_Empty\<rparr>)"

text \<open>\<open>start_bmca\<close> and \<open>end_bmca\<close> move every field into the port of the other type state.\<close>

definition change_lifecycle :: "'m \<Rightarrow> ('l, 'r, 'c, 'k, 'q) port \<Rightarrow> ('m, 'r, 'c, 'k, 'q) port" where
  "change_lifecycle l p = \<lparr>
     po_config = po_config p,
     po_filter_config = po_filter_config p,
     po_clock = po_clock p,
     po_port_identity = po_port_identity p,
     po_port_state = po_port_state p,
     po_bmca = po_bmca p,
     po_packet_buffer = replicate MAX_DATA_LEN 0,
     po_lifecycle = l,
     po_rng = po_rng p,
     po_multiport_disable = po_multiport_disable p,
     po_announce_seq_ids = po_announce_seq_ids p,
     po_sync_seq_ids = po_sync_seq_ids p,
     po_delay_seq_ids = po_delay_seq_ids p,
     po_pdelay_seq_ids = po_pdelay_seq_ids p,
     po_filter = po_filter p,
     po_mean_delay = po_mean_delay p,
     po_peer_delay_state = po_peer_delay_state p\<rparr>"

definition start_bmca :: "('r, 'c, 'k, 'q) running_port \<Rightarrow> ('r, 'c, 'k, 'q) bmca_port" where
  "start_bmca p = change_lifecycle \<lparr>ib_pending_action = actions [], ib_local_best = None\<rparr> p"

definition end_bmca ::
  "('r, 'c, 'k, 'q) bmca_port \<Rightarrow> ('r, 'c, 'k, 'q) running_port \<times> port_action_iterator" where
  "end_bmca p = (change_lifecycle () p, ib_pending_action (po_lifecycle p))"

text \<open>\<open>set_forced_port_state\<close>: leaving the slave or faulty state, or entering the faulty state,
  replaces the filter and demobilizes the old one.\<close>

definition set_forced_port_state ::
  "('f, 'r, 'c, 'k, 'q) host \<Rightarrow> port_state \<Rightarrow> ('l, 'r, 'c, 'k, 'q) port \<Rightarrow>
   ('l, 'r, 'c, 'k, 'q) port res" where
  "set_forced_port_state host state p =
     (let old = po_port_state p; p' = p\<lparr>po_port_state := state\<rparr> in
      if is_slave_state old \<or> old = PS_Faulty \<or> state = PS_Faulty
      then
        andthen (ho_filter_demobilize host (po_filter p) (po_clock p)) (\<lambda>clock.
        Ok (p'\<lparr>po_filter := ho_filter_new host (po_filter_config p), po_clock := clock\<rparr>))
      else Ok p')"

definition is_steering :: "('l, 'r, 'c, 'k, 'q) port \<Rightarrow> bool" where
  "is_steering p = is_slave_state (po_port_state p)"

definition is_master :: "('l, 'r, 'c, 'k, 'q) port \<Rightarrow> bool" where
  "is_master p \<longleftrightarrow> po_port_state p = PS_Master"

definition port_number :: "('l, 'r, 'c, 'k, 'q) port \<Rightarrow> u16" where
  "port_number p = pi_port_number (po_port_identity p)"

definition port_current_ds_contribution ::
  "('f, 'r, 'c, 'k, 'q) host \<Rightarrow> ('l, 'r, 'c, 'k, 'q) port \<Rightarrow> filter_estimate option" where
  "port_current_ds_contribution host p =
     (if is_slave_state (po_port_state p) then Some (ho_filter_estimates host (po_filter p)) else None)"

section \<open>PortDS\<close>

text \<open>\<open>statime/src/observability/port.rs\<close> and \<open>Port::port_ds\<close>.\<close>

datatype obs_port_state =
    OPS_Initializing | OPS_Faulty | OPS_Disabled | OPS_Listening | OPS_PreMaster | OPS_Master
  | OPS_Passive | OPS_Uncalibrated | OPS_Slave

datatype obs_delay_mechanism =
    ODM_E2E i8 | ODM_P2P i8 time_interval | ODM_NoMechanism | ODM_CommonP2P time_interval | ODM_Special

record port_ds =
  pds_port_identity :: port_identity
  pds_port_state :: obs_port_state
  pds_log_announce_interval :: i8
  pds_announce_receipt_timeout :: u8
  pds_log_sync_interval :: i8
  pds_delay_mechanism :: obs_delay_mechanism
  pds_version_number :: u8
  pds_minor_version_number :: u8
  pds_delay_asymmetry :: time_interval
  pds_master_only :: bool

definition port_ds_of :: "('l, 'r, 'c, 'k, 'q) port \<Rightarrow> port_ds" where
  "port_ds_of p = \<lparr>
     pds_port_identity = po_port_identity p,
     pds_port_state =
       (case po_port_state p of
          PS_Faulty \<Rightarrow> OPS_Faulty
        | PS_Listening \<Rightarrow> OPS_Listening
        | PS_Master \<Rightarrow> OPS_Master
        | PS_Passive \<Rightarrow> OPS_Passive
        | PS_Slave _ \<Rightarrow> OPS_Slave),
     pds_log_announce_interval = pc_announce_interval (po_config p),
     pds_announce_receipt_timeout = pc_announce_receipt_timeout (po_config p),
     pds_log_sync_interval = pc_sync_interval (po_config p),
     pds_delay_mechanism =
       (case pc_delay_mechanism (po_config p) of
          E2E interval \<Rightarrow> ODM_E2E interval
        | P2P interval \<Rightarrow> ODM_P2P interval
            (case po_mean_delay p of Some v \<Rightarrow> time_interval_from_duration v | None \<Rightarrow> 0)),
     pds_version_number = 2,
     pds_minor_version_number = ptp_minor_version_into (pc_minor_ptp_version (po_config p)),
     pds_delay_asymmetry = time_interval_from_duration (pc_delay_asymmetry (po_config p)),
     pds_master_only = pc_master_only (po_config p)\<rparr>"

text \<open>The random delay before the next request.\<close>

definition random_request_delay ::
  "('f, 'r, 'c, 'k, 'q) host \<Rightarrow> interval \<Rightarrow> 'r \<Rightarrow> (core_duration \<times> 'r) res" where
  "random_request_delay host interval rng =
     (let lib = ho_num host;
          (random, rng') = ho_open01 host rng;
          factor = f_mul lib random (f_of_int lib 2)
      in andthen (interval_as_core_duration lib interval) (\<lambda>d.
         andthen (cd_mul_f64 lib d factor) (\<lambda>duration.
         Ok (duration, rng'))))"

section \<open>Sending a message\<close>

text \<open>The pattern of every sender: serialize into the packet buffer, return no action on an error,
  and continue with the written part of the buffer.\<close>

definition send_message ::
  "message \<Rightarrow> ('l, 'r, 'c, 'k, 'q) port \<Rightarrow>
   (('l, 'r, 'c, 'k, 'q) port \<Rightarrow> bytes \<Rightarrow> (('l, 'r, 'c, 'k, 'q) port \<times> port_action_iterator) res) \<Rightarrow>
   (('l, 'r, 'c, 'k, 'q) port \<times> port_action_iterator) res" where
  "send_message m p k =
     (case message_serialize m (po_packet_buffer p) of
        Inl Panic \<Rightarrow> panic
      | Inl (Wire error) \<Rightarrow> Ok (p, actions [])
      | Inr (buffer, packet_length) \<Rightarrow>
          andthen (slice 0 packet_length buffer) (\<lambda>data. k (p\<lparr>po_packet_buffer := buffer\<rparr>) data))"

section \<open>The invariant of a port\<close>

text \<open>The packet buffer has its declared length; the foreign masters are those of this port.\<close>

definition wf_port :: "('l, 'r, 'c, 'k, 'q) port \<Rightarrow> bool" where
  "wf_port p \<longleftrightarrow> wf_port_identity (po_port_identity p)
     \<and> length (po_packet_buffer p) = MAX_DATA_LEN
     \<and> wf_bmca (po_bmca p) \<and> bm_own_port_identity (po_bmca p) = po_port_identity p"

text \<open>The parts of a port that only its construction determines.\<close>

definition same_port :: "('l, 'r, 'c, 'k, 'q) port \<Rightarrow> ('m, 'r, 'c, 'k, 'q) port \<Rightarrow> bool" where
  "same_port p p' \<longleftrightarrow> po_port_identity p' = po_port_identity p \<and> po_config p' = po_config p
     \<and> po_filter_config p' = po_filter_config p"

lemma same_port_refl [simp]: "same_port p p"
  by (simp add: same_port_def)

lemma same_port_trans: "same_port p q \<Longrightarrow> same_port q r \<Longrightarrow> same_port p r"
  by (simp add: same_port_def)

lemma set_forced_port_state_OkD:
  assumes "set_forced_port_state host s p = Inr p'"
  shows "po_port_state p' = s" "po_port_identity p' = po_port_identity p"
    "po_config p' = po_config p" "po_bmca p' = po_bmca p"
    "po_packet_buffer p' = po_packet_buffer p" "po_multiport_disable p' = po_multiport_disable p"
    "po_filter_config p' = po_filter_config p" "po_peer_delay_state p' = po_peer_delay_state p"
    "po_mean_delay p' = po_mean_delay p" "po_lifecycle p' = po_lifecycle p" "po_rng p' = po_rng p"
  using assms by (auto simp: set_forced_port_state_def Let_def split: if_splits)

lemma wf_set_forced:
  "set_forced_port_state host s p = Inr p' \<Longrightarrow> wf_port p \<Longrightarrow> wf_port p' \<and> same_port p p'"
  using set_forced_port_state_OkD [of host s p p'] by (simp add: wf_port_def same_port_def)

lemma wf_change_lifecycle: "wf_port p \<Longrightarrow> wf_port (change_lifecycle l p)"
  by (simp add: wf_port_def change_lifecycle_def MAX_DATA_LEN_def)

lemma change_lifecycle_simps [simp]:
  "po_port_state (change_lifecycle l p) = po_port_state p"
  "po_config (change_lifecycle l p) = po_config p"
  "po_port_identity (change_lifecycle l p) = po_port_identity p"
  "po_bmca (change_lifecycle l p) = po_bmca p"
  "po_lifecycle (change_lifecycle l p) = l"
  by (simp_all add: change_lifecycle_def)

lemma start_end_bmca:
  "end_bmca (start_bmca p) = (p\<lparr>po_packet_buffer := replicate MAX_DATA_LEN 0\<rparr>, actions [])"
  by (simp add: start_bmca_def end_bmca_def change_lifecycle_def)

text \<open>Sending a well-formed message that fits never fails, and the data is its layout.\<close>

lemma send_message_eq:
  assumes "wf_port p" and "wf_message m" and "message_wire_size m \<le> MAX_DATA_LEN"
  shows "send_message m p k =
    k (p\<lparr>po_packet_buffer := message_layout m (po_packet_buffer p)
          @ drop (message_wire_size m) (po_packet_buffer p)\<rparr>)
      (message_layout m (po_packet_buffer p))"
proof -
  have l: "message_wire_size m \<le> length (po_packet_buffer p)"
    using assms by (simp add: wf_port_def)
  show ?thesis
    using assms(2) l
    by (simp add: send_message_def message_serialize_layout slice_def length_message_layout)
qed

lemma wf_port_sent:
  assumes "wf_port p" and "wf_message m" and "message_wire_size m \<le> MAX_DATA_LEN"
  shows "wf_port (p\<lparr>po_packet_buffer := message_layout m (po_packet_buffer p)
    @ drop (message_wire_size m) (po_packet_buffer p)\<rparr>)"
  using assms by (simp add: wf_port_def length_message_layout)

section \<open>Frames\<close>

text \<open>What every handler but the one for announce messages leaves alone.\<close>

definition port_frame :: "('l, 'r, 'c, 'k, 'q) port \<Rightarrow> ('l, 'r, 'c, 'k, 'q) port \<Rightarrow> bool" where
  "port_frame p p' \<longleftrightarrow> same_port p p' \<and> po_bmca p' = po_bmca p
     \<and> length (po_packet_buffer p') = length (po_packet_buffer p)
     \<and> po_multiport_disable p' = po_multiport_disable p"

lemma port_frame_refl [simp]: "port_frame p p"
  by (simp add: port_frame_def)

lemma port_frame_trans: "port_frame p q \<Longrightarrow> port_frame q r \<Longrightarrow> port_frame p r"
  by (auto simp: port_frame_def intro: same_port_trans)

lemma wf_port_frame: "port_frame p p' \<Longrightarrow> wf_port p \<Longrightarrow> wf_port p'"
  by (simp add: port_frame_def wf_port_def same_port_def)

lemma port_frame_same: "port_frame p p' \<Longrightarrow> same_port p p'"
  by (simp add: port_frame_def)

lemma port_frame_update [simp]:
  "port_frame p (p\<lparr>po_port_state := s\<rparr>)"
  "port_frame p (p\<lparr>po_peer_delay_state := d\<rparr>)"
  "port_frame p (p\<lparr>po_rng := r\<rparr>)"
  "port_frame p (p\<lparr>po_announce_seq_ids := n\<rparr>)"
  "port_frame p (p\<lparr>po_sync_seq_ids := n\<rparr>)"
  "port_frame p (p\<lparr>po_delay_seq_ids := n\<rparr>)"
  "port_frame p (p\<lparr>po_pdelay_seq_ids := n\<rparr>)"
  "port_frame p (p\<lparr>po_filter := q, po_clock := c\<rparr>)"
  "port_frame p (p\<lparr>po_filter := q, po_clock := c, po_mean_delay := m\<rparr>)"
  by (simp_all add: port_frame_def same_port_def)

lemma frame_set_forced: "set_forced_port_state host s p = Inr p' \<Longrightarrow> port_frame p p'"
  using set_forced_port_state_OkD [of host s p p'] by (simp add: port_frame_def same_port_def)

section \<open>Modes, actions and the assumptions on the host\<close>

text \<open>The state of a port without the progress of its measurements.\<close>

datatype port_mode = M_Faulty | M_Listening | M_Master | M_Passive | M_Slave port_identity

fun mode_of :: "port_state \<Rightarrow> port_mode" where
  "mode_of PS_Faulty = M_Faulty"
| "mode_of PS_Listening = M_Listening"
| "mode_of PS_Master = M_Master"
| "mode_of PS_Passive = M_Passive"
| "mode_of (PS_Slave s) = M_Slave (ss_remote_master s)"

abbreviation mode :: "('l, 'r, 'c, 'k, 'q) port \<Rightarrow> port_mode" where
  "mode p \<equiv> mode_of (po_port_state p)"

lemma mode_of_iff [simp]:
  "mode_of s = M_Faulty \<longleftrightarrow> s = PS_Faulty"
  "mode_of s = M_Listening \<longleftrightarrow> s = PS_Listening"
  "mode_of s = M_Master \<longleftrightarrow> s = PS_Master"
  "mode_of s = M_Passive \<longleftrightarrow> s = PS_Passive"
  by (cases s; simp)+

text \<open>An action that a port in the given mode may return: the data fits a packet, the
  context of a peer delay response names a port, and only a master sends sync messages or starts the
  timers of a master.\<close>

fun sane_action :: "bool \<Rightarrow> port_action \<Rightarrow> bool" where
  "sane_action master (SendEvent context data link_local) \<longleftrightarrow>
     length data \<le> MAX_DATA_LEN
     \<and> (case context of TC_Sync _ \<Rightarrow> master | TC_PDelayResp _ requestor \<Rightarrow> wf_port_identity requestor | _ \<Rightarrow> True)"
| "sane_action master (SendGeneral data link_local) \<longleftrightarrow> length data \<le> MAX_DATA_LEN"
| "sane_action master (ResetAnnounceTimer _) \<longleftrightarrow> master"
| "sane_action master (ResetSyncTimer _) \<longleftrightarrow> master"
| "sane_action master (ForwardTLV _) \<longleftrightarrow> False"
| "sane_action master _ \<longleftrightarrow> True"

fun is_send :: "port_action \<Rightarrow> bool" where
  "is_send (SendEvent _ _ _) \<longleftrightarrow> True"
| "is_send (SendGeneral _ _) \<longleftrightarrow> True"
| "is_send _ \<longleftrightarrow> False"

definition good_actions :: "('l, 'r, 'c, 'k, 'q) port \<Rightarrow> port_action_iterator \<Rightarrow> bool" where
  "good_actions p acts \<longleftrightarrow> length (ai_internal acts) \<le> MAX_ACTIONS
     \<and> length (filter is_send (ai_internal acts)) \<le> 1
     \<and> list_all (sane_action (is_master p)) (ai_internal acts) \<and> wf_tlv_set (ai_tlvs acts)"

lemma good_actions_simps [simp]:
  "good_actions p (actions [])"
  "good_actions p (actions [a]) \<longleftrightarrow> sane_action (is_master p) a"
  "good_actions p (actions [a, b]) \<longleftrightarrow>
     \<not> (is_send a \<and> is_send b) \<and> sane_action (is_master p) a \<and> sane_action (is_master p) b"
  "good_actions p acts \<Longrightarrow> good_actions p (with_forward_tlvs acts suffix sender) \<longleftrightarrow> wf_tlv_set suffix"
  "good_actions p (actions_from_filter u)"
  by (auto simp: good_actions_def actions_def MAX_ACTIONS_def with_forward_tlvs_def
    actions_from_filter_def split: option.split)

text \<open>The functions of the host that a port with this configuration calls do not panic.\<close>

definition host_total :: "('f, 'r, 'c, 'k, 'q) host \<Rightarrow> port_config \<Rightarrow> bool" where
  "host_total host c \<longleftrightarrow>
     (\<forall>m q k. \<exists>r. ho_filter_measurement host m q k = Ok r)
     \<and> (\<forall>q k. \<exists>r. ho_filter_update host q k = Ok r)
     \<and> (\<forall>q k. \<exists>r. ho_filter_demobilize host q k = Ok r)
     \<and> (\<exists>d. interval_as_core_duration (ho_num host) (pc_announce_interval c) = Ok d)
     \<and> (\<exists>d. interval_as_core_duration (ho_num host) (pc_sync_interval c) = Ok d)
     \<and> (\<forall>rng. \<exists>r. announce_duration (ho_num host) (ho_open01 host) c rng = Ok r)
     \<and> (\<forall>rng. \<exists>r. random_request_delay host (min_delay_req_interval c) rng = Ok r)"

lemma host_totalD:
  assumes "host_total host c"
  shows "\<exists>r. ho_filter_measurement host m q k = Ok r"
    and "\<exists>r. ho_filter_update host q k = Ok r"
    and "\<exists>r. ho_filter_demobilize host q k = Ok r"
    and "\<exists>d. interval_as_core_duration (ho_num host) (pc_announce_interval c) = Ok d"
    and "\<exists>d. interval_as_core_duration (ho_num host) (pc_sync_interval c) = Ok d"
    and "\<exists>r. announce_duration (ho_num host) (ho_open01 host) c rng = Ok r"
    and "\<exists>r. random_request_delay host (min_delay_req_interval c) rng = Ok r"
  using assms by (auto simp: host_total_def)

lemma outcome_set_forced:
  assumes "T \<longrightarrow> host_total host c"
  shows "outcome T (set_forced_port_state host s p)
    (\<lambda>p'. port_frame p p' \<and> po_port_state p' = s \<and> po_peer_delay_state p' = po_peer_delay_state p
      \<and> po_lifecycle p' = po_lifecycle p)"
proof (rule outcome_call)
  assume T
  then have "host_total host c" using assms by simp
  then obtain r where "ho_filter_demobilize host (po_filter p) (po_clock p) = Ok r"
    using host_totalD(3) [of host c "po_filter p" "po_clock p"] by blast
  then show "\<exists>x. set_forced_port_state host s p = Inr x"
    by (simp add: set_forced_port_state_def Let_def)
next
  fix p' assume "set_forced_port_state host s p = Inr p'"
  then show "port_frame p p' \<and> po_port_state p' = s \<and> po_peer_delay_state p' = po_peer_delay_state p
      \<and> po_lifecycle p' = po_lifecycle p"
    using frame_set_forced [of host s p p'] set_forced_port_state_OkD [of host s p p'] by simp
qed

lemma outcome_send:
  assumes "wf_port p" and "wf_message m" and "message_wire_size m \<le> MAX_DATA_LEN"
    and "\<And>b data. length b = length (po_packet_buffer p) \<Longrightarrow> length data \<le> MAX_DATA_LEN \<Longrightarrow>
      outcome T (k (p\<lparr>po_packet_buffer := b\<rparr>) data) Q"
  shows "outcome T (send_message m p k) Q"
proof -
  have l: "message_wire_size m \<le> length (po_packet_buffer p)"
    using assms(1,3) by (simp add: wf_port_def)
  show ?thesis
    unfolding send_message_eq [OF assms(1-3)]
    by (rule assms(4)) (use assms(3) l length_message_layout [OF assms(2) l] in simp_all)
qed

lemma frame_buffer:
  "length b = length (po_packet_buffer p) \<Longrightarrow> port_frame p (p\<lparr>po_packet_buffer := b\<rparr>)"
  by (simp add: port_frame_def same_port_def)

section \<open>A host that records the measurements\<close>

text \<open>Used in examples: a constant random number, a filter that collects the measurements it is given
  and reports the measured delay, and a clock that keeps the last time properties.\<close>

definition recording_host ::
  "(rat, unit, time_properties_ds option, unit, measurement list) host" where
  "recording_host = \<lparr>
     ho_num = numlib_ref,
     ho_open01 = (\<lambda>rng. (1 / 2, rng)),
     ho_set_properties = (\<lambda>tp clock. Some tp),
     ho_filter_new = (\<lambda>config. []),
     ho_filter_measurement = (\<lambda>m filter clock.
       Ok (filter @ [m], clock, \<lparr>up_next_update = None, up_mean_delay = me_delay m\<rparr>)),
     ho_filter_update = (\<lambda>filter clock.
       Ok (filter, clock, \<lparr>up_next_update = None, up_mean_delay = None\<rparr>)),
     ho_filter_demobilize = (\<lambda>filter clock. Ok clock),
     ho_filter_estimates = (\<lambda>filter. \<lparr>fe_offset_from_master = 0, fe_mean_delay = 0\<rparr>)\<rparr>"

definition example_config :: port_config where
  "example_config = \<lparr>
     pc_acceptable_master_list = accept_any_master,
     pc_delay_mechanism = E2E 1,
     pc_announce_interval = 1,
     pc_announce_receipt_timeout = 3,
     pc_sync_interval = 0,
     pc_master_only = False,
     pc_delay_asymmetry = 0,
     pc_minor_ptp_version = PMV_One\<rparr>"

definition example_identity :: "u8 \<Rightarrow> port_identity" where
  "example_identity c = \<lparr>pi_clock_identity = replicate 8 c, pi_port_number = 1\<rparr>"

definition example_port ::
  "port_state \<Rightarrow> peer_delay_state \<Rightarrow> (unit, time_properties_ds option, unit, measurement list) running_port" where
  "example_port state peer = \<lparr>
     po_config = example_config, po_filter_config = (), po_clock = None,
     po_port_identity = example_identity 1, po_port_state = state,
     po_bmca = bmca_new accept_any_master 131072 (example_identity 1),
     po_packet_buffer = replicate MAX_DATA_LEN 0, po_lifecycle = (), po_rng = (),
     po_multiport_disable = None, po_announce_seq_ids = 0, po_sync_seq_ids = 0, po_delay_seq_ids = 0,
     po_pdelay_seq_ids = 0, po_filter = [], po_mean_delay = None, po_peer_delay_state = peer\<rparr>"

lemma recording_host_num [simp]: "ho_num recording_host = numlib_ref"
  by (simp add: recording_host_def)

lemma wf_example_port: "wf_port (example_port s d)"
  using wf_bmca_new [of accept_any_master 131072 "example_identity 1"]
  by (simp add: wf_port_def example_port_def example_identity_def wf_port_identity_def
    wf_clock_identity_def MAX_DATA_LEN_def bmca_new_def)

lemma recording_host_total: "host_total recording_host example_config"
  by (simp add: host_total_def recording_host_def example_config_def interval_as_core_duration_def
    interval_as_f64_def announce_duration_def random_request_delay_def min_delay_req_interval_def
    numlib_ref_def Let_def)

definition example_state :: "bool \<Rightarrow> ptp_instance_state" where
  "example_state path_trace =
     (let d = \<lparr>dd_clock_identity = replicate 8 1, dd_number_ports = 1, dd_clock_quality = clock_quality_default,
           dd_priority_1 = 128, dd_priority_2 = 128, dd_domain_number = 0, dd_slave_only = False, dd_sdo_id = 0\<rparr>
      in \<lparr>is_default_ds = d, is_current_ds = current_ds_default, is_parent_ds = parent_ds_new d,
          is_path_trace_ds = path_trace_ds_new path_trace,
          is_time_properties_ds = new_arbitrary_time False False TS_InternalOscillator\<rparr>)"

lemma wf_example_state: "wf_instance_state (example_state b)"
  by (simp add: wf_instance_state_def example_state_def Let_def wf_default_ds_def wf_parent_ds_def
    parent_ds_new_def wf_port_identity_def wf_clock_identity_def wf_path_trace_ds_def path_trace_ds_new_def)

end
