(* ===== verification/PortMaster.thy ===== *)
theory PortMaster
  imports Port
begin

text \<open>
  \<open>statime/src/port/master.rs\<close>: what a port in the master state sends, and the answers to peer
  delay requests. \<open>send_announce\<close> asks a \<open>ForwardedTLVProvider\<close> for TLVs; the trait is the
  locale \<open>tlv_source\<close> (as documented) and \<open>strict_tlv_source\<close> (what \<open>send_announce\<close> relies
  on). Inside the locale, the loop over the provider is shown to end without a panic.
\<close>

section \<open>Sync and follow up\<close>

definition minor_version :: "('l, 'r, 'c, 'k, 'q) port \<Rightarrow> u8" where
  "minor_version p = ptp_minor_version_into (pc_minor_ptp_version (po_config p))"

definition send_sync ::
  "('f, 'r, 'c, 'k, 'q) host \<Rightarrow> ptp_instance_state \<Rightarrow> ('r, 'c, 'k, 'q) running_port \<Rightarrow>
   (('r, 'c, 'k, 'q) running_port \<times> port_action_iterator) res" where
  "send_sync host state p =
     (if po_port_state p = PS_Master then
        let (seq_id, ids) = generate (po_sync_seq_ids p);
            p1 = p\<lparr>po_sync_seq_ids := ids\<rparr>
        in send_message (msg_sync (is_default_ds state) (po_port_identity p) seq_id (minor_version p)) p1
             (\<lambda>p2 data.
               andthen (interval_as_core_duration (ho_num host) (pc_sync_interval (po_config p))) (\<lambda>duration.
               Ok (p2, actions [ResetSyncTimer duration, SendEvent (TC_Sync seq_id) data False])))
      else Ok (p, actions []))"

definition handle_sync_timestamp ::
  "('f, 'r, 'c, 'k, 'q) host \<Rightarrow> ptp_instance_state \<Rightarrow> u16 \<Rightarrow> time \<Rightarrow> ('r, 'c, 'k, 'q) running_port \<Rightarrow>
   (('r, 'c, 'k, 'q) running_port \<times> port_action_iterator) res" where
  "handle_sync_timestamp host state ident timestamp p =
     (if po_port_state p = PS_Master then
        send_message (msg_follow_up (ho_num host) (is_default_ds state) (po_port_identity p) ident timestamp
            (minor_version p)) p
          (\<lambda>p1 data. Ok (p1, actions [SendGeneral data False]))
      else Ok (p, actions []))"

section \<open>Announce\<close>

text \<open>The block \<open>'path_trace\<close>: the path with the own identity appended, if it fits. The result is
  the builder and the margin that is left.\<close>

definition add_path_trace ::
  "ptp_instance_state \<Rightarrow> tlv_set_builder \<Rightarrow> nat \<Rightarrow> (tlv_set_builder \<times> nat) res" where
  "add_path_trace state tlv_builder tlv_margin =
     (let path_trace = is_path_trace_ds state in
      if pt_enable path_trace \<and> length (pt_list path_trace) < path_trace_capacity then
        let path = pt_list path_trace @ [dd_clock_identity (is_default_ds state)];
            value = concat path
        in if length value > MAX_DATA_LEN then panic
           else
             let t = \<lparr>tlv_type = TT_PathTrace, tlv_value = value\<rparr>; tlv_size = tlv_wire_size t
             in if tlv_size < tlv_margin
                then andthen (unwrap (tlv_set_builder_add t tlv_builder)) (\<lambda>b. Ok (b, tlv_margin - tlv_size))
                else Ok (tlv_builder, tlv_margin)
      else Ok (tlv_builder, tlv_margin))"

text \<open>The loop over the provider \<open>next_tlv\<close>, a function of the maximal size and the provider's state.
  It may not end, if the provider never stops yielding TLVs that are skipped.\<close>

partial_function (option) forward_tlvs ::
  "(nat \<Rightarrow> 's \<Rightarrow> forwarded_tlv option \<times> 's) \<Rightarrow> port_identity \<Rightarrow> bool \<Rightarrow> 's \<Rightarrow> tlv_set_builder \<Rightarrow> nat \<Rightarrow>
   ('s \<times> tlv_set_builder) res option" where
  "forward_tlvs next_tlv parent path_trace_enabled s tlv_builder tlv_margin =
     (case next_tlv tlv_margin s of
        (None, s') \<Rightarrow> Some (Ok (s', tlv_builder))
      | (Some t, s') \<Rightarrow>
          (if \<not> forwarded_tlv_size t < tlv_margin then Some panic
           else if parent \<noteq> ft_sender_identity t
             then forward_tlvs next_tlv parent path_trace_enabled s' tlv_builder tlv_margin
           else if path_trace_enabled \<and> tlv_type (ft_tlv t) = TT_PathTrace
             then forward_tlvs next_tlv parent path_trace_enabled s' tlv_builder tlv_margin
           else
             (case unwrap (tlv_set_builder_add (ft_tlv t) tlv_builder) of
                Inl e \<Rightarrow> Some (Inl e)
              | Inr b \<Rightarrow> forward_tlvs next_tlv parent path_trace_enabled s' b
                  (tlv_margin - forwarded_tlv_size t))))"

text \<open>The suffix of an announce message: the path trace, then the forwarded TLVs.\<close>

definition announce_suffix ::
  "(nat \<Rightarrow> 's \<Rightarrow> forwarded_tlv option \<times> 's) \<Rightarrow> ptp_instance_state \<Rightarrow> nat \<Rightarrow> 's \<Rightarrow>
   ('s \<times> tlv_set) res option" where
  "announce_suffix next_tlv state tlv_margin s =
     (case add_path_trace state (tlv_set_builder_new (replicate MAX_DATA_LEN 0)) tlv_margin of
        Inl e \<Rightarrow> Some (Inl e)
      | Inr (tlv_builder, margin) \<Rightarrow>
          (case forward_tlvs next_tlv (pd_parent_port_identity (is_parent_ds state))
                  (pt_enable (is_path_trace_ds state)) s tlv_builder margin of
             None \<Rightarrow> None
           | Some r \<Rightarrow> Some (andthen r (\<lambda>(s', b). andthen (tlv_set_builder_build b) (\<lambda>suffix. Ok (s', suffix))))))"

definition send_announce ::
  "('f, 'r, 'c, 'k, 'q) host \<Rightarrow> (nat \<Rightarrow> 's \<Rightarrow> forwarded_tlv option \<times> 's) \<Rightarrow> ptp_instance_state \<Rightarrow> 's \<Rightarrow>
   ('r, 'c, 'k, 'q) running_port \<Rightarrow>
   ('s \<times> ('r, 'c, 'k, 'q) running_port \<times> port_action_iterator) res option" where
  "send_announce host next_tlv state s p =
     (if po_port_state p = PS_Master then
        let (seq_id, ids) = generate (po_announce_seq_ids p);
            p1 = p\<lparr>po_announce_seq_ids := ids\<rparr>;
            message = msg_announce state (po_port_identity p) seq_id (minor_version p)
        in case announce_suffix next_tlv state (MAX_DATA_LEN - message_wire_size message) s of
             None \<Rightarrow> None
           | Some r \<Rightarrow> Some (andthen r (\<lambda>(s', suffix).
               andthen (send_message (message\<lparr>ms_suffix := suffix\<rparr>) p1 (\<lambda>p2 data.
                 andthen (interval_as_core_duration (ho_num host) (pc_announce_interval (po_config p))) (\<lambda>duration.
                 Ok (p2, actions [ResetAnnounceTimer duration, SendGeneral data False])))) (\<lambda>(p3, acts).
               Ok (s', p3, acts))))
      else Some (Ok (s, p, actions [])))"

section \<open>Delay requests and peer delay requests\<close>

definition handle_delay_req ::
  "('f, 'r, 'c, 'k, 'q) host \<Rightarrow> header \<Rightarrow> delay_req_message \<Rightarrow> time \<Rightarrow> ('r, 'c, 'k, 'q) running_port \<Rightarrow>
   (('r, 'c, 'k, 'q) running_port \<times> port_action_iterator) res" where
  "handle_delay_req host header message timestamp p =
     (if po_port_state p = PS_Master then
        send_message (msg_delay_resp (ho_num host) header message (po_port_identity p)
            (min_delay_req_interval (po_config p)) timestamp) p
          (\<lambda>p1 data. Ok (p1, actions [SendGeneral data False]))
      else Ok (p, actions []))"

definition handle_pdelay_req ::
  "('f, 'r, 'c, 'k, 'q) host \<Rightarrow> ptp_instance_state \<Rightarrow> header \<Rightarrow> time \<Rightarrow> ('r, 'c, 'k, 'q) running_port \<Rightarrow>
   (('r, 'c, 'k, 'q) running_port \<times> port_action_iterator) res" where
  "handle_pdelay_req host state header timestamp p =
     send_message (msg_pdelay_resp (ho_num host) (is_default_ds state) (po_port_identity p) header timestamp
         (minor_version p)) p
       (\<lambda>p1 data. Ok (p1, actions
          [SendEvent (TC_PDelayResp (hd_sequence_id header) (hd_source_port_identity header)) data True]))"

definition handle_pdelay_response_timestamp ::
  "('f, 'r, 'c, 'k, 'q) host \<Rightarrow> ptp_instance_state \<Rightarrow> u16 \<Rightarrow> port_identity \<Rightarrow> time \<Rightarrow>
   ('r, 'c, 'k, 'q) running_port \<Rightarrow> (('r, 'c, 'k, 'q) running_port \<times> port_action_iterator) res" where
  "handle_pdelay_response_timestamp host state ident requestor_identity timestamp p =
     send_message (msg_pdelay_resp_follow_up (ho_num host) (is_default_ds state) (po_port_identity p)
         requestor_identity ident timestamp (minor_version p)) p
       (\<lambda>p1 data. Ok (p1, actions [SendGeneral data True]))"

section \<open>The suffix and the path trace\<close>

lemma length_concat_path: "list_all wf_clock_identity path \<Longrightarrow> length (concat path) = 8 * length path"
  by (induction path) (simp_all add: wf_clock_identity_def)

text \<open>The TLVs that \<open>add_path_trace\<close> adds.\<close>

definition path_trace_tlvs :: "ptp_instance_state \<Rightarrow> nat \<Rightarrow> tlv list" where
  "path_trace_tlvs state margin =
     (let path = pt_list (is_path_trace_ds state) @ [dd_clock_identity (is_default_ds state)] in
      if pt_enable (is_path_trace_ds state) \<and> length path \<le> path_trace_capacity
         \<and> 4 + 8 * length path < margin
      then [\<lparr>tlv_type = TT_PathTrace, tlv_value = concat path\<rparr>] else [])"

lemma add_path_trace_ok:
  assumes "wf_instance_state state" and "margin \<le> MAX_DATA_LEN"
  shows "\<exists>b m. add_path_trace state (tlv_set_builder_new (replicate MAX_DATA_LEN 0)) margin = Ok (b, m)
    \<and> builds (path_trace_tlvs state margin) b \<and> tb_used b + m = margin
    \<and> length (tb_buffer b) = MAX_DATA_LEN"
proof -
  let ?b = "tlv_set_builder_new (replicate MAX_DATA_LEN 0)"
  let ?path = "pt_list (is_path_trace_ds state) @ [dd_clock_identity (is_default_ds state)]"
  let ?t = "\<lparr>tlv_type = TT_PathTrace, tlv_value = concat ?path\<rparr>"
  have new: "tb_used ?b = 0" "length (tb_buffer ?b) = MAX_DATA_LEN"
    by (simp_all add: tlv_set_builder_new_def)
  have "list_all wf_clock_identity ?path"
    using assms(1) by (auto simp: wf_instance_state_def wf_path_trace_ds_def wf_default_ds_def)
  then have l: "length (concat ?path) = 8 * length ?path" by (rule length_concat_path)
  then have sz: "tlv_wire_size ?t = 4 + 8 * length ?path" by (simp add: tlv_wire_size_def)
  show ?thesis
  proof (cases "path_trace_tlvs state margin = []")
    case True
    have "add_path_trace state ?b margin = Ok (?b, margin)"
      using True l sz
      by (auto simp: add_path_trace_def path_trace_tlvs_def Let_def path_trace_capacity_def
        MAX_DATA_LEN_def split: if_splits)
    then show ?thesis using True builds_new new by auto
  next
    case False
    then have c: "pt_enable (is_path_trace_ds state)"
        "length (pt_list (is_path_trace_ds state)) < path_trace_capacity" "tlv_wire_size ?t < margin"
        "path_trace_tlvs state margin = [?t]"
      using sz by (auto simp: path_trace_tlvs_def Let_def split: if_splits)
    obtain b' where b': "tlv_set_builder_add ?t ?b = Ok b'" "builds [?t] b'"
        "length (tb_buffer b') = MAX_DATA_LEN"
      using builds_add [OF builds_new [of "replicate MAX_DATA_LEN 0"], of ?t] c(3) assms(2) new
      by (auto split: if_splits)
    then have used: "tb_used b' = tlv_wire_size ?t" by (simp add: builds_def)
    have "\<not> length (concat ?path) > MAX_DATA_LEN"
      using l c(2) by (simp add: path_trace_capacity_def MAX_DATA_LEN_def)
    then have "add_path_trace state ?b margin = Ok (b', margin - tlv_wire_size ?t)"
      using c b'(1) by (simp add: add_path_trace_def Let_def)
    then show ?thesis using b' c used by auto
  qed
qed

lemma wf_announce_suffix:
  "wf_message (msg_announce g p s v) \<Longrightarrow> wf_message ((msg_announce g p s v)\<lparr>ms_suffix := x\<rparr>)"
  by (simp add: wf_message_def)

lemma announce_suffix_size:
  "message_wire_size ((msg_announce g p s v)\<lparr>ms_suffix := x\<rparr>) = 64 + length x"
  using sent_message_sizes(8) [of g p s v]
  by (simp add: message_wire_size_def msg_announce_def Let_def)

section \<open>What sending does to a port\<close>

definition sent ::
  "('r, 'c, 'k, 'q) running_port \<Rightarrow> ('r, 'c, 'k, 'q) running_port \<times> port_action_iterator \<Rightarrow> bool" where
  "sent p = (\<lambda>(p', acts). port_frame p p' \<and> po_port_state p' = po_port_state p
     \<and> po_peer_delay_state p' = po_peer_delay_state p \<and> good_actions p' acts)"

lemma sent_nothing [simp]: "sent p (p, actions [])"
  by (simp add: sent_def)

lemma sent_buffer:
  "length b = length (po_packet_buffer p) \<Longrightarrow> good_actions p acts \<Longrightarrow> sent p (p\<lparr>po_packet_buffer := b\<rparr>, acts)"
  by (simp add: sent_def frame_buffer good_actions_def is_master_def)

lemma outcome_send_sync:
  assumes "T \<longrightarrow> host_total host (po_config p)" and "wf_port p"
  shows "outcome T (send_sync host state p) (sent p)"
proof -
  have d: "outcome T (interval_as_core_duration (ho_num host) (pc_sync_interval (po_config p))) (\<lambda>_. True)"
    using assms(1) host_totalD(5) by (blast intro: outcome_returns)
  have "wf_port_identity (po_port_identity p)" using assms(2) by (simp add: wf_port_def)
  then show ?thesis
    unfolding send_sync_def generate_def Let_def prod.case
    using assms(2)
    by (intro outcome_if outcome_send outcome_bind [OF d] wf_sent_messages)
      (auto simp: wf_port_def MAX_DATA_LEN_def sent_def port_frame_def same_port_def is_master_def)
qed

lemma outcome_sync_timestamp:
  "wf_port p \<Longrightarrow> outcome T (handle_sync_timestamp host state i t p) (sent p)"
  unfolding handle_sync_timestamp_def
  by (intro outcome_if outcome_send wf_sent_messages)
    (auto simp: wf_port_def MAX_DATA_LEN_def intro: sent_buffer)

lemma outcome_delay_req:
  "wf_port p \<Longrightarrow> wf_port_identity (hd_source_port_identity h) \<Longrightarrow>
    outcome T (handle_delay_req host h m t p) (sent p)"
  unfolding handle_delay_req_def
  by (intro outcome_if outcome_send wf_sent_messages)
    (auto simp: wf_port_def MAX_DATA_LEN_def intro: sent_buffer)

lemma outcome_pdelay_req:
  "wf_port p \<Longrightarrow> wf_port_identity (hd_source_port_identity h) \<Longrightarrow>
    outcome T (handle_pdelay_req host state h t p) (sent p)"
  unfolding handle_pdelay_req_def
  by (intro outcome_send wf_sent_messages)
    (auto simp: wf_port_def MAX_DATA_LEN_def intro: sent_buffer)

lemma outcome_pdelay_response_timestamp:
  "wf_port p \<Longrightarrow> wf_port_identity q \<Longrightarrow>
    outcome T (handle_pdelay_response_timestamp host state i q t p) (sent p)"
  unfolding handle_pdelay_response_timestamp_def
  by (intro outcome_send wf_sent_messages)
    (auto simp: wf_port_def MAX_DATA_LEN_def intro: sent_buffer)

section \<open>The contract of a provider of TLVs\<close>

text \<open>\<open>next_if_smaller\<close> as documented: the next_tlv TLV, unless it is larger than \<open>max_size\<close>. A
  provider holds finitely many TLVs, counted by \<open>pending\<close>.\<close>

locale tlv_source =
  fixes next_tlv :: "nat \<Rightarrow> 's \<Rightarrow> forwarded_tlv option \<times> 's"
    and pending :: "'s \<Rightarrow> nat"
  assumes not_larger: "next_tlv max_size s = (Some t, s') \<Longrightarrow> forwarded_tlv_size t \<le> max_size"
    and consumed: "next_tlv max_size s = (Some t, s') \<Longrightarrow> pending s' < pending s"
begin

text \<open>The loop over a provider always ends, with a result or a panic.\<close>

lemma forward_tlvs_returns: "\<exists>r. forward_tlvs next_tlv parent pt s b margin = Some r"
proof (induction "pending s" arbitrary: s b margin rule: less_induct)
  case less
  show ?case
  proof (cases "next_tlv margin s")
    case (Pair o' s')
    show ?thesis
    proof (cases o')
      case None
      with Pair show ?thesis by (simp add: forward_tlvs.simps)
    next
      case (Some t)
      then have "pending s' < pending s" using Pair consumed by blast
      from less.hyps [OF this] show ?thesis
        using Pair Some by (subst forward_tlvs.simps) (auto split: sum.split)
    qed
  qed
qed

lemma announce_suffix_returns: "\<exists>r. announce_suffix next_tlv state m s = Some r"
proof (cases "add_path_trace state (tlv_set_builder_new (replicate MAX_DATA_LEN 0)) m")
  case (Inr x)
  obtain b n where x: "x = (b, n)" by (cases x)
  obtain r where "forward_tlvs next_tlv (pd_parent_port_identity (is_parent_ds state))
      (pt_enable (is_path_trace_ds state)) s b n = Some r"
    using forward_tlvs_returns by blast
  then show ?thesis using Inr x by (simp add: announce_suffix_def)
qed (simp add: announce_suffix_def)

lemma send_announce_returns: "\<exists>r. send_announce host next_tlv state s p = Some r"
proof -
  let ?m = "msg_announce state (po_port_identity p) (po_announce_seq_ids p) (minor_version p)"
  obtain r where "announce_suffix next_tlv state (MAX_DATA_LEN - message_wire_size ?m) s = Some r"
    using announce_suffix_returns by blast
  then show ?thesis by (simp add: send_announce_def generate_def Let_def)
qed

end

text \<open>A TLV that the provider yields and that an announce message forwards: it comes from the parent,
  and is not a path trace when the instance writes its own.\<close>

definition forwardable ::
  "(nat \<Rightarrow> 's \<Rightarrow> forwarded_tlv option \<times> 's) \<Rightarrow> port_identity \<Rightarrow> bool \<Rightarrow> tlv \<Rightarrow> bool" where
  "forwardable next_tlv parent path_trace_enabled u \<longleftrightarrow>
     (\<exists>m s t s'. next_tlv m s = (Some t, s') \<and> ft_tlv t = u \<and> ft_sender_identity t = parent)
     \<and> \<not> (path_trace_enabled \<and> tlv_type u = TT_PathTrace)"

text \<open>What the \<open>assert!\<close> in \<open>send_announce\<close> needs: strictly smaller.\<close>

locale strict_tlv_source = tlv_source +
  assumes strictly_smaller: "next_tlv max_size s = (Some t, s') \<Longrightarrow> forwarded_tlv_size t < max_size"
begin

lemma forward_tlvs_ok:
  assumes "builds ts b" and "tb_used b + margin \<le> length (tb_buffer b)"
  shows "\<exists>s' b' us. forward_tlvs next_tlv parent pt s b margin = Some (Ok (s', b')) \<and> builds (ts @ us) b'
    \<and> tb_used b' \<le> tb_used b + margin \<and> list_all (forwardable next_tlv parent pt) us"
  using assms
proof (induction "pending s" arbitrary: s b margin ts rule: less_induct)
  case less
  show ?case
  proof (cases "next_tlv margin s")
    case (Pair o' s')
    show ?thesis
    proof (cases o')
      case None
      with Pair less.prems show ?thesis
        by (simp add: forward_tlvs.simps) (metis append_Nil2 le_add1 list.pred_inject(1))
    next
      case (Some t)
      then have n: "next_tlv margin s = (Some t, s')" using Pair by simp
      have dec: "pending s' < pending s" and small: "forwarded_tlv_size t < margin"
        using consumed [OF n] strictly_smaller [OF n] by simp_all
      show ?thesis
      proof (cases "parent \<noteq> ft_sender_identity t \<or> pt \<and> tlv_type (ft_tlv t) = TT_PathTrace")
        case True
        then have "forward_tlvs next_tlv parent pt s b margin = forward_tlvs next_tlv parent pt s' b margin"
          using n small by (subst forward_tlvs.simps) auto
        then show ?thesis using less.hyps [OF dec less.prems] by simp
      next
        case False
        obtain b' where b': "tlv_set_builder_add (ft_tlv t) b = Ok b'" "builds (ts @ [ft_tlv t]) b'"
            "length (tb_buffer b') = length (tb_buffer b)"
          using builds_add [OF less.prems(1), of "ft_tlv t"] small less.prems(2)
          by (auto simp: forwarded_tlv_size_def split: if_splits)
        have used: "tb_used b' = tb_used b + forwarded_tlv_size t"
          using b'(2) less.prems(1) by (simp add: builds_def forwarded_tlv_size_def)
        have "forward_tlvs next_tlv parent pt s b margin
            = forward_tlvs next_tlv parent pt s' b' (margin - forwarded_tlv_size t)"
          using n small False b'(1) by (subst forward_tlvs.simps) auto
        moreover have "tb_used b' + (margin - forwarded_tlv_size t) \<le> length (tb_buffer b')"
          using used small less.prems(2) b'(3) by simp
        ultimately obtain s2 b2 us where
            f: "forward_tlvs next_tlv parent pt s b margin = Some (Ok (s2, b2))"
              "builds ((ts @ [ft_tlv t]) @ us) b2" "list_all (forwardable next_tlv parent pt) us"
              "tb_used b2 \<le> tb_used b' + (margin - forwarded_tlv_size t)"
          using less.hyps [OF dec b'(2), of "margin - forwarded_tlv_size t"] by auto
        have "forwardable next_tlv parent pt (ft_tlv t)"
          using n False unfolding forwardable_def by blast
        with f show ?thesis
          using used small by (intro exI [of _ s2] exI [of _ b2] exI [of _ "ft_tlv t # us"]) simp
      qed
    qed
  qed
qed

lemma announce_suffix_ok:
  assumes "wf_instance_state state" and "margin \<le> MAX_DATA_LEN"
  shows "\<exists>s' us. announce_suffix next_tlv state margin s
      = Some (Ok (s', tlvs_enc (path_trace_tlvs state margin @ us)))
    \<and> length (tlvs_enc (path_trace_tlvs state margin @ us)) \<le> margin
    \<and> list_all (forwardable next_tlv (pd_parent_port_identity (is_parent_ds state))
        (pt_enable (is_path_trace_ds state))) us"
proof -
  obtain b m where b: "add_path_trace state (tlv_set_builder_new (replicate MAX_DATA_LEN 0)) margin = Ok (b, m)"
      "builds (path_trace_tlvs state margin) b" "tb_used b + m = margin"
      "length (tb_buffer b) = MAX_DATA_LEN"
    using add_path_trace_ok [OF assms] by blast
  obtain s' b' us where f: "forward_tlvs next_tlv (pd_parent_port_identity (is_parent_ds state))
        (pt_enable (is_path_trace_ds state)) s b m = Some (Ok (s', b'))"
      "builds (path_trace_tlvs state margin @ us) b'" "tb_used b' \<le> tb_used b + m"
      "list_all (forwardable next_tlv (pd_parent_port_identity (is_parent_ds state))
        (pt_enable (is_path_trace_ds state))) us"
    using forward_tlvs_ok [OF b(2), of m] b(3,4) assms(2) by force
  have "length (tlvs_enc (path_trace_tlvs state margin @ us)) \<le> margin"
    using f(2,3) b(3) by (simp add: builds_def)
  then show ?thesis
    using b(1) f(1,4) builds_build [OF f(2)] by (auto simp: announce_suffix_def)
qed

lemma send_announce_master:
  assumes "wf_port p" and "wf_instance_state state" and "po_port_state p = PS_Master"
    and "interval_as_core_duration (ho_num host) (pc_announce_interval (po_config p)) = Ok d"
  shows "\<exists>s' p' us data. send_announce host next_tlv state s p
      = Some (Ok (s', p', actions [ResetAnnounceTimer d, SendGeneral data False]))
    \<and> wf_port p' \<and> same_port p p' \<and> length data \<le> MAX_DATA_LEN
    \<and> data = message_layout ((msg_announce state (po_port_identity p) (po_announce_seq_ids p) (minor_version p))
        \<lparr>ms_suffix := tlvs_enc (path_trace_tlvs state 960 @ us)\<rparr>) (po_packet_buffer p)
    \<and> sent p (p', actions [ResetAnnounceTimer d, SendGeneral data False])
    \<and> list_all (forwardable next_tlv (pd_parent_port_identity (is_parent_ds state))
        (pt_enable (is_path_trace_ds state))) us"
proof -
  let ?m = "msg_announce state (po_port_identity p) (po_announce_seq_ids p) (minor_version p)"
  let ?p = "p\<lparr>po_announce_seq_ids := po_announce_seq_ids p + 1\<rparr>"
  have margin: "MAX_DATA_LEN - message_wire_size ?m = 960" by (simp add: MAX_DATA_LEN_def)
  obtain s' us where u: "announce_suffix next_tlv state 960 s
        = Some (Ok (s', tlvs_enc (path_trace_tlvs state 960 @ us)))"
      "length (tlvs_enc (path_trace_tlvs state 960 @ us)) \<le> 960"
      "list_all (forwardable next_tlv (pd_parent_port_identity (is_parent_ds state))
        (pt_enable (is_path_trace_ds state))) us"
    using announce_suffix_ok [OF assms(2), of 960 s] by (auto simp: MAX_DATA_LEN_def)
  let ?ms = "?m\<lparr>ms_suffix := tlvs_enc (path_trace_tlvs state 960 @ us)\<rparr>"
  have wf: "wf_message ?ms" "message_wire_size ?ms \<le> MAX_DATA_LEN" "wf_port ?p"
    using assms u(2) wf_sent_messages(8) [of "po_port_identity p" state "po_announce_seq_ids p" "minor_version p"]
      wf_announce_suffix announce_suffix_size
    by (auto simp: wf_port_def wf_instance_state_def MAX_DATA_LEN_def)
  then have sent: "send_message ?ms ?p k = k (?p\<lparr>po_packet_buffer := message_layout ?ms (po_packet_buffer p)
      @ drop (message_wire_size ?ms) (po_packet_buffer p)\<rparr>) (message_layout ?ms (po_packet_buffer p))" for k
    using send_message_eq [of ?p ?ms k] by simp
  have "length (message_layout ?ms (po_packet_buffer p)) \<le> MAX_DATA_LEN"
    using wf by (subst length_message_layout) (simp_all add: wf_port_def)
  moreover have "wf_port (?p\<lparr>po_packet_buffer := message_layout ?ms (po_packet_buffer p)
      @ drop (message_wire_size ?ms) (po_packet_buffer p)\<rparr>)"
    using wf_port_sent [OF wf(3,1,2)] by simp
  ultimately show ?thesis
    using assms(3,4) u(1,3) sent margin wf(3)
    by (auto simp: send_announce_def generate_def Let_def same_port_def sent_def port_frame_def
      is_master_def wf_port_def)
qed

end

section \<open>NoForwardedTLVs\<close>

definition no_forwarded_tlvs :: "nat \<Rightarrow> unit \<Rightarrow> forwarded_tlv option \<times> unit" where
  "no_forwarded_tlvs max_size s = (None, s)"

interpretation no_tlvs: strict_tlv_source no_forwarded_tlvs "\<lambda>_. 0"
  by unfold_locales (simp_all add: no_forwarded_tlvs_def)

section \<open>Properties\<close>

lemma canon_path_trace: "canon_tlv_type TT_PathTrace"
  by (simp add: canon_tlv_type_def tlv_type_from_primitive_def tlv_value_defs)

lemma wf_path_trace_tlvs:
  assumes "wf_instance_state state"
  shows "wf_tlvs (path_trace_tlvs state 960)"
proof (cases "path_trace_tlvs state 960 = []")
  case False
  let ?path = "pt_list (is_path_trace_ds state) @ [dd_clock_identity (is_default_ds state)]"
  have "list_all wf_clock_identity ?path"
    using assms by (auto simp: wf_instance_state_def wf_path_trace_ds_def wf_default_ds_def)
  then have l: "length (concat ?path) = 8 * length ?path" by (rule length_concat_path)
  have "length (concat ?path) \<noteq> 0" unfolding l by simp
  then have "concat ?path \<noteq> []" using length_0_conv by blast
  moreover have "even (length (concat ?path))" unfolding l by simp
  moreover have "path_trace_tlvs state 960 = [\<lparr>tlv_type = TT_PathTrace, tlv_value = concat ?path\<rparr>]"
    "4 + 8 * length ?path < 960"
    using False by (auto simp: path_trace_tlvs_def Let_def split: if_splits)
  ultimately show ?thesis
    using l canon_path_trace by (simp add: wf_tlvs_def canon_tlv_def)
qed (simp add: wf_tlvs_def)

lemma minor_version_bound: "minor_version p < 16"
  unfolding minor_version_def by (cases "pc_minor_ptp_version (po_config p)") simp_all


lemma example_announce_interval:
  "interval_as_core_duration (ho_num recording_host) (pc_announce_interval (po_config (example_port s d)))
    = Ok 2000000000"
proof -
  have "round (2000000000 :: rat) = 2000000000" using round_of_int [of 2000000000] by simp
  then show ?thesis
    by (simp add: example_port_def example_config_def interval_as_core_duration_def
      interval_as_f64_def numlib_ref_def)
qed


text \<open>What a master announces is what a receiver parses: without forwarded TLVs, the bytes parse to
  the announce message of the data sets of the instance, whose only TLV is the path trace (the
  received path followed by the own identity) when that is enabled and has room.\<close>

theorem announce_parses_back:
  assumes "wf_port p" and "wf_instance_state state" and "po_port_state p = PS_Master"
    and "interval_as_core_duration (ho_num host) (pc_announce_interval (po_config p)) = Ok d"
    and "canon_quality (pd_grandmaster_clock_quality (is_parent_ds state))"
    and "canon_source (tp_time_source (is_time_properties_ds state))"
  shows "\<exists>p' data m. send_announce host no_forwarded_tlvs state () p
      = Some (Ok ((), p', actions [ResetAnnounceTimer d, SendGeneral data False]))
    \<and> message_deserialize data = Ok m
    \<and> ms_header m = ms_header (msg_announce state (po_port_identity p) (po_announce_seq_ids p) (minor_version p))
    \<and> ms_body m = ms_body (msg_announce state (po_port_identity p) (po_announce_seq_ids p) (minor_version p))
    \<and> tlvs (ms_suffix m) = Ok (path_trace_tlvs state 960)"
proof -
  let ?a = "msg_announce state (po_port_identity p) (po_announce_seq_ids p) (minor_version p)"
  obtain p' us data where s: "send_announce host no_forwarded_tlvs state () p
      = Some (Ok ((), p', actions [ResetAnnounceTimer d, SendGeneral data False]))"
      "data = message_layout (?a\<lparr>ms_suffix := tlvs_enc (path_trace_tlvs state 960 @ us)\<rparr>) (po_packet_buffer p)"
      "list_all (forwardable no_forwarded_tlvs (pd_parent_port_identity (is_parent_ds state))
        (pt_enable (is_path_trace_ds state))) us" "length data \<le> MAX_DATA_LEN"
    using no_tlvs.send_announce_master [OF assms(1-4), of "()"] by auto
  let ?m = "?a\<lparr>ms_suffix := tlvs_enc (path_trace_tlvs state 960)\<rparr>"
  have "us = []"
    using s(3) by (cases us) (auto simp: forwardable_def no_forwarded_tlvs_def)
  moreover have ts: "wf_tlvs (path_trace_tlvs state 960)" using assms(2) by (rule wf_path_trace_tlvs)
  have size: "length (tlvs_enc (path_trace_tlvs state 960)) \<le> 960"
    using assms(2) no_tlvs.announce_suffix_ok [of state 960 "()"] by (auto simp: MAX_DATA_LEN_def)
  have "canon_message ?m"
    using assms(1,2,5,6) wf_tlvs_enc [OF ts] size announce_suffix_size
    by (auto simp: canon_message_def canon_header_def canon_announce_def canon_timestamp_def
      wf_port_def wf_instance_state_def wf_default_ds_def wf_parent_ds_def msg_announce_def Let_def
      wire_timestamp_default_def minor_version_bound)
  moreover have "message_wire_size ?m \<le> length (po_packet_buffer p)"
    using size announce_suffix_size assms(1) by (auto simp: wf_port_def MAX_DATA_LEN_def)
  ultimately have "message_deserialize data = Ok ?m"
    using message_deserialize_layout [of ?m "po_packet_buffer p" "[]"] s(2) by simp
  then show ?thesis using s(1) tlvs_of_enc [OF ts] by auto
qed

theorem announce_parses_back_witness:
  "\<exists>p' data m. send_announce recording_host no_forwarded_tlvs (example_state True) () (example_port PS_Master PD_Empty)
      = Some (Ok ((), p', actions [ResetAnnounceTimer 2000000000, SendGeneral data False]))
    \<and> message_deserialize data = Ok m
    \<and> tlvs (ms_suffix m) = Ok [\<lparr>tlv_type = TT_PathTrace, tlv_value = replicate 8 1\<rparr>]"
proof -
  have "canon_quality (pd_grandmaster_clock_quality (is_parent_ds (example_state True)))"
    "canon_source (tp_time_source (is_time_properties_ds (example_state True)))"
    by (simp_all add: example_state_def Let_def parent_ds_new_def new_arbitrary_time_def canon_quality_def
      clock_quality_default_def canon_source_def time_source_from_primitive_def)
  moreover have "path_trace_tlvs (example_state True) 960
      = [\<lparr>tlv_type = TT_PathTrace, tlv_value = replicate 8 1\<rparr>]"
    by (simp add: path_trace_tlvs_def example_state_def Let_def path_trace_ds_new_def path_trace_capacity_def
      MAX_DATA_LEN_def)
  ultimately show ?thesis
    using announce_parses_back [OF wf_example_port wf_example_state _ example_announce_interval,
      of PS_Master PD_Empty True]
    by (auto simp: example_port_def)
qed

section \<open>Times on the wire\<close>

lemma sint_word_of_int:
  "- (2 ^ 63) \<le> x \<Longrightarrow> x < 2 ^ 63 \<Longrightarrow> sint (word_of_int x :: time_interval) = x"
  by (simp add: signed_of_int signed_take_bit_int_eq_self)

context fixed_point
begin

lemma subnano_value:
  assumes "in_range U96F32 t"
  shows "sint (time_subnano lib t) = t mod 2 ^ 32 div 2 ^ 16"
proof -
  have "0 \<le> t mod 2 ^ 32" "t mod 2 ^ 32 < 2 ^ 32" by simp_all
  then have "0 \<le> t mod 2 ^ 32 div 2 ^ 16" "t mod 2 ^ 32 div 2 ^ 16 < 2 ^ 63" by simp_all
  then show ?thesis unfolding time_subnano_exact [OF assms] by (intro sint_word_of_int) simp_all
qed

lemma wire_seconds_canon:
  assumes "0 \<le> t" and "t < 2 ^ 48 * (1000000000 * 2 ^ 32)"
  shows "canon_timestamp (wire_timestamp_from_time lib t)"
proof -
  have r: "in_range U96F32 t" using assms by simp
  have b: "0 \<le> t div (1000000000 * 2 ^ 32)" "t div (1000000000 * 2 ^ 32) < 2 ^ 48"
    using assms by (simp_all add: pos_imp_zdiv_nonneg_iff div_less_iff_less_mult)
  then have "uint (word_of_int (t div (1000000000 * 2 ^ 32)) :: u64) = t div (1000000000 * 2 ^ 32)"
    by (simp add: uint_word_of_int)
  then show ?thesis
    using b(2) by (simp add: canon_timestamp_def wire_timestamp_from_time_def time_secs_exact [OF r] word_less_def)
qed

text \<open>A time is split into a time stamp and a correction of the fraction of a nanosecond.\<close>

lemma follow_up_time:
  assumes "0 \<le> t" and "t < 2 ^ 48 * (1000000000 * 2 ^ 32)"
  shows "time_add lib (time_from_wire_timestamp lib (wire_timestamp_from_time lib t))
    (duration_from_interval_bits lib (time_subnano lib t)) = t - t mod 2 ^ 16"
proof -
  have r: "in_range U96F32 t" using assms by simp
  have "t mod 2 ^ 32 div 2 ^ 16 * 2 ^ 16 = t mod 2 ^ 32 - t mod 2 ^ 32 mod 2 ^ 16"
    by (rule minus_mod_eq_div_mult [symmetric])
  moreover have "t mod 2 ^ 32 mod 2 ^ 16 = t mod 2 ^ 16" by (rule mod_mod_cancel) simp
  ultimately have s: "t - t mod 2 ^ 32 + t mod 2 ^ 32 div 2 ^ 16 * 2 ^ 16 = t - t mod 2 ^ 16" by linarith
  have "0 \<le> t mod 2 ^ 16" "t mod 2 ^ 16 \<le> t" using assms(1) by (simp_all add: zmod_le_nonneg_dividend)
  then have "in_range U96F32 (t - t mod 2 ^ 16)" using assms by simp
  then have "time_add lib (t - t mod 2 ^ 32) (t mod 2 ^ 32 div 2 ^ 16 * 2 ^ 16) = t - t mod 2 ^ 16"
    using time_add_exact [of "t - t mod 2 ^ 32" "t mod 2 ^ 32 div 2 ^ 16 * 2 ^ 16"] unfolding s by simp
  moreover have "time_from_wire_timestamp lib (wire_timestamp_from_time lib t) = t - t mod 2 ^ 32"
    using assms by (intro time_wire_roundtrip) simp_all
  ultimately show ?thesis by (simp only: interval_bits_exact subnano_value [OF r])
qed

lemma response_correction:
  assumes "\<bar>c\<bar> < 2 ^ 62" and "in_range U96F32 t"
  shows "duration_from_interval_bits lib (word_of_int (fx_fit lib I48F16 (c + sint (time_subnano lib t))))
    = c * 2 ^ 16 + (t mod 2 ^ 32 - t mod 2 ^ 16)"
proof -
  let ?f = "t mod 2 ^ 32 div 2 ^ 16"
  have f: "0 \<le> ?f" "?f < 2 ^ 16" "?f * 2 ^ 16 = t mod 2 ^ 32 - t mod 2 ^ 16"
    by (simp_all add: minus_mod_eq_div_mult [symmetric] mod_mod_cancel)
  have "- (2 ^ 63) \<le> x + y \<and> x + y < 2 ^ 63" if "0 \<le> y" "y < 2 ^ 16" "\<bar>x\<bar> < 2 ^ 62" for x y :: int
    using that by auto
  then have b: "- (2 ^ 63) \<le> c + ?f" "c + ?f < 2 ^ 63" using f(1,2) assms(1) by blast+
  then have "in_range I48F16 (c + ?f)" by simp
  then have "fx_fit lib I48F16 (c + ?f) = c + ?f" by (rule fit)
  then have "sint (word_of_int (fx_fit lib I48F16 (c + sint (time_subnano lib t))) :: time_interval) = c + ?f"
    unfolding subnano_value [OF assms(2)] by (simp only: sint_word_of_int [OF b])
  then show ?thesis using f(3) by (simp add: interval_bits_exact distrib_right)
qed

lemma late_correction:
  assumes "\<bar>c\<bar> < 2 ^ 62" and "c * 2 ^ 16 + 2 ^ 33 \<le> t" and "0 \<le> t" "t < 2 ^ 120"
  shows "time_sub lib (t - t mod 2 ^ 32) (c * 2 ^ 16 + (t mod 2 ^ 32 - t mod 2 ^ 16))
    = (t - c * 2 ^ 16 - t mod 2 ^ 16) - 2 * (t mod 2 ^ 32 - t mod 2 ^ 16)"
proof -
  have b: "time_sub lib (t - x) (c * 2 ^ 16 + (x - y)) = (t - c * 2 ^ 16 - y) - 2 * (x - y)"
    if "0 \<le> y" "y < 2 ^ 16" "0 \<le> x" "x < 2 ^ 32" for x y
  proof -
    have "in_range I96F32 (- (c * 2 ^ 16 + (x - y)))" "in_range U96F32 (t - x - (c * 2 ^ 16 + (x - y)))"
      using assms that by auto
    then show ?thesis by (simp add: time_sub_exact del: in_range.simps)
  qed
  show ?thesis by (rule b) simp_all
qed

end

lemma sent_parses:
  "wf_port p \<Longrightarrow> canon_message m \<Longrightarrow> message_wire_size m \<le> MAX_DATA_LEN \<Longrightarrow>
    message_deserialize (message_layout m (po_packet_buffer p)) = Ok m"
  using message_deserialize_layout [of m "po_packet_buffer p" "[]"] by (simp add: wf_port_def)

text \<open>The time at which a master sent a sync message reaches its slaves: the follow-up message that
  the master sends for the transmit timestamp parses at the receiver, carries the sequence number of
  the sync message and the identity of the port, and a slave that adds up its time stamp and its
  correction obtains the time with all its 16 fractional bits of a nanosecond.\<close>

theorem follow_up_carries_time:
  assumes "fixed_point (ho_num host)" and "wf_port p" and "wf_instance_state state"
    and "po_port_state p = PS_Master" and "0 \<le> t" "t < 2 ^ 48 * (1000000000 * 2 ^ 32)"
  shows "\<exists>p' data m f. handle_sync_timestamp host state i t p = Ok (p', actions [SendGeneral data False])
    \<and> message_deserialize data = Ok m \<and> ms_body m = MB_FollowUp f
    \<and> hd_sequence_id (ms_header m) = i \<and> hd_source_port_identity (ms_header m) = po_port_identity p
    \<and> time_add (ho_num host) (time_from_wire_timestamp (ho_num host) (fu_precise_origin_timestamp f))
        (duration_from_interval_bits (ho_num host) (hd_correction_field (ms_header m))) = t - t mod 2 ^ 16"
proof -
  let ?m = "msg_follow_up (ho_num host) (is_default_ds state) (po_port_identity p) i t (minor_version p)"
  have canon: "canon_message ?m"
    using assms(2,3) fixed_point.wire_seconds_canon [OF assms(1,5,6)]
    by (auto simp: canon_message_def message_wire_size_def header_wire_size_def canon_header_def msg_follow_up_def wf_port_def wf_instance_state_def
      wf_default_ds_def minor_version_bound)
  have "handle_sync_timestamp host state i t p
      = Ok (p\<lparr>po_packet_buffer := message_layout ?m (po_packet_buffer p) @ drop 44 (po_packet_buffer p)\<rparr>,
          actions [SendGeneral (message_layout ?m (po_packet_buffer p)) False])"
    using assms(2,4) send_message_eq [OF assms(2) canon_message_wf [OF canon]]
    by (simp add: handle_sync_timestamp_def MAX_DATA_LEN_def)
  moreover have "message_deserialize (message_layout ?m (po_packet_buffer p)) = Ok ?m"
    by (rule sent_parses [OF assms(2) canon]) (simp add: MAX_DATA_LEN_def)
  ultimately show ?thesis
    using fixed_point.follow_up_time [OF assms(1,5,6)]
    by (auto simp: msg_follow_up_def)
qed

theorem follow_up_carries_time_witness:
  "\<exists>p' data m f. handle_sync_timestamp recording_host (example_state False) 5 (2 ^ 70 + 3) (example_port PS_Master PD_Empty)
      = Ok (p', actions [SendGeneral data False])
    \<and> message_deserialize data = Ok m \<and> ms_body m = MB_FollowUp f
    \<and> time_add numlib_ref (time_from_wire_timestamp numlib_ref (fu_precise_origin_timestamp f))
        (duration_from_interval_bits numlib_ref (hd_correction_field (ms_header m))) = 2 ^ 70"
  using follow_up_carries_time [of recording_host "example_port PS_Master PD_Empty" "example_state False"
      "2 ^ 70 + 3" 5] fixed_point_ref wf_example_port wf_example_state
  by (auto simp: example_port_def)

text \<open>The receive time in a delay response loses its fraction of a nanosecond twice: the master adds
  the fraction to the correction field, which a slave subtracts, so that the slave ends up with a time
  that is too early by twice the fraction.\<close>

theorem delay_resp_fraction_error:
  assumes "fixed_point (ho_num host)" and "wf_port p" and "po_port_state p = PS_Master"
    and "canon_header h" and "\<bar>sint (hd_correction_field h)\<bar> < 2 ^ 62"
    and "t < 2 ^ 48 * (1000000000 * 2 ^ 32)" "2 ^ 33 \<le> t" "sint (hd_correction_field h) * 2 ^ 16 + 2 ^ 33 \<le> t"
  shows "\<exists>p' data m r. handle_delay_req host h req t p = Ok (p', actions [SendGeneral data False])
    \<and> message_deserialize data = Ok m \<and> ms_body m = MB_DelayResp r
    \<and> hd_sequence_id (ms_header m) = hd_sequence_id h
    \<and> dr_requesting_port_identity r = hd_source_port_identity h
    \<and> time_sub (ho_num host) (time_from_wire_timestamp (ho_num host) (dr_receive_timestamp r))
        (duration_from_interval_bits (ho_num host) (hd_correction_field (ms_header m)))
      = (t - sint (hd_correction_field h) * 2 ^ 16 - t mod 2 ^ 16) - 2 * (t mod 2 ^ 32 - t mod 2 ^ 16)"
proof -
  let ?lib = "ho_num host" and ?c = "sint (hd_correction_field h)"
  let ?m = "msg_delay_resp ?lib h req (po_port_identity p) (min_delay_req_interval (po_config p)) t"
  have t: "0 \<le> t" "in_range U96F32 t" using assms(6,7) by simp_all
  have canon: "canon_message ?m"
    using assms(2,4) fixed_point.wire_seconds_canon [OF assms(1) t(1) assms(6)]
    by (auto simp: canon_message_def message_wire_size_def header_wire_size_def canon_header_def msg_delay_resp_def wf_port_def)
  have sent: "handle_delay_req host h req t p
      = Ok (p\<lparr>po_packet_buffer := message_layout ?m (po_packet_buffer p) @ drop 54 (po_packet_buffer p)\<rparr>,
          actions [SendGeneral (message_layout ?m (po_packet_buffer p)) False])"
    using assms(2,3) send_message_eq [OF assms(2) canon_message_wf [OF canon]]
    by (simp add: handle_delay_req_def MAX_DATA_LEN_def)
  have parsed: "message_deserialize (message_layout ?m (po_packet_buffer p)) = Ok ?m"
    by (rule sent_parses [OF assms(2) canon]) (simp add: MAX_DATA_LEN_def)
  have corr: "duration_from_interval_bits ?lib (word_of_int (fx_fit ?lib I48F16
      (?c + sint (time_subnano ?lib t)))) = ?c * 2 ^ 16 + (t mod 2 ^ 32 - t mod 2 ^ 16)"
    by (rule fixed_point.response_correction [OF assms(1,5) t(2)])
  have "time_sub ?lib (t - t mod 2 ^ 32) (?c * 2 ^ 16 + (t mod 2 ^ 32 - t mod 2 ^ 16))
      = (t - ?c * 2 ^ 16 - t mod 2 ^ 16) - 2 * (t mod 2 ^ 32 - t mod 2 ^ 16)"
    by (rule fixed_point.late_correction [OF assms(1)]) (use assms(5-8) in simp_all)
  then show ?thesis
    using sent parsed corr fixed_point.time_wire_roundtrip [OF assms(1) t(1)] assms(6)
    by (auto simp: msg_delay_resp_def)
qed

theorem delay_resp_fraction_error_witness:
  "\<exists>p' data m r. handle_delay_req recording_host (header_new 1) \<lparr>dq_origin_timestamp = wire_timestamp_default\<rparr>
      (2 ^ 70 + 2 ^ 31) (example_port PS_Master PD_Empty) = Ok (p', actions [SendGeneral data False])
    \<and> message_deserialize data = Ok m \<and> ms_body m = MB_DelayResp r
    \<and> time_sub numlib_ref (time_from_wire_timestamp numlib_ref (dr_receive_timestamp r))
        (duration_from_interval_bits numlib_ref (hd_correction_field (ms_header m))) = 2 ^ 70 - 2 ^ 31"
  using delay_resp_fraction_error [of recording_host "example_port PS_Master PD_Empty" "header_new 1"
      "2 ^ 70 + 2 ^ 31" "\<lparr>dq_origin_timestamp = wire_timestamp_default\<rparr>"]
    fixed_point_ref wf_example_port [of PS_Master PD_Empty]
  by (auto simp: example_port_def canon_header_def header_new_def port_identity_default_def wf_port_identity_def
    wf_clock_identity_def clock_identity_default_def)

end
