(* ===== verification/PortSlave.thy ===== *)
theory PortSlave
  imports Port
begin

text \<open>
  \<open>statime/src/port/slave.rs\<close>: the measurements of a slave port and of the peer delay mechanism.
  Each arm of a \<open>match\<close> of the source is an arm or a guard here, in the same order. The lemmas say
  which messages change the state, that a measurement consumes what it was made from, and that its
  values are the formulas of IEEE 1588 whenever they are representable.
\<close>

section \<open>Measurements\<close>

text \<open>The part of \<open>extract_measurement\<close> that looks at the peer delay state.\<close>

definition extract_peer_measurement ::
  "('f, 'r, 'c, 'k, 'q) host \<Rightarrow> ('r, 'c, 'k, 'q) running_port \<Rightarrow>
   (('r, 'c, 'k, 'q) running_port \<times> measurement) option res" where
  "extract_peer_measurement host p =
     (case po_peer_delay_state p of
        PD_Measuring ident (Some responder_identity) (Some request_send_time) (Some request_recv_time)
          (Some response_send_time) (Some response_recv_time) \<Rightarrow>
          let lib = ho_num host;
              result = measurement_default\<lparr>
                me_event_time := response_recv_time,
                me_peer_delay := Some (duration_div_int lib
                  (duration_sub lib (time_diff lib response_recv_time request_send_time)
                     (time_diff lib response_send_time request_recv_time)) 2)\<rparr>;
              p1 = p\<lparr>po_peer_delay_state := PD_PostMeasurement ident responder_identity\<rparr>
          in andthen (if po_port_state p1 = PS_Faulty
                      then set_forced_port_state host PS_Listening p1 else Ok p1) (\<lambda>p2.
             Ok (Some (p2, result)))
      | _ \<Rightarrow> Ok None)"

text \<open>The part that looks at the slave state.\<close>

definition extract_slave_measurement ::
  "'f numlib \<Rightarrow> duration \<Rightarrow> duration option \<Rightarrow> slave_state \<Rightarrow> (slave_state \<times> measurement) option" where
  "extract_slave_measurement lib delay_asymmetry mean_delay state =
     (case ss_sync_state state of
        SY_Measuring _ (Some send_time) (Some recv_time) \<Rightarrow>
          let raw_sync_offset =
                duration_sub lib (time_diff lib recv_time send_time) delay_asymmetry
          in Some (state\<lparr>ss_last_raw_sync_offset := Some raw_sync_offset, ss_sync_state := SY_Empty\<rparr>,
               measurement_default\<lparr>
                 me_event_time := recv_time,
                 me_raw_sync_offset := Some raw_sync_offset,
                 me_offset := map_option (duration_sub lib raw_sync_offset) mean_delay\<rparr>)
      | _ \<Rightarrow>
          (case ss_delay_state state of
             DS_Measuring _ (Some send_time) (Some recv_time) \<Rightarrow>
               let raw_delay_offset =
                     duration_sub lib (time_diff lib send_time recv_time) delay_asymmetry
               in Some (state\<lparr>ss_delay_state := DS_Empty\<rparr>,
                    measurement_default\<lparr>
                      me_event_time := send_time,
                      me_raw_delay_offset := Some raw_delay_offset,
                      me_delay := map_option (\<lambda>raw_sync_offset.
                        duration_div_int lib (duration_sub lib raw_sync_offset raw_delay_offset) 2)
                        (ss_last_raw_sync_offset state)\<rparr>)
           | _ \<Rightarrow> None))"

definition extract_measurement ::
  "('f, 'r, 'c, 'k, 'q) host \<Rightarrow> ('r, 'c, 'k, 'q) running_port \<Rightarrow>
   (('r, 'c, 'k, 'q) running_port \<times> measurement option) res" where
  "extract_measurement host p =
     andthen (extract_peer_measurement host p) (\<lambda>peer.
     case peer of
       Some (p1, result) \<Rightarrow> Ok (p1, Some result)
     | None \<Rightarrow>
         (case po_port_state p of
            PS_Slave state \<Rightarrow>
              (case extract_slave_measurement (ho_num host) (pc_delay_asymmetry (po_config p))
                      (po_mean_delay p) state of
                 None \<Rightarrow> Ok (p, None)
               | Some (state', result) \<Rightarrow> Ok (p\<lparr>po_port_state := PS_Slave state'\<rparr>, Some result))
          | _ \<Rightarrow> Ok (p, None)))"

text \<open>The measurement is handed to the filter, which may steer the clock.\<close>

definition feed_filter ::
  "('f, 'r, 'c, 'k, 'q) host \<Rightarrow> measurement \<Rightarrow> ('r, 'c, 'k, 'q) running_port \<Rightarrow>
   (('r, 'c, 'k, 'q) running_port \<times> port_action_iterator) res" where
  "feed_filter host measurement p =
     andthen (ho_filter_measurement host measurement (po_filter p) (po_clock p)) (\<lambda>(filter, clock, updates).
     let p1 = p\<lparr>po_filter := filter, po_clock := clock\<rparr>;
         p2 = (case up_mean_delay updates of
                 Some mean_delay \<Rightarrow> p1\<lparr>po_mean_delay := Some mean_delay\<rparr> | None \<Rightarrow> p1)
     in Ok (p2, actions_from_filter updates))"

definition handle_time_measurement ::
  "('f, 'r, 'c, 'k, 'q) host \<Rightarrow> ('r, 'c, 'k, 'q) running_port \<Rightarrow>
   (('r, 'c, 'k, 'q) running_port \<times> port_action_iterator) res" where
  "handle_time_measurement host p =
     andthen (extract_measurement host p) (\<lambda>(p1, m).
     case m of
       None \<Rightarrow> Ok (p1, actions [])
     | Some measurement \<Rightarrow> feed_filter host measurement p1)"

section \<open>Transmit timestamps\<close>

definition handle_delay_timestamp ::
  "('f, 'r, 'c, 'k, 'q) host \<Rightarrow> u16 \<Rightarrow> time \<Rightarrow> ('r, 'c, 'k, 'q) running_port \<Rightarrow>
   (('r, 'c, 'k, 'q) running_port \<times> port_action_iterator) res" where
  "handle_delay_timestamp host timestamp_id timestamp p =
     (case po_port_state p of
        PS_Slave state \<Rightarrow>
          (case ss_delay_state state of
             DS_Measuring ident send_time recv_time \<Rightarrow>
               (if ident = timestamp_id then
                  (case send_time of
                     Some _ \<Rightarrow> Ok (p, actions [])
                   | None \<Rightarrow> handle_time_measurement host
                       (p\<lparr>po_port_state := PS_Slave (state\<lparr>ss_delay_state :=
                          DS_Measuring ident (Some timestamp) recv_time\<rparr>)\<rparr>))
                else Ok (p, actions []))
           | DS_Empty \<Rightarrow> Ok (p, actions []))
      | _ \<Rightarrow> Ok (p, actions []))"

definition handle_pdelay_timestamp ::
  "('f, 'r, 'c, 'k, 'q) host \<Rightarrow> u16 \<Rightarrow> time \<Rightarrow> ('r, 'c, 'k, 'q) running_port \<Rightarrow>
   (('r, 'c, 'k, 'q) running_port \<times> port_action_iterator) res" where
  "handle_pdelay_timestamp host timestamp_id timestamp p =
     (case po_peer_delay_state p of
        PD_Measuring ident responder request_send_time request_recv_time response_send_time
            response_recv_time \<Rightarrow>
          (if ident = timestamp_id then
             (case request_send_time of
                Some _ \<Rightarrow> Ok (p, actions [])
              | None \<Rightarrow> handle_time_measurement host
                  (p\<lparr>po_peer_delay_state := PD_Measuring ident responder (Some timestamp)
                      request_recv_time response_send_time response_recv_time\<rparr>))
           else Ok (p, actions []))
      | _ \<Rightarrow> Ok (p, actions []))"

section \<open>Sync and follow up\<close>

definition set_sync_state ::
  "slave_state \<Rightarrow> sync_state \<Rightarrow> ('r, 'c, 'k, 'q) running_port \<Rightarrow> ('r, 'c, 'k, 'q) running_port" where
  "set_sync_state state sync p = p\<lparr>po_port_state := PS_Slave (state\<lparr>ss_sync_state := sync\<rparr>)\<rparr>"

definition handle_sync ::
  "('f, 'r, 'c, 'k, 'q) host \<Rightarrow> header \<Rightarrow> sync_message \<Rightarrow> time \<Rightarrow> ('r, 'c, 'k, 'q) running_port \<Rightarrow>
   (('r, 'c, 'k, 'q) running_port \<times> port_action_iterator) res" where
  "handle_sync host header message recv_time p =
     (case po_port_state p of
        PS_Slave state \<Rightarrow>
          (if ss_remote_master state \<noteq> hd_source_port_identity header then Ok (p, actions [])
           else
             let lib = ho_num host;
                 corrected_recv_time =
                   time_sub lib recv_time (duration_from_interval_bits lib (hd_correction_field header));
                 seq = hd_sequence_id header
             in if hd_two_step_flag header then
                  (case ss_sync_state state of
                     SY_Measuring ident send_time recv \<Rightarrow>
                       (if ident = seq then
                          (case recv of
                             Some _ \<Rightarrow> Ok (p, actions [])
                           | None \<Rightarrow> handle_time_measurement host
                               (set_sync_state state
                                  (SY_Measuring ident send_time (Some corrected_recv_time)) p))
                        else Ok (set_sync_state state
                               (SY_Measuring seq None (Some corrected_recv_time)) p, actions []))
                   | SY_Empty \<Rightarrow> Ok (set_sync_state state
                       (SY_Measuring seq None (Some corrected_recv_time)) p, actions []))
                else
                  (case ss_sync_state state of
                     SY_Measuring ident _ _ \<Rightarrow>
                       (if ident = seq then Ok (p, actions [])
                        else handle_time_measurement host (set_sync_state state
                               (SY_Measuring seq
                                 (Some (time_from_wire_timestamp lib (sy_origin_timestamp message)))
                                 (Some corrected_recv_time)) p))
                   | SY_Empty \<Rightarrow> handle_time_measurement host (set_sync_state state
                       (SY_Measuring seq
                         (Some (time_from_wire_timestamp lib (sy_origin_timestamp message)))
                         (Some corrected_recv_time)) p)))
      | _ \<Rightarrow> Ok (p, actions []))"

definition handle_follow_up ::
  "('f, 'r, 'c, 'k, 'q) host \<Rightarrow> header \<Rightarrow> follow_up_message \<Rightarrow> ('r, 'c, 'k, 'q) running_port \<Rightarrow>
   (('r, 'c, 'k, 'q) running_port \<times> port_action_iterator) res" where
  "handle_follow_up host header message p =
     (case po_port_state p of
        PS_Slave state \<Rightarrow>
          (if ss_remote_master state \<noteq> hd_source_port_identity header then Ok (p, actions [])
           else
             let lib = ho_num host;
                 packet_send_time =
                   time_add lib (time_from_wire_timestamp lib (fu_precise_origin_timestamp message))
                     (duration_from_interval_bits lib (hd_correction_field header));
                 seq = hd_sequence_id header
             in case ss_sync_state state of
                  SY_Measuring ident send_time recv \<Rightarrow>
                    (if ident = seq then
                       (case send_time of
                          Some _ \<Rightarrow> Ok (p, actions [])
                        | None \<Rightarrow> handle_time_measurement host
                            (set_sync_state state (SY_Measuring ident (Some packet_send_time) recv) p))
                     else handle_time_measurement host
                       (set_sync_state state (SY_Measuring seq (Some packet_send_time) None) p))
                | SY_Empty \<Rightarrow> handle_time_measurement host
                    (set_sync_state state (SY_Measuring seq (Some packet_send_time) None) p))
      | _ \<Rightarrow> Ok (p, actions []))"

definition handle_delay_resp ::
  "('f, 'r, 'c, 'k, 'q) host \<Rightarrow> header \<Rightarrow> delay_resp_message \<Rightarrow> ('r, 'c, 'k, 'q) running_port \<Rightarrow>
   (('r, 'c, 'k, 'q) running_port \<times> port_action_iterator) res" where
  "handle_delay_resp host header message p =
     (case po_port_state p of
        PS_Slave state \<Rightarrow>
          (if po_port_identity p \<noteq> dr_requesting_port_identity message
              \<or> ss_remote_master state \<noteq> hd_source_port_identity header
           then Ok (p, actions [])
           else
             case ss_delay_state state of
               DS_Measuring ident send_time recv_time \<Rightarrow>
                 (if ident = hd_sequence_id header then
                    (case recv_time of
                       Some _ \<Rightarrow> Ok (p, actions [])
                     | None \<Rightarrow>
                         let lib = ho_num host;
                             t = time_sub lib (time_from_wire_timestamp lib (dr_receive_timestamp message))
                                   (duration_from_interval_bits lib (hd_correction_field header))
                         in handle_time_measurement host
                              (p\<lparr>po_port_state := PS_Slave (state\<lparr>ss_delay_state :=
                                 DS_Measuring ident send_time (Some t)\<rparr>)\<rparr>))
                  else Ok (p, actions []))
             | DS_Empty \<Rightarrow> Ok (p, actions []))
      | _ \<Rightarrow> Ok (p, actions []))"

section \<open>Peer delay responses\<close>

text \<open>The two arms that both response handlers start with: an answer from a second device.\<close>

fun second_responder :: "header \<Rightarrow> peer_delay_state \<Rightarrow> bool" where
  "second_responder header (PD_PostMeasurement ident responder_identity) \<longleftrightarrow>
     ident = hd_sequence_id header \<and> responder_identity \<noteq> hd_source_port_identity header"
| "second_responder header (PD_Measuring ident (Some identity) _ _ _ _) \<longleftrightarrow>
     ident = hd_sequence_id header \<and> identity \<noteq> hd_source_port_identity header"
| "second_responder header _ \<longleftrightarrow> False"

definition handle_peer_delay_response ::
  "('f, 'r, 'c, 'k, 'q) host \<Rightarrow> header \<Rightarrow> pdelay_resp_message \<Rightarrow> time \<Rightarrow>
   ('r, 'c, 'k, 'q) running_port \<Rightarrow> (('r, 'c, 'k, 'q) running_port \<times> port_action_iterator) res" where
  "handle_peer_delay_response host header message recv_time p =
     (if po_port_identity p \<noteq> pr_requesting_port_identity message then Ok (p, actions [])
      else if second_responder header (po_peer_delay_state p) then
        andthen (set_forced_port_state host PS_Faulty p) (\<lambda>p1. Ok (p1, actions []))
      else
        case po_peer_delay_state p of
          PD_Measuring ident responder request_send_time request_recv_time response_send_time
              response_recv_time \<Rightarrow>
            (if ident = hd_sequence_id header then
               (case response_recv_time of
                  Some _ \<Rightarrow> Ok (p, actions [])
                | None \<Rightarrow>
                    let lib = ho_num host;
                        t = time_sub lib recv_time
                              (duration_from_interval_bits lib (hd_correction_field header));
                        r = time_from_wire_timestamp lib (pr_request_receive_timestamp message)
                    in handle_time_measurement host
                         (p\<lparr>po_peer_delay_state :=
                            PD_Measuring ident (Some (hd_source_port_identity header))
                              request_send_time (Some r)
                              (if hd_two_step_flag header then response_send_time else Some r)
                              (Some t)\<rparr>))
             else Ok (p, actions []))
        | _ \<Rightarrow> Ok (p, actions []))"

definition handle_peer_delay_response_follow_up ::
  "('f, 'r, 'c, 'k, 'q) host \<Rightarrow> header \<Rightarrow> pdelay_resp_follow_up_message \<Rightarrow>
   ('r, 'c, 'k, 'q) running_port \<Rightarrow> (('r, 'c, 'k, 'q) running_port \<times> port_action_iterator) res" where
  "handle_peer_delay_response_follow_up host header message p =
     (if po_port_identity p \<noteq> pf_requesting_port_identity message then Ok (p, actions [])
      else if second_responder header (po_peer_delay_state p) then
        andthen (set_forced_port_state host PS_Faulty p) (\<lambda>p1. Ok (p1, actions []))
      else
        case po_peer_delay_state p of
          PD_Measuring ident responder request_send_time request_recv_time response_send_time
              response_recv_time \<Rightarrow>
            (if ident = hd_sequence_id header then
               (case response_send_time of
                  Some _ \<Rightarrow> Ok (p, actions [])
                | None \<Rightarrow>
                    let lib = ho_num host;
                        t = time_add lib (time_from_wire_timestamp lib (pf_response_origin_timestamp message))
                              (duration_from_interval_bits lib (hd_correction_field header))
                    in handle_time_measurement host
                         (p\<lparr>po_peer_delay_state :=
                            PD_Measuring ident (Some (hd_source_port_identity header))
                              request_send_time request_recv_time (Some t) response_recv_time\<rparr>))
             else Ok (p, actions []))
        | _ \<Rightarrow> Ok (p, actions []))"

section \<open>Delay requests\<close>

definition send_p2p_delay_request ::
  "('f, 'r, 'c, 'k, 'q) host \<Rightarrow> ptp_instance_state \<Rightarrow> interval \<Rightarrow> ('r, 'c, 'k, 'q) running_port \<Rightarrow>
   (('r, 'c, 'k, 'q) running_port \<times> port_action_iterator) res" where
  "send_p2p_delay_request host state interval p =
     (let (pdelay_id, ids) = generate (po_pdelay_seq_ids p);
          p1 = p\<lparr>po_pdelay_seq_ids := ids\<rparr>
      in send_message (msg_pdelay_req (is_default_ds state) (po_port_identity p) pdelay_id
             (ptp_minor_version_into (pc_minor_ptp_version (po_config p)))) p1
           (\<lambda>p2 data.
             let p3 = p2\<lparr>po_peer_delay_state := PD_Measuring pdelay_id None None None None None\<rparr> in
             andthen (random_request_delay host interval (po_rng p3)) (\<lambda>(duration, rng').
             Ok (p3\<lparr>po_rng := rng'\<rparr>,
                 actions [ResetDelayRequestTimer duration, SendEvent (TC_PDelayReq pdelay_id) data True]))))"

definition send_e2e_delay_request ::
  "('f, 'r, 'c, 'k, 'q) host \<Rightarrow> ptp_instance_state \<Rightarrow> interval \<Rightarrow> ('r, 'c, 'k, 'q) running_port \<Rightarrow>
   (('r, 'c, 'k, 'q) running_port \<times> port_action_iterator) res" where
  "send_e2e_delay_request host state interval p =
     (case po_port_state p of
        PS_Slave slave \<Rightarrow>
          (let (delay_id, ids) = generate (po_delay_seq_ids p);
               p1 = p\<lparr>po_delay_seq_ids := ids\<rparr>
           in send_message (msg_delay_req (is_default_ds state) (po_port_identity p) delay_id
                  (ptp_minor_version_into (pc_minor_ptp_version (po_config p)))) p1
                (\<lambda>p2 data.
                  let p3 = p2\<lparr>po_port_state := PS_Slave (slave\<lparr>ss_delay_state :=
                             DS_Measuring delay_id None None\<rparr>)\<rparr> in
                  andthen (random_request_delay host interval (po_rng p3)) (\<lambda>(duration, rng').
                  Ok (p3\<lparr>po_rng := rng'\<rparr>,
                      actions [ResetDelayRequestTimer duration, SendEvent (TC_DelayReq delay_id) data False]))))
      | _ \<Rightarrow> Ok (p, actions []))"

definition send_delay_request ::
  "('f, 'r, 'c, 'k, 'q) host \<Rightarrow> ptp_instance_state \<Rightarrow> ('r, 'c, 'k, 'q) running_port \<Rightarrow>
   (('r, 'c, 'k, 'q) running_port \<times> port_action_iterator) res" where
  "send_delay_request host state p =
     (case pc_delay_mechanism (po_config p) of
        E2E interval \<Rightarrow> send_e2e_delay_request host state interval p
      | P2P interval \<Rightarrow> send_p2p_delay_request host state interval p)"

section \<open>Complete measurements\<close>

text \<open>A measurement is complete when all its timestamps are known. A port is settled when it holds no
  complete measurement: whatever could be measured was handed to the filter.\<close>

fun sync_complete :: "sync_state \<Rightarrow> bool" where
  "sync_complete (SY_Measuring _ (Some _) (Some _)) \<longleftrightarrow> True"
| "sync_complete _ \<longleftrightarrow> False"

fun delay_complete :: "delay_state \<Rightarrow> bool" where
  "delay_complete (DS_Measuring _ (Some _) (Some _)) \<longleftrightarrow> True"
| "delay_complete _ \<longleftrightarrow> False"

fun peer_complete :: "peer_delay_state \<Rightarrow> bool" where
  "peer_complete (PD_Measuring _ (Some _) (Some _) (Some _) (Some _) (Some _)) \<longleftrightarrow> True"
| "peer_complete _ \<longleftrightarrow> False"

fun slave_settled :: "port_state \<Rightarrow> bool" where
  "slave_settled (PS_Slave s) \<longleftrightarrow> \<not> sync_complete (ss_sync_state s) \<and> \<not> delay_complete (ss_delay_state s)"
| "slave_settled _ \<longleftrightarrow> True"

definition settled :: "('l, 'r, 'c, 'k, 'q) port \<Rightarrow> bool" where
  "settled p \<longleftrightarrow> \<not> peer_complete (po_peer_delay_state p) \<and> slave_settled (po_port_state p)"

lemma peer_not_complete:
  "\<not> peer_complete (po_peer_delay_state p) \<Longrightarrow> extract_peer_measurement host p = Ok None"
  by (auto simp: extract_peer_measurement_def split: peer_delay_state.split option.split)

lemma slave_not_complete:
  "slave_settled (PS_Slave s) \<Longrightarrow> extract_slave_measurement lib a d s = None"
  by (auto simp: extract_slave_measurement_def split: sync_state.split delay_state.split option.split)

lemma extract_settled: "settled p \<Longrightarrow> extract_measurement host p = Ok (p, None)"
  by (auto simp: extract_measurement_def settled_def peer_not_complete slave_not_complete
    split: port_state.split)

lemma measurement_settled: "settled p \<Longrightarrow> handle_time_measurement host p = Ok (p, actions [])"
  by (simp add: handle_time_measurement_def extract_settled)

lemma extract_slave_Some:
  assumes "extract_slave_measurement lib a d s = Some (s', m)"
  shows "ss_remote_master s' = ss_remote_master s"
    and "\<not> sync_complete (ss_sync_state s')"
    and "\<not> (sync_complete (ss_sync_state s) \<and> delay_complete (ss_delay_state s)) \<Longrightarrow>
      \<not> delay_complete (ss_delay_state s')"
  using assms
  by (auto simp: extract_slave_measurement_def Let_def
    split: sync_state.splits delay_state.splits option.splits)

lemma slave_complete_Some:
  "extract_slave_measurement lib a d s = None \<Longrightarrow> slave_settled (PS_Slave s)"
  by (auto simp: extract_slave_measurement_def Let_def
    split: sync_state.splits delay_state.splits option.splits)

text \<open>What the handlers of a measurement do to a port. A completed peer delay measurement ends the
  faulty state.\<close>

definition measured ::
  "('r, 'c, 'k, 'q) running_port \<Rightarrow> ('r, 'c, 'k, 'q) running_port \<times> port_action_iterator \<Rightarrow> bool" where
  "measured p = (\<lambda>(p', acts). port_frame p p' \<and> settled p' \<and> good_actions p' acts
     \<and> (mode p' = mode p \<or> mode p = M_Faulty \<and> mode p' = M_Listening))"

lemma measured_nothing [simp]: "settled p \<Longrightarrow> measured p (p, actions [])"
  by (simp add: measured_def)

lemma measured_update:
  "settled q \<Longrightarrow> port_frame p q \<Longrightarrow> mode q = mode p \<Longrightarrow> measured p (q, actions [])"
  by (simp add: measured_def)

lemma measured_from:
  "measured q r \<Longrightarrow> port_frame p q \<Longrightarrow> mode q = mode p \<Longrightarrow> measured p r"
  by (auto simp: measured_def intro: port_frame_trans)

text \<open>At most one measurement can be complete when a handler looks for it.\<close>

definition one_complete :: "('r, 'c, 'k, 'q) running_port \<Rightarrow> bool" where
  "one_complete p \<longleftrightarrow> (\<not> peer_complete (po_peer_delay_state p) \<or> slave_settled (po_port_state p))
     \<and> (case po_port_state p of
          PS_Slave s \<Rightarrow> \<not> (sync_complete (ss_sync_state s) \<and> delay_complete (ss_delay_state s))
        | _ \<Rightarrow> True)"

lemma outcome_extract:
  assumes "T \<longrightarrow> host_total host (po_config p)" and "one_complete p"
  shows "outcome T (extract_measurement host p)
    (\<lambda>(p', m). measured p (p', actions []))"
proof (cases "peer_complete (po_peer_delay_state p)")
  case True
  then obtain ident r a b c d where pd: "po_peer_delay_state p
      = PD_Measuring ident (Some r) (Some a) (Some b) (Some c) (Some d)"
    by (cases "po_peer_delay_state p" rule: peer_complete.cases) auto
  have s: "slave_settled (po_port_state p)" using assms(2) True by (simp add: one_complete_def)
  let ?p = "p\<lparr>po_peer_delay_state := PD_PostMeasurement ident r\<rparr>"
  have q: "outcome T (if po_port_state ?p = PS_Faulty then set_forced_port_state host PS_Listening ?p
      else Ok ?p) (\<lambda>p'. measured p (p', actions []))"
  proof (rule outcome_if)
    assume f: "po_port_state ?p = PS_Faulty"
    show "outcome T (set_forced_port_state host PS_Listening ?p) (\<lambda>p'. measured p (p', actions []))"
      by (rule outcome_mono [OF outcome_set_forced [OF assms(1)]])
        (use f port_frame_trans [OF port_frame_update(2)] in \<open>auto simp: measured_def settled_def\<close>)
  next
    assume "po_port_state ?p \<noteq> PS_Faulty"
    then show "outcome T (Ok ?p) (\<lambda>p'. measured p (p', actions []))"
      using s by (simp add: measured_def settled_def)
  qed
  show ?thesis
    unfolding extract_measurement_def extract_peer_measurement_def pd
    by (simp only: peer_delay_state.case option.case Let_def andthen_assoc)
      (rule outcome_bind [OF q], simp)
next
  case False
  show ?thesis
  proof (cases "po_port_state p")
    case (PS_Slave s)
    show ?thesis
    proof (cases "extract_slave_measurement (ho_num host) (pc_delay_asymmetry (po_config p)) (po_mean_delay p) s")
      case None
      then have "settled p" using False PS_Slave slave_complete_Some by (auto simp: settled_def)
      then show ?thesis by (simp add: extract_settled)
    next
      case (Some x)
      obtain s' m where x: "x = (s', m)" by (cases x)
      show ?thesis
        using extract_slave_Some [OF Some [unfolded x]] assms(2) False PS_Slave Some x
        by (auto simp: extract_measurement_def peer_not_complete measured_def settled_def one_complete_def)
    qed
  qed (use False in \<open>simp_all add: extract_settled settled_def\<close>)
qed

lemma outcome_feed:
  assumes "T \<longrightarrow> host_total host (po_config p)" and "measured p (p1, actions [])"
  shows "outcome T (feed_filter host m p1) (measured p)"
proof -
  have t: "outcome T (ho_filter_measurement host m q k) (\<lambda>_. True)" for m q k
    by (rule outcome_returns) (use assms(1) host_totalD(1) [of host "po_config p" m q k] in simp)
  show ?thesis
    unfolding feed_filter_def
    by (rule outcome_bind [OF t])
      (use assms(2) in \<open>auto simp: measured_def settled_def Let_def port_frame_def
        same_port_def split: option.split\<close>)
qed

lemma outcome_measurement:
  assumes "T \<longrightarrow> host_total host (po_config p)" and "one_complete p"
  shows "outcome T (handle_time_measurement host p) (measured p)"
  unfolding handle_time_measurement_def
  by (rule outcome_bind_pair [OF outcome_extract [OF assms]])
    (auto intro: outcome_feed [OF assms(1)] split: option.split)

lemma outcome_update:
  assumes "T \<longrightarrow> host_total host (po_config p)" and "one_complete q" and "port_frame p q"
    and "mode q = mode p"
  shows "outcome T (handle_time_measurement host q) (measured p)"
proof -
  have "po_config q = po_config p" using assms(3) by (simp add: port_frame_def same_port_def)
  then show ?thesis
    using outcome_measurement [of T host q] assms measured_from
    by (metis (no_types, lifting) outcome_mono)
qed

lemma one_complete_updates:
  assumes "settled p"
  shows "po_port_state p = PS_Slave s \<Longrightarrow>
      one_complete (p\<lparr>po_port_state := PS_Slave (s\<lparr>ss_sync_state := y\<rparr>)\<rparr>)"
    and "po_port_state p = PS_Slave s \<Longrightarrow>
      one_complete (p\<lparr>po_port_state := PS_Slave (s\<lparr>ss_delay_state := d\<rparr>)\<rparr>)"
    and "one_complete (p\<lparr>po_peer_delay_state := pd\<rparr>)"
  using assms by (auto simp: settled_def one_complete_def split: port_state.split)

lemma settled_updates:
  "settled p \<Longrightarrow> \<not> peer_complete pd \<Longrightarrow> settled (p\<lparr>po_peer_delay_state := pd\<rparr>)"
  "settled p \<Longrightarrow> po_port_state p = PS_Slave s \<Longrightarrow> \<not> sync_complete y \<Longrightarrow>
     settled (p\<lparr>po_port_state := PS_Slave (s\<lparr>ss_sync_state := y\<rparr>)\<rparr>)"
  "settled p \<Longrightarrow> po_port_state p = PS_Slave s \<Longrightarrow> \<not> delay_complete d \<Longrightarrow>
     settled (p\<lparr>po_port_state := PS_Slave (s\<lparr>ss_delay_state := d\<rparr>)\<rparr>)"
  by (simp_all add: settled_def)

lemmas outcome_slave = outcome_update one_complete_updates

lemma outcome_sync:
  assumes "T \<longrightarrow> host_total host (po_config p)" and "settled p"
  shows "outcome T (handle_sync host h m t p) (measured p)"
  using assms
  by (auto simp: handle_sync_def set_sync_state_def Let_def settled_updates
    split: port_state.split sync_state.split option.split intro!: outcome_slave measured_update)

lemma outcome_follow_up:
  assumes "T \<longrightarrow> host_total host (po_config p)" and "settled p"
  shows "outcome T (handle_follow_up host h m p) (measured p)"
  using assms
  by (auto simp: handle_follow_up_def set_sync_state_def Let_def
    split: port_state.split sync_state.split option.split intro!: outcome_slave)

lemma outcome_delay_resp:
  assumes "T \<longrightarrow> host_total host (po_config p)" and "settled p"
  shows "outcome T (handle_delay_resp host h m p) (measured p)"
  using assms
  by (auto simp: handle_delay_resp_def Let_def
    split: port_state.split delay_state.split option.split intro!: outcome_slave)

lemma outcome_delay_timestamp:
  assumes "T \<longrightarrow> host_total host (po_config p)" and "settled p"
  shows "outcome T (handle_delay_timestamp host i t p) (measured p)"
  using assms
  by (auto simp: handle_delay_timestamp_def
    split: port_state.split delay_state.split option.split intro!: outcome_slave)

lemma outcome_pdelay_timestamp:
  assumes "T \<longrightarrow> host_total host (po_config p)" and "settled p"
  shows "outcome T (handle_pdelay_timestamp host i t p) (measured p)"
  using assms
  by (auto simp: handle_pdelay_timestamp_def split: peer_delay_state.split option.split
    intro!: outcome_slave)

text \<open>An answer from a second device makes the port faulty.\<close>

definition faulted ::
  "('r, 'c, 'k, 'q) running_port \<Rightarrow> ('r, 'c, 'k, 'q) running_port \<times> port_action_iterator \<Rightarrow> bool" where
  "faulted p = (\<lambda>(p', acts). port_frame p p' \<and> settled p' \<and> acts = actions [] \<and> mode p' = M_Faulty)"

lemma outcome_fault:
  assumes "T \<longrightarrow> host_total host (po_config p)" and "settled p"
  shows "outcome T (andthen (set_forced_port_state host PS_Faulty p) (\<lambda>p1. Ok (p1, actions []))) (faulted p)"
  by (rule outcome_bind [OF outcome_set_forced [OF assms(1)]])
    (use assms(2) in \<open>auto simp: faulted_def settled_def\<close>)

lemma outcome_peer_response:
  assumes "T \<longrightarrow> host_total host (po_config p)" and "settled p"
  shows "outcome T (handle_peer_delay_response host h m t p)
    (if po_port_identity p = pr_requesting_port_identity m \<and> second_responder h (po_peer_delay_state p)
     then faulted p else measured p)"
  using assms
  by (auto simp: handle_peer_delay_response_def Let_def
    split: peer_delay_state.split option.split intro!: outcome_slave outcome_fault)

lemma outcome_peer_follow_up:
  assumes "T \<longrightarrow> host_total host (po_config p)" and "settled p"
  shows "outcome T (handle_peer_delay_response_follow_up host h m p)
    (if po_port_identity p = pf_requesting_port_identity m \<and> second_responder h (po_peer_delay_state p)
     then faulted p else measured p)"
  using assms
  by (auto simp: handle_peer_delay_response_follow_up_def Let_def
    split: peer_delay_state.split option.split intro!: outcome_slave outcome_fault)

lemma outcome_random_delay:
  assumes "T \<longrightarrow> host_total host c" and "i = min_delay_req_interval c"
  shows "outcome T (random_request_delay host i rng) (\<lambda>(d, r). True)"
  using outcome_call [of T "random_request_delay host i rng" "\<lambda>(d, r). True"] assms
    host_totalD(7) [of host c rng] by (simp add: split_beta)

lemma outcome_p2p_request:
  assumes "T \<longrightarrow> host_total host (po_config p)" and "settled p" and "wf_port p"
    and "pc_delay_mechanism (po_config p) = P2P i"
  shows "outcome T (send_p2p_delay_request host state i p)
    (\<lambda>(p', acts). measured p (p', acts) \<and> mode p' = mode p)"
proof -
  have i: "i = min_delay_req_interval (po_config p)"
    using assms(4) by (simp add: min_delay_req_interval_def)
  have "wf_port_identity (po_port_identity p)" using assms(3) by (simp add: wf_port_def)
  then show ?thesis
    unfolding send_p2p_delay_request_def generate_def Let_def prod.case
    using assms(2,3)
    by (intro outcome_send outcome_bind_pair [OF outcome_random_delay [OF assms(1) i]] wf_sent_messages)
      (auto simp: wf_port_def MAX_DATA_LEN_def measured_def settled_def port_frame_def same_port_def)
qed

lemma outcome_e2e_request:
  assumes "T \<longrightarrow> host_total host (po_config p)" and "settled p" and "wf_port p"
    and "pc_delay_mechanism (po_config p) = E2E i"
  shows "outcome T (send_e2e_delay_request host state i p)
    (\<lambda>(p', acts). measured p (p', acts) \<and> mode p' = mode p)"
proof (cases "po_port_state p")
  case (PS_Slave s)
  have i: "i = min_delay_req_interval (po_config p)"
    using assms(4) by (simp add: min_delay_req_interval_def)
  have "wf_port_identity (po_port_identity p)" using assms(3) by (simp add: wf_port_def)
  then show ?thesis
    unfolding send_e2e_delay_request_def generate_def Let_def prod.case PS_Slave port_state.case
    using assms(2,3) PS_Slave
    by (intro outcome_send outcome_bind_pair [OF outcome_random_delay [OF assms(1) i]] wf_sent_messages)
      (auto simp: wf_port_def MAX_DATA_LEN_def measured_def settled_def port_frame_def same_port_def)
qed (use assms(2) in \<open>simp_all add: send_e2e_delay_request_def\<close>)

lemma outcome_delay_request:
  assumes "T \<longrightarrow> host_total host (po_config p)" and "settled p" and "wf_port p"
  shows "outcome T (send_delay_request host state p)
    (\<lambda>(p', acts). measured p (p', acts) \<and> mode p' = mode p)"
  unfolding send_delay_request_def
  by (cases "pc_delay_mechanism (po_config p)")
    (simp_all add: outcome_e2e_request [OF assms] outcome_p2p_request [OF assms])

section \<open>Measurements with exact arithmetic\<close>

text \<open>Bounds that hold for every time stamp and delay that a real system sees: \<open>2 ^ 100\<close> units are
  \<open>2 ^ 68\<close> nanoseconds, more than nine thousand years.\<close>

definition small :: "int \<Rightarrow> bool" where
  "small x \<longleftrightarrow> \<bar>x\<bar> < 2 ^ 100"

lemma correction_bounds:
  fixes c :: time_interval
  shows "- (2 ^ 63) \<le> sint c" and "sint c < 2 ^ 63"
  using sint_ge [of c] sint_lt [of c] by simp_all

text \<open>A time stamp of the next 130 years, with any correction.\<close>

lemma small_timestamp:
  assumes "wt_seconds ts < 2 ^ 32" and "\<bar>k\<bar> \<le> 1"
  shows "small ((uint (wt_seconds ts) * 1000000000 + uint (wt_nanos ts)) * 2 ^ 32
    + k * sint (c :: time_interval) * 2 ^ 16)"
proof -
  have b: "small ((x * 1000000000 + y) * 2 ^ 32 + k * z * 2 ^ 16)"
    if "0 \<le> x" "x < 2 ^ 32" "0 \<le> y" "y < 2 ^ 32" "- (2 ^ 63) \<le> z" "z < 2 ^ 63" for x y z :: int
  proof -
    have "k = - 1 \<or> k = 0 \<or> k = 1" using assms(2) by auto
    then show ?thesis using that by (elim disjE) (simp_all add: small_def)
  qed
  show ?thesis
    by (rule b) (use assms(1) uint_lt2p [of "wt_nanos ts"] correction_bounds [of c] in
      \<open>simp_all add: word_less_def\<close>)
qed

context fixed_point
begin

lemma diff_small: "small a \<Longrightarrow> 0 \<le> a \<Longrightarrow> small b \<Longrightarrow> 0 \<le> b \<Longrightarrow> time_diff lib a b = a - b"
  by (rule time_diff_exact) (auto simp: small_def)

lemma sub_bounded:
  assumes "\<bar>x\<bar> < 2 ^ 104" and "\<bar>y\<bar> < 2 ^ 104"
  shows "duration_sub lib x y = x - y"
proof (rule duration_sub_exact)
  show "in_range I96F32 (- y)" "in_range I96F32 (x - y)" using assms by auto
qed

lemma raw_offset_exact:
  assumes "small a" "0 \<le> a" "small b" "0 \<le> b" "small c"
  shows "duration_sub lib (time_diff lib a b) c = a - b - c"
proof -
  have "\<bar>a - b\<bar> < 2 ^ 104" "\<bar>c\<bar> < 2 ^ 104" using assms by (simp_all add: small_def)
  then show ?thesis using assms by (simp only: diff_small sub_bounded)
qed

lemma offset_exact:
  assumes "small a" "0 \<le> a" "small b" "0 \<le> b" "small c" "small d"
  shows "duration_sub lib (a - b - c) d = a - b - c - d"
proof (rule sub_bounded)
  show "\<bar>a - b - c\<bar> < 2 ^ 104" using assms by (simp add: small_def)
  show "\<bar>d\<bar> < 2 ^ 104" using assms by (simp add: small_def)
qed

lemma half_exact:
  assumes "x - y = 2 * q" and "\<bar>x\<bar> < 2 ^ 104" "\<bar>y\<bar> < 2 ^ 104"
  shows "duration_div_int lib (duration_sub lib x y) 2 = q"
proof -
  have "duration_sub lib x y = 2 * q" using assms by (simp only: sub_bounded)
  moreover have "in_range I96F32 (2 * q)" using assms by auto
  ultimately show ?thesis by (simp only: div2_exact)
qed

lemma half_error:
  assumes "\<bar>x\<bar> < 2 ^ 104" "\<bar>y\<bar> < 2 ^ 104"
  shows "\<bar>2 * duration_div_int lib (duration_sub lib x y) 2 - (x - y)\<bar> < 2"
proof -
  have r: "in_range I96F32 (x - y)" and two: "in_range I96F32 (2 * 2 ^ 32)" using assms by auto
  have "\<bar>fx_div lib I96F32 (x - y) (2 * 2 ^ 32) * 2 - (x - y)\<bar> < 2"
    using div_int [of I96F32 "x - y" 2] r two by (simp del: in_range.simps)
  then show ?thesis
    using two by (simp add: duration_div_int_def fit sub_bounded [OF assms] mult.commute del: in_range.simps)
qed

lemma corrected_sub_exact:
  assumes "0 \<le> t - sint c * 2 ^ 16" and "small t"
  shows "time_sub lib t (duration_from_interval_bits lib c) = t - sint c * 2 ^ 16"
proof -
  show ?thesis using assms correction_bounds [of c] by (simp add: interval_bits_exact time_sub_exact small_def)
qed

lemma corrected_add_exact:
  assumes "0 \<le> t + sint c * 2 ^ 16" and "small t"
  shows "time_add lib t (duration_from_interval_bits lib c) = t + sint c * 2 ^ 16"
proof -
  show ?thesis using assms correction_bounds [of c] by (simp add: interval_bits_exact time_add_exact small_def)
qed

text \<open>The formulas of the standard: with a path delay \<open>d\<close> that the asymmetry \<open>a\<close> makes longer
  in one direction and shorter in the other, and a clock that is ahead by \<open>e\<close>.\<close>

lemma sync_measurement:
  assumes "ss_sync_state s = SY_Measuring i (Some t1) (Some t2)"
    and "small t1" "0 \<le> t1" "small t2" "0 \<le> t2" "small a" "pred_option small md"
  shows "extract_slave_measurement lib a md s = Some
    (s\<lparr>ss_last_raw_sync_offset := Some (t2 - t1 - a), ss_sync_state := SY_Empty\<rparr>,
     measurement_default\<lparr>me_event_time := t2, me_raw_sync_offset := Some (t2 - t1 - a),
       me_offset := map_option (\<lambda>d. t2 - t1 - a - d) md\<rparr>)"
  using assms
  by (cases md) (simp_all add: extract_slave_measurement_def Let_def raw_offset_exact offset_exact)

lemma delay_measurement:
  assumes "\<not> sync_complete (ss_sync_state s)" and "ss_delay_state s = DS_Measuring i (Some t3) (Some t4)"
    and "small t3" "0 \<le> t3" "small t4" "0 \<le> t4" "small a"
  shows "extract_slave_measurement lib a md s = Some
    (s\<lparr>ss_delay_state := DS_Empty\<rparr>,
     measurement_default\<lparr>me_event_time := t3, me_raw_delay_offset := Some (t3 - t4 - a),
       me_delay := map_option (\<lambda>r. duration_div_int lib (duration_sub lib r (t3 - t4 - a)) 2)
         (ss_last_raw_sync_offset s)\<rparr>)"
  using assms
  by (auto simp: extract_slave_measurement_def Let_def raw_offset_exact
    split: sync_state.split option.split)

end

section \<open>Properties\<close>



text \<open>C12: a two-step sync message and its follow-up message give the same measurement in either order
  of arrival: the slave hands the filter the offset that the standard defines, from the receive time
  and the origin timestamp with both correction fields applied, and keeps no part of the exchange.\<close>

theorem two_step_sync:
  fixes h1 h2 :: header
  defines "t1 \<equiv> \<lambda>ts. (uint (wt_seconds ts) * 1000000000 + uint (wt_nanos ts)) * 2 ^ 32
    + sint (hd_correction_field h2) * 2 ^ 16"
    and "t2 \<equiv> \<lambda>t. t - sint (hd_correction_field h1) * 2 ^ 16"
  assumes "fixed_point (ho_num host)" and "settled p"
    and "po_port_state p = PS_Slave s" and "ss_sync_state s = SY_Empty"
    and "hd_source_port_identity h1 = ss_remote_master s"
    and "hd_source_port_identity h2 = ss_remote_master s"
    and "hd_sequence_id h2 = hd_sequence_id h1" and "hd_two_step_flag h1"
    and "wt_seconds (fu_precise_origin_timestamp m2) < 2 ^ 32"
    and "0 \<le> t1 (fu_precise_origin_timestamp m2)" "0 \<le> t2 t" "0 \<le> t" "t < 2 ^ 98"
    and "small (pc_delay_asymmetry (po_config p))" "pred_option small (po_mean_delay p)"
  shows "let raw = t2 t - t1 (fu_precise_origin_timestamp m2) - pc_delay_asymmetry (po_config p);
       measurement = measurement_default\<lparr>me_event_time := t2 t, me_raw_sync_offset := Some raw,
         me_offset := map_option (\<lambda>d. raw - d) (po_mean_delay p)\<rparr>;
       result = feed_filter host measurement (p\<lparr>po_port_state :=
         PS_Slave (s\<lparr>ss_last_raw_sync_offset := Some raw, ss_sync_state := SY_Empty\<rparr>)\<rparr>)
     in andthen (handle_sync host h1 m1 t p) (\<lambda>(p1, _). handle_follow_up host h2 m2 p1) = result
       \<and> andthen (handle_follow_up host h2 m2 p) (\<lambda>(p1, _). handle_sync host h1 m1 t p1) = result"
proof -
  let ?lib = "ho_num host" and ?ts = "fu_precise_origin_timestamp m2" and ?seq = "hd_sequence_id h1"
  let ?w = "(uint (wt_seconds ?ts) * 1000000000 + uint (wt_nanos ?ts)) * 2 ^ 32"
  have sm: "small ?w" "small t" "small (t1 ?ts)" "small (t2 t)"
    using small_timestamp [OF assms(11), of 0] small_timestamp [OF assms(11), of 1] assms(14,15)
      correction_bounds [of "hd_correction_field h1"]
    by (simp_all add: t1_def) (simp_all add: small_def t2_def)
  have recv: "time_sub ?lib t (duration_from_interval_bits ?lib (hd_correction_field h1)) = t2 t"
    using fixed_point.corrected_sub_exact [OF assms(3), of t] assms(13) sm(2) by (simp add: t2_def)
  have send: "time_add ?lib (time_from_wire_timestamp ?lib ?ts)
      (duration_from_interval_bits ?lib (hd_correction_field h2)) = t1 ?ts"
    using fixed_point.corrected_add_exact [OF assms(3), of ?w] assms(12) sm(1)
    by (simp add: t1_def fixed_point.time_from_wire_exact [OF assms(3)])
  let ?full = "PS_Slave (s\<lparr>ss_sync_state := SY_Measuring ?seq (Some (t1 ?ts)) (Some (t2 t))\<rparr>)"
  have peer: "\<not> peer_complete (po_peer_delay_state p)" and d: "\<not> delay_complete (ss_delay_state s)"
    using assms(4,5) by (simp_all add: settled_def)
  have half: "settled (p\<lparr>po_port_state := PS_Slave (s\<lparr>ss_sync_state := SY_Measuring ?seq (Some (t1 ?ts)) None\<rparr>)\<rparr>)"
    using peer d by (simp add: settled_def)
  have "andthen (handle_sync host h1 m1 t p) (\<lambda>(p1, _). handle_follow_up host h2 m2 p1)
      = handle_time_measurement host (p\<lparr>po_port_state := ?full\<rparr>)"
    using assms(5-10) recv send
    by (simp add: handle_sync_def handle_follow_up_def set_sync_state_def Let_def)
  moreover have "andthen (handle_follow_up host h2 m2 p) (\<lambda>(p1, _). handle_sync host h1 m1 t p1)
      = handle_time_measurement host (p\<lparr>po_port_state := ?full\<rparr>)"
    using assms(5-10) recv send half
    by (simp add: handle_sync_def handle_follow_up_def set_sync_state_def Let_def measurement_settled)
  moreover have "extract_slave_measurement ?lib (pc_delay_asymmetry (po_config p)) (po_mean_delay p)
      (s\<lparr>ss_sync_state := SY_Measuring ?seq (Some (t1 ?ts)) (Some (t2 t))\<rparr>) = Some
      (s\<lparr>ss_last_raw_sync_offset := Some (t2 t - t1 ?ts - pc_delay_asymmetry (po_config p)), ss_sync_state := SY_Empty\<rparr>,
       measurement_default\<lparr>me_event_time := t2 t,
         me_raw_sync_offset := Some (t2 t - t1 ?ts - pc_delay_asymmetry (po_config p)),
         me_offset := map_option (\<lambda>d. t2 t - t1 ?ts - pc_delay_asymmetry (po_config p) - d) (po_mean_delay p)\<rparr>)"
    using fixed_point.sync_measurement [OF assms(3), of
      "s\<lparr>ss_sync_state := SY_Measuring ?seq (Some (t1 ?ts)) (Some (t2 t))\<rparr>"] sm assms(12,13,16,17)
    by simp
  ultimately show ?thesis
    using peer by (simp add: Let_def handle_time_measurement_def extract_measurement_def peer_not_complete)
qed

definition example_header :: "u16 \<Rightarrow> header" where
  "example_header seq = (header_new 1)\<lparr>hd_sequence_id := seq, hd_two_step_flag := True,
     hd_source_port_identity := example_identity 2\<rparr>"

definition example_slave :: slave_state where
  "example_slave = (slave_state_new (example_identity 2))\<lparr>ss_delay_state := DS_Measuring 4 None None,
     ss_last_raw_sync_offset := Some 5\<rparr>"

theorem two_step_sync_witness:
  "andthen (handle_sync recording_host (example_header 7) \<lparr>sy_origin_timestamp = wire_timestamp_default\<rparr>
       (2 ^ 40) (example_port (PS_Slave example_slave) PD_Empty))
     (\<lambda>(p1, _). handle_follow_up recording_host (example_header 7)
       \<lparr>fu_precise_origin_timestamp = \<lparr>wt_seconds = 0, wt_nanos = 3\<rparr>\<rparr> p1)
   = andthen (handle_follow_up recording_host (example_header 7)
       \<lparr>fu_precise_origin_timestamp = \<lparr>wt_seconds = 0, wt_nanos = 3\<rparr>\<rparr>
       (example_port (PS_Slave example_slave) PD_Empty))
     (\<lambda>(p1, _). handle_sync recording_host (example_header 7)
       \<lparr>sy_origin_timestamp = wire_timestamp_default\<rparr> (2 ^ 40) p1)"
  using two_step_sync [of recording_host "example_port (PS_Slave example_slave) PD_Empty" example_slave
      "example_header 7" "example_header 7" "\<lparr>fu_precise_origin_timestamp = \<lparr>wt_seconds = 0, wt_nanos = 3\<rparr>\<rparr>"
      "2 ^ 40" "\<lparr>sy_origin_timestamp = wire_timestamp_default\<rparr>"] fixed_point_ref
  by (simp add: example_port_def example_slave_def slave_state_new_def example_header_def header_new_def
    settled_def example_config_def small_def Let_def)

text \<open>The transmit timestamp of a delay request and the delay response give the same measurement
  in either order of arrival. The raw delay offset is exact, the delay is half of the difference of
  the two raw offsets, rounded to a unit, and no part of the exchange is kept.\<close>

theorem e2e_delay_exchange:
  fixes h :: header
  defines "t4 \<equiv> \<lambda>ts. (uint (wt_seconds ts) * 1000000000 + uint (wt_nanos ts)) * 2 ^ 32
    - sint (hd_correction_field h) * 2 ^ 16"
  assumes "fixed_point (ho_num host)" and "settled p"
    and "po_port_state p = PS_Slave s" and "ss_delay_state s = DS_Measuring (hd_sequence_id h) None None"
    and "hd_source_port_identity h = ss_remote_master s"
    and "dr_requesting_port_identity m = po_port_identity p"
    and "wt_seconds (dr_receive_timestamp m) < 2 ^ 32" "0 \<le> t4 (dr_receive_timestamp m)"
    and "0 \<le> t3" "t3 < 2 ^ 98"
    and "small (pc_delay_asymmetry (po_config p))" "pred_option small (ss_last_raw_sync_offset s)"
  shows "\<exists>delay. let raw = t3 - t4 (dr_receive_timestamp m) - pc_delay_asymmetry (po_config p);
       result = feed_filter host (measurement_default\<lparr>me_event_time := t3, me_raw_delay_offset := Some raw,
           me_delay := delay\<rparr>) (p\<lparr>po_port_state := PS_Slave (s\<lparr>ss_delay_state := DS_Empty\<rparr>)\<rparr>)
     in rel_option (\<lambda>r x. \<bar>2 * x - (r - raw)\<bar> < 2) (ss_last_raw_sync_offset s) delay
       \<and> andthen (handle_delay_timestamp host (hd_sequence_id h) t3 p) (\<lambda>(p1, _). handle_delay_resp host h m p1) = result
       \<and> andthen (handle_delay_resp host h m p) (\<lambda>(p1, _). handle_delay_timestamp host (hd_sequence_id h) t3 p1) = result"
proof -
  let ?lib = "ho_num host" and ?ts = "dr_receive_timestamp m" and ?a = "pc_delay_asymmetry (po_config p)"
  let ?w = "(uint (wt_seconds ?ts) * 1000000000 + uint (wt_nanos ?ts)) * 2 ^ 32"
  let ?raw = "t3 - t4 ?ts - ?a" and ?seq = "hd_sequence_id h"
  have sm: "small ?w" "small t3" "small (t4 ?ts)"
    using small_timestamp [OF assms(8), of 0] small_timestamp [OF assms(8), of "- 1"] assms(10,11)
    by (simp_all add: t4_def) (simp add: small_def)
  have recv: "time_sub ?lib (time_from_wire_timestamp ?lib ?ts)
      (duration_from_interval_bits ?lib (hd_correction_field h)) = t4 ?ts"
    using fixed_point.corrected_sub_exact [OF assms(2), of ?w] assms(9) sm(1)
    by (simp add: t4_def fixed_point.time_from_wire_exact [OF assms(2)])
  let ?s = "\<lambda>x y. s\<lparr>ss_delay_state := DS_Measuring ?seq x y\<rparr>"
  let ?delay = "map_option (\<lambda>r. duration_div_int ?lib (duration_sub ?lib r ?raw) 2) (ss_last_raw_sync_offset s)"
  have peer: "\<not> peer_complete (po_peer_delay_state p)" and y: "\<not> sync_complete (ss_sync_state s)"
    using assms(3,4) by (simp_all add: settled_def)
  have half: "settled (p\<lparr>po_port_state := PS_Slave (?s (Some t3) None)\<rparr>)"
    "settled (p\<lparr>po_port_state := PS_Slave (?s None (Some (t4 ?ts)))\<rparr>)"
    using peer y by (simp_all add: settled_def)
  have "extract_slave_measurement ?lib ?a (po_mean_delay p) (?s (Some t3) (Some (t4 ?ts)))
      = Some (s\<lparr>ss_delay_state := DS_Empty\<rparr>, measurement_default\<lparr>me_event_time := t3,
          me_raw_delay_offset := Some ?raw, me_delay := ?delay\<rparr>)"
    using fixed_point.delay_measurement [OF assms(2), of "?s (Some t3) (Some (t4 ?ts))"] y sm assms(9,10,12)
    by simp
  then have full: "handle_time_measurement host (p\<lparr>po_port_state := PS_Slave (?s (Some t3) (Some (t4 ?ts)))\<rparr>)
      = feed_filter host (measurement_default\<lparr>me_event_time := t3, me_raw_delay_offset := Some ?raw,
          me_delay := ?delay\<rparr>) (p\<lparr>po_port_state := PS_Slave (s\<lparr>ss_delay_state := DS_Empty\<rparr>)\<rparr>)"
    using peer by (simp add: handle_time_measurement_def extract_measurement_def peer_not_complete)
  have "rel_option (\<lambda>r x. \<bar>2 * x - (r - ?raw)\<bar> < 2) (ss_last_raw_sync_offset s) ?delay"
    using assms(13) sm assms(12) fixed_point.half_error [OF assms(2)]
    by (cases "ss_last_raw_sync_offset s") (auto simp: small_def)
  then show ?thesis
    using assms(4-7) recv half full
    by (intro exI [of _ ?delay])
      (simp add: Let_def handle_delay_timestamp_def handle_delay_resp_def measurement_settled)
qed

theorem e2e_delay_exchange_witness:
  "andthen (handle_delay_timestamp recording_host 4 (2 ^ 40) (example_port (PS_Slave example_slave) PD_Empty))
     (\<lambda>(p1, _). handle_delay_resp recording_host (example_header 4)
       \<lparr>dr_receive_timestamp = \<lparr>wt_seconds = 0, wt_nanos = 300\<rparr>,
        dr_requesting_port_identity = example_identity 1\<rparr> p1)
   = andthen (handle_delay_resp recording_host (example_header 4)
       \<lparr>dr_receive_timestamp = \<lparr>wt_seconds = 0, wt_nanos = 300\<rparr>,
        dr_requesting_port_identity = example_identity 1\<rparr> (example_port (PS_Slave example_slave) PD_Empty))
     (\<lambda>(p1, _). handle_delay_timestamp recording_host 4 (2 ^ 40) p1)"
  using e2e_delay_exchange [of recording_host "example_port (PS_Slave example_slave) PD_Empty" example_slave
      "example_header 4" "\<lparr>dr_receive_timestamp = \<lparr>wt_seconds = 0, wt_nanos = 300\<rparr>,
        dr_requesting_port_identity = example_identity 1\<rparr>" "2 ^ 40"] fixed_point_ref
  by (simp add: example_port_def example_slave_def slave_state_new_def example_header_def header_new_def
    settled_def example_config_def small_def Let_def) metis

text \<open>C14: a complete peer delay exchange measures the true link delay \<open>d\<close>, whatever the difference
  \<open>e\<close> between the clocks: the responder receives at \<open>t1 + d + e\<close> and answers at \<open>t3\<close>, and the
  answer arrives at \<open>t3 + d - e\<close>. The exchange is then over, and remembers who answered.\<close>

theorem peer_delay_measured:
  assumes "fixed_point (ho_num host)" and "po_port_state p \<noteq> PS_Faulty"
    and "po_peer_delay_state p = PD_Measuring i (Some r) (Some t1) (Some (t1 + d + e)) (Some t3) (Some (t3 + d - e))"
    and "0 \<le> t1" "0 \<le> t1 + d + e" "0 \<le> t3" "0 \<le> t3 + d - e"
    and "t1 < 2 ^ 90" "t3 < 2 ^ 90" "\<bar>d\<bar> < 2 ^ 90" "\<bar>e\<bar> < 2 ^ 90"
  shows "extract_measurement host p = Ok (p\<lparr>po_peer_delay_state := PD_PostMeasurement i r\<rparr>,
    Some (measurement_default\<lparr>me_event_time := t3 + d - e, me_peer_delay := Some d\<rparr>))"
proof -
  have sm: "small t1" "small t3" "small (t1 + d + e)" "small (t3 + d - e)"
    using assms(4-) by (simp_all add: small_def)
  have diffs: "time_diff (ho_num host) (t3 + d - e) t1 = t3 + d - e - t1"
    "time_diff (ho_num host) t3 (t1 + d + e) = t3 - (t1 + d + e)"
    using sm assms(4-7) by (simp_all add: fixed_point.diff_small [OF assms(1)])
  have "duration_div_int (ho_num host) (duration_sub (ho_num host) (t3 + d - e - t1) (t3 - (t1 + d + e))) 2 = d"
    by (rule fixed_point.half_exact [OF assms(1)]) (use assms(4-) in auto)
  then show ?thesis
    using assms(2,3) diffs
    by (simp add: extract_measurement_def extract_peer_measurement_def Let_def)
qed

theorem peer_delay_measured_witness:
  "extract_measurement recording_host (example_port PS_Master
      (PD_Measuring 3 (Some (example_identity 2)) (Some 1000) (Some 1107) (Some 2000) (Some 2093)))
   = Ok (example_port PS_Master (PD_PostMeasurement 3 (example_identity 2)),
       Some (measurement_default\<lparr>me_event_time := 2093, me_peer_delay := Some 100\<rparr>))"
  using peer_delay_measured [of recording_host "example_port PS_Master
      (PD_Measuring 3 (Some (example_identity 2)) (Some 1000) (Some 1107) (Some 2000) (Some 2093))"
      3 "example_identity 2" 1000 100 7 2000] fixed_point_ref
  by (simp add: example_port_def)



end
