(* ===== verification/PortBmca.thy ===== *)
theory PortBmca
  imports PortSlave
begin

text \<open>
  \<open>statime/src/port/bmca.rs\<close>: the reception of announce messages and the effect of the state
  decision on a port and on the data sets of the instance.
\<close>

section \<open>Receiving an announce message\<close>

text \<open>\<open>message.suffix.tlv().find(...)\<close> stops at the first match.\<close>

function tlv_find :: "(tlv \<Rightarrow> bool) \<Rightarrow> bytes \<Rightarrow> tlv option res" where
  "tlv_find P buffer =
     (case tlv_iter_next buffer of
        Inl e \<Rightarrow> Inl e
      | Inr None \<Rightarrow> Ok None
      | Inr (Some (t, rest)) \<Rightarrow> (if P t then Ok (Some t) else tlv_find P rest))"
  by pat_completeness auto
termination
  by (relation "measure (\<lambda>(_, b). length b)") (auto dest: tlv_iter_next_shrinks)

declare tlv_find.simps [simp del]

text \<open>\<open>chunks_exact(8)\<close>: a remainder of fewer than eight bytes is dropped.\<close>

fun chunks_exact8 :: "bytes \<Rightarrow> bytes list" where
  "chunks_exact8 bs = (if length bs < 8 then [] else take 8 bs # chunks_exact8 (drop 8 bs))"

declare chunks_exact8.simps [simp del]

text \<open>The closure in \<open>handle_announce\<close>: update the data sets from the parent's announce message and
  report whether a clock loop was detected. Collecting into the \<open>ArrayVec\<close> panics when the path is
  longer than its capacity.\<close>

definition update_from_parent ::
  "message \<Rightarrow> announce_message \<Rightarrow> ptp_instance_state \<Rightarrow> (ptp_instance_state \<times> bool) res" where
  "update_from_parent message announce state =
     (let state1 = state\<lparr>
            is_current_ds := (is_current_ds state)\<lparr>cd_steps_removed := am_steps_removed announce + 1\<rparr>,
            is_parent_ds := \<lparr>
              pd_parent_port_identity = hd_source_port_identity (am_header announce),
              pd_grandmaster_identity = am_grandmaster_identity announce,
              pd_grandmaster_clock_quality = am_grandmaster_clock_quality announce,
              pd_grandmaster_priority_1 = am_grandmaster_priority_1 announce,
              pd_grandmaster_priority_2 = am_grandmaster_priority_2 announce\<rparr>,
            is_time_properties_ds := time_properties announce\<rparr>
      in if pt_enable (is_path_trace_ds state) then
           andthen (tlv_find (\<lambda>t. tlv_type t = TT_PathTrace) (ms_suffix message)) (\<lambda>found.
           case found of
             None \<Rightarrow> Ok (state1, False)
           | Some t \<Rightarrow>
               (if List.member (chunks_exact8 (tlv_value t)) (dd_clock_identity (is_default_ds state))
                then Ok (state1, True)
                else if length (chunks_exact8 (tlv_value t)) > path_trace_capacity then panic
                else Ok (state1\<lparr>is_path_trace_ds :=
                           (is_path_trace_ds state)\<lparr>pt_list := chunks_exact8 (tlv_value t)\<rparr>\<rparr>, False)))
         else Ok (state1, False))"

text \<open>The part of \<open>handle_announce\<close> after the data sets: registering the message.\<close>

definition register_announce ::
  "('f, 'r, 'c, 'k, 'q) host \<Rightarrow> message \<Rightarrow> announce_message \<Rightarrow> ('r, 'c, 'k, 'q) running_port \<Rightarrow>
   (('r, 'c, 'k, 'q) running_port \<times> port_action_iterator) res" where
  "register_announce host message announce p =
     andthen (bmca_register_announce_message (ho_num host) (ms_header message) announce (po_bmca p)) (\<lambda>(bmca, registered).
     let p1 = p\<lparr>po_bmca := bmca\<rparr>; source = hd_source_port_identity (ms_header message) in
     if registered then
       andthen (if pi_clock_identity (po_port_identity p1) = pi_clock_identity source
                   \<and> pi_port_number source < pi_port_number (po_port_identity p1)
                then set_forced_port_state host PS_Passive (p1\<lparr>po_multiport_disable := Some duration_ZERO\<rparr>)
                else Ok p1) (\<lambda>p2.
       andthen (announce_duration (ho_num host) (ho_open01 host) (po_config p2) (po_rng p2)) (\<lambda>(duration, rng').
       Ok (p2\<lparr>po_rng := rng'\<rparr>,
           with_forward_tlvs (actions [ResetAnnounceReceiptTimer duration]) (ms_suffix message) source)))
     else Ok (p1, actions []))"

definition handle_announce ::
  "('f, 'r, 'c, 'k, 'q) host \<Rightarrow> message \<Rightarrow> announce_message \<Rightarrow> ptp_instance_state \<Rightarrow>
   ('r, 'c, 'k, 'q) running_port \<Rightarrow>
   (ptp_instance_state \<times> ('r, 'c, 'k, 'q) running_port \<times> port_action_iterator) res" where
  "handle_announce host message announce state p =
     andthen (if is_slave_state (po_port_state p)
                 \<and> hd_source_port_identity (am_header announce) = pd_parent_port_identity (is_parent_ds state)
              then update_from_parent message announce state
              else Ok (state, False)) (\<lambda>(state1, clock_loop_detected).
     if clock_loop_detected then Ok (state1, p, actions [])
     else
       andthen (register_announce host message announce p) (\<lambda>(p1, acts).
       Ok (state1, p1, acts)))"

section \<open>The port in the best master clock algorithm\<close>

definition calculate_best_local_announce_message ::
  "('f, 'r, 'c, 'k, 'q) host \<Rightarrow> ('r, 'c, 'k, 'q) bmca_port \<Rightarrow> ('r, 'c, 'k, 'q) bmca_port res" where
  "calculate_best_local_announce_message host p =
     andthen (take_best_port_announce_message (ho_num host) (po_bmca p)) (\<lambda>(bmca, best).
     Ok (p\<lparr>po_bmca := bmca, po_lifecycle := (po_lifecycle p)\<lparr>ib_local_best := best\<rparr>\<rparr>))"

definition step_announce_age ::
  "('f, 'r, 'c, 'k, 'q) host \<Rightarrow> duration \<Rightarrow> ('r, 'c, 'k, 'q) bmca_port \<Rightarrow> ('r, 'c, 'k, 'q) bmca_port res" where
  "step_announce_age host step p =
     (let lib = ho_num host;
          disable =
            (case po_multiport_disable p of
               None \<Rightarrow> None
             | Some age \<Rightarrow>
                 let age' = duration_add lib age step
                 in if age' < interval_as_duration lib (pc_announce_interval (po_config p))
                    then Some age' else None)
      in andthen (bmca_step_age lib step (po_bmca p)) (\<lambda>bmca.
         Ok (p\<lparr>po_multiport_disable := disable, po_bmca := bmca\<rparr>)))"

definition best_local_announce_message_for_bmca ::
  "('r, 'c, 'k, 'q) bmca_port \<Rightarrow> best_announce_message option" where
  "best_local_announce_message_for_bmca p =
     (if pc_master_only (po_config p) \<or> po_port_state p = PS_Faulty then None
      else ib_local_best (po_lifecycle p))"

definition best_local_announce_message_for_state ::
  "('r, 'c, 'k, 'q) bmca_port \<Rightarrow> best_announce_message option" where
  "best_local_announce_message_for_state p = ib_local_best (po_lifecycle p)"

definition set_pending ::
  "port_action list \<Rightarrow> ('r, 'c, 'k, 'q) bmca_port \<Rightarrow> ('r, 'c, 'k, 'q) bmca_port" where
  "set_pending acts p = p\<lparr>po_lifecycle := (po_lifecycle p)\<lparr>ib_pending_action := actions acts\<rparr>\<rparr>"

text \<open>The arms for S1, for M1, M2 and M3, and for P1 and P2.\<close>

definition become_slave ::
  "('f, 'r, 'c, 'k, 'q) host \<Rightarrow> port_identity \<Rightarrow> ('r, 'c, 'k, 'q) bmca_port \<Rightarrow>
   ('r, 'c, 'k, 'q) bmca_port res" where
  "become_slave host remote_master p =
     (let update_state =
            (case po_port_state p of
               PS_Faulty \<Rightarrow> False
             | PS_Slave old_state \<Rightarrow> ss_remote_master old_state \<noteq> remote_master
             | _ \<Rightarrow> True)
      in if update_state then
           andthen (set_forced_port_state host (PS_Slave (slave_state_new remote_master)) p) (\<lambda>p1.
           andthen (announce_duration (ho_num host) (ho_open01 host) (po_config p1) (po_rng p1)) (\<lambda>(duration, rng').
           Ok (set_pending [ResetAnnounceReceiptTimer duration, ResetDelayRequestTimer 0]
                 (p1\<lparr>po_rng := rng'\<rparr>))))
         else Ok p)"

definition become_master ::
  "('f, 'r, 'c, 'k, 'q) host \<Rightarrow> default_ds \<Rightarrow> ('r, 'c, 'k, 'q) bmca_port \<Rightarrow>
   ('r, 'c, 'k, 'q) bmca_port res" where
  "become_master host default_ds p =
     (if dd_slave_only default_ds then
        (if po_port_state p = PS_Listening \<or> po_port_state p = PS_Faulty then Ok p
         else
           andthen (set_forced_port_state host PS_Listening p) (\<lambda>p1.
           andthen (announce_duration (ho_num host) (ho_open01 host) (po_config p1) (po_rng p1)) (\<lambda>(duration, rng').
           Ok (set_pending [ResetAnnounceReceiptTimer duration] (p1\<lparr>po_rng := rng'\<rparr>)))))
      else if po_multiport_disable p \<noteq> None then
        (if po_port_state p \<noteq> PS_Passive then set_forced_port_state host PS_Passive p else Ok p)
      else if po_port_state p = PS_Master \<or> po_port_state p = PS_Faulty then Ok p
      else
        andthen (set_forced_port_state host PS_Master p) (\<lambda>p1.
        Ok (set_pending [ResetAnnounceTimer 0, ResetSyncTimer 0] p1)))"

definition become_passive ::
  "('f, 'r, 'c, 'k, 'q) host \<Rightarrow> ('r, 'c, 'k, 'q) bmca_port \<Rightarrow> ('r, 'c, 'k, 'q) bmca_port res" where
  "become_passive host p =
     (if po_port_state p = PS_Passive \<or> po_port_state p = PS_Faulty then Ok p
      else set_forced_port_state host PS_Passive p)"

fun set_recommended_port_state ::
  "('f, 'r, 'c, 'k, 'q) host \<Rightarrow> recommended_state \<Rightarrow> default_ds \<Rightarrow> ('r, 'c, 'k, 'q) bmca_port \<Rightarrow>
   ('r, 'c, 'k, 'q) bmca_port res" where
  "set_recommended_port_state host (RS_S1 announce_message) default_ds p =
     become_slave host (hd_source_port_identity (am_header announce_message)) p"
| "set_recommended_port_state host (RS_M1 _) default_ds p = become_master host default_ds p"
| "set_recommended_port_state host (RS_M2 _) default_ds p = become_master host default_ds p"
| "set_recommended_port_state host (RS_M3 _) default_ds p = become_master host default_ds p"
| "set_recommended_port_state host (RS_P1 _) default_ds p = become_passive host p"
| "set_recommended_port_state host (RS_P2 _) default_ds p = become_passive host p"

text \<open>The data sets after the decisions M1, M2 and S1.\<close>

definition datasets_own :: "default_ds \<Rightarrow> ptp_instance_state \<Rightarrow> ptp_instance_state" where
  "datasets_own d state = state\<lparr>
     is_current_ds := (is_current_ds state)\<lparr>cd_steps_removed := 0\<rparr>,
     is_parent_ds := \<lparr>
       pd_parent_port_identity = \<lparr>pi_clock_identity = dd_clock_identity d, pi_port_number = 0\<rparr>,
       pd_grandmaster_identity = dd_clock_identity d,
       pd_grandmaster_clock_quality = dd_clock_quality d,
       pd_grandmaster_priority_1 = dd_priority_1 d,
       pd_grandmaster_priority_2 = dd_priority_2 d\<rparr>,
     is_time_properties_ds := \<lparr>
       tp_current_utc_offset = None,
       tp_leap_indicator = NoLeap,
       tp_time_traceable = False,
       tp_frequency_traceable = False,
       tp_ptp_timescale = True,
       tp_time_source = TS_InternalOscillator\<rparr>,
     is_path_trace_ds := (is_path_trace_ds state)\<lparr>pt_list := []\<rparr>\<rparr>"

definition datasets_slave :: "announce_message \<Rightarrow> ptp_instance_state \<Rightarrow> ptp_instance_state" where
  "datasets_slave a state = state\<lparr>
     is_current_ds := (is_current_ds state)\<lparr>cd_steps_removed := am_steps_removed a + 1\<rparr>,
     is_parent_ds := \<lparr>
       pd_parent_port_identity = hd_source_port_identity (am_header a),
       pd_grandmaster_identity = am_grandmaster_identity a,
       pd_grandmaster_clock_quality = am_grandmaster_clock_quality a,
       pd_grandmaster_priority_1 = am_grandmaster_priority_1 a,
       pd_grandmaster_priority_2 = am_grandmaster_priority_2 a\<rparr>,
     is_time_properties_ds := time_properties a\<rparr>"

fun apply_recommendation ::
  "('f, 'r, 'c, 'k, 'q) host \<Rightarrow> recommended_state \<Rightarrow> ptp_instance_state \<Rightarrow>
   ('r, 'c, 'k, 'q) bmca_port \<Rightarrow> ptp_instance_state \<times> ('r, 'c, 'k, 'q) bmca_port" where
  "apply_recommendation host (RS_M1 d) state p = (datasets_own d state, p)"
| "apply_recommendation host (RS_M2 d) state p = (datasets_own d state, p)"
| "apply_recommendation host (RS_M3 _) state p = (state, p)"
| "apply_recommendation host (RS_P1 _) state p = (state, p)"
| "apply_recommendation host (RS_P2 _) state p = (state, p)"
| "apply_recommendation host (RS_S1 a) state p =
     (datasets_slave a state, p\<lparr>po_clock := ho_set_properties host (time_properties a) (po_clock p)\<rparr>)"

definition set_recommended_state ::
  "('f, 'r, 'c, 'k, 'q) host \<Rightarrow> recommended_state \<Rightarrow> ptp_instance_state \<Rightarrow> ('r, 'c, 'k, 'q) bmca_port \<Rightarrow>
   (ptp_instance_state \<times> ('r, 'c, 'k, 'q) bmca_port) res" where
  "set_recommended_state host recommended state p =
     andthen (set_recommended_port_state host recommended (is_default_ds state) p) (\<lambda>p1.
     Ok (apply_recommendation host recommended state p1))"

section \<open>Lemmas\<close>

lemma tlv_find_eq:
  "wf_tlvs ts \<Longrightarrow> tlv_find P (tlvs_enc ts) = Ok (find P ts)"
proof (induction ts)
  case Nil
  then show ?case by (simp add: tlv_find.simps tlv_iter_next_def)
next
  case (Cons t ts)
  then show ?case
    using tlv_iter_next_enc [OF Cons.prems] wf_tlvs_tl [OF Cons.prems]
    by (subst tlv_find.simps) (simp del: tlvs_enc_simps)
qed

lemma chunks_exact8_identities: "list_all wf_clock_identity (chunks_exact8 bs)"
proof (induction bs rule: chunks_exact8.induct)
  case (1 bs)
  then show ?case by (subst chunks_exact8.simps) (simp add: wf_clock_identity_def [of "take 8 bs"])
qed

lemma length_chunks_exact8: "length (chunks_exact8 bs) = length bs div 8"
proof (induction bs rule: chunks_exact8.induct)
  case (1 bs)
  then show ?case by (subst chunks_exact8.simps) (simp add: le_div_geq)
qed

lemma become_slave_state:
  assumes "become_slave host m p = Inr p'"
  shows "po_port_state p' = po_port_state p
    \<or> po_port_state p \<noteq> PS_Faulty \<and> po_port_state p' = PS_Slave (slave_state_new m)"
  using assms
  by (auto simp: become_slave_def Let_def set_pending_def dest: set_forced_port_state_OkD
    split: if_splits port_state.splits)

lemma become_master_state:
  assumes "become_master host d p = Inr p'"
  shows "po_port_state p' = (if po_port_state p = PS_Faulty \<and> (dd_slave_only d \<or> po_multiport_disable p = None)
      then PS_Faulty else if dd_slave_only d then PS_Listening
      else if po_multiport_disable p \<noteq> None then PS_Passive else PS_Master)"
  using assms
  by (auto simp: become_master_def Let_def set_pending_def dest: set_forced_port_state_OkD
    split: if_splits)

lemma become_passive_state:
  assumes "become_passive host p = Inr p'"
  shows "po_port_state p' = (if po_port_state p = PS_Faulty then PS_Faulty else PS_Passive)"
  using assms
  by (auto simp: become_passive_def dest: set_forced_port_state_OkD split: if_splits)

lemma apply_recommendation_port:
  "apply_recommendation host r state p = (state', p') \<Longrightarrow>
   po_port_state p' = po_port_state p \<and> po_port_identity p' = po_port_identity p
   \<and> po_config p' = po_config p \<and> is_default_ds state' = is_default_ds state"
  by (cases r) (auto simp: datasets_own_def datasets_slave_def)

section \<open>What receiving an announce message does\<close>

text \<open>What the calls of a running port keep of the data sets: the default data set and the parent.\<close>

definition same_roots :: "ptp_instance_state \<Rightarrow> ptp_instance_state \<Rightarrow> bool" where
  "same_roots state state' \<longleftrightarrow> is_default_ds state' = is_default_ds state
     \<and> pd_parent_port_identity (is_parent_ds state') = pd_parent_port_identity (is_parent_ds state)"

lemma same_roots_refl [simp]: "same_roots state state"
  by (simp add: same_roots_def)

lemma sound_message:
  "canon_message message \<Longrightarrow> ms_body message = MB_Announce announce \<Longrightarrow> sound_announce announce"
  by (simp add: canon_message_def canon_header_def canon_announce_def sound_announce_def)

lemma wf_update_from_parent:
  assumes "wf_instance_state state" and "canon_message message" and "ms_body message = MB_Announce announce"
    and "T \<longrightarrow> message_wire_size message < 1100"
    and "hd_source_port_identity (am_header announce) = pd_parent_port_identity (is_parent_ds state)"
  shows "outcome T (update_from_parent message announce state)
    (\<lambda>(state', loop). wf_instance_state state' \<and> same_roots state state')"
proof -
  have wf: "wf_port_identity (hd_source_port_identity (am_header announce))"
      "wf_clock_identity (am_grandmaster_identity announce)"
    using sound_message [OF assms(2,3)] by (simp_all add: sound_announce_def)
  obtain ts where ts: "wf_tlvs ts" "ms_suffix message = tlvs_enc ts"
    using assms(2) tlvs_wf by (auto simp: canon_message_def)
  have long: "\<not> path_trace_capacity < length (chunks_exact8 (tlv_value t))" if "t \<in> set ts" T for t
  proof -
    have "tlv_wire_size t \<le> length (tlvs_enc ts)"
      using that(1) by (induction ts) auto
    then have "length (tlv_value t) < 1032"
      using assms(3,4) that(2) ts(2) by (simp add: message_wire_size_def header_wire_size_def tlv_wire_size_def)
    then show ?thesis by (simp add: length_chunks_exact8 path_trace_capacity_def MAX_DATA_LEN_def)
  qed
  show ?thesis
  proof (cases "find (\<lambda>t. tlv_type t = TT_PathTrace) ts")
    case None
    then show ?thesis
      using assms(1,5) wf by (simp add: same_roots_def update_from_parent_def Let_def ts(2) tlv_find_eq [OF ts(1)]
        wf_instance_state_def wf_parent_ds_def)
  next
    case (Some t)
    then have "t \<in> set ts" by (auto simp: find_Some_iff)
    then show ?thesis
      using assms(1,5) wf long Some chunks_exact8_identities [of "tlv_value t"]
      by (auto simp: same_roots_def update_from_parent_def Let_def ts(2) tlv_find_eq [OF ts(1)]
        wf_instance_state_def wf_parent_ds_def wf_path_trace_ds_def outcome_def)
  qed
qed

lemma outcome_announce_duration:
  assumes "T \<longrightarrow> host_total host c"
  shows "outcome T (announce_duration (ho_num host) (ho_open01 host) c rng) (\<lambda>(d, r). True)"
  using outcome_call [of T "announce_duration (ho_num host) (ho_open01 host) c rng" "\<lambda>(d, r). True"] assms
    host_totalD(6) [of host c rng] by (simp add: split_beta)

definition announced ::
  "('r, 'c, 'k, 'q) running_port \<Rightarrow> ('r, 'c, 'k, 'q) running_port \<times> port_action_iterator \<Rightarrow> bool" where
  "announced p = (\<lambda>(p', acts). wf_port p' \<and> same_port p p' \<and> settled p' \<and> good_actions p' acts
     \<and> (mode p' = mode p \<or> mode p' = M_Passive))"

lemma outcome_register:
  assumes "T \<longrightarrow> host_total host (po_config p)" and "wf_port p" and "settled p" and "sound_announce announce"
    and "wf_tlv_set (ms_suffix message)"
  shows "outcome T (register_announce host message announce p) (announced p)"
proof -
  let ?source = "hd_source_port_identity (ms_header message)"
  obtain b r where b: "bmca_register_announce_message (ho_num host) (ms_header message) announce (po_bmca p)
      = Ok (b, r)" "wf_bmca b" "same_bmca_config (po_bmca p) b"
    using assms(2,4) wf_bmca_register by (fastforce simp: wf_port_def)
  let ?p = "p\<lparr>po_bmca := b\<rparr>"
  have p: "wf_port ?p" "same_port p ?p" "settled ?p"
    using assms(2,3) b(2,3) by (simp_all add: wf_port_def same_bmca_config_def same_port_def settled_def)
  let ?disabled = "pi_clock_identity (po_port_identity ?p) = pi_clock_identity ?source
    \<and> pi_port_number ?source < pi_port_number (po_port_identity ?p)"
  have step: "outcome T (if ?disabled then set_forced_port_state host PS_Passive (?p\<lparr>po_multiport_disable := Some duration_ZERO\<rparr>)
      else Ok ?p) (\<lambda>p'. wf_port p' \<and> same_port p p' \<and> settled p' \<and> (mode p' = mode p \<or> mode p' = M_Passive))"
  proof (rule outcome_if)
    show "outcome T (set_forced_port_state host PS_Passive (?p\<lparr>po_multiport_disable := Some duration_ZERO\<rparr>))
        (\<lambda>p'. wf_port p' \<and> same_port p p' \<and> settled p' \<and> (mode p' = mode p \<or> mode p' = M_Passive))"
      by (rule outcome_mono [OF outcome_set_forced [OF assms(1)]])
        (use p in \<open>auto simp: port_frame_def wf_port_def same_port_def settled_def\<close>)
  qed (use p in simp)
  have last: "outcome T (andthen (announce_duration (ho_num host) (ho_open01 host) (po_config p2) (po_rng p2)) (\<lambda>(duration, rng').
       Ok (p2\<lparr>po_rng := rng'\<rparr>,
           with_forward_tlvs (actions [ResetAnnounceReceiptTimer duration]) (ms_suffix message) ?source))) (announced p)"
    if "wf_port p2 \<and> same_port p p2 \<and> settled p2 \<and> (mode p2 = mode p \<or> mode p2 = M_Passive)" for p2
  proof -
    have "T \<longrightarrow> host_total host (po_config p2)" using assms(1) that by (simp add: same_port_def)
    then show ?thesis
      by (rule outcome_bind_pair [OF outcome_announce_duration])
        (use that assms(5) in \<open>auto simp: announced_def wf_port_def same_port_def settled_def\<close>)
  qed
  show ?thesis
    unfolding register_announce_def b(1) andthen.simps prod.case Let_def
  proof (rule outcome_if)
    show "outcome T (Ok (?p, actions [])) (announced p)" using p by (simp add: announced_def)
  qed (rule outcome_bind [OF step], rule last)
qed

lemma outcome_announce:
  assumes "T \<longrightarrow> host_total host (po_config p)" and "wf_port p" and "settled p"
    and "wf_instance_state state" and "canon_message message" and "ms_body message = MB_Announce announce"
    and "T \<longrightarrow> message_wire_size message < 1100"
  shows "outcome T (handle_announce host message announce state p)
    (\<lambda>(state', p', acts). wf_instance_state state' \<and> same_roots state state'
      \<and> announced p (p', acts))"
proof -
  have ds: "outcome T (if is_slave_state (po_port_state p)
        \<and> hd_source_port_identity (am_header announce) = pd_parent_port_identity (is_parent_ds state)
      then update_from_parent message announce state else Ok (state, False))
      (\<lambda>(state', loop). wf_instance_state state' \<and> same_roots state state')"
    by (rule outcome_if) (use wf_update_from_parent [OF assms(4-7)] assms(4) in simp_all)
  have reg: "outcome T (register_announce host message announce p) (\<lambda>(p', acts). announced p (p', acts))"
    using outcome_register [OF assms(1-3) sound_message [OF assms(5,6)]] assms(5) by (simp add: canon_message_def)
  show ?thesis
    unfolding handle_announce_def
  proof (rule outcome_bind_pair [OF ds], rule outcome_if)
    fix state1 assume "wf_instance_state state1 \<and> same_roots state state1"
    then show "outcome T (andthen (register_announce host message announce p) (\<lambda>(p1, acts). Ok (state1, p1, acts)))
        (\<lambda>(state', p', acts). wf_instance_state state' \<and> same_roots state state'
          \<and> announced p (p', acts))"
      by (intro outcome_bind_pair [OF reg]) simp
  qed (use assms(2,3) in \<open>simp add: announced_def\<close>)
qed

section \<open>Properties\<close>

text \<open>An announce message of the parent whose path trace has more than 128 identities makes a slave
  panic: the identities are collected into a vector of that capacity. The message has to be longer
  than the packets that this library sends, but not than the packets that it parses.\<close>

theorem long_path_trace_panics:
  assumes "is_slave_state (po_port_state p)" and "pt_enable (is_path_trace_ds state)"
    and "hd_source_port_identity (am_header announce) = pd_parent_port_identity (is_parent_ds state)"
    and "tlvs (ms_suffix message) = Ok ts" "wf_tlv_set (ms_suffix message)"
    and "find (\<lambda>t. tlv_type t = TT_PathTrace) ts = Some t" and "1032 \<le> length (tlv_value t)"
    and "dd_clock_identity (is_default_ds state) \<notin> set (chunks_exact8 (tlv_value t))"
  shows "handle_announce host message announce state p = panic"
proof -
  obtain us where "wf_tlvs us" "ms_suffix message = tlvs_enc us" "tlvs (ms_suffix message) = Ok us"
    using tlvs_wf [OF assms(5)] by blast
  then have "tlv_find (\<lambda>t. tlv_type t = TT_PathTrace) (ms_suffix message) = Ok (Some t)"
    using assms(4,6) by (simp add: tlv_find_eq)
  moreover have "path_trace_capacity < length (chunks_exact8 (tlv_value t))"
    using assms(7) div_le_mono [of 1032 "length (tlv_value t)" 8]
    by (simp add: length_chunks_exact8 path_trace_capacity_def MAX_DATA_LEN_def)
  ultimately have "update_from_parent message announce state = panic"
    using assms(2,8) by (simp add: update_from_parent_def Let_def)
  then show ?thesis using assms(1,3) by (simp add: handle_announce_def)
qed

lemma chunks_replicate: "set (chunks_exact8 (replicate n x)) \<subseteq> {replicate 8 x}"
proof (induction n rule: less_induct)
  case (less n)
  show ?case
    using less [of "n - 8"] by (subst chunks_exact8.simps) (auto simp: min_def)
qed

definition example_long_trace :: "announce_message \<Rightarrow> message" where
  "example_long_trace a = \<lparr>ms_header = am_header a, ms_body = MB_Announce a,
     ms_suffix = tlvs_enc [\<lparr>tlv_type = TT_PathTrace, tlv_value = replicate 1032 5\<rparr>]\<rparr>"

theorem long_path_trace_panics_witness:
  "handle_announce recording_host (example_long_trace (example_announce 7)) (example_announce 7)
     ((example_state True)\<lparr>is_parent_ds := (is_parent_ds (example_state True))
       \<lparr>pd_parent_port_identity := hd_source_port_identity (am_header (example_announce 7))\<rparr>\<rparr>)
     (example_port (PS_Slave example_slave) PD_Empty) = panic"
proof -
  let ?t = "\<lparr>tlv_type = TT_PathTrace, tlv_value = replicate 1032 5\<rparr>"
  have "canon_tlv_type TT_PathTrace"
    by (simp add: canon_tlv_type_def tlv_type_from_primitive_def tlv_value_defs)
  then have wf: "wf_tlvs [?t]" by (simp add: wf_tlvs_def canon_tlv_def)
  have "replicate 8 1 \<noteq> replicate 8 (5 :: u8)" by (simp add: replicate_eq_replicate)
  then have "replicate 8 1 \<notin> set (chunks_exact8 (replicate 1032 (5 :: u8)))"
    using chunks_replicate [of 1032 "5 :: u8"] by blast
  then show ?thesis
    using tlvs_of_enc [OF wf] wf_tlvs_enc [OF wf]
    by (intro long_path_trace_panics [of _ _ _ _ "[?t]" ?t])
      (simp_all add: example_port_def example_state_def path_trace_ds_new_def Let_def example_long_trace_def
        del: tlvs_enc_simps)
qed

end
