(* ===== verification/PortRun.thy ===== *)
theory PortRun
  imports PortMaster PortSlave PortBmca
begin

text \<open>
  The \<open>handle_*\<close> methods of a running port (\<open>statime/src/port/mod.rs\<close>): the entry points of the
  library. \<open>port_event\<close> collects them as the inputs of the port's state machine, and
  \<open>port_step\<close> is one call.
\<close>

section \<open>Timers and timestamps\<close>

definition handle_send_timestamp ::
  "('f, 'r, 'c, 'k, 'q) host \<Rightarrow> timestamp_context \<Rightarrow> time \<Rightarrow> ptp_instance_state \<Rightarrow>
   ('r, 'c, 'k, 'q) running_port \<Rightarrow> (('r, 'c, 'k, 'q) running_port \<times> port_action_iterator) res" where
  "handle_send_timestamp host context timestamp state p =
     (case context of
        TC_Sync ident \<Rightarrow> handle_sync_timestamp host state ident timestamp p
      | TC_DelayReq ident \<Rightarrow> handle_delay_timestamp host ident timestamp p
      | TC_PDelayReq ident \<Rightarrow> handle_pdelay_timestamp host ident timestamp p
      | TC_PDelayResp ident requestor_identity \<Rightarrow>
          handle_pdelay_response_timestamp host state ident requestor_identity timestamp p)"

definition handle_announce_timer where
  "handle_announce_timer host next_tlv state s p = send_announce host next_tlv state s p"

definition handle_sync_timer where
  "handle_sync_timer host state p = send_sync host state p"

definition handle_delay_request_timer where
  "handle_delay_request_timer host state p = send_delay_request host state p"

definition handle_announce_receipt_timer ::
  "('f, 'r, 'c, 'k, 'q) host \<Rightarrow> ptp_instance_state \<Rightarrow> ('r, 'c, 'k, 'q) running_port \<Rightarrow>
   (('r, 'c, 'k, 'q) running_port \<times> port_action_iterator) res" where
  "handle_announce_receipt_timer host state p =
     (if dd_slave_only (is_default_ds state) then
        andthen (if po_port_state p \<noteq> PS_Listening then set_forced_port_state host PS_Listening p
                 else Ok p) (\<lambda>p1.
        andthen (announce_duration (ho_num host) (ho_open01 host) (po_config p1) (po_rng p1)) (\<lambda>(duration, rng').
        Ok (p1\<lparr>po_rng := rng'\<rparr>, actions [ResetAnnounceReceiptTimer duration])))
      else
        andthen (if po_port_state p = PS_Master then Ok p
                 else set_forced_port_state host PS_Master p) (\<lambda>p1.
        Ok (p1, actions [ResetAnnounceTimer 0, ResetSyncTimer 0])))"

definition handle_filter_update_timer ::
  "('f, 'r, 'c, 'k, 'q) host \<Rightarrow> ('r, 'c, 'k, 'q) running_port \<Rightarrow>
   (('r, 'c, 'k, 'q) running_port \<times> port_action_iterator) res" where
  "handle_filter_update_timer host p =
     andthen (ho_filter_update host (po_filter p) (po_clock p)) (\<lambda>(filter, clock, update).
     let p1 = p\<lparr>po_filter := filter, po_clock := clock\<rparr>;
         p2 = (if up_mean_delay update \<noteq> None then p1\<lparr>po_mean_delay := up_mean_delay update\<rparr> else p1)
     in Ok (p2, actions_from_filter update))"

section \<open>Received packets\<close>

text \<open>\<open>None\<close> is \<open>ControlFlow::Break(actions![])\<close>.\<close>

definition parse_and_filter :: "ptp_instance_state \<Rightarrow> bytes \<Rightarrow> message option res" where
  "parse_and_filter state data =
     (if \<not> is_compatible data then Ok None
      else
        case message_deserialize data of
          Inl Panic \<Rightarrow> panic
        | Inl (Wire error) \<Rightarrow> Ok None
        | Inr message \<Rightarrow>
            (if hd_sdo_id (ms_header message) = dd_sdo_id (is_default_ds state)
                \<and> hd_domain_number (ms_header message) = dd_domain_number (is_default_ds state)
             then Ok (Some message) else Ok None))"

definition keep_state ::
  "ptp_instance_state \<Rightarrow> ('p \<times> port_action_iterator) res \<Rightarrow>
   (ptp_instance_state \<times> 'p \<times> port_action_iterator) res" where
  "keep_state state r = andthen r (\<lambda>(p, acts). Ok (state, p, acts))"

definition handle_general_internal ::
  "('f, 'r, 'c, 'k, 'q) host \<Rightarrow> message \<Rightarrow> ptp_instance_state \<Rightarrow> ('r, 'c, 'k, 'q) running_port \<Rightarrow>
   (ptp_instance_state \<times> ('r, 'c, 'k, 'q) running_port \<times> port_action_iterator) res" where
  "handle_general_internal host message state p =
     (case ms_body message of
        MB_Announce announce \<Rightarrow> handle_announce host message announce state p
      | MB_FollowUp follow_up \<Rightarrow> keep_state state (handle_follow_up host (ms_header message) follow_up p)
      | MB_DelayResp delay_response \<Rightarrow>
          keep_state state (handle_delay_resp host (ms_header message) delay_response p)
      | MB_PDelayRespFollowUp peer_delay_follow_up \<Rightarrow>
          keep_state state (handle_peer_delay_response_follow_up host (ms_header message) peer_delay_follow_up p)
      | _ \<Rightarrow> Ok (state, p, actions []))"

definition handle_event_receive ::
  "('f, 'r, 'c, 'k, 'q) host \<Rightarrow> bytes \<Rightarrow> time \<Rightarrow> ptp_instance_state \<Rightarrow> ('r, 'c, 'k, 'q) running_port \<Rightarrow>
   (ptp_instance_state \<times> ('r, 'c, 'k, 'q) running_port \<times> port_action_iterator) res" where
  "handle_event_receive host data timestamp state p =
     andthen (parse_and_filter state data) (\<lambda>m.
     case m of
       None \<Rightarrow> Ok (state, p, actions [])
     | Some message \<Rightarrow>
         (case ms_body message of
            MB_Sync sync \<Rightarrow> keep_state state (handle_sync host (ms_header message) sync timestamp p)
          | MB_DelayReq delay_request \<Rightarrow>
              keep_state state (handle_delay_req host (ms_header message) delay_request timestamp p)
          | MB_PDelayReq _ \<Rightarrow>
              keep_state state (handle_pdelay_req host state (ms_header message) timestamp p)
          | MB_PDelayResp peer_delay_response \<Rightarrow>
              keep_state state
                (handle_peer_delay_response host (ms_header message) peer_delay_response timestamp p)
          | _ \<Rightarrow> handle_general_internal host message state p))"

definition handle_general_receive ::
  "('f, 'r, 'c, 'k, 'q) host \<Rightarrow> bytes \<Rightarrow> ptp_instance_state \<Rightarrow> ('r, 'c, 'k, 'q) running_port \<Rightarrow>
   (ptp_instance_state \<times> ('r, 'c, 'k, 'q) running_port \<times> port_action_iterator) res" where
  "handle_general_receive host data state p =
     andthen (parse_and_filter state data) (\<lambda>m.
     case m of
       None \<Rightarrow> Ok (state, p, actions [])
     | Some message \<Rightarrow> handle_general_internal host message state p)"

section \<open>The calls as the inputs of a state machine\<close>

text \<open>All entry points but \<open>handle_announce_timer\<close>, which also takes a provider of TLVs.\<close>

datatype port_event =
    EvSendTimestamp timestamp_context time
  | EvSyncTimer
  | EvDelayRequestTimer
  | EvAnnounceReceiptTimer
  | EvFilterUpdateTimer
  | EvEventReceive bytes time
  | EvGeneralReceive bytes

fun port_step ::
  "('f, 'r, 'c, 'k, 'q) host \<Rightarrow> port_event \<Rightarrow> ptp_instance_state \<Rightarrow> ('r, 'c, 'k, 'q) running_port \<Rightarrow>
   (ptp_instance_state \<times> ('r, 'c, 'k, 'q) running_port \<times> port_action_iterator) res" where
  "port_step host (EvSendTimestamp context timestamp) state p =
     keep_state state (handle_send_timestamp host context timestamp state p)"
| "port_step host EvSyncTimer state p = keep_state state (handle_sync_timer host state p)"
| "port_step host EvDelayRequestTimer state p =
     keep_state state (handle_delay_request_timer host state p)"
| "port_step host EvAnnounceReceiptTimer state p =
     keep_state state (handle_announce_receipt_timer host state p)"
| "port_step host EvFilterUpdateTimer state p = keep_state state (handle_filter_update_timer host p)"
| "port_step host (EvEventReceive data timestamp) state p =
     handle_event_receive host data timestamp state p"
| "port_step host (EvGeneralReceive data) state p = handle_general_receive host data state p"

section \<open>The state machine of a port\<close>

text \<open>The calls that receive a packet, and those that may complete a measurement.\<close>

fun receives :: "port_event \<Rightarrow> bool" where
  "receives (EvEventReceive _ _) \<longleftrightarrow> True"
| "receives (EvGeneralReceive _) \<longleftrightarrow> True"
| "receives _ \<longleftrightarrow> False"

fun measures :: "port_event \<Rightarrow> bool" where
  "measures (EvSendTimestamp _ _) \<longleftrightarrow> True"
| "measures ev \<longleftrightarrow> receives ev"

text \<open>
  The abstract machine. The first argument says whether the instance is slave-only. Between two runs
  of the best master clock algorithm a port leaves its mode only when no announce message arrived in
  time, when it hears a lower-numbered port of its own clock, when two devices answer a peer delay
  request, or when a peer delay measurement succeeds again. In particular it becomes a slave, or the
  slave of another master, only in the best master clock algorithm.
\<close>

inductive port_transition :: "bool \<Rightarrow> port_event \<Rightarrow> port_mode \<Rightarrow> port_mode \<Rightarrow> bool" where
  stay: "port_transition slave_only ev m m"
| timeout_listening: "port_transition True EvAnnounceReceiptTimer m M_Listening"
| timeout_master: "port_transition False EvAnnounceReceiptTimer m M_Master"
| disabled: "receives ev \<Longrightarrow> port_transition slave_only ev m M_Passive"
| fault: "receives ev \<Longrightarrow> port_transition slave_only ev m M_Faulty"
| recover: "measures ev \<Longrightarrow> port_transition slave_only ev M_Faulty M_Listening"

declare port_transition.intros [intro]

inductive_simps transition_to_master: "port_transition slave_only ev m M_Master"
inductive_simps transition_to_slave: "port_transition slave_only ev m (M_Slave q)"

text \<open>What the type of the application's argument guarantees, and the packets that fit: a longer packet
  can make the path trace overflow.\<close>

fun wf_event :: "port_event \<Rightarrow> bool" where
  "wf_event (EvSendTimestamp (TC_PDelayResp _ requestor) _) \<longleftrightarrow> wf_port_identity requestor"
| "wf_event _ \<longleftrightarrow> True"

fun short_event :: "port_event \<Rightarrow> bool" where
  "short_event (EvEventReceive data _) \<longleftrightarrow> length data < 1100"
| "short_event (EvGeneralReceive data) \<longleftrightarrow> length data < 1100"
| "short_event _ \<longleftrightarrow> True"

text \<open>The postcondition of a call.\<close>

definition stepped ::
  "port_event \<Rightarrow> ptp_instance_state \<Rightarrow> ('r, 'c, 'k, 'q) running_port \<Rightarrow>
   ptp_instance_state \<times> ('r, 'c, 'k, 'q) running_port \<times> port_action_iterator \<Rightarrow> bool" where
  "stepped ev state p = (\<lambda>(state', p', acts).
     wf_instance_state state' \<and> same_roots state state'
     \<and> wf_port p' \<and> same_port p p' \<and> settled p' \<and> good_actions p' acts
     \<and> port_transition (dd_slave_only (is_default_ds state)) ev (mode p) (mode p'))"

lemma stepped_nothing:
  "wf_instance_state state \<Longrightarrow> wf_port p \<Longrightarrow> settled p \<Longrightarrow> stepped ev state p (state, p, actions [])"
  by (auto simp: stepped_def)

lemma stepped_keep:
  assumes "outcome T r (\<lambda>(p', acts). Q p' acts)"
    and "\<And>p' acts. Q p' acts \<Longrightarrow> stepped ev state p (state, p', acts)"
  shows "outcome T (keep_state state r) (stepped ev state p)"
  unfolding keep_state_def using assms by (intro outcome_bind_pair [OF assms(1)]) simp

lemma stepped_sent:
  "wf_instance_state state \<Longrightarrow> wf_port p \<Longrightarrow> settled p \<Longrightarrow> sent p (p', acts) \<Longrightarrow>
    stepped ev state p (state, p', acts)"
  by (auto simp: sent_def stepped_def settled_def port_frame_same wf_port_frame)

lemma stepped_measured:
  "wf_instance_state state \<Longrightarrow> wf_port p \<Longrightarrow> measures ev \<Longrightarrow> measured p (p', acts) \<Longrightarrow>
    stepped ev state p (state, p', acts)"
  by (auto simp: measured_def stepped_def port_frame_same wf_port_frame)

lemma stepped_faulted:
  "wf_instance_state state \<Longrightarrow> wf_port p \<Longrightarrow> receives ev \<Longrightarrow> faulted p (p', acts) \<Longrightarrow>
    stepped ev state p (state, p', acts)"
  by (auto simp: faulted_def stepped_def port_frame_same wf_port_frame)

lemma outcome_parse:
  "outcome T (parse_and_filter state data) (\<lambda>m. case m of None \<Rightarrow> True
     | Some message \<Rightarrow> canon_message message \<and> message_wire_size message \<le> length data)"
  using message_deserialize_not_panic [of data] message_deserialize_OkD [of data]
  by (auto simp: parse_and_filter_def split: sum.split failure.split)

lemma outcome_general:
  assumes "T \<longrightarrow> host_total host (po_config p)" and "wf_port p" and "settled p"
    and "wf_instance_state state" and "canon_message message" and "T \<longrightarrow> message_wire_size message < 1100"
    and "receives ev"
  shows "outcome T (handle_general_internal host message state p) (stepped ev state p)"
proof -
  have ev: "measures ev" using assms(7) by (cases ev) simp_all
  have idle: "stepped ev state p (state, p, actions [])" by (rule stepped_nothing [OF assms(4,2,3)])
  have m: "outcome T (keep_state state r) (stepped ev state p)" if "outcome T r (measured p)" for r
    by (rule stepped_keep [where Q = "\<lambda>p' acts. measured p (p', acts)"])
      (use that stepped_measured [OF assms(4,2) ev] in simp_all)
  have f: "outcome T (keep_state state r) (stepped ev state p)"
    if "outcome T r (if c then faulted p else measured p)" for r c
    by (rule stepped_keep [where Q = "\<lambda>p' acts. if c then faulted p (p', acts) else measured p (p', acts)"])
      (use that stepped_measured [OF assms(4,2) ev] stepped_faulted [OF assms(4,2,7)] in \<open>auto split: if_splits\<close>)
  show ?thesis
  proof (cases "ms_body message")
    case (MB_Announce announce)
    show ?thesis
      unfolding handle_general_internal_def MB_Announce message_body.case
      by (rule outcome_mono [OF outcome_announce [OF assms(1-5) MB_Announce assms(6)]])
        (use assms(7) in \<open>auto simp: stepped_def announced_def\<close>)
  next
    case (MB_FollowUp x)
    then show ?thesis using m [OF outcome_follow_up [OF assms(1,3)]] by (simp add: handle_general_internal_def)
  next
    case (MB_DelayResp x)
    then show ?thesis using m [OF outcome_delay_resp [OF assms(1,3)]] by (simp add: handle_general_internal_def)
  next
    case (MB_PDelayRespFollowUp x)
    then show ?thesis using f [OF outcome_peer_follow_up [OF assms(1,3)]] by (simp add: handle_general_internal_def)
  qed (simp_all add: handle_general_internal_def idle)
qed

lemma outcome_general_receive:
  assumes "T \<longrightarrow> host_total host (po_config p)" and "wf_port p" and "settled p"
    and "wf_instance_state state" and "T \<longrightarrow> length data < 1100"
  shows "outcome T (handle_general_receive host data state p) (stepped (EvGeneralReceive data) state p)"
  unfolding handle_general_receive_def
proof (rule outcome_bind [OF outcome_parse])
  fix m assume "case m of None \<Rightarrow> True | Some message \<Rightarrow> canon_message message \<and> message_wire_size message \<le> length data"
  then show "outcome T (case m of None \<Rightarrow> Ok (state, p, actions [])
      | Some message \<Rightarrow> handle_general_internal host message state p) (stepped (EvGeneralReceive data) state p)"
    using assms by (cases m) (auto intro!: outcome_general stepped_nothing)
qed

lemma outcome_event_receive:
  assumes "T \<longrightarrow> host_total host (po_config p)" and "wf_port p" and "settled p"
    and "wf_instance_state state" and "T \<longrightarrow> length data < 1100"
  shows "outcome T (handle_event_receive host data t state p) (stepped (EvEventReceive data t) state p)"
  unfolding handle_event_receive_def
proof (rule outcome_bind [OF outcome_parse])
  let ?ev = "EvEventReceive data t"
  fix m assume m: "case m of None \<Rightarrow> True | Some message \<Rightarrow> canon_message message \<and> message_wire_size message \<le> length data"
  show "outcome T (case m of None \<Rightarrow> Ok (state, p, actions [])
      | Some message \<Rightarrow>
         (case ms_body message of
            MB_Sync sync \<Rightarrow> keep_state state (handle_sync host (ms_header message) sync t p)
          | MB_DelayReq delay_request \<Rightarrow>
              keep_state state (handle_delay_req host (ms_header message) delay_request t p)
          | MB_PDelayReq _ \<Rightarrow>
              keep_state state (handle_pdelay_req host state (ms_header message) t p)
          | MB_PDelayResp peer_delay_response \<Rightarrow>
              keep_state state
                (handle_peer_delay_response host (ms_header message) peer_delay_response t p)
          | _ \<Rightarrow> handle_general_internal host message state p)) (stepped ?ev state p)"
  proof (cases m)
    case (Some message)
    have general: "outcome T (handle_general_internal host message state p) (stepped ?ev state p)"
      using m Some assms by (intro outcome_general) auto
    have src: "wf_port_identity (hd_source_port_identity (ms_header message))"
      using m Some by (simp add: canon_message_def canon_header_def)
    have k: "outcome T (keep_state state r) (stepped ?ev state p)"
      if "outcome T r (\<lambda>(p', acts). sent p (p', acts) \<or> measured p (p', acts) \<or> faulted p (p', acts))" for r
      by (rule stepped_keep [OF that])
        (auto intro: stepped_sent [OF assms(4,2,3)] stepped_measured [OF assms(4,2)] stepped_faulted [OF assms(4,2)])
    show ?thesis
      unfolding Some option.case
      by (cases "ms_body message"; simp add: general;
          intro k outcome_mono [OF outcome_sync [OF assms(1,3)]] outcome_mono [OF outcome_delay_req [OF assms(2) src]]
            outcome_mono [OF outcome_pdelay_req [OF assms(2) src]]
            outcome_mono [OF outcome_peer_response [OF assms(1,3)]];
          auto split: if_splits)
  qed (use assms stepped_nothing in simp)
qed

lemma outcome_receipt_timer:
  assumes "T \<longrightarrow> host_total host (po_config p)" and "wf_port p" and "settled p" and "wf_instance_state state"
  shows "outcome T (keep_state state (handle_announce_receipt_timer host state p))
    (stepped EvAnnounceReceiptTimer state p)"
proof -
  let ?so = "dd_slave_only (is_default_ds state)"
  let ?q = "\<lambda>s p'. port_frame p p' \<and> settled p' \<and> po_port_state p' = s"
  have forced: "outcome T (if c then set_forced_port_state host s p else Ok p) (?q s)"
    if "\<not> c \<Longrightarrow> po_port_state p = s" "\<And>x. s \<noteq> PS_Slave x" for c s
    by (intro outcome_if outcome_mono [OF outcome_set_forced [OF assms(1)]])
      (use that assms(3) in \<open>cases s; auto simp: settled_def\<close>)+
  have s: "stepped EvAnnounceReceiptTimer state p (state, p', acts)"
    if "?q (if ?so then PS_Listening else PS_Master) p'" "good_actions p' acts" for p' acts
    using that assms(4) wf_port_frame [OF _ assms(2)] by (auto simp: stepped_def port_frame_same)
  show ?thesis
  proof (cases ?so)
    case True
    have dur: "outcome T (andthen (announce_duration (ho_num host) (ho_open01 host) (po_config p1) (po_rng p1)) (\<lambda>(duration, rng').
        Ok (p1\<lparr>po_rng := rng'\<rparr>, actions [ResetAnnounceReceiptTimer duration])))
        (\<lambda>(p', acts). ?q PS_Listening p' \<and> good_actions p' acts)" if "?q PS_Listening p1" for p1
    proof -
      have "T \<longrightarrow> host_total host (po_config p1)"
        using assms(1) that by (simp add: port_frame_def same_port_def)
      then show ?thesis
        by (rule outcome_bind_pair [OF outcome_announce_duration])
          (use that in \<open>auto simp: port_frame_def same_port_def settled_def\<close>)
    qed
    have "outcome T (handle_announce_receipt_timer host state p)
        (\<lambda>(p', acts). ?q PS_Listening p' \<and> good_actions p' acts)"
      unfolding handle_announce_receipt_timer_def if_P [OF True]
      by (rule outcome_bind [OF forced], simp, simp, rule dur)
    then show ?thesis by (rule stepped_keep) (use s True in simp)
  next
    case False
    have "outcome T (andthen (if po_port_state p \<noteq> PS_Master then set_forced_port_state host PS_Master p else Ok p)
        (\<lambda>p1. Ok (p1, actions [ResetAnnounceTimer 0, ResetSyncTimer 0])))
        (\<lambda>(p', acts). ?q PS_Master p' \<and> good_actions p' acts)"
      by (rule outcome_bind [OF forced]) (auto simp: is_master_def)
    then have "outcome T (handle_announce_receipt_timer host state p)
        (\<lambda>(p', acts). ?q PS_Master p' \<and> good_actions p' acts)"
      using False by (cases "po_port_state p = PS_Master") (simp_all add: handle_announce_receipt_timer_def)
    then show ?thesis by (rule stepped_keep) (use s False in simp)
  qed
qed

lemma outcome_filter_timer:
  assumes "T \<longrightarrow> host_total host (po_config p)" and "wf_port p" and "settled p" and "wf_instance_state state"
  shows "outcome T (keep_state state (handle_filter_update_timer host p)) (stepped EvFilterUpdateTimer state p)"
proof -
  have t: "outcome T (ho_filter_update host (po_filter p) (po_clock p)) (\<lambda>_. True)"
    by (rule outcome_returns) (use assms(1) host_totalD(2) [of host "po_config p"] in simp)
  have "outcome T (handle_filter_update_timer host p) (sent p)"
    unfolding handle_filter_update_timer_def
    by (rule outcome_bind [OF t]) (auto simp: Let_def sent_def port_frame_def same_port_def)
  then show ?thesis
    by (intro stepped_keep [where Q = "\<lambda>p' acts. sent p (p', acts)"])
      (auto intro: stepped_sent [OF assms(4,2,3)])
qed

lemma outcome_send_timestamp:
  assumes "T \<longrightarrow> host_total host (po_config p)" and "wf_port p" and "settled p" and "wf_instance_state state"
    and "wf_event (EvSendTimestamp c t)"
  shows "outcome T (keep_state state (handle_send_timestamp host c t state p)) (stepped (EvSendTimestamp c t) state p)"
proof (rule stepped_keep)
  show "outcome T (handle_send_timestamp host c t state p)
      (\<lambda>(p', acts). sent p (p', acts) \<or> measured p (p', acts))"
    using assms(5)
    by (cases c)
      (auto simp: handle_send_timestamp_def
        intro: outcome_mono [OF outcome_sync_timestamp [OF assms(2)]]
          outcome_mono [OF outcome_pdelay_response_timestamp [OF assms(2)]]
          outcome_mono [OF outcome_delay_timestamp [OF assms(1,3)]]
          outcome_mono [OF outcome_pdelay_timestamp [OF assms(1,3)]])
qed (auto intro: stepped_sent [OF assms(4,2,3)] stepped_measured [OF assms(4,2)])

lemma outcome_step:
  assumes "T \<longrightarrow> host_total host (po_config p) \<and> short_event ev" and "wf_port p" and "settled p"
    and "wf_instance_state state" and "wf_event ev"
  shows "outcome T (port_step host ev state p) (stepped ev state p)"
proof -
  have t: "T \<longrightarrow> host_total host (po_config p)" using assms(1) by simp
  show ?thesis
  proof (cases ev)
    case EvSyncTimer
    have "outcome T (handle_sync_timer host state p) (\<lambda>(p', acts). sent p (p', acts))"
      using outcome_send_sync [OF t assms(2)] by (simp add: handle_sync_timer_def)
    then show ?thesis
      unfolding EvSyncTimer port_step.simps by (rule stepped_keep) (rule stepped_sent [OF assms(4,2,3)])
  next
    case EvDelayRequestTimer
    have "outcome T (handle_delay_request_timer host state p)
        (\<lambda>(p', acts). measured p (p', acts) \<and> mode p' = mode p)"
      using outcome_delay_request [OF t assms(3,2)] by (simp add: handle_delay_request_timer_def)
    then show ?thesis
      unfolding EvDelayRequestTimer port_step.simps
      by (rule stepped_keep)
        (use assms(4) wf_port_frame [OF _ assms(2)] in \<open>auto simp: stepped_def measured_def port_frame_same\<close>)
  qed (use assms t outcome_send_timestamp outcome_receipt_timer outcome_filter_timer
      outcome_event_receive outcome_general_receive in \<open>simp_all\<close>)
qed

section \<open>Sequences of calls\<close>

fun port_run ::
  "('f, 'r, 'c, 'k, 'q) host \<Rightarrow> port_event list \<Rightarrow> ptp_instance_state \<Rightarrow> ('r, 'c, 'k, 'q) running_port \<Rightarrow>
   (ptp_instance_state \<times> ('r, 'c, 'k, 'q) running_port \<times> port_action_iterator list) res" where
  "port_run host [] state p = Ok (state, p, [])"
| "port_run host (ev # evs) state p =
     andthen (port_step host ev state p) (\<lambda>(state1, p1, acts).
     andthen (port_run host evs state1 p1) (\<lambda>(state2, p2, rest).
     Ok (state2, p2, acts # rest)))"

lemma run_slave_only:
  assumes "port_run host evs state p = Inr (state', p', actss)" and "list_all wf_event evs"
    and "wf_port p" "settled p" "wf_instance_state state" "dd_slave_only (is_default_ds state)" "mode p \<noteq> M_Master"
  shows "wf_port p' \<and> settled p' \<and> mode p' \<noteq> M_Master
    \<and> list_all (\<lambda>acts. list_all (sane_action False) (ai_internal acts)) actss"
  using assms
proof (induction evs arbitrary: state p actss)
  case (Cons ev evs)
  from Cons.prems(1) obtain state1 p1 acts rest where
    step: "port_step host ev state p = Inr (state1, p1, acts)" and
    run: "port_run host evs state1 p1 = Inr (state', p', rest)" and actss: "actss = acts # rest"
    by auto
  have "stepped ev state p (state1, p1, acts)"
    using outcome_OkD [OF outcome_step [of False host p ev state] step] Cons.prems by simp
  then have s: "wf_port p1" "settled p1" "wf_instance_state state1" "dd_slave_only (is_default_ds state1)"
      "good_actions p1 acts" "port_transition True ev (mode p) (mode p1)"
    using Cons.prems(6) by (auto simp: stepped_def same_roots_def)
  then have m: "mode p1 \<noteq> M_Master"
    using Cons.prems(7) transition_to_master [of True ev "mode p"] by (auto simp: eq_commute [of M_Master])
  then have "list_all (sane_action False) (ai_internal acts)"
    using s(5) by (simp add: good_actions_def is_master_def)
  with Cons.IH [OF run] Cons.prems(2) s m actss show ?case by simp
qed simp

section \<open>Properties\<close>


lemma settled_example: "settled (example_port PS_Listening PD_Empty)" "settled (example_port PS_Master PD_Empty)"
  "settled (example_port (PS_Slave example_slave) PD_Empty)"
  by (simp_all add: settled_def example_port_def example_slave_def slave_state_new_def)

lemma example_timeout:
  "port_step recording_host EvAnnounceReceiptTimer (example_state False) (example_port PS_Listening PD_Empty)
    = Ok (example_state False, example_port PS_Master PD_Empty, actions [ResetAnnounceTimer 0, ResetSyncTimer 0])"
  by (simp add: handle_announce_receipt_timer_def keep_state_def set_forced_port_state_def example_state_def
    example_port_def Let_def)






text \<open>No call panics or fails: with a host whose filter and numeric functions return, every call
  returns, for any packet of fewer than 1100 bytes (the packets of the library have at most 1024).\<close>

theorem port_step_total:
  assumes "wf_port p" "settled p" "wf_instance_state state" "wf_event ev"
    and "host_total host (po_config p)" "short_event ev"
  shows "\<exists>state' p' acts. port_step host ev state p = Ok (state', p', acts)"
  using outcome_total [OF outcome_step [of True host p ev state]] assms by auto

theorem port_step_total_witness:
  "\<exists>state' p' acts. port_step recording_host (EvGeneralReceive [1, 2, 3]) (example_state True)
     (example_port (PS_Slave example_slave) PD_Empty) = Ok (state', p', acts)"
  by (rule port_step_total [OF wf_example_port settled_example(3) wf_example_state])
    (use recording_host_total in \<open>simp_all add: example_port_def\<close>)

text \<open>C11: in a slave-only instance a port that is not a master never becomes one, whatever sequence of
  calls is made, and it never sends a sync message or starts the timers of a master.\<close>

theorem slave_only_never_master:
  assumes "port_run host evs state p = Ok (state', p', actss)" and "list_all wf_event evs"
    and "wf_port p" "settled p" "wf_instance_state state"
    and "dd_slave_only (is_default_ds state)" "\<not> is_master p"
  shows "\<not> is_master p' \<and> (\<forall>acts \<in> set actss. \<forall>a \<in> set (ai_internal acts).
    case a of SendEvent (TC_Sync _) _ _ \<Rightarrow> False | ResetAnnounceTimer _ \<Rightarrow> False | ResetSyncTimer _ \<Rightarrow> False | _ \<Rightarrow> True)"
proof -
  have run: "mode p' \<noteq> M_Master \<and> list_all (\<lambda>acts. list_all (sane_action False) (ai_internal acts)) actss"
    using run_slave_only [OF assms(1-6)] assms(7) by (simp add: is_master_def)
  have "sane_action False a \<Longrightarrow> case a of SendEvent (TC_Sync _) _ _ \<Rightarrow> False | ResetAnnounceTimer _ \<Rightarrow> False
      | ResetSyncTimer _ \<Rightarrow> False | _ \<Rightarrow> True" for a
    by (cases a) (auto split: timestamp_context.splits)
  with run show ?thesis by (auto simp: is_master_def list_all_iff)
qed

definition slave_only_state :: ptp_instance_state where
  "slave_only_state = (example_state False)\<lparr>is_default_ds :=
     (is_default_ds (example_state False))\<lparr>dd_slave_only := True\<rparr>\<rparr>"

theorem slave_only_never_master_witness:
  "\<exists>state' p' actss. port_run recording_host [EvSyncTimer, EvFilterUpdateTimer] slave_only_state
      (example_port PS_Listening PD_Empty) = Ok (state', p', actss) \<and> \<not> is_master p'"
proof -
  have run: "port_run recording_host [EvSyncTimer, EvFilterUpdateTimer] slave_only_state
      (example_port PS_Listening PD_Empty)
    = Ok (slave_only_state, example_port PS_Listening PD_Empty, [actions [], actions []])"
    by (simp add: handle_sync_timer_def send_sync_def keep_state_def handle_filter_update_timer_def
      recording_host_def example_port_def actions_from_filter_def Let_def)
  have "wf_instance_state slave_only_state"
    using wf_example_state [of False] by (simp add: wf_instance_state_def slave_only_state_def wf_default_ds_def)
  then have "\<not> is_master (example_port PS_Listening PD_Empty)"
    using slave_only_never_master [OF run _ wf_example_port settled_example(1)]
    by (simp add: slave_only_state_def is_master_def example_port_def)
  with run show ?thesis by blast
qed

text \<open>A packet that is not a message of the domain and the SDO of the instance (another version,
  bytes that do not parse, another domain number or sdoId) changes nothing and causes no action.\<close>

theorem foreign_packet_ignored:
  assumes "\<And>m. is_compatible data \<Longrightarrow> message_deserialize data = Ok m \<Longrightarrow>
      hd_sdo_id (ms_header m) \<noteq> dd_sdo_id (is_default_ds state)
      \<or> hd_domain_number (ms_header m) \<noteq> dd_domain_number (is_default_ds state)"
  shows "handle_event_receive host data t state p = Ok (state, p, actions [])
    \<and> handle_general_receive host data state p = Ok (state, p, actions [])"
proof -
  have "parse_and_filter state data = Ok None"
    using assms message_deserialize_not_panic [of data]
    by (auto simp: parse_and_filter_def split: sum.split failure.split)
  then show ?thesis by (simp add: handle_event_receive_def handle_general_receive_def)
qed

theorem foreign_packet_ignored_witness:
  "handle_general_receive recording_host [0, 1] (example_state False) (example_port PS_Master PD_Empty)
    = Ok (example_state False, example_port PS_Master PD_Empty, actions [])"
proof -
  have "\<not> is_compatible [0, 1]" by (simp add: is_compatible_def)
  then show ?thesis
    using foreign_packet_ignored [of "[0, 1]" "example_state False" recording_host 0 "example_port PS_Master PD_Empty"]
    by blast
qed

end
