(* ===== verification/Instance.thy ===== *)
theory Instance
  imports PortRun
begin

text \<open>
  \<open>statime/src/ptp_instance.rs\<close>: the instance, its ports, and a run of the best master clock
  algorithm over all of them; the data sets it exposes (\<open>statime/src/observability\<close>).
  \<open>PtpInstanceStateMutex\<close> gives exclusive access to the state for the time of a closure, so every
  operation is one step on the state.
\<close>

record ptp_instance =
  in_state :: ptp_instance_state
  in_log_bmca_interval :: i8

definition ptp_instance_new :: "instance_config \<Rightarrow> time_properties_ds \<Rightarrow> ptp_instance" where
  "ptp_instance_new config time_properties_ds =
     (let default_ds = default_ds_new config in
      \<lparr>in_state = \<lparr>
         is_default_ds = default_ds,
         is_current_ds = current_ds_default,
         is_parent_ds = parent_ds_new default_ds,
         is_path_trace_ds = path_trace_ds_new (ic_path_trace config),
         is_time_properties_ds = time_properties_ds\<rparr>,
       in_log_bmca_interval = 0x7f\<rparr>)"

text \<open>\<open>fetch_min\<close> compares signed values; \<open>number_ports += 1\<close> wraps at \<open>2 ^ 16\<close>.\<close>

definition add_port ::
  "('f, 'r, 'c, 'k, 'q) host \<Rightarrow> port_config \<Rightarrow> 'k \<Rightarrow> 'c \<Rightarrow> 'r \<Rightarrow> ptp_instance \<Rightarrow>
   (ptp_instance \<times> ('r, 'c, 'k, 'q) bmca_port) res" where
  "add_port host config filter_config clock rng inst =
     (let interval = (if sint (pc_announce_interval config) < sint (in_log_bmca_interval inst)
                      then pc_announce_interval config else in_log_bmca_interval inst);
          state = in_state inst;
          d = is_default_ds state;
          d' = d\<lparr>dd_number_ports := dd_number_ports d + 1\<rparr>;
          port_identity = \<lparr>pi_clock_identity = dd_clock_identity d', pi_port_number = dd_number_ports d'\<rparr>;
          inst' = inst\<lparr>in_log_bmca_interval := interval, in_state := state\<lparr>is_default_ds := d'\<rparr>\<rparr>
      in andthen (port_new host config filter_config clock port_identity rng) (\<lambda>p.
         Ok (inst', p)))"

text \<open>The three loops of \<open>PtpInstanceState::bmca\<close> over the ports.\<close>

fun map_res :: "('a \<Rightarrow> 'b res) \<Rightarrow> 'a list \<Rightarrow> 'b list res" where
  "map_res f [] = Ok []"
| "map_res f (x # xs) = andthen (f x) (\<lambda>y. andthen (map_res f xs) (\<lambda>ys. Ok (y # ys)))"

fun recommend_loop ::
  "('f, 'r, 'c, 'k, 'q) host \<Rightarrow> best_announce_message option \<Rightarrow> ptp_instance_state \<Rightarrow>
   ('r, 'c, 'k, 'q) bmca_port list \<Rightarrow> (ptp_instance_state \<times> ('r, 'c, 'k, 'q) bmca_port list) res" where
  "recommend_loop host ebest state [] = Ok (state, [])"
| "recommend_loop host ebest state (p # ps) =
     andthen (calculate_recommended_state (is_default_ds state) ebest
                (best_local_announce_message_for_state p) (po_port_state p)) (\<lambda>recommended.
     andthen (case recommended of
                Some r \<Rightarrow> set_recommended_state host r state p
              | None \<Rightarrow> Ok (state, p)) (\<lambda>(state1, p1).
     andthen (recommend_loop host ebest state1 ps) (\<lambda>(state2, ps1).
     Ok (state2, p1 # ps1))))"

definition state_bmca ::
  "('f, 'r, 'c, 'k, 'q) host \<Rightarrow> duration \<Rightarrow> ptp_instance_state \<Rightarrow> ('r, 'c, 'k, 'q) bmca_port list \<Rightarrow>
   (ptp_instance_state \<times> ('r, 'c, 'k, 'q) bmca_port list) res" where
  "state_bmca host bmca_interval state ports =
     andthen (map_res (calculate_best_local_announce_message host) ports) (\<lambda>ports1.
     andthen (find_best_announce_message
                (List.map_filter best_local_announce_message_for_bmca ports1)) (\<lambda>ebest.
     andthen (recommend_loop host ebest state ports1) (\<lambda>(state1, ports2).
     andthen (map_res (step_announce_age host bmca_interval) ports2) (\<lambda>ports3.
     Ok (state1, ports3)))))"

definition instance_bmca ::
  "('f, 'r, 'c, 'k, 'q) host \<Rightarrow> ptp_instance \<Rightarrow> ('r, 'c, 'k, 'q) bmca_port list \<Rightarrow>
   (ptp_instance \<times> ('r, 'c, 'k, 'q) bmca_port list) res" where
  "instance_bmca host inst ports =
     (let lib = ho_num host;
          interval = duration_from_seconds lib (f_powi2 lib (sint (in_log_bmca_interval inst)))
      in andthen (state_bmca host interval (in_state inst) ports) (\<lambda>(state, ports').
         Ok (inst\<lparr>in_state := state\<rparr>, ports')))"

definition bmca_interval :: "'f numlib \<Rightarrow> ptp_instance \<Rightarrow> core_duration res" where
  "bmca_interval lib inst = cd_from_secs_f64 lib (f_powi2 lib (sint (in_log_bmca_interval inst)))"

definition set_clock_quality :: "clock_quality \<Rightarrow> ptp_instance \<Rightarrow> ptp_instance" where
  "set_clock_quality quality inst =
     inst\<lparr>in_state := (in_state inst)\<lparr>is_default_ds :=
       (is_default_ds (in_state inst))\<lparr>dd_clock_quality := quality\<rparr>\<rparr>\<rparr>"

definition set_slave_only :: "bool \<Rightarrow> ptp_instance \<Rightarrow> ptp_instance" where
  "set_slave_only slave_only inst =
     inst\<lparr>in_state := (in_state inst)\<lparr>is_default_ds :=
       (is_default_ds (in_state inst))\<lparr>dd_slave_only := slave_only\<rparr>\<rparr>\<rparr>"

section \<open>The exposed data sets\<close>

text \<open>\<open>DefaultDS\<close> and \<open>ParentDS\<close> copy the internal data sets; \<open>CurrentDS\<close> adds the
  contribution of the slave port.\<close>

record obs_default_ds =
  od_clock_identity :: clock_identity
  od_number_ports :: u16
  od_clock_quality :: clock_quality
  od_priority_1 :: u8
  od_priority_2 :: u8
  od_domain_number :: u8
  od_slave_only :: bool
  od_sdo_id :: sdo_id

definition obs_default_ds_from :: "default_ds \<Rightarrow> obs_default_ds" where
  "obs_default_ds_from v = \<lparr>
     od_clock_identity = dd_clock_identity v,
     od_number_ports = dd_number_ports v,
     od_clock_quality = dd_clock_quality v,
     od_priority_1 = dd_priority_1 v,
     od_priority_2 = dd_priority_2 v,
     od_domain_number = dd_domain_number v,
     od_slave_only = dd_slave_only v,
     od_sdo_id = dd_sdo_id v\<rparr>"

record obs_parent_ds =
  op_parent_port_identity :: port_identity
  op_grandmaster_identity :: clock_identity
  op_grandmaster_clock_quality :: clock_quality
  op_grandmaster_priority_1 :: u8
  op_grandmaster_priority_2 :: u8

definition obs_parent_ds_from :: "parent_ds \<Rightarrow> obs_parent_ds" where
  "obs_parent_ds_from v = \<lparr>
     op_parent_port_identity = pd_parent_port_identity v,
     op_grandmaster_identity = pd_grandmaster_identity v,
     op_grandmaster_clock_quality = pd_grandmaster_clock_quality v,
     op_grandmaster_priority_1 = pd_grandmaster_priority_1 v,
     op_grandmaster_priority_2 = pd_grandmaster_priority_2 v\<rparr>"

record obs_current_ds =
  oc_steps_removed :: u16
  oc_offset_from_master :: duration
  oc_mean_delay :: duration

definition current_ds_from_state :: "current_ds \<Rightarrow> filter_estimate option \<Rightarrow> obs_current_ds" where
  "current_ds_from_state c port_contribution =
     (case port_contribution of
        Some contribution \<Rightarrow> \<lparr>oc_steps_removed = cd_steps_removed c,
          oc_offset_from_master = fe_offset_from_master contribution,
          oc_mean_delay = fe_mean_delay contribution\<rparr>
      | None \<Rightarrow> \<lparr>oc_steps_removed = cd_steps_removed c, oc_offset_from_master = duration_ZERO,
          oc_mean_delay = duration_ZERO\<rparr>)"

definition instance_default_ds :: "ptp_instance \<Rightarrow> obs_default_ds" where
  "instance_default_ds i = obs_default_ds_from (is_default_ds (in_state i))"

definition instance_current_ds :: "ptp_instance \<Rightarrow> filter_estimate option \<Rightarrow> obs_current_ds" where
  "instance_current_ds i port_contribution = current_ds_from_state (is_current_ds (in_state i)) port_contribution"

definition instance_parent_ds :: "ptp_instance \<Rightarrow> obs_parent_ds" where
  "instance_parent_ds i = obs_parent_ds_from (is_parent_ds (in_state i))"

section \<open>Lemmas on a run of the algorithm\<close>

lemma map_res_Ok_iff:
  "map_res f xs = Inr ys \<longleftrightarrow> length ys = length xs \<and> list_all2 (\<lambda>x y. f x = Ok y) xs ys"
proof (induction xs arbitrary: ys)
  case (Cons x xs)
  then show ?case by (cases ys) auto
qed auto

text \<open>The decision on the level of modes: what a recommended state makes of the mode of a port.\<close>

fun decide_mode :: "bool \<Rightarrow> bool \<Rightarrow> recommended_state option \<Rightarrow> port_mode \<Rightarrow> port_mode" where
  "decide_mode slave_only disabled None m = m"
| "decide_mode slave_only disabled (Some (RS_S1 a)) m =
     (if m = M_Faulty then M_Faulty else M_Slave (hd_source_port_identity (am_header a)))"
| "decide_mode slave_only disabled (Some (RS_P1 _)) m = (if m = M_Faulty then M_Faulty else M_Passive)"
| "decide_mode slave_only disabled (Some (RS_P2 _)) m = (if m = M_Faulty then M_Faulty else M_Passive)"
| "decide_mode slave_only disabled (Some _) m =
     (if m = M_Faulty \<and> (slave_only \<or> \<not> disabled) then M_Faulty
      else if slave_only then M_Listening else if disabled then M_Passive else M_Master)"

lemma become_slave_mode:
  assumes "become_slave host q p = Inr p'"
  shows "mode p' = (if mode p = M_Faulty then M_Faulty else M_Slave q)"
  using assms
  by (auto simp: become_slave_def Let_def set_pending_def slave_state_new_def dest: set_forced_port_state_OkD
    split: if_splits port_state.splits)

lemma set_recommended_mode:
  assumes "set_recommended_state host r state p = Inr (state', p')"
  shows "mode p' = decide_mode (dd_slave_only (is_default_ds state)) (po_multiport_disable p \<noteq> None) (Some r) (mode p)"
proof -
  obtain p1 where p1: "set_recommended_port_state host r (is_default_ds state) p = Inr p1"
      "apply_recommendation host r state p1 = (state', p')"
    using assms by (auto simp: set_recommended_state_def)
  then have "mode p' = mode p1" using apply_recommendation_port by metis
  then show ?thesis
    using p1(1) by (cases r) (auto dest!: become_slave_mode become_master_state become_passive_state)
qed

lemma set_forced_keeps:
  "set_forced_port_state host s p = Inr p' \<Longrightarrow>
    port_frame p p' \<and> po_peer_delay_state p' = po_peer_delay_state p \<and> po_lifecycle p' = po_lifecycle p
    \<and> po_port_state p' = s"
  using frame_set_forced [of host s p p'] set_forced_port_state_OkD [of host s p p'] by simp

lemma frame_become:
  "become_slave host q p = Inr p' \<Longrightarrow> port_frame p p' \<and> po_peer_delay_state p' = po_peer_delay_state p
    \<and> ib_local_best (po_lifecycle p') = ib_local_best (po_lifecycle p)"
  "become_master host d p = Inr p' \<Longrightarrow> port_frame p p' \<and> po_peer_delay_state p' = po_peer_delay_state p
    \<and> ib_local_best (po_lifecycle p') = ib_local_best (po_lifecycle p)"
  "become_passive host p = Inr p' \<Longrightarrow> port_frame p p' \<and> po_peer_delay_state p' = po_peer_delay_state p
    \<and> ib_local_best (po_lifecycle p') = ib_local_best (po_lifecycle p)"
  by (auto simp: become_slave_def become_master_def become_passive_def Let_def set_pending_def
    port_frame_def same_port_def dest!: set_forced_keeps split: if_splits)

lemma settled_keep:
  "po_peer_delay_state p' = po_peer_delay_state p \<Longrightarrow> settled p \<Longrightarrow>
   po_port_state p' = po_port_state p \<or> \<not> is_slave_state (po_port_state p')
     \<or> (\<exists>q. po_port_state p' = PS_Slave (slave_state_new q)) \<Longrightarrow> settled p'"
  by (elim disjE; cases "po_port_state p'") (simp_all add: settled_def slave_state_new_def, auto)

text \<open>Actions that may wait for the end of the algorithm before it runs.\<close>

definition idle_pending :: "('r, 'c, 'k, 'q) bmca_port \<Rightarrow> bool" where
  "idle_pending p \<longleftrightarrow> length (ai_internal (ib_pending_action (po_lifecycle p))) \<le> MAX_ACTIONS
     \<and> list_all (\<lambda>a. \<not> is_send a \<and> sane_action False a) (ai_internal (ib_pending_action (po_lifecycle p)))
     \<and> wf_tlv_set (ai_tlvs (ib_pending_action (po_lifecycle p)))"

lemma sane_action_mono: "sane_action False a \<Longrightarrow> sane_action m a"
  by (cases a) (auto split: timestamp_context.splits)

lemma idle_pending_good: "idle_pending p \<Longrightarrow> ib_pending_action (po_lifecycle p) = acts \<Longrightarrow> good_actions q acts"
  by (auto simp: idle_pending_def good_actions_def list_all_iff sane_action_mono filter_empty_conv
    intro!: le_trans [OF eq_imp_le])

lemma pending_become:
  "become_slave host q p = Inr p' \<Longrightarrow> idle_pending p \<Longrightarrow> good_actions p' (ib_pending_action (po_lifecycle p'))"
  "become_master host d p = Inr p' \<Longrightarrow> idle_pending p \<Longrightarrow> good_actions p' (ib_pending_action (po_lifecycle p'))"
  "become_passive host p = Inr p' \<Longrightarrow> idle_pending p \<Longrightarrow> good_actions p' (ib_pending_action (po_lifecycle p'))"
  by (auto simp: become_slave_def become_master_def become_passive_def Let_def set_pending_def is_master_def
    dest!: set_forced_keeps intro: idle_pending_good split: if_splits)

text \<open>A port that the algorithm makes a master starts the timers of a master.\<close>

definition promoted :: "('r, 'c, 'k, 'q) bmca_port \<Rightarrow> ('r, 'c, 'k, 'q) bmca_port \<Rightarrow> bool" where
  "promoted p p' \<longleftrightarrow> (is_master p' \<longrightarrow> is_master p
     \<or> ai_internal (ib_pending_action (po_lifecycle p')) = [ResetAnnounceTimer 0, ResetSyncTimer 0])"

lemma promoted_become:
  "become_slave host q p = Inr p' \<Longrightarrow> promoted p p'"
  "become_master host d p = Inr p' \<Longrightarrow> promoted p p'"
  "become_passive host p = Inr p' \<Longrightarrow> promoted p p'"
  by (auto simp: become_slave_def become_master_def become_passive_def Let_def set_pending_def is_master_def promoted_def
    actions_def dest!: set_forced_port_state_OkD(1) split: if_splits)

lemma total_set_forced: "host_total host c \<Longrightarrow> \<exists>p'. set_forced_port_state host s p = Inr p'"
  using outcome_total [OF outcome_set_forced [of True host c s p]] by blast

lemma total_become:
  assumes "host_total host (po_config p)"
  shows "\<exists>p'. become_slave host q p = Inr p'" "\<exists>p'. become_master host d p = Inr p'"
    "\<exists>p'. become_passive host p = Inr p'"
proof -
  have d: "\<exists>p'. andthen (announce_duration (ho_num host) (ho_open01 host) (po_config p1) (po_rng p1)) (\<lambda>(duration, rng').
      Ok (set_pending (f duration) (p1\<lparr>po_rng := rng'\<rparr>))) = Inr p'"
    if "set_forced_port_state host s p = Inr p1" for s p1 f
    using host_totalD(6) [OF assms, of "po_rng p1"] set_forced_port_state_OkD(3) [OF that] by auto
  show "\<exists>p'. become_slave host q p = Inr p'"
    using total_set_forced [OF assms, of "PS_Slave (slave_state_new q)" p] d
    by (fastforce simp: become_slave_def Let_def)
  show "\<exists>p'. become_master host d p = Inr p'"
    using total_set_forced [OF assms, of PS_Listening p] total_set_forced [OF assms, of PS_Passive p]
      total_set_forced [OF assms, of PS_Master p] d
    by (fastforce simp: become_master_def Let_def)
  show "\<exists>p'. become_passive host p = Inr p'"
    using total_set_forced [OF assms, of PS_Passive p] by (auto simp: become_passive_def)
qed

text \<open>The parent after a recommended state has been applied.\<close>

fun decide_parent :: "default_ds \<Rightarrow> recommended_state option \<Rightarrow> port_identity \<Rightarrow> port_identity" where
  "decide_parent d (Some (RS_S1 a)) q = hd_source_port_identity (am_header a)"
| "decide_parent d (Some (RS_M1 _)) q = \<lparr>pi_clock_identity = dd_clock_identity d, pi_port_number = 0\<rparr>"
| "decide_parent d (Some (RS_M2 _)) q = \<lparr>pi_clock_identity = dd_clock_identity d, pi_port_number = 0\<rparr>"
| "decide_parent d _ q = q"

text \<open>A recommended state that the decision algorithm can return for an instance: the data set in it is
  the instance's own, and the identities in the message are sound.\<close>

fun sound_recommendation :: "default_ds \<Rightarrow> recommended_state option \<Rightarrow> bool" where
  "sound_recommendation d (Some (RS_S1 a)) \<longleftrightarrow> sound_announce a"
| "sound_recommendation d (Some (RS_M1 d')) \<longleftrightarrow> d' = d"
| "sound_recommendation d (Some (RS_M2 d')) \<longleftrightarrow> d' = d"
| "sound_recommendation d _ \<longleftrightarrow> True"

text \<open>The postcondition of the decision for one port.\<close>

definition decided ::
  "default_ds \<Rightarrow> recommended_state option \<Rightarrow> ('r, 'c, 'k, 'q) bmca_port \<Rightarrow> ('r, 'c, 'k, 'q) bmca_port \<Rightarrow> bool" where
  "decided d r p p' \<longleftrightarrow> port_frame p p' \<and> settled p'
     \<and> mode p' = decide_mode (dd_slave_only d) (po_multiport_disable p \<noteq> None) r (mode p)
     \<and> good_actions p' (ib_pending_action (po_lifecycle p')) \<and> promoted p p'"

definition recommend ::
  "('f, 'r, 'c, 'k, 'q) host \<Rightarrow> recommended_state option \<Rightarrow> ptp_instance_state \<Rightarrow> ('r, 'c, 'k, 'q) bmca_port \<Rightarrow>
   (ptp_instance_state \<times> ('r, 'c, 'k, 'q) bmca_port) res" where
  "recommend host r state p = (case r of Some r \<Rightarrow> set_recommended_state host r state p | None \<Rightarrow> Ok (state, p))"

lemma wf_apply_recommendation:
  assumes "apply_recommendation host r state p = (state', p')" and "wf_instance_state state"
    and "sound_recommendation (is_default_ds state) (Some r)"
  shows "wf_instance_state state' \<and> is_default_ds state' = is_default_ds state
    \<and> pd_parent_port_identity (is_parent_ds state')
        = decide_parent (is_default_ds state) (Some r) (pd_parent_port_identity (is_parent_ds state))
    \<and> port_frame p p' \<and> po_peer_delay_state p' = po_peer_delay_state p \<and> po_lifecycle p' = po_lifecycle p
    \<and> po_port_state p' = po_port_state p"
  using assms
  by (cases r) (auto simp: datasets_own_def datasets_slave_def wf_instance_state_def wf_parent_ds_def wf_default_ds_def
    wf_port_identity_def wf_path_trace_ds_def sound_announce_def port_frame_def same_port_def)

lemma decided_port:
  assumes "set_recommended_port_state host r d p = Inr p'" and "settled p" and "idle_pending p"
  shows "port_frame p p' \<and> settled p' \<and> good_actions p' (ib_pending_action (po_lifecycle p')) \<and> promoted p p'
    \<and> mode p' = decide_mode (dd_slave_only d) (po_multiport_disable p \<noteq> None) (Some r) (mode p)"
proof -
  have "settled p'" if "become_slave host q p = Inr p'" for q
    using settled_keep [OF _ assms(2), of p'] frame_become(1) [OF that] become_slave_state [OF that] by auto
  moreover have "settled p'" if "become_master host d p = Inr p'"
    using settled_keep [OF _ assms(2), of p'] frame_become(2) [OF that] become_master_state [OF that]
    by (auto split: if_splits)
  moreover have "settled p'" if "become_passive host p = Inr p'"
    using settled_keep [OF _ assms(2), of p'] frame_become(3) [OF that] become_passive_state [OF that]
    by (auto split: if_splits)
  ultimately show ?thesis
    using assms(1,3)
    by (cases r) (auto dest: frame_become pending_become promoted_become become_slave_mode become_master_state become_passive_state)
qed

lemma outcome_recommend:
  assumes "T \<longrightarrow> host_total host (po_config p)" and "wf_instance_state state"
    and "settled p" "idle_pending p" "sound_recommendation (is_default_ds state) r"
  shows "outcome T (recommend host r state p) (\<lambda>(state', p'). wf_instance_state state'
    \<and> is_default_ds state' = is_default_ds state
    \<and> pd_parent_port_identity (is_parent_ds state')
        = decide_parent (is_default_ds state) r (pd_parent_port_identity (is_parent_ds state))
    \<and> decided (is_default_ds state) r p p')"
proof (cases r)
  case None
  then show ?thesis
    using assms by (auto simp: recommend_def decided_def promoted_def intro: idle_pending_good)
next
  case (Some r0)
  show ?thesis
  proof (rule outcome_call)
    assume T
    then have "\<exists>p'. set_recommended_port_state host r0 (is_default_ds state) p = Inr p'"
      using total_become [of host p] assms(1) by (cases r0) auto
    then show "\<exists>x. recommend host r state p = Inr x" using Some by (auto simp: recommend_def set_recommended_state_def)
  next
    fix x assume x: "recommend host r state p = Inr x"
    obtain state' p' where x': "x = (state', p')" by fastforce
    then obtain p1 where p1: "set_recommended_port_state host r0 (is_default_ds state) p = Inr p1"
        "apply_recommendation host r0 state p1 = (state', p')"
      using x Some by (auto simp: recommend_def set_recommended_state_def)
    have d: "wf_instance_state state' \<and> is_default_ds state' = is_default_ds state
      \<and> pd_parent_port_identity (is_parent_ds state')
          = decide_parent (is_default_ds state) (Some r0) (pd_parent_port_identity (is_parent_ds state))
      \<and> port_frame p1 p' \<and> po_peer_delay_state p' = po_peer_delay_state p1 \<and> po_lifecycle p' = po_lifecycle p1
      \<and> po_port_state p' = po_port_state p1"
      by (rule wf_apply_recommendation [OF p1(2) assms(2)]) (use Some assms(5) in simp)
    then show "case x of (state', p') \<Rightarrow> wf_instance_state state'
        \<and> is_default_ds state' = is_default_ds state
        \<and> pd_parent_port_identity (is_parent_ds state')
            = decide_parent (is_default_ds state) r (pd_parent_port_identity (is_parent_ds state))
        \<and> decided (is_default_ds state) r p p'"
      using decided_port [OF p1(1) assms(3,4)] x' Some
      by (auto simp: decided_def good_actions_def is_master_def settled_def promoted_def intro: port_frame_trans)
  qed
qed

section \<open>A run of the algorithm\<close>

text \<open>The recommended state of a port, given the best message of the instance.\<close>

definition recommendation ::
  "default_ds \<Rightarrow> best_announce_message option \<Rightarrow> ('r, 'c, 'k, 'q) bmca_port \<Rightarrow> recommended_state option" where
  "recommendation d ebest p =
     (case calculate_recommended_state d ebest (best_local_announce_message_for_state p) (po_port_state p) of
        Inr r \<Rightarrow> r | Inl _ \<Rightarrow> None)"

lemma recommendation_eq:
  "calculate_recommended_state d ebest (best_local_announce_message_for_state p) (po_port_state p)
    = Ok (recommendation d ebest p)"
  using calculate_recommended_state_Ok [of d ebest "best_local_announce_message_for_state p" "po_port_state p"]
  by (auto simp: recommendation_def)

lemma recommendation_sound:
  assumes "pred_option (\<lambda>m. sound_announce (ba_message m)) ebest"
  shows "sound_recommendation d (recommendation d ebest p)"
  using assms
  by (auto simp: recommendation_def calculate_recommended_state_def calculate_recommended_state_low_class_def
    calculate_recommended_state_high_class_def compare_d0_best_def compare_global_and_port_def
    split: option.split message_comparison.splits ordering.splits)

lemma recommend_loop_Cons:
  "recommend_loop host ebest state (p # ps) =
     andthen (recommend host (recommendation (is_default_ds state) ebest p) state p) (\<lambda>(state1, p1).
     andthen (recommend_loop host ebest state1 ps) (\<lambda>(state2, ps1).
     Ok (state2, p1 # ps1)))"
  by (simp add: recommendation_eq recommend_def)

definition ready :: "('r, 'c, 'k, 'q) bmca_port \<Rightarrow> bool" where
  "ready p \<longleftrightarrow> wf_port p \<and> settled p \<and> idle_pending p"

lemma outcome_recommend_loop:
  assumes "T \<longrightarrow> list_all (\<lambda>p. host_total host (po_config p)) ports" and "wf_instance_state state"
    and "list_all ready ports"
    and "pred_option (\<lambda>m. sound_announce (ba_message m)) ebest" and "is_default_ds state = d"
  shows "outcome T (recommend_loop host ebest state ports) (\<lambda>(state', ports'). wf_instance_state state'
    \<and> is_default_ds state' = d
    \<and> pd_parent_port_identity (is_parent_ds state')
        = fold (\<lambda>p. decide_parent d (recommendation d ebest p)) ports (pd_parent_port_identity (is_parent_ds state))
    \<and> list_all2 (\<lambda>p. decided d (recommendation d ebest p) p) ports ports')"
  using assms
proof (induction ports arbitrary: state)
  case (Cons p ps)
  have one: "outcome T (recommend host (recommendation d ebest p) state p) (\<lambda>(state', p'). wf_instance_state state'
    \<and> is_default_ds state' = is_default_ds state
    \<and> pd_parent_port_identity (is_parent_ds state')
        = decide_parent (is_default_ds state) (recommendation d ebest p) (pd_parent_port_identity (is_parent_ds state))
    \<and> decided (is_default_ds state) (recommendation d ebest p) p p')"
    by (rule outcome_recommend) (use Cons.prems recommendation_sound in \<open>auto simp: ready_def\<close>)
  show ?case
    unfolding recommend_loop_Cons Cons.prems(5)
  proof (rule outcome_bind_pair [OF one])
    fix state1 p1
    assume *: "wf_instance_state state1 \<and> is_default_ds state1 = is_default_ds state
      \<and> pd_parent_port_identity (is_parent_ds state1)
        = decide_parent (is_default_ds state) (recommendation d ebest p) (pd_parent_port_identity (is_parent_ds state))
      \<and> decided (is_default_ds state) (recommendation d ebest p) p p1"
    have "outcome T (recommend_loop host ebest state1 ps) (\<lambda>(state', ports'). wf_instance_state state'
      \<and> is_default_ds state' = d
      \<and> pd_parent_port_identity (is_parent_ds state')
          = fold (\<lambda>p. decide_parent d (recommendation d ebest p)) ps (pd_parent_port_identity (is_parent_ds state1))
      \<and> list_all2 (\<lambda>p. decided d (recommendation d ebest p) p) ps ports')"
      by (rule Cons.IH) (use Cons.prems * in auto)
    then show "outcome T (andthen (recommend_loop host ebest state1 ps) (\<lambda>(state2, ps1). Ok (state2, p1 # ps1)))
      (\<lambda>(state', ports'). wf_instance_state state' \<and> is_default_ds state' = d
        \<and> pd_parent_port_identity (is_parent_ds state')
          = fold (\<lambda>p. decide_parent d (recommendation d ebest p)) (p # ps) (pd_parent_port_identity (is_parent_ds state))
        \<and> list_all2 (\<lambda>p. decided d (recommendation d ebest p) p) (p # ps) ports')"
      by (rule outcome_bind_pair) (use * Cons.prems(5) in auto)
  qed
qed simp

lemma outcome_map_res:
  assumes "list_all (\<lambda>x. outcome T (f x) (R x)) xs"
  shows "outcome T (map_res f xs) (list_all2 R xs)"
  using assms
proof (induction xs)
  case (Cons x xs)
  then show ?case
    by (auto intro!: outcome_bind [where Q = "R x"] outcome_bind [where Q = "list_all2 R xs"])
qed simp

text \<open>The first loop: the best message of every port.\<close>

definition with_best :: "('r, 'c, 'k, 'q) bmca_port \<Rightarrow> ('r, 'c, 'k, 'q) bmca_port \<Rightarrow> bool" where
  "with_best p p' \<longleftrightarrow> same_port p p' \<and> mode p' = mode p \<and> po_multiport_disable p' = po_multiport_disable p
     \<and> ready p'
     \<and> pred_option (\<lambda>m. sound_announce (ba_message m) \<and> ba_identity m = po_port_identity p)
         (ib_local_best (po_lifecycle p'))"

lemma outcome_best_local:
  assumes "ready p"
  shows "outcome T (calculate_best_local_announce_message host p) (with_best p)"
proof -
  obtain b r where b: "take_best_port_announce_message (ho_num host) (po_bmca p) = Ok (b, r)" "wf_bmca b"
      "same_bmca_config (po_bmca p) b" "pred_option (offered (po_bmca p)) r"
    using wf_take_best [of "po_bmca p" "ho_num host"] assms by (auto simp: ready_def wf_port_def)
  then show ?thesis
    using assms
    by (cases r) (auto simp: calculate_best_local_announce_message_def with_best_def ready_def wf_port_def same_port_def
      settled_def idle_pending_def same_bmca_config_def offered_def)
qed

text \<open>The last loop.\<close>

lemma outcome_step_announce_age:
  assumes "wf_port p"
  shows "outcome T (step_announce_age host step p) (\<lambda>p'. wf_port p' \<and> same_port p p' \<and> po_port_state p' = po_port_state p
    \<and> po_lifecycle p' = po_lifecycle p \<and> po_peer_delay_state p' = po_peer_delay_state p)"
proof -
  obtain b where "bmca_step_age (ho_num host) step (po_bmca p) = Ok b" "wf_bmca b" "same_bmca_config (po_bmca p) b"
    using wf_bmca_step_age [of "po_bmca p" "ho_num host" step] assms by (auto simp: wf_port_def)
  then show ?thesis
    using assms by (simp add: step_announce_age_def Let_def wf_port_def same_port_def same_bmca_config_def)
qed

text \<open>The whole run: \<open>best_ports\<close> are the ports after the first loop.\<close>

definition port_ran :: "default_ds \<Rightarrow> best_announce_message option \<Rightarrow> ('r, 'c, 'k, 'q) bmca_port \<Rightarrow>
    ('r, 'c, 'k, 'q) bmca_port \<Rightarrow> bool" where
  "port_ran d ebest p p' \<longleftrightarrow> wf_port p' \<and> same_port p p' \<and> settled p'
     \<and> good_actions p' (ib_pending_action (po_lifecycle p')) \<and> promoted p p'
     \<and> mode p' = decide_mode (dd_slave_only d) (po_multiport_disable p \<noteq> None) (recommendation d ebest p) (mode p)"

definition bmca_ran ::
  "ptp_instance_state \<Rightarrow> ('r, 'c, 'k, 'q) bmca_port list \<Rightarrow> ('r, 'c, 'k, 'q) bmca_port list \<Rightarrow>
   best_announce_message option \<Rightarrow> ptp_instance_state \<Rightarrow> ('r, 'c, 'k, 'q) bmca_port list \<Rightarrow> bool" where
  "bmca_ran state ports best_ports ebest state' ports' \<longleftrightarrow>
     list_all2 with_best ports best_ports
     \<and> find_best_announce_message (List.map_filter best_local_announce_message_for_bmca best_ports) = Ok ebest
     \<and> wf_instance_state state' \<and> is_default_ds state' = is_default_ds state
     \<and> pd_parent_port_identity (is_parent_ds state')
         = fold (\<lambda>p. decide_parent (is_default_ds state) (recommendation (is_default_ds state) ebest p)) best_ports
             (pd_parent_port_identity (is_parent_ds state))
     \<and> list_all2 (port_ran (is_default_ds state) ebest) best_ports ports'"

lemma list_all2_image:
  "list_all2 P xs ys \<Longrightarrow> list_all Q xs \<Longrightarrow> (\<And>x y. P x y \<Longrightarrow> Q x \<Longrightarrow> R y) \<Longrightarrow> list_all R ys"
  by (induction rule: list_all2_induct) auto

lemma decided_step:
  assumes "decided d (recommendation d ebest p) p p'" and "wf_port p''" "same_port p' p''"
    "po_port_state p'' = po_port_state p'" "po_lifecycle p'' = po_lifecycle p'"
    "po_peer_delay_state p'' = po_peer_delay_state p'"
  shows "port_ran d ebest p p''"
  using assms same_port_trans [OF port_frame_same, of p p' p'']
  by (simp add: decided_def port_ran_def settled_def good_actions_def is_master_def promoted_def)

lemma list_all2_ready: "list_all2 with_best ports best_ports \<Longrightarrow> list_all ready best_ports"
  by (auto simp: list_all2_conv_all_nth list_all_length with_best_def)

lemma list_all2_total:
  "list_all2 with_best ports best_ports \<Longrightarrow> list_all (\<lambda>p. host_total host (po_config p)) ports \<Longrightarrow>
    list_all (\<lambda>p. host_total host (po_config p)) best_ports"
  by (auto simp: list_all2_conv_all_nth list_all_length with_best_def same_port_def)

text \<open>Where the best message of the instance comes from.\<close>

lemma ebest_source:
  assumes "list_all2 with_best ports best_ports"
    and "find_best_announce_message (List.map_filter best_local_announce_message_for_bmca best_ports) = Inr (Some m)"
  shows "\<exists>p \<in> set best_ports. ib_local_best (po_lifecycle p) = Some m \<and> \<not> pc_master_only (po_config p)
    \<and> mode p \<noteq> M_Faulty \<and> ba_identity m = po_port_identity p \<and> sound_announce (ba_message m)"
proof -
  have "m \<in> set (List.map_filter best_local_announce_message_for_bmca best_ports)"
    using find_best_Ok [of "List.map_filter best_local_announce_message_for_bmca best_ports"] assms(2) by auto
  then obtain p where p: "p \<in> set best_ports" "best_local_announce_message_for_bmca p = Some m"
    by (auto simp: List.map_filter_def)
  then obtain i where "i < length best_ports" "p = best_ports ! i" by (auto simp: in_set_conv_nth)
  then have "\<exists>q. with_best q p" using assms(1) by (auto simp: list_all2_conv_all_nth)
  with p show ?thesis
    by (auto simp: best_local_announce_message_for_bmca_def with_best_def same_port_def split: if_splits
      intro!: bexI [OF _ p(1)])
qed

lemma outcome_state_bmca:
  assumes "T \<longrightarrow> list_all (\<lambda>p. host_total host (po_config p)) ports" and "wf_instance_state state"
    and "list_all ready ports"
  shows "outcome T (state_bmca host interval state ports)
    (\<lambda>(state', ports'). \<exists>best_ports ebest. bmca_ran state ports best_ports ebest state' ports')"
proof -
  let ?d = "is_default_ds state"
  have first: "outcome T (map_res (calculate_best_local_announce_message host) ports) (list_all2 with_best ports)"
    by (rule outcome_map_res) (use assms(3) in \<open>auto simp: list_all_iff intro: outcome_best_local\<close>)
  have last: "outcome T (map_res (step_announce_age host interval) ports2) (\<lambda>ports3. list_all2 (port_ran ?d ebest) ports1 ports3)"
    if "list_all2 (\<lambda>p. decided ?d (recommendation ?d ebest p) p) ports1 ports2" "list_all ready ports1" for ports1 ports2 ebest
  proof (rule outcome_mono [OF outcome_map_res])
    let ?R = "\<lambda>p p'. wf_port p' \<and> same_port p p' \<and> po_port_state p' = po_port_state p
      \<and> po_lifecycle p' = po_lifecycle p \<and> po_peer_delay_state p' = po_peer_delay_state p"
    show "list_all (\<lambda>p. outcome T (step_announce_age host interval p) (?R p)) ports2"
      by (rule list_all2_image [OF that], rule outcome_step_announce_age)
        (auto simp: decided_def ready_def intro: wf_port_frame)
    fix ports3 assume "list_all2 ?R ports2 ports3"
    then show "list_all2 (port_ran ?d ebest) ports1 ports3"
      by (rule list_all2_trans [OF _ that(1), rotated]) (auto intro: decided_step)
  qed
  show ?thesis
    unfolding state_bmca_def
  proof (rule outcome_bind [OF first])
    fix ports1 assume best: "list_all2 with_best ports ports1"
    obtain ebest where ebest: "find_best_announce_message (List.map_filter best_local_announce_message_for_bmca ports1) = Ok ebest"
      using find_best_Ok by blast
    have sound: "pred_option (\<lambda>m. sound_announce (ba_message m)) ebest"
      using ebest_source [OF best] ebest by (cases ebest) auto
    have mid: "outcome T (recommend_loop host ebest state ports1) (\<lambda>(state', ports'). wf_instance_state state'
      \<and> is_default_ds state' = ?d
      \<and> pd_parent_port_identity (is_parent_ds state')
          = fold (\<lambda>p. decide_parent ?d (recommendation ?d ebest p)) ports1 (pd_parent_port_identity (is_parent_ds state))
      \<and> list_all2 (\<lambda>p. decided ?d (recommendation ?d ebest p) p) ports1 ports')"
      by (rule outcome_recommend_loop) (use assms best list_all2_ready list_all2_total sound in auto)
    show "outcome T (andthen (find_best_announce_message (List.map_filter best_local_announce_message_for_bmca ports1)) (\<lambda>ebest.
         andthen (recommend_loop host ebest state ports1) (\<lambda>(state1, ports2).
         andthen (map_res (step_announce_age host interval) ports2) (\<lambda>ports3. Ok (state1, ports3)))))
       (\<lambda>(state', ports'). \<exists>best_ports ebest. bmca_ran state ports best_ports ebest state' ports')"
      unfolding ebest andthen.simps
      by (rule outcome_bind_pair [OF mid], rule outcome_bind [OF last])
        (use best ebest list_all2_ready [OF best] in \<open>auto simp: bmca_ran_def\<close>)
  qed
qed

section \<open>What a run decides\<close>

text \<open>A slave after the run is the port whose best message is the best message of the instance.\<close>

lemma recommendation_S1D:
  assumes "recommendation d ebest p = Some (RS_S1 a)"
  obtains m where "ebest = Some m" "ib_local_best (po_lifecycle p) = Some m" "a = ba_message m"
    "\<not> (1 \<le> cq_clock_class (dd_clock_quality d) \<and> cq_clock_class (dd_clock_quality d) \<le> 127)"
    "as_ordering (ds_compare (from_own_data d) (ba_dataset m)) = Less"
proof -
  have "calculate_recommended_state d ebest (ib_local_best (po_lifecycle p)) (po_port_state p) = Inr (Some (RS_S1 a))"
    using assms recommendation_eq [of d ebest p] by (simp add: best_local_announce_message_for_state_def)
  note facts = this [unfolded recommended_S1_iff]
  then obtain m where m: "ebest = Some m" by blast
  show thesis by (rule that [OF m]) (use facts m in simp_all)
qed

lemma recommendation_None:
  "recommendation d ebest p = None \<Longrightarrow> mode p = M_Listening"
  using recommendation_eq [of d ebest p]
  by (auto simp: calculate_recommended_state_def best_local_announce_message_for_state_def split: if_splits)

lemma decide_mode_slave:
  "decide_mode so disabled r m = M_Slave q \<Longrightarrow> r \<noteq> None \<Longrightarrow>
    m \<noteq> M_Faulty \<and> (\<exists>a. r = Some (RS_S1 a) \<and> hd_source_port_identity (am_header a) = q)"
  by (cases r; cases "the r") (auto split: if_splits)

lemma decide_mode_master:
  "decide_mode so disabled r m = M_Master \<Longrightarrow> r \<noteq> None \<Longrightarrow> \<not> so \<and> \<not> disabled"
  by (cases r; cases "the r") (auto split: if_splits)

lemma port_ran_slave:
  assumes "port_ran d ebest p p'" "mode p' = M_Slave q"
  shows "\<exists>a. recommendation d ebest p = Some (RS_S1 a) \<and> hd_source_port_identity (am_header a) = q"
proof -
  have "recommendation d ebest p \<noteq> None"
  proof
    assume none: "recommendation d ebest p = None"
    show False using assms recommendation_None [OF none] none by (simp add: port_ran_def)
  qed
  then show ?thesis using assms decide_mode_slave by (auto simp: port_ran_def)
qed

lemma port_ran_master:
  assumes "port_ran d ebest p p'" "mode p' = M_Master"
  shows "\<not> dd_slave_only d \<and> po_multiport_disable p = None"
proof -
  have "recommendation d ebest p \<noteq> None"
  proof
    assume none: "recommendation d ebest p = None"
    show False using assms recommendation_None [OF none] none by (simp add: port_ran_def)
  qed
  moreover have "decide_mode (dd_slave_only d) (po_multiport_disable p \<noteq> None) (recommendation d ebest p) (mode p) = M_Master"
    using assms unfolding port_ran_def by metis
  ultimately show ?thesis using decide_mode_master by blast
qed

text \<open>When one port is to be a slave, no other port resets the data sets to the own clock.\<close>

lemma decide_parent_with_slave:
  assumes "recommendation d ebest p = Some (RS_S1 a)"
  shows "decide_parent d (recommendation d ebest p') q = q
    \<or> decide_parent d (recommendation d ebest p') q = hd_source_port_identity (am_header a)"
proof -
  obtain m where m: "ebest = Some m" "a = ba_message m"
      "\<not> (1 \<le> cq_clock_class (dd_clock_quality d) \<and> cq_clock_class (dd_clock_quality d) \<le> 127)"
      "as_ordering (ds_compare (from_own_data d) (ba_dataset m)) = Less"
    using assms by (rule recommendation_S1D)
  show ?thesis
    using m
    by (auto simp: recommendation_def calculate_recommended_state_def calculate_recommended_state_high_class_def
      compare_d0_best_def compare_global_and_port_def split: option.split)
qed

lemma fold_settles:
  assumes "\<And>x q. x \<in> set xs \<Longrightarrow> f x q = q \<or> f x q = c" and "x \<in> set xs" "\<And>q. f x q = c"
  shows "fold f xs q = c"
  using assms
proof (induction xs arbitrary: q)
  case (Cons y xs)
  have stays: "fold f ys c = c" if "\<And>x q. x \<in> set ys \<Longrightarrow> f x q = q \<or> f x q = c" for ys
    using that by (induction ys) (simp, metis fold_simps(2) list.set_intros)
  show ?case
  proof (cases "x \<in> set xs")
    case True
    then show ?thesis using Cons.IH [of "f y q"] Cons.prems by simp
  next
    case False
    then have "fold f (y # xs) q = fold f xs c" using Cons.prems(2,3) by simp
    also have "\<dots> = c" by (rule stays) (use Cons.prems(1) in simp)
    finally show ?thesis .
  qed
qed simp

lemma bmca_ran_slave:
  assumes "bmca_ran state ports best_ports ebest state' ports'" and "distinct (map po_port_identity ports)"
    and "p' \<in> set ports'" "mode p' = M_Slave q"
  shows "\<exists>p \<in> set best_ports. \<exists>m. port_ran (is_default_ds state) ebest p p'
    \<and> ebest = Some m \<and> ib_local_best (po_lifecycle p) = Some m
    \<and> hd_source_port_identity (am_header (ba_message m)) = q \<and> ba_identity m = po_port_identity p'
    \<and> \<not> pc_master_only (po_config p')
    \<and> pd_parent_port_identity (is_parent_ds state') = q"
proof -
  let ?d = "is_default_ds state"
  have wb: "list_all2 with_best ports best_ports" and rn: "list_all2 (port_ran ?d ebest) best_ports ports'"
    using assms(1) by (simp_all add: bmca_ran_def)
  obtain i where i: "i < length best_ports" "p' = ports' ! i" "port_ran ?d ebest (best_ports ! i) p'"
    using assms(3) rn by (auto simp: in_set_conv_nth list_all2_conv_all_nth)
  let ?p = "best_ports ! i"
  obtain a where a: "recommendation ?d ebest ?p = Some (RS_S1 a)" "hd_source_port_identity (am_header a) = q"
    using port_ran_slave [OF i(3) assms(4)] by blast
  obtain m where m: "ebest = Some m" "ib_local_best (po_lifecycle ?p) = Some m" "a = ba_message m"
    using a(1) by (rule recommendation_S1D)
  have same: "same_port ?p p'" using i(3) by (simp add: port_ran_def)
  have own: "ba_identity m = po_port_identity ?p"
    using wb i(1) m(2) by (auto simp: list_all2_conv_all_nth with_best_def same_port_def)
  have "\<exists>p2 \<in> set best_ports. ib_local_best (po_lifecycle p2) = Some m \<and> \<not> pc_master_only (po_config p2)
    \<and> mode p2 \<noteq> M_Faulty \<and> ba_identity m = po_port_identity p2 \<and> sound_announce (ba_message m)"
    using ebest_source [OF wb, of m] assms(1) m(1) by (simp add: bmca_ran_def)
  then obtain p2 where p2: "p2 \<in> set best_ports" "\<not> pc_master_only (po_config p2)" "ba_identity m = po_port_identity p2"
    by blast
  have "map po_port_identity best_ports = map po_port_identity ports"
    using wb by (auto simp: list_all2_conv_all_nth with_best_def same_port_def intro!: nth_equalityI)
  then have "inj_on po_port_identity (set best_ports)" using assms(2) by (metis distinct_map)
  then have "p2 = ?p" using p2(1,3) own i(1) by (metis inj_onD nth_mem)
  then have "\<not> pc_master_only (po_config p')" using p2(2) same by (simp add: same_port_def)
  moreover have "pd_parent_port_identity (is_parent_ds state') = hd_source_port_identity (am_header a)"
    unfolding assms(1) [unfolded bmca_ran_def, THEN conjunct2, THEN conjunct2, THEN conjunct2, THEN conjunct2, THEN conjunct1]
    by (rule fold_settles [of _ _ _ ?p]) (use decide_parent_with_slave [OF a(1)] i(1) a(1) in auto)
  ultimately show ?thesis
    using i m own same a(2) by (intro bexI [of _ ?p] exI [of _ m]) (auto simp: same_port_def)
qed

end
