(* ===== verification/InstanceRun.thy ===== *)
theory InstanceRun
  imports Instance
begin

text \<open>
  An instance with its ports as one system: an application adds ports, makes the calls of the
  library on each of them, runs the best master clock algorithm on all of them, and changes the
  clock quality and the slave-only flag. \<open>reachable\<close> are the states that any sequence of such
  calls leads to, and the lemmas show the invariant of these states.
\<close>

section \<open>The announce timer\<close>

lemma send_announce_sent:
  assumes "send_announce host next_tlv state s p = Some (Inr (s', p', acts))"
    and "wf_port p" and "wf_instance_state state"
  shows "sent p (p', acts)"
proof (cases "po_port_state p = PS_Master")
  case True
  let ?p = "p\<lparr>po_announce_seq_ids := po_announce_seq_ids p + 1\<rparr>"
  let ?m = "msg_announce state (po_port_identity p) (po_announce_seq_ids p) (minor_version p)"
  obtain suffix where s: "send_message (?m\<lparr>ms_suffix := suffix\<rparr>) ?p (\<lambda>p2 data.
      andthen (interval_as_core_duration (ho_num host) (pc_announce_interval (po_config p))) (\<lambda>duration.
      Ok (p2, actions [ResetAnnounceTimer duration, SendGeneral data False]))) = Inr (p', acts)"
    using assms(1) True
    by (auto simp: send_announce_def generate_def Let_def split: option.splits)
  have wf: "wf_message (?m\<lparr>ms_suffix := suffix\<rparr>)" "wf_port ?p"
    using assms(2,3) wf_sent_messages(8) wf_announce_suffix by (auto simp: wf_port_def wf_instance_state_def)
  have fits: "message_wire_size (?m\<lparr>ms_suffix := suffix\<rparr>) \<le> MAX_DATA_LEN"
  proof (rule ccontr)
    assume "\<not> message_wire_size (?m\<lparr>ms_suffix := suffix\<rparr>) \<le> MAX_DATA_LEN"
    then have "message_serialize (?m\<lparr>ms_suffix := suffix\<rparr>) (po_packet_buffer ?p) = panic"
      using wf by (intro message_serialize_short) (simp_all add: wf_port_def)
    then show False using s by (simp add: send_message_def)
  qed
  have "length (message_layout (?m\<lparr>ms_suffix := suffix\<rparr>) (po_packet_buffer p)) \<le> MAX_DATA_LEN"
    using wf fits by (subst length_message_layout) (simp_all add: wf_port_def)
  then show ?thesis
    using s wf_port_sent [OF wf(2,1) fits] assms(2) True unfolding send_message_eq [OF wf(2,1) fits]
    by (auto simp: sent_def port_frame_def same_port_def is_master_def wf_port_def)
qed (use assms in \<open>auto simp: send_announce_def\<close>)

section \<open>Reachable states\<close>

text \<open>The rules are the calls of an application. A port is added in the type state \<open>InBmca\<close> and left
  in it by \<open>end_bmca\<close>; a run of the algorithm takes all ports through \<open>start_bmca\<close> and
  \<open>end_bmca\<close>. The parameter \<open>next_tlv\<close> is the provider of forwarded TLVs.\<close>

inductive reachable ::
  "('f, 'r, 'c, 'k, 'q) host \<Rightarrow> (nat \<Rightarrow> 's \<Rightarrow> forwarded_tlv option \<times> 's) \<Rightarrow> instance_config \<Rightarrow> time_properties_ds \<Rightarrow>
   ptp_instance \<Rightarrow> ('r, 'c, 'k, 'q) running_port list \<Rightarrow> bool"
  for host :: "('f, 'r, 'c, 'k, 'q) host" and next_tlv :: "nat \<Rightarrow> 's \<Rightarrow> forwarded_tlv option \<times> 's"
    and config :: instance_config and tp :: time_properties_ds where
  created: "reachable host next_tlv config tp (ptp_instance_new config tp) []"
| port_added: "reachable host next_tlv config tp inst ports \<Longrightarrow>
    add_port host pc fc clock rng inst = Ok (inst', p) \<Longrightarrow>
    reachable host next_tlv config tp inst' (ports @ [fst (end_bmca p)])"
| port_called: "reachable host next_tlv config tp inst ports \<Longrightarrow> i < length ports \<Longrightarrow> wf_event ev \<Longrightarrow>
    port_step host ev (in_state inst) (ports ! i) = Ok (state', p', acts) \<Longrightarrow>
    reachable host next_tlv config tp (inst\<lparr>in_state := state'\<rparr>) (ports[i := p'])"
| port_announced: "reachable host next_tlv config tp inst ports \<Longrightarrow> i < length ports \<Longrightarrow>
    handle_announce_timer host next_tlv (in_state inst) s (ports ! i) = Some (Ok (s', p', acts)) \<Longrightarrow>
    reachable host next_tlv config tp inst (ports[i := p'])"
| bmca_done: "reachable host next_tlv config tp inst ports \<Longrightarrow>
    instance_bmca host inst (map start_bmca ports) = Ok (inst', ports') \<Longrightarrow>
    reachable host next_tlv config tp inst' (map (fst \<circ> end_bmca) ports')"
| quality_set: "reachable host next_tlv config tp inst ports \<Longrightarrow>
    reachable host next_tlv config tp (set_clock_quality quality inst) ports"
| slave_only_set: "reachable host next_tlv config tp inst ports \<Longrightarrow>
    reachable host next_tlv config tp (set_slave_only slave_only inst) ports"

section \<open>The invariant\<close>

text \<open>The identities of the ports: the clock identity of the instance, and the numbers from 1.\<close>

definition numbered :: "ptp_instance_state \<Rightarrow> ('l, 'r, 'c, 'k, 'q) port list \<Rightarrow> bool" where
  "numbered state ports \<longleftrightarrow> dd_number_ports (is_default_ds state) = word_of_nat (length ports)
     \<and> map po_port_identity ports = map (\<lambda>n. \<lparr>pi_clock_identity = dd_clock_identity (is_default_ds state),
         pi_port_number = word_of_nat n\<rparr>) [1..<Suc (length ports)]"

text \<open>At most one port is a slave; its master is the parent in the data sets, and it may be a slave.\<close>

definition follows :: "port_identity \<Rightarrow> ('l, 'r, 'c, 'k, 'q) port \<Rightarrow> bool" where
  "follows parent p \<longleftrightarrow>
     (case mode p of M_Slave q \<Rightarrow> q = parent \<and> \<not> pc_master_only (po_config p) | _ \<Rightarrow> True)"

definition one_slave :: "ptp_instance_state \<Rightarrow> ('l, 'r, 'c, 'k, 'q) port list \<Rightarrow> bool" where
  "one_slave state ports \<longleftrightarrow>
     length (filter (\<lambda>p. is_slave_state (po_port_state p)) ports) \<le> 1
     \<and> list_all (follows (pd_parent_port_identity (is_parent_ds state))) ports"

definition instance_inv :: "ptp_instance \<Rightarrow> ('r, 'c, 'k, 'q) running_port list \<Rightarrow> bool" where
  "instance_inv inst ports \<longleftrightarrow> wf_instance_state (in_state inst)
     \<and> list_all (\<lambda>p. wf_port p \<and> settled p) ports \<and> numbered (in_state inst) ports
     \<and> (length ports < 2 ^ 16 \<longrightarrow> one_slave (in_state inst) ports)"

lemma is_slave_state_iff: "is_slave_state s \<longleftrightarrow> (\<exists>q. mode_of s = M_Slave q)"
  by (cases s) simp_all

lemma numbered_distinct:
  assumes "numbered state ports" and "length ports < 2 ^ 16"
  shows "distinct (map po_port_identity ports)"
proof -
  have "inj_on (\<lambda>n. \<lparr>pi_clock_identity = c, pi_port_number = word_of_nat n :: u16\<rparr>) {1..<Suc (length ports)}" for c
  proof (rule inj_onI)
    fix m n assume mn: "m \<in> {1..<Suc (length ports)}" "n \<in> {1..<Suc (length ports)}"
      and eq: "\<lparr>pi_clock_identity = c, pi_port_number = word_of_nat m :: u16\<rparr>
        = \<lparr>pi_clock_identity = c, pi_port_number = word_of_nat n\<rparr>"
    have "unat (word_of_nat k :: u16) = k" if "k \<in> {1..<Suc (length ports)}" for k
      using that assms(2) by (simp add: unat_of_nat)
    then show "m = n" using mn eq by (metis port_identity.ext_inject)
  qed
  then show ?thesis
    using assms(1) unfolding numbered_def by (simp add: distinct_map del: upt_Suc)
qed

text \<open>A call on one port can only leave the slave state, and it keeps the parent.\<close>

lemma one_slave_update:
  assumes "one_slave state ports" and "i < length ports" and "same_port (ports ! i) p'"
    and "pd_parent_port_identity (is_parent_ds state') = pd_parent_port_identity (is_parent_ds state)"
    and "mode p' = mode (ports ! i) \<or> \<not> is_slave_state (po_port_state p')"
  shows "one_slave state' (ports[i := p'])"
proof -
  let ?slave = "\<lambda>p. is_slave_state (po_port_state p)"
  have split: "ports = take i ports @ ports ! i # drop (Suc i) ports"
    "ports[i := p'] = take i ports @ p' # drop (Suc i) ports"
    using assms(2) by (simp_all add: id_take_nth_drop upd_conv_take_nth_drop)
  have "?slave p' \<Longrightarrow> ?slave (ports ! i)" using assms(5) by (auto simp: is_slave_state_iff)
  then have "length (filter ?slave (ports[i := p'])) \<le> length (filter ?slave ports)"
    unfolding split(2) by (subst (3) split(1)) simp
  moreover have "list_all (follows (pd_parent_port_identity (is_parent_ds state'))) (ports[i := p'])"
    using assms
    by (auto simp: one_slave_def list_all_length nth_list_update same_port_def is_slave_state_iff follows_def
      split: port_mode.splits)
  ultimately show ?thesis using assms(1) by (auto simp: one_slave_def)
qed

lemma numbered_update:
  assumes "numbered state ports" and "i < length ports" and "same_port (ports ! i) p'"
    and "is_default_ds state' = is_default_ds state"
  shows "numbered state' (ports[i := p'])"
proof -
  have "map po_port_identity (ports[i := p']) = map po_port_identity ports"
    using assms(2,3) by (simp add: map_update same_port_def list_update_same_conv)
  then show ?thesis using assms(1,4) by (simp add: numbered_def del: upt_Suc)
qed

lemma inv_update:
  assumes "instance_inv inst ports" and "i < length ports"
    and "wf_instance_state state'" and "same_roots (in_state inst) state'"
    and "wf_port p'" "settled p'" "same_port (ports ! i) p'"
    and "mode p' = mode (ports ! i) \<or> \<not> is_slave_state (po_port_state p')"
  shows "instance_inv (inst\<lparr>in_state := state'\<rparr>) (ports[i := p'])"
  using assms numbered_update [of "in_state inst" ports i p' state'] one_slave_update [of "in_state inst" ports i p' state']
  by (auto simp: instance_inv_def same_roots_def list_all_iff dest!: set_update_subset_insert [THEN subsetD])

lemma inv_called:
  assumes "instance_inv inst ports" and "i < length ports" and "wf_event ev"
    and "port_step host ev (in_state inst) (ports ! i) = Inr (state', p', acts)"
  shows "instance_inv (inst\<lparr>in_state := state'\<rparr>) (ports[i := p'])"
proof -
  have p: "wf_port (ports ! i)" "settled (ports ! i)" "wf_instance_state (in_state inst)"
    using assms(1,2) by (auto simp: instance_inv_def list_all_length)
  have "stepped ev (in_state inst) (ports ! i) (state', p', acts)"
    using outcome_OkD [OF outcome_step [of False host "ports ! i" ev "in_state inst"] assms(4)] p assms(3) by simp
  then show ?thesis
    by (intro inv_update [OF assms(1,2)])
      (auto simp: stepped_def is_slave_state_iff transition_to_slave)
qed

lemma inv_announced:
  assumes "instance_inv inst ports" and "i < length ports"
    and "handle_announce_timer host next_tlv (in_state inst) s (ports ! i) = Some (Inr (s', p', acts))"
  shows "instance_inv inst (ports[i := p'])"
proof -
  have p: "wf_port (ports ! i)" "settled (ports ! i)" "wf_instance_state (in_state inst)"
    using assms(1,2) by (auto simp: instance_inv_def list_all_length)
  then have "sent (ports ! i) (p', acts)"
    using send_announce_sent assms(3) by (metis handle_announce_timer_def)
  then have "instance_inv (inst\<lparr>in_state := in_state inst\<rparr>) (ports[i := p'])"
    using p wf_port_frame [of "ports ! i" p']
    by (intro inv_update [OF assms(1,2)]) (auto simp: sent_def settled_def port_frame_def)
  then show ?thesis by simp
qed

lemma inv_added:
  assumes "instance_inv inst ports" and "add_port host pc fc clock rng inst = Inr (inst', p)"
  shows "instance_inv inst' (ports @ [fst (end_bmca p)])"
proof -
  let ?d = "is_default_ds (in_state inst)"
  let ?id = "\<lparr>pi_clock_identity = dd_clock_identity ?d, pi_port_number = word_of_nat (Suc (length ports))\<rparr>"
  have num: "dd_number_ports ?d = word_of_nat (length ports)" and c: "wf_clock_identity (dd_clock_identity ?d)"
    using assms(1) by (auto simp: instance_inv_def numbered_def wf_instance_state_def wf_default_ds_def)
  then have p: "po_port_identity p = ?id" "po_port_state p = PS_Listening" "po_peer_delay_state p = PD_Empty" "wf_port p"
    using assms(2) wf_bmca_new
    by (auto simp: add_port_def Let_def port_new_def wf_port_def wf_port_identity_def MAX_DATA_LEN_def bmca_new_def
      add.commute)
  have "\<exists>d' n. in_state inst' = (in_state inst)\<lparr>is_default_ds := d'\<rparr> \<and> d' = ?d\<lparr>dd_number_ports := n\<rparr>
      \<and> n = word_of_nat (Suc (length ports))"
    using assms(2) num by (auto simp: add_port_def Let_def add.commute)
  then show ?thesis
    using assms(1) p wf_change_lifecycle [OF p(4), of "()"]
    by (auto simp: instance_inv_def end_bmca_def numbered_def one_slave_def follows_def wf_instance_state_def wf_default_ds_def
      settled_def change_lifecycle_def)
qed

lemma settled_change_lifecycle: "settled (change_lifecycle l p) \<longleftrightarrow> settled p"
  by (simp add: settled_def change_lifecycle_def)

lemma start_bmca_simps [simp]:
  "po_config (start_bmca p) = po_config p" "po_port_identity (start_bmca p) = po_port_identity p"
  "po_port_state (start_bmca p) = po_port_state p"
  by (simp_all add: start_bmca_def)

lemma ready_start: "wf_port p \<Longrightarrow> settled p \<Longrightarrow> ready (start_bmca p)"
  by (simp add: ready_def start_bmca_def wf_change_lifecycle settled_change_lifecycle idle_pending_def actions_def)

lemma bmca_returns:
  assumes "instance_inv inst ports" and "T \<longrightarrow> list_all (\<lambda>p. host_total host (po_config p)) ports"
  shows "outcome T (instance_bmca host inst (map start_bmca ports)) (\<lambda>(inst', ports').
    in_log_bmca_interval inst' = in_log_bmca_interval inst
    \<and> (\<exists>best_ports ebest. bmca_ran (in_state inst) (map start_bmca ports) best_ports ebest (in_state inst') ports'))"
proof -
  have "outcome T (state_bmca host interval (in_state inst) (map start_bmca ports))
    (\<lambda>(state', ports'). \<exists>best_ports ebest. bmca_ran (in_state inst) (map start_bmca ports) best_ports ebest state' ports')" for interval
    by (rule outcome_state_bmca)
      (use assms in \<open>auto simp: instance_inv_def list_all_iff ready_start\<close>)
  then show ?thesis
    unfolding instance_bmca_def Let_def by (rule outcome_bind_pair) simp
qed

text \<open>The ports before and after a run.\<close>

lemma bmca_ran_ports:
  assumes "bmca_ran state ports best_ports ebest state' ports'"
  shows "list_all (\<lambda>p. wf_port p \<and> settled p) ports'" "list_all2 same_port ports ports'"
proof -
  have r: "list_all2 with_best ports best_ports" "list_all2 (port_ran (is_default_ds state) ebest) best_ports ports'"
    using assms by (simp_all add: bmca_ran_def)
  show "list_all (\<lambda>p. wf_port p \<and> settled p) ports'"
    using r(2) by (auto simp: list_all2_conv_all_nth list_all_length port_ran_def)
  show "list_all2 same_port ports ports'"
    by (rule list_all2_trans [OF _ r]) (auto simp: with_best_def port_ran_def intro: same_port_trans)
qed

lemma bmca_ran_one_slave:
  assumes "bmca_ran state ports best_ports ebest state' ports'" and "distinct (map po_port_identity ports)"
  shows "one_slave state' ports'"
proof -
  let ?slave = "\<lambda>p. is_slave_state (po_port_state p)"
  have slave: "\<exists>m. ebest = Some m \<and> ba_identity m = po_port_identity p" if "p \<in> set (filter ?slave ports')" for p
    using that bmca_ran_slave [OF assms] by (auto simp: is_slave_state_iff)
  have ids: "map po_port_identity ports' = map po_port_identity ports"
    using bmca_ran_ports(2) [OF assms(1)]
    by (auto simp: list_all2_conv_all_nth same_port_def intro!: nth_equalityI)
  have "distinct (map po_port_identity (filter ?slave ports'))"
    using assms(2) unfolding ids [symmetric] by (rule distinct_map_filter)
  moreover have "set (map po_port_identity (filter ?slave ports')) \<subseteq> {ba_identity (the ebest)}"
    using slave by fastforce
  ultimately have "length (filter ?slave ports') \<le> 1"
    by (metis card_mono card_1_singleton_iff distinct_card finite.emptyI finite_insert length_map One_nat_def)
  moreover have "list_all (follows (pd_parent_port_identity (is_parent_ds state'))) ports'"
    using bmca_ran_slave [OF assms] by (fastforce simp: list_all_iff follows_def split: port_mode.split)
  ultimately show ?thesis by (simp add: one_slave_def)
qed

lemma one_slave_map:
  assumes "\<And>p. p \<in> set ports \<Longrightarrow> po_port_state (f p) = po_port_state p \<and> po_config (f p) = po_config p"
  shows "one_slave state (map f ports) \<longleftrightarrow> one_slave state ports"
proof -
  have "filter (\<lambda>p. is_slave_state (po_port_state p)) (map f ports)
      = map f (filter (\<lambda>p. is_slave_state (po_port_state p)) ports)"
    using assms by (induction ports) auto
  then show ?thesis using assms by (simp add: one_slave_def list_all_iff follows_def cong: port_mode.case_cong)
qed

lemma inv_bmca:
  assumes "instance_inv inst ports" and "instance_bmca host inst (map start_bmca ports) = Inr (inst', ports')"
  shows "instance_inv inst' (map (fst \<circ> end_bmca) ports')"
proof -
  obtain best_ports ebest where
    r: "bmca_ran (in_state inst) (map start_bmca ports) best_ports ebest (in_state inst') ports'"
    using outcome_OkD [OF bmca_returns [OF assms(1), of False] assms(2)] by auto
  note p' = bmca_ran_ports [OF r]
  have state: "wf_instance_state (in_state inst')" "is_default_ds (in_state inst') = is_default_ds (in_state inst)"
    using r by (simp_all add: bmca_ran_def)
  have len: "length ports' = length ports" using p'(2) by (simp add: list_all2_conv_all_nth)
  have ids: "map po_port_identity ports' = map po_port_identity ports"
    using p'(2) by (auto simp: list_all2_conv_all_nth same_port_def intro!: nth_equalityI)
  have "numbered (in_state inst) ports" using assms(1) by (simp add: instance_inv_def)
  then have num: "numbered (in_state inst') (map (fst \<circ> end_bmca) ports')"
    using ids state(2) len by (simp add: numbered_def end_bmca_def comp_def del: upt_Suc)
  have "one_slave (in_state inst') (map (fst \<circ> end_bmca) ports')" if "length ports < 2 ^ 16"
  proof -
    have "distinct (map po_port_identity (map start_bmca ports))"
      using numbered_distinct [of "in_state inst" ports] assms(1) that
      by (simp add: instance_inv_def comp_def)
    then have "one_slave (in_state inst') ports'" by (rule bmca_ran_one_slave [OF r])
    then show ?thesis by (subst one_slave_map) (simp_all add: end_bmca_def)
  qed
  then show ?thesis
    using state num len p'(1)
    by (auto simp: instance_inv_def list_all_iff end_bmca_def wf_change_lifecycle settled_change_lifecycle)
qed

lemma reachable_inv:
  assumes "reachable host next_tlv config tp inst ports" and "wf_default_ds (default_ds_new config)"
  shows "instance_inv inst ports"
  using assms(1)
proof induction
  case created
  show ?case
    using assms(2)
    by (simp add: instance_inv_def ptp_instance_new_def Let_def wf_instance_state_def numbered_def one_slave_def
      wf_parent_ds_def parent_ds_new_def wf_port_identity_def wf_default_ds_def wf_path_trace_ds_def
      path_trace_ds_new_def default_ds_new_def)
next
  case (quality_set inst ports quality)
  then show ?case
    by (simp add: instance_inv_def set_clock_quality_def wf_instance_state_def wf_default_ds_def numbered_def
      one_slave_def del: upt_Suc)
next
  case (slave_only_set inst ports slave_only)
  then show ?case
    by (simp add: instance_inv_def set_slave_only_def wf_instance_state_def wf_default_ds_def numbered_def
      one_slave_def del: upt_Suc)
qed (blast intro: inv_added inv_called inv_announced inv_bmca)+

lemma reachable_ran:
  assumes "reachable host next_tlv config tp inst ports" and "wf_default_ds (default_ds_new config)"
    and "instance_bmca host inst (map start_bmca ports) = Inr (inst', ports')"
  obtains best_ports ebest where
    "bmca_ran (in_state inst) (map start_bmca ports) best_ports ebest (in_state inst') ports'"
  using outcome_OkD [OF bmca_returns [OF reachable_inv [OF assms(1,2)], of False] assms(3)] that by auto

end
