(* ===== verification/InstanceExample.thy ===== *)
theory InstanceExample
  imports InstanceRun
begin

text \<open>
  A run of an instance with two ports, used to show that the hypotheses of the theorems on reachable
  states hold on a state where something happens: the first port receives the announce message of
  another clock twice, the best master clock algorithm runs, and that port becomes a slave.
\<close>

section \<open>The instance\<close>

definition example_instance_config :: instance_config where
  "example_instance_config = \<lparr>ic_clock_identity = replicate 8 1, ic_priority_1 = 128, ic_priority_2 = 128,
     ic_domain_number = 0, ic_sdo_id = 0, ic_slave_only = False, ic_path_trace = False,
     ic_clock_quality = clock_quality_default\<rparr>"

definition example_instance :: ptp_instance where
  "example_instance = ptp_instance_new example_instance_config
     (new_arbitrary_time False False TS_InternalOscillator)"

lemma wf_example_config: "wf_default_ds (default_ds_new example_instance_config)"
  by (simp add: wf_default_ds_def default_ds_new_def example_instance_config_def wf_clock_identity_def)

lemma example_duration:
  "announce_duration numlib_ref (ho_open01 recording_host) example_config () = Ok (9000000000, ())"
proof -
  have "round (9000000000 :: rat) = 9000000000" using round_of_int [of 9000000000] by simp
  then show ?thesis
    by (simp add: announce_duration_def recording_host_def example_config_def numlib_ref_def Let_def
      interval_as_core_duration_def interval_as_f64_def)
qed

section \<open>The announce message\<close>

text \<open>An announce message of clock 0, whose identity is less than that of the instance, as bytes.\<close>

definition example_packet :: bytes where
  "example_packet = message_layout \<lparr>ms_header = am_header (example_announce 0),
     ms_body = MB_Announce (example_announce 0), ms_suffix = []\<rparr> (replicate 64 0)"

lemma example_packet_parses:
  "message_deserialize example_packet = Ok \<lparr>ms_header = am_header (example_announce 0),
     ms_body = MB_Announce (example_announce 0), ms_suffix = []\<rparr>"
proof -
  let ?m = "\<lparr>ms_header = am_header (example_announce 0), ms_body = MB_Announce (example_announce 0), ms_suffix = []\<rparr>"
  have "canon_message ?m" "message_wire_size ?m \<le> length (replicate 64 (0 :: u8))"
    by (simp_all add: canon_message_def canon_header_def canon_announce_def example_announce_def header_new_def
      wf_port_identity_def wf_clock_identity_def canon_timestamp_def canon_quality_def canon_source_def wire_timestamp_default_def
      clock_quality_default_def message_wire_size_def header_wire_size_def, code_simp)
  then show ?thesis
    using message_deserialize_layout [of ?m "replicate 64 0" "[]"] by (simp add: example_packet_def)
qed

lemma example_packet_compatible: "is_compatible example_packet"
  by code_simp

section \<open>The calls\<close>

text \<open>A listening port of the example instance that has received the given messages.\<close>

definition listening_port ::
  "u16 \<Rightarrow> foreign_announce_message list \<Rightarrow> (unit, time_properties_ds option, unit, measurement list) running_port" where
  "listening_port n ms =
     (let ident = \<lparr>pi_clock_identity = replicate 8 1, pi_port_number = n\<rparr>;
          interval = time_interval_from_duration (interval_as_duration numlib_ref 1)
      in (example_port PS_Listening PD_Empty)\<lparr>po_port_identity := ident,
        po_bmca := (bmca_new accept_any_master interval ident)\<lparr>bm_foreign_master_list :=
          (foreign_master_list_new interval ident)\<lparr>fl_foreign_masters := (if ms = [] then [] else
            [\<lparr>fm_port_identity = \<lparr>pi_clock_identity = replicate 8 0, pi_port_number = 1\<rparr>, fm_announce_messages = ms\<rparr>])\<rparr>\<rparr>\<rparr>)"

lemma example_interval: "time_interval_from_duration (interval_as_duration numlib_ref 1) = 131072000000000"
proof -
  have "round (8589934592000000000 :: rat) = 8589934592000000000" using round_of_int [of 8589934592000000000] by simp
  then show ?thesis
  by (simp add: time_interval_from_duration_def interval_as_duration_def duration_from_interval_def numlib_ref_def Let_def
    interval_as_f64_def)
qed

abbreviation received :: "duration \<Rightarrow> foreign_announce_message" where
  "received \<equiv> example_received 0"

lemma example_cutoff_port: "cutoff_age numlib_ref 131072000000000 = 4 * 131072000000000 * 65536"
  by (simp add: cutoff_age_def FOREIGN_MASTER_TIME_WINDOW_def duration_mul_int_def
    duration_from_interval_bits_def numlib_ref_def)

lemma example_add_port:
  assumes "dd_clock_identity (is_default_ds (in_state inst)) = replicate 8 1"
    and "dd_number_ports (is_default_ds (in_state inst)) = n"
  shows "\<exists>p. add_port recording_host example_config () None () inst
    = Ok (inst\<lparr>in_log_bmca_interval := (if 1 < sint (in_log_bmca_interval inst) then 1 else in_log_bmca_interval inst),
        in_state := (in_state inst)\<lparr>is_default_ds := (is_default_ds (in_state inst))\<lparr>dd_number_ports := n + 1\<rparr>\<rparr>\<rparr>, p)
    \<and> fst (end_bmca p) = listening_port (n + 1) []"
  using assms example_duration
  by (simp add: add_port_def Let_def port_new_def end_bmca_def change_lifecycle_def listening_port_def
    example_interval example_port_def bmca_new_def foreign_master_list_new_def recording_host_def example_config_def sequence_id_generator_new_def)

lemma example_header_simps [simp]:
  "hd_sdo_id (am_header (example_announce c)) = 0" "hd_domain_number (am_header (example_announce c)) = 0"
  "hd_sequence_id (am_header (example_announce c)) = 0"
  by (simp_all add: example_announce_def header_new_def)

lemma example_register:
  assumes "ms = [] \<or> ms = [received 0]"
  shows "bmca_register_announce_message numlib_ref (am_header (example_announce 0)) (example_announce 0)
      (po_bmca (listening_port n ms)) = Ok (po_bmca (listening_port n (ms @ [received 0])), True)"
  using assms
  by (auto simp: bmca_register_announce_message_def listening_port_def example_interval Let_def bmca_new_def
    accept_any_master_def fl_register_announce_message_def is_announce_message_qualified_def
      foreign_master_list_new_def get_foreign_master_def foreign_master_new_def av_push_def
      MAX_ANNOUNCE_MESSAGES_def MAX_FOREIGN_MASTERS_def example_received_def duration_ZERO_def
      fm_register_announce_message_def purge_old_messages_def example_cutoff_port)

lemma listening_port_simps [simp]:
  "po_port_state (listening_port n ms) = PS_Listening"
  "po_port_identity (listening_port n ms) = \<lparr>pi_clock_identity = replicate 8 1, pi_port_number = n\<rparr>"
  "po_config (listening_port n ms) = example_config" "po_rng (listening_port n ms) = ()"
  by (simp_all add: listening_port_def Let_def example_port_def)

lemma listening_port_register:
  "(listening_port n ms)\<lparr>po_bmca := po_bmca (listening_port n ms'), po_rng := ()\<rparr> = listening_port n ms'"
  by (simp add: listening_port_def Let_def example_port_def)

lemma example_receives:
  assumes "dd_sdo_id (is_default_ds state) = 0" "dd_domain_number (is_default_ds state) = 0"
    and "ms = [] \<or> ms = [received 0]"
  shows "\<exists>acts. port_step recording_host (EvGeneralReceive example_packet) state (listening_port n ms)
    = Ok (state, listening_port n (ms @ [received 0]), acts)"
  using assms example_duration
  by (simp add: handle_general_receive_def parse_and_filter_def example_packet_compatible example_packet_parses
    handle_general_internal_def handle_announce_def register_announce_def example_register Let_def
    listening_port_register)

definition example_offer :: "u16 \<Rightarrow> best_announce_message" where
  "example_offer n = to_best \<lparr>pi_clock_identity = replicate 8 1, pi_port_number = n\<rparr> (received 0)"

lemma example_best_local:
  "calculate_best_local_announce_message recording_host (start_bmca (listening_port n [received 0, received 0]))
    = Ok ((start_bmca (listening_port n [received 0, received 0]))\<lparr>
        po_lifecycle := \<lparr>ib_pending_action = actions [], ib_local_best = Some (example_offer n)\<rparr>\<rparr>)"
  "calculate_best_local_announce_message recording_host (start_bmca (listening_port n []))
    = Ok (start_bmca (listening_port n []))"
  by (auto simp: calculate_best_local_announce_message_def take_best_port_announce_message_def listening_port_def Let_def
    example_interval bmca_new_def start_bmca_def change_lifecycle_def take_qualified_announce_messages_def foreign_master_list_new_def index_def
      FOREIGN_MASTER_THRESHOLD_def av_remove_def av_push_def MAX_FOREIGN_MASTERS_def find_best_announce_message_def
    to_best_def reregister_announce_message_def accept_any_master_def example_received_def example_offer_def
    fl_register_announce_message_def is_announce_message_qualified_def get_foreign_master_def
    fm_register_announce_message_def purge_old_messages_def example_cutoff_port MAX_ANNOUNCE_MESSAGES_def example_port_def)

lemma example_recommended:
  assumes "dd_clock_quality d = clock_quality_default" "dd_priority_1 d = 128" "dd_priority_2 d = 128"
    "dd_clock_identity d = replicate 8 1"
  shows "calculate_recommended_state d (Some (example_offer n)) (Some (example_offer n)) PS_Listening
    = Ok (Some (RS_S1 (example_announce 0)))"
proof -
  have "as_ordering (ds_compare (from_own_data d) (ba_dataset (example_offer n))) = Less"
    using assms
    by (simp add: from_own_data_def ba_dataset_def from_announce_message_def example_offer_def to_best_def example_received_def
     example_announce_def clock_quality_default_def ds_compare_def quality_ordering_def clock_accuracy_cmp_numeric_def numeral_eq_Suc cmp_def)
  then show ?thesis
    using assms by (simp add: recommended_S1_iff clock_quality_default_def example_offer_def to_best_def example_received_def)
qed

lemma example_run_slave:
  assumes "dd_clock_quality d = clock_quality_default" "dd_priority_1 d = 128" "dd_priority_2 d = 128"
    "dd_clock_identity d = replicate 8 1" "is_default_ds state = d"
  shows "\<exists>state' p1 p2. recommend_loop recording_host (Some (example_offer 1)) state
     [(start_bmca (listening_port 1 ms))\<lparr>po_lifecycle := \<lparr>ib_pending_action = actions [], ib_local_best = Some (example_offer 1)\<rparr>\<rparr>,
      start_bmca (listening_port 2 [])] = Ok (state', [p1, p2]) \<and> mode p1 = M_Slave \<lparr>pi_clock_identity = replicate 8 0, pi_port_number = 1\<rparr>
      \<and> mode p2 = M_Listening"
  using example_recommended [OF assms(1-4)] assms(5) example_duration
  by (simp add: best_local_announce_message_for_state_def set_recommended_state_def become_slave_def Let_def
    set_forced_port_state_def start_bmca_def calculate_recommended_state_def [of _ _ None] slave_state_new_def set_pending_def)

lemma step_age_state: "step_announce_age host step p = Inr p' \<Longrightarrow> po_port_state p' = po_port_state p"
  by (auto simp: step_announce_age_def Let_def)

abbreviation master_0 :: port_identity where
  "master_0 \<equiv> \<lparr>pi_clock_identity = replicate 8 0, pi_port_number = 1\<rparr>"

lemma example_bmca_slave:
  assumes "is_default_ds (in_state inst) = (default_ds_new example_instance_config)\<lparr>dd_number_ports := 2\<rparr>"
    and "instance_bmca recording_host inst
      (map start_bmca [listening_port 1 [received 0, received 0], listening_port 2 []]) = Inr (inst', ports')"
  shows "map mode ports' = [M_Slave master_0, M_Listening]"
proof -
  let ?d = "is_default_ds (in_state inst)"
  let ?p1 = "(start_bmca (listening_port 1 [received 0, received 0]))\<lparr>po_lifecycle :=
    \<lparr>ib_pending_action = actions [], ib_local_best = Some (example_offer 1)\<rparr>\<rparr>"
  have d: "dd_clock_quality ?d = clock_quality_default" "dd_priority_1 ?d = 128" "dd_priority_2 ?d = 128"
    "dd_clock_identity ?d = replicate 8 1"
    by (simp_all add: assms(1) default_ds_new_def example_instance_config_def)
  have best: "find_best_announce_message (List.map_filter best_local_announce_message_for_bmca
      [?p1, start_bmca (listening_port 2 [])]) = Ok (Some (example_offer 1))"
    by (simp add: List.map_filter_def best_local_announce_message_for_bmca_def start_bmca_def example_config_def
      find_best_announce_message_def)
  obtain state' q1 q2 where loop: "recommend_loop recording_host (Some (example_offer 1)) (in_state inst)
      [?p1, start_bmca (listening_port 2 [])] = Ok (state', [q1, q2])"
      "mode q1 = M_Slave master_0" "mode q2 = M_Listening"
    using example_run_slave [OF d refl] by blast
  obtain step r1 r2 where "step_announce_age recording_host step q1 = Inr r1"
      "step_announce_age recording_host step q2 = Inr r2" "ports' = [r1, r2]"
    using assms(2) best loop(1) by (auto simp: instance_bmca_def Let_def state_bmca_def example_best_local)
  then show ?thesis using loop(2,3) step_age_state by fastforce
qed

lemma example_slave_run:
  obtains inst p1 p2 s where "reachable recording_host no_forwarded_tlvs example_instance_config
       (new_arbitrary_time False False TS_InternalOscillator) inst [p1, p2]"
    "po_port_state p1 = PS_Slave s" "ss_remote_master s = master_0" "po_port_state p2 = PS_Listening"
    "po_config p1 = example_config" "po_config p2 = example_config"
proof -
  let ?tp = "new_arbitrary_time False False TS_InternalOscillator"
  let ?r = "reachable recording_host no_forwarded_tlvs example_instance_config ?tp"
  let ?d = "default_ds_new example_instance_config"
  have d: "is_default_ds (in_state example_instance) = ?d" "dd_number_ports ?d = 0"
    "dd_clock_identity ?d = replicate 8 1" "dd_sdo_id ?d = 0" "dd_domain_number ?d = 0"
    by (simp_all add: example_instance_def ptp_instance_new_def Let_def default_ds_new_def example_instance_config_def)
  have r0: "?r example_instance []" unfolding example_instance_def by (rule created)
  obtain i1 where r1: "?r i1 [listening_port 1 []]" "is_default_ds (in_state i1) = ?d\<lparr>dd_number_ports := 1\<rparr>"
    using example_add_port [of example_instance 0] port_added [OF r0] d by fastforce
  obtain i2 where r2: "?r i2 [listening_port 1 [], listening_port 2 []]"
      "is_default_ds (in_state i2) = ?d\<lparr>dd_number_ports := 2\<rparr>"
    using example_add_port [of i1 1] port_added [OF r1(1)] r1(2) d by fastforce
  have recv: "?r i2 (listening_port 1 (ms @ [received 0]) # ps)"
    if r: "?r i2 (listening_port 1 ms # ps)" and ms: "ms = [] \<or> ms = [received 0]" for ms ps
  proof -
    obtain acts where "port_step recording_host (EvGeneralReceive example_packet) (in_state i2) (listening_port 1 ms)
        = Ok (in_state i2, listening_port 1 (ms @ [received 0]), acts)"
      using example_receives [of "in_state i2" ms 1] ms r2(2) d by auto
    then show ?thesis using port_called [OF r, of 0 "EvGeneralReceive example_packet"] by simp
  qed
  have r3: "?r i2 [listening_port 1 [received 0, received 0], listening_port 2 []]"
    using recv [OF recv [OF r2(1)]] by simp
  have "\<exists>x. instance_bmca recording_host i2 (map start_bmca [listening_port 1 [received 0, received 0], listening_port 2 []]) = Inr x"
    using outcome_total [OF bmca_returns [OF reachable_inv [OF r3 wf_example_config], of True recording_host]]
      recording_host_total by auto
  then obtain i3 ps where b: "instance_bmca recording_host i2
      (map start_bmca [listening_port 1 [received 0, received 0], listening_port 2 []]) = Inr (i3, ps)" by auto
  have modes: "map mode ps = [M_Slave master_0, M_Listening]" by (rule example_bmca_slave [OF r2(2) b])
  then obtain q1 q2 where ps: "ps = [q1, q2]" by (auto simp: Cons_eq_map_conv)
  then obtain s where s: "po_port_state q1 = PS_Slave s" "ss_remote_master s = master_0" "po_port_state q2 = PS_Listening"
    using modes by (cases "po_port_state q1") auto
  obtain best_ports ebest where
    "bmca_ran (in_state i2) (map start_bmca [listening_port 1 [received 0, received 0], listening_port 2 []])
      best_ports ebest (in_state i3) ps"
    using outcome_OkD [OF bmca_returns [OF reachable_inv [OF r3 wf_example_config], of False] b] by auto
  then have "po_config q1 = example_config" "po_config q2 = example_config"
    using bmca_ran_ports(2) ps by (fastforce simp: same_port_def)+
  then show thesis
    using that [OF bmca_done [OF r3 b, unfolded ps list.map]] s by (simp add: end_bmca_def)
qed

end
