(* ===== verification/TlvForwarder.thy ===== *)
theory TlvForwarder
  imports PortMaster
begin

text \<open>
  \<open>statime-linux/src/tlvforwarder.rs\<close>: the provider of TLVs that the Linux daemon uses to carry
  TLVs from the port that received them to the announce messages of the other ports. The broadcast
  channel of \<open>tokio\<close> is a parameter, the record \<open>channel_lib\<close>; the locale \<open>broadcast\<close>
  states what its documentation says of a receiver. The lemmas show that the forwarder is a queue
  that keeps its order, and that it is a \<open>tlv_source\<close>; it is not a \<open>strict_tlv_source\<close>, which
  makes \<open>send_announce\<close> panic on a TLV that fills the message exactly.
\<close>

section \<open>The broadcast channel\<close>

datatype try_recv_result = RV_Ok forwarded_tlv | RV_Empty | RV_Closed | RV_Lagged u64

record ('s, 'r) channel_lib =
  cl_channel :: "nat \<Rightarrow> 's \<times> 'r"
  cl_send :: "forwarded_tlv \<Rightarrow> 's \<Rightarrow> 's"
  cl_clone :: "'s \<Rightarrow> 's"
  cl_resubscribe :: "'r \<Rightarrow> 'r"
  cl_try_recv :: "'r \<Rightarrow> try_recv_result \<times> 'r"

section \<open>The forwarder\<close>

record ('s, 'r) tlv_forwarder =
  tf_sender :: 's
  tf_receiver :: 'r
  tf_peek :: "forwarded_tlv option"

definition tlv_forwarder_new :: "('s, 'r) channel_lib \<Rightarrow> ('s, 'r) tlv_forwarder" where
  "tlv_forwarder_new lib =
     (let (sender, receiver) = cl_channel lib 128
      in \<lparr>tf_sender = sender, tf_receiver = receiver, tf_peek = None\<rparr>)"

definition tlv_forwarder_forward ::
  "('s, 'r) channel_lib \<Rightarrow> forwarded_tlv \<Rightarrow> ('s, 'r) tlv_forwarder \<Rightarrow> ('s, 'r) tlv_forwarder" where
  "tlv_forwarder_forward lib t f = f\<lparr>tf_sender := cl_send lib t (tf_sender f)\<rparr>"

definition tlv_forwarder_duplicate ::
  "('s, 'r) channel_lib \<Rightarrow> ('s, 'r) tlv_forwarder \<Rightarrow> ('s, 'r) tlv_forwarder" where
  "tlv_forwarder_duplicate lib f = \<lparr>
     tf_sender = cl_clone lib (tf_sender f),
     tf_receiver = cl_resubscribe lib (tf_receiver f),
     tf_peek = None\<rparr>"

text \<open>The loop of \<open>empty\<close>; it ends when the receiver reports that it is empty or closed.\<close>

partial_function (option) drain_receiver ::
  "('r \<Rightarrow> try_recv_result \<times> 'r) \<Rightarrow> 'r \<Rightarrow> 'r option" where
  "drain_receiver try_recv r =
     (case try_recv r of
        (RV_Empty, r') \<Rightarrow> Some r'
      | (RV_Closed, r') \<Rightarrow> Some r'
      | (RV_Ok _, r') \<Rightarrow> drain_receiver try_recv r'
      | (RV_Lagged _, r') \<Rightarrow> drain_receiver try_recv r')"

definition tlv_forwarder_empty ::
  "('s, 'r) channel_lib \<Rightarrow> ('s, 'r) tlv_forwarder \<Rightarrow> ('s, 'r) tlv_forwarder option" where
  "tlv_forwarder_empty lib f =
     map_option (\<lambda>r. f\<lparr>tf_peek := None, tf_receiver := r\<rparr>) (drain_receiver (cl_try_recv lib) (tf_receiver f))"

text \<open>The loop of \<open>next_if_smaller\<close>, which fills \<open>peek\<close>.\<close>

partial_function (option) fill_peek ::
  "('r \<Rightarrow> try_recv_result \<times> 'r) \<Rightarrow> forwarded_tlv option \<Rightarrow> 'r \<Rightarrow> (forwarded_tlv option \<times> 'r) option" where
  "fill_peek try_recv peek r =
     (if peek \<noteq> None then Some (peek, r)
      else
        case try_recv r of
          (RV_Ok t, r') \<Rightarrow> fill_peek try_recv (Some t) r'
        | (RV_Empty, r') \<Rightarrow> Some (None, r')
        | (RV_Closed, r') \<Rightarrow> Some (None, r')
        | (RV_Lagged _, r') \<Rightarrow> fill_peek try_recv None r')"

definition next_if_smaller ::
  "('s, 'r) channel_lib \<Rightarrow> nat \<Rightarrow> ('s, 'r) tlv_forwarder \<Rightarrow>
   (forwarded_tlv option \<times> ('s, 'r) tlv_forwarder) option" where
  "next_if_smaller lib max_size f =
     map_option (\<lambda>(peek, r).
       case peek of
         None \<Rightarrow> (None, f\<lparr>tf_peek := None, tf_receiver := r\<rparr>)
       | Some v \<Rightarrow>
           (if forwarded_tlv_size v \<le> max_size then (Some v, f\<lparr>tf_peek := None, tf_receiver := r\<rparr>)
            else (None, f\<lparr>tf_peek := Some v, tf_receiver := r\<rparr>)))
       (fill_peek (cl_try_recv lib) (tf_peek f) (tf_receiver f))"

lemma fill_peek_Some [simp]: "fill_peek f (Some t) r = Some (Some t, r)"
  by (simp add: fill_peek.simps)

lemma fill_peek_None:
  "fill_peek f None r = (case f r of
     (RV_Ok t, r') \<Rightarrow> Some (Some t, r')
   | (RV_Empty, r') \<Rightarrow> Some (None, r')
   | (RV_Closed, r') \<Rightarrow> Some (None, r')
   | (RV_Lagged _, r') \<Rightarrow> fill_peek f None r')"
  by (subst fill_peek.simps) (simp split: prod.split try_recv_result.split)

text \<open>The queue that a forwarder stands for.\<close>

definition queued :: "('r \<Rightarrow> forwarded_tlv list) \<Rightarrow> ('s, 'r) tlv_forwarder \<Rightarrow> forwarded_tlv list" where
  "queued unread f = (case tf_peek f of None \<Rightarrow> [] | Some t \<Rightarrow> [t]) @ unread (tf_receiver f)"

text \<open>The specification of \<open>next_if_smaller\<close> on a queue.\<close>

fun queue_next :: "nat \<Rightarrow> forwarded_tlv list \<Rightarrow> forwarded_tlv option \<times> forwarded_tlv list" where
  "queue_next max_size [] = (None, [])"
| "queue_next max_size (t # ts) =
     (if forwarded_tlv_size t \<le> max_size then (Some t, ts) else (None, t # ts))"

section \<open>The contract of a receiver\<close>

text \<open>\<open>unread r\<close> is the list of the retained messages that a receiver has not seen yet. After a
  \<open>Lagged\<close> result the receiver continues with the oldest retained message.\<close>

locale broadcast =
  fixes lib :: "('s, 'r) channel_lib"
    and unread :: "'r \<Rightarrow> forwarded_tlv list"
  assumes recv_Ok: "cl_try_recv lib r = (RV_Ok t, r') \<Longrightarrow> unread r = t # unread r'"
    and recv_Empty: "cl_try_recv lib r = (RV_Empty, r') \<Longrightarrow> unread r = [] \<and> unread r' = []"
    and recv_Closed: "cl_try_recv lib r = (RV_Closed, r') \<Longrightarrow> unread r = [] \<and> unread r' = []"
    and recv_Lagged: "cl_try_recv lib r = (RV_Lagged n, r') \<Longrightarrow>
      unread r' = unread r \<and> (\<exists>x r''. cl_try_recv lib r' = (x, r'') \<and> (\<forall>k. x \<noteq> RV_Lagged k))"
begin

text \<open>What a call of \<open>try_recv\<close> that is repeated while it reports a lag returns.\<close>

lemma recv_cases:
  obtains (got) t r1 where "unread r = t # unread r1"
      "fill_peek (cl_try_recv lib) None r = Some (Some t, r1)"
      "drain_receiver (cl_try_recv lib) r = drain_receiver (cl_try_recv lib) r1"
  | (none) r1 where "unread r = []" "unread r1 = []"
      "fill_peek (cl_try_recv lib) None r = Some (None, r1)"
      "drain_receiver (cl_try_recv lib) r = Some r1"
proof -
  obtain x r1 where x: "cl_try_recv lib r = (x, r1)" by (cases "cl_try_recv lib r")
  show thesis
  proof (cases x)
    case (RV_Ok t)
    show thesis
      by (rule got [of t r1]) (use x RV_Ok recv_Ok in \<open>simp_all add: fill_peek_None [of _ r] drain_receiver.simps [of _ r]\<close>)
  next
    case RV_Empty
    show thesis by (rule none [of r1]) (use x RV_Empty recv_Empty in \<open>simp_all add: fill_peek_None [of _ r] drain_receiver.simps [of _ r]\<close>)
  next
    case RV_Closed
    show thesis by (rule none [of r1]) (use x RV_Closed recv_Closed in \<open>simp_all add: fill_peek_None [of _ r] drain_receiver.simps [of _ r]\<close>)
  next
    case (RV_Lagged n)
    then obtain y r2 where y: "cl_try_recv lib r1 = (y, r2)" "\<forall>k. y \<noteq> RV_Lagged k"
        and u: "unread r1 = unread r"
      using x recv_Lagged by metis
    have step: "fill_peek (cl_try_recv lib) None r = fill_peek (cl_try_recv lib) None r1"
      "drain_receiver (cl_try_recv lib) r = drain_receiver (cl_try_recv lib) r1"
      using x RV_Lagged by (simp_all add: fill_peek_None [of _ r] drain_receiver.simps [of _ r])
    show thesis
    proof (cases y)
      case (RV_Ok t)
      show thesis
        by (rule got [of t r2]) (use y RV_Ok recv_Ok u step in \<open>simp_all add: fill_peek_None [of _ r1] drain_receiver.simps [of _ r1]\<close>)
    next
      case RV_Empty
      show thesis by (rule none [of r2]) (use y RV_Empty recv_Empty u step in \<open>simp_all add: fill_peek_None [of _ r1] drain_receiver.simps [of _ r1]\<close>)
    next
      case RV_Closed
      show thesis by (rule none [of r2]) (use y RV_Closed recv_Closed u step in \<open>simp_all add: fill_peek_None [of _ r1] drain_receiver.simps [of _ r1]\<close>)
    qed (use y in simp)
  qed
qed

lemma next_refines_queue:
  "\<exists>t f'. next_if_smaller lib n f = Some (t, f') \<and> queue_next n (queued unread f) = (t, queued unread f')"
proof (cases "tf_peek f")
  case None
  show ?thesis
    by (rule recv_cases [of "tf_receiver f"])
      (simp_all add: next_if_smaller_def queued_def None)
qed (simp add: next_if_smaller_def queued_def)

lemma empty_refines_queue:
  "\<exists>f'. tlv_forwarder_empty lib f = Some f' \<and> queued unread f' = []"
proof -
  have "\<exists>r'. drain_receiver (cl_try_recv lib) r = Some r' \<and> unread r' = []" for r
  proof (induction "length (unread r)" arbitrary: r rule: less_induct)
    case less
    show ?case by (rule recv_cases [of r]) (use less in simp_all)
  qed
  then show ?thesis by (fastforce simp: tlv_forwarder_empty_def queued_def)
qed

end

text \<open>A forwarder fulfils the documented contract of a provider.\<close>

sublocale broadcast \<subseteq> fwd: tlv_source "\<lambda>n f. the (next_if_smaller lib n f)" "\<lambda>f. length (queued unread f)"
proof unfold_locales
  fix n f t f' assume n: "the (next_if_smaller lib n f) = (Some t, f')"
  then have "queue_next n (queued unread f) = (Some t, queued unread f')"
    using next_refines_queue [of n f] by auto
  then have "queued unread f = t # queued unread f' \<and> forwarded_tlv_size t \<le> n"
    by (cases "queued unread f") (auto split: if_splits)
  then show "forwarded_tlv_size t \<le> n" "length (queued unread f') < length (queued unread f)" by simp_all
qed

context broadcast
begin

lemma announce_returns:
  "\<exists>r. send_announce host (\<lambda>n f. the (next_if_smaller lib n f)) state f p = Some r"
  by (rule fwd.send_announce_returns)

lemma announce_exact_fit:
  assumes "po_port_state p = PS_Master" and "\<not> pt_enable (is_path_trace_ds state)"
    and "queued unread f \<noteq> []" and "forwarded_tlv_size (hd (queued unread f)) = 960"
  shows "send_announce host (\<lambda>n f. the (next_if_smaller lib n f)) state f p = Some panic"
proof -
  obtain t ts where q: "queued unread f = t # ts" "forwarded_tlv_size t = 960"
    using assms(3,4) by (cases "queued unread f") auto
  then obtain f' where "next_if_smaller lib 960 f = Some (Some t, f')"
    using next_refines_queue [of 960 f] by auto
  then have "forward_tlvs (\<lambda>n f. the (next_if_smaller lib n f)) parent pt f b 960 = Some panic" for parent pt b
    using q(2) by (subst forward_tlvs.simps) simp
  then have "announce_suffix (\<lambda>n f. the (next_if_smaller lib n f)) state 960 f = Some panic"
    using assms(2) by (simp add: announce_suffix_def add_path_trace_def Let_def)
  then show ?thesis
    using assms(1) by (simp add: send_announce_def generate_def Let_def MAX_DATA_LEN_def)
qed

end

section \<open>A channel that keeps its messages in a list\<close>

text \<open>The receiver has a number of lost messages to report and the list of the retained ones.\<close>

fun list_try_recv :: "nat \<times> forwarded_tlv list \<Rightarrow> try_recv_result \<times> nat \<times> forwarded_tlv list" where
  "list_try_recv (Suc k, ts) = (RV_Lagged (word_of_nat (Suc k)), 0, ts)"
| "list_try_recv (0, []) = (RV_Empty, 0, [])"
| "list_try_recv (0, t # ts) = (RV_Ok t, 0, ts)"

definition list_channel :: "(unit, nat \<times> forwarded_tlv list) channel_lib" where
  "list_channel = \<lparr>
     cl_channel = (\<lambda>capacity. ((), 0, [])),
     cl_send = (\<lambda>t sender. sender),
     cl_clone = (\<lambda>sender. sender),
     cl_resubscribe = (\<lambda>receiver. (0, [])),
     cl_try_recv = list_try_recv\<rparr>"

interpretation list_bc: broadcast list_channel snd
proof unfold_locales
  fix r :: "nat \<times> forwarded_tlv list" and r' n t
  show "cl_try_recv list_channel r = (RV_Ok t, r') \<Longrightarrow> snd r = t # snd r'"
    "cl_try_recv list_channel r = (RV_Empty, r') \<Longrightarrow> snd r = [] \<and> snd r' = []"
    "cl_try_recv list_channel r = (RV_Closed, r') \<Longrightarrow> snd r = [] \<and> snd r' = []"
    by (cases r rule: list_try_recv.cases; auto simp: list_channel_def)+
  assume "cl_try_recv list_channel r = (RV_Lagged n, r')"
  then obtain ts where "r' = (0, ts)" "snd r = ts"
    by (cases r rule: list_try_recv.cases) (auto simp: list_channel_def)
  then show "snd r' = snd r
      \<and> (\<exists>x r''. cl_try_recv list_channel r' = (x, r'') \<and> (\<forall>k. x \<noteq> RV_Lagged k))"
    by (cases ts) (simp_all add: list_channel_def)
qed

section \<open>Properties\<close>

text \<open>C17: over any broadcast channel that behaves as documented, a forwarder refines a queue: its
  calls always return, \<open>next_if_smaller\<close> takes the first TLV exactly when it is not larger than
  asked for and otherwise leaves the queue as it is, a lag of the receiver included, and \<open>empty\<close>
  leaves the queue empty.\<close>

theorem forwarder_refines_queue:
  assumes "broadcast lib unread"
  shows "(\<exists>t f'. next_if_smaller lib n f = Some (t, f')
      \<and> queue_next n (queued unread f) = (t, queued unread f'))
    \<and> (\<exists>f'. tlv_forwarder_empty lib f = Some f' \<and> queued unread f' = [])"
  using broadcast.next_refines_queue [OF assms] broadcast.empty_refines_queue [OF assms] by blast

definition example_tlv :: "nat \<Rightarrow> forwarded_tlv" where
  "example_tlv n = \<lparr>ft_tlv = \<lparr>tlv_type = TT_OrganizationExtensionPropagate, tlv_value = replicate n 0\<rparr>,
     ft_sender_identity = example_identity 2\<rparr>"

definition example_forwarder :: "forwarded_tlv list \<Rightarrow> (unit, nat \<times> forwarded_tlv list) tlv_forwarder" where
  "example_forwarder ts = \<lparr>tf_sender = (), tf_receiver = (3, ts), tf_peek = None\<rparr>"

lemma example_forwarder_simps [simp]:
  "queued snd (example_forwarder ts) = ts" "forwarded_tlv_size (example_tlv n) = n + 4"
  by (simp_all add: queued_def example_forwarder_def forwarded_tlv_size_def example_tlv_def tlv_wire_size_def)

theorem forwarder_refines_queue_witness:
  "\<exists>f'. next_if_smaller list_channel 10 (example_forwarder [example_tlv 6, example_tlv 2])
      = Some (Some (example_tlv 6), f') \<and> queued snd f' = [example_tlv 2]"
  using forwarder_refines_queue [OF list_bc.broadcast_axioms, of 10 "example_forwarder [example_tlv 6, example_tlv 2]"]
  by auto

text \<open>The announce timer of a master always returns, but it panics when the first TLV of the
  forwarder fills the message exactly (960 bytes when no path trace is sent), which the contract of
  \<open>next_if_smaller\<close> allows.\<close>

theorem announce_panics_on_exact_fit:
  assumes "broadcast lib unread" and "po_port_state p = PS_Master"
    and "\<not> pt_enable (is_path_trace_ds state)"
  shows "(\<exists>r. send_announce host (\<lambda>n f. the (next_if_smaller lib n f)) state f p = Some r)
    \<and> (queued unread f \<noteq> [] \<and> forwarded_tlv_size (hd (queued unread f)) = 960 \<longrightarrow>
       send_announce host (\<lambda>n f. the (next_if_smaller lib n f)) state f p = Some panic)"
  using broadcast.announce_returns [OF assms(1)] broadcast.announce_exact_fit [OF assms] by blast

theorem announce_panics_on_exact_fit_witness:
  "send_announce recording_host (\<lambda>n f. the (next_if_smaller list_channel n f)) (example_state False)
     (example_forwarder [example_tlv 956]) (example_port PS_Master PD_Empty) = Some panic"
  using announce_panics_on_exact_fit [OF list_bc.broadcast_axioms, of "example_port PS_Master PD_Empty" "example_state False"
      recording_host "example_forwarder [example_tlv 956]"]
  by (simp add: example_port_def example_state_def path_trace_ds_new_def Let_def)

end
