(* ===== verification/Clocks.thy ===== *)
theory Clocks
  imports Datasets
begin

text \<open>
  The trait \<open>Clock\<close> (\<open>statime/src/clock.rs\<close>) and the clocks that the library builds from
  other clocks: \<open>OverlayClock\<close> (\<open>statime/src/overlay_clock.rs\<close>), which adds a shift and a
  rate to a clock that it only reads, and \<open>SharedClock\<close> (\<open>statime/src/shared_clock.rs\<close>), whose
  clones share one clock behind a mutex. The binary64 operations that the clocks and the filters
  use beyond those of \<open>numlib\<close> are the parameter \<open>floatlib\<close>.
\<close>

section \<open>Floating point numbers\<close>

text \<open>\<open>fl_lit\<close> gives the value of a literal, \<open>fl_of_fx\<close> the conversion from \<open>I96F32\<close>
  (\<open>lossy_into\<close>, \<open>az\<close>). The comparisons are those of \<open>PartialOrd\<close>, false on a NaN.\<close>

record 'f floatlib =
  fl_num :: "'f numlib"
  fl_lit :: "rat \<Rightarrow> 'f"
  fl_of_fx :: "int \<Rightarrow> 'f"
  fl_sub :: "'f \<Rightarrow> 'f \<Rightarrow> 'f"
  fl_div :: "'f \<Rightarrow> 'f \<Rightarrow> 'f"
  fl_neg :: "'f \<Rightarrow> 'f"
  fl_abs :: "'f \<Rightarrow> 'f"
  fl_signum :: "'f \<Rightarrow> 'f"
  fl_sqrt :: "'f \<Rightarrow> 'f"
  fl_exp :: "'f \<Rightarrow> 'f"
  fl_max :: "'f \<Rightarrow> 'f \<Rightarrow> 'f"
  fl_lt :: "'f \<Rightarrow> 'f \<Rightarrow> bool"
  fl_le :: "'f \<Rightarrow> 'f \<Rightarrow> bool"

abbreviation fadd :: "'f floatlib \<Rightarrow> 'f \<Rightarrow> 'f \<Rightarrow> 'f" where
  "fadd fl \<equiv> f_add (fl_num fl)"

abbreviation fmul :: "'f floatlib \<Rightarrow> 'f \<Rightarrow> 'f \<Rightarrow> 'f" where
  "fmul fl \<equiv> f_mul (fl_num fl)"

text \<open>\<open>f64::clamp\<close> panics unless \<open>min <= max\<close>.\<close>

definition fl_clamp :: "'f floatlib \<Rightarrow> 'f \<Rightarrow> 'f \<Rightarrow> 'f \<Rightarrow> 'f res" where
  "fl_clamp fl x lo hi =
     (if fl_le fl lo hi then Ok (if fl_lt fl x lo then lo else if fl_lt fl hi x then hi else x)
      else panic)"

text \<open>The operations of \<open>Duration\<close> on \<open>f64\<close>, and \<open>Ord::clamp\<close>, which panics unless
  \<open>min <= max\<close>.\<close>

definition duration_seconds :: "'f floatlib \<Rightarrow> duration \<Rightarrow> 'f" where
  "duration_seconds fl d = fl_div fl (fl_of_fx fl d) (fl_lit fl 1000000000)"

definition duration_mul_f64 :: "'f numlib \<Rightarrow> duration \<Rightarrow> 'f \<Rightarrow> duration" where
  "duration_mul_f64 lib d x = fx_mul lib I96F32 d (fx_of_f64 lib I96F32 x)"

definition duration_clamp :: "duration \<Rightarrow> duration \<Rightarrow> duration \<Rightarrow> duration res" where
  "duration_clamp d lo hi = (if lo \<le> hi then Ok (if d < lo then lo else if hi < d then hi else d) else panic)"

section \<open>The trait Clock\<close>

text \<open>A \<open>Result<Time, Error>\<close> is an option: the error is only logged by the callers.\<close>

record ('f, 'c) clock_ops =
  ck_now :: "'c \<Rightarrow> time"
  ck_step_clock :: "duration \<Rightarrow> 'c \<Rightarrow> time option \<times> 'c"
  ck_set_frequency :: "'f \<Rightarrow> 'c \<Rightarrow> time option \<times> 'c"
  ck_set_properties :: "time_properties_ds \<Rightarrow> 'c \<Rightarrow> bool \<times> 'c"

section \<open>OverlayClock\<close>

record ('f, 'c) overlay_clock =
  oc_roclock :: 'c
  oc_last_sync :: time
  oc_shift :: duration
  oc_freq_scale_ppm_diff :: 'f

definition overlay_new :: "'f floatlib \<Rightarrow> ('f, 'c) clock_ops \<Rightarrow> 'c \<Rightarrow> ('f, 'c) overlay_clock" where
  "overlay_new fl ops underlying_clock = \<lparr>
     oc_roclock = underlying_clock,
     oc_last_sync = ck_now ops underlying_clock,
     oc_shift = fx_fit (fl_num fl) I96F32 0,
     oc_freq_scale_ppm_diff = fl_lit fl 0\<rparr>"

definition overlay_correction :: "'f floatlib \<Rightarrow> time \<Rightarrow> ('f, 'c) overlay_clock \<Rightarrow> duration" where
  "overlay_correction fl roclock_time o' =
     (let elapsed = time_diff (fl_num fl) roclock_time (oc_last_sync o')
      in duration_div_int (fl_num fl) (duration_mul_f64 (fl_num fl) elapsed (oc_freq_scale_ppm_diff o')) 1000000)"

definition time_from_underlying :: "'f floatlib \<Rightarrow> time \<Rightarrow> ('f, 'c) overlay_clock \<Rightarrow> time" where
  "time_from_underlying fl roclock_time o' =
     time_add (fl_num fl) (time_add (fl_num fl) roclock_time (oc_shift o')) (overlay_correction fl roclock_time o')"

definition overlay_now :: "'f floatlib \<Rightarrow> ('f, 'c) clock_ops \<Rightarrow> ('f, 'c) overlay_clock \<Rightarrow> time" where
  "overlay_now fl ops o' = time_from_underlying fl (ck_now ops (oc_roclock o')) o'"

text \<open>The \<open>debug_assert_eq\<close> of \<open>set_frequency\<close> is the theorem \<open>overlay_set_frequency_continuous\<close>.\<close>

definition overlay_set_frequency ::
  "'f floatlib \<Rightarrow> ('f, 'c) clock_ops \<Rightarrow> 'f \<Rightarrow> ('f, 'c) overlay_clock \<Rightarrow> time option \<times> ('f, 'c) overlay_clock" where
  "overlay_set_frequency fl ops ppm o' =
     (let now_roclock = ck_now ops (oc_roclock o');
          now_local = time_from_underlying fl now_roclock o'
      in (Some now_local, o'\<lparr>
            oc_shift := time_diff (fl_num fl) now_local now_roclock,
            oc_last_sync := now_roclock,
            oc_freq_scale_ppm_diff := ppm\<rparr>))"

definition overlay_step_clock ::
  "'f floatlib \<Rightarrow> ('f, 'c) clock_ops \<Rightarrow> duration \<Rightarrow> ('f, 'c) overlay_clock \<Rightarrow> time option \<times> ('f, 'c) overlay_clock" where
  "overlay_step_clock fl ops offset o' =
     (let now = ck_now ops (oc_roclock o');
          multiplier = fadd fl (fl_lit fl 1000000) (oc_freq_scale_ppm_diff o');
          reciprocal = fl_div fl (fl_lit fl 1000000) multiplier;
          o1 = o'\<lparr>oc_last_sync := now,
            oc_shift := duration_add (fl_num fl) (oc_shift o') (duration_mul_f64 (fl_num fl) offset reciprocal)\<rparr>
      in (Some (time_from_underlying fl now o1), o1))"

definition overlay_set_properties ::
  "time_properties_ds \<Rightarrow> ('f, 'c) overlay_clock \<Rightarrow> bool \<times> ('f, 'c) overlay_clock" where
  "overlay_set_properties time_properties_ds o' = (True, o')"

definition overlay_ops :: "'f floatlib \<Rightarrow> ('f, 'c) clock_ops \<Rightarrow> ('f, ('f, 'c) overlay_clock) clock_ops" where
  "overlay_ops fl ops = \<lparr>
     ck_now = overlay_now fl ops,
     ck_step_clock = overlay_step_clock fl ops,
     ck_set_frequency = overlay_set_frequency fl ops,
     ck_set_properties = overlay_set_properties\<rparr>"

section \<open>SharedClock\<close>

text \<open>The mutexes of an application are a store; a \<open>SharedClock\<close> is a reference into it. Locking a
  poisoned mutex returns an error, which \<open>unwrap\<close> turns into a panic.\<close>

record 'c mutex =
  mx_clock :: 'c
  mx_poisoned :: bool

type_synonym 'c clock_store = "'c mutex list"
type_synonym shared_clock = nat

definition shared_new :: "'c \<Rightarrow> 'c clock_store \<Rightarrow> shared_clock \<times> 'c clock_store" where
  "shared_new clock store = (length store, store @ [\<lparr>mx_clock = clock, mx_poisoned = False\<rparr>])"

definition shared_clone :: "shared_clock \<Rightarrow> shared_clock" where
  "shared_clone s = s"

definition with_lock :: "shared_clock \<Rightarrow> ('c \<Rightarrow> 'a \<times> 'c) \<Rightarrow> 'c clock_store \<Rightarrow> ('a \<times> 'c clock_store) res" where
  "with_lock s f store =
     andthen (index s store) (\<lambda>m.
     if mx_poisoned m then panic
     else let (r, clock) = f (mx_clock m) in Ok (r, store[s := m\<lparr>mx_clock := clock\<rparr>]))"

definition shared_now :: "('f, 'c) clock_ops \<Rightarrow> shared_clock \<Rightarrow> 'c clock_store \<Rightarrow> (time \<times> 'c clock_store) res" where
  "shared_now ops s = with_lock s (\<lambda>c. (ck_now ops c, c))"

definition shared_set_frequency ::
  "('f, 'c) clock_ops \<Rightarrow> 'f \<Rightarrow> shared_clock \<Rightarrow> 'c clock_store \<Rightarrow> (time option \<times> 'c clock_store) res" where
  "shared_set_frequency ops ppm s = with_lock s (ck_set_frequency ops ppm)"

definition shared_step_clock ::
  "('f, 'c) clock_ops \<Rightarrow> duration \<Rightarrow> shared_clock \<Rightarrow> 'c clock_store \<Rightarrow> (time option \<times> 'c clock_store) res" where
  "shared_step_clock ops offset s = with_lock s (ck_step_clock ops offset)"

definition shared_set_properties ::
  "('f, 'c) clock_ops \<Rightarrow> time_properties_ds \<Rightarrow> shared_clock \<Rightarrow> 'c clock_store \<Rightarrow> (bool \<times> 'c clock_store) res" where
  "shared_set_properties ops tp s = with_lock s (ck_set_properties ops tp)"

section \<open>A reference library on real numbers\<close>

definition floatlib_real :: "real floatlib" where
  "floatlib_real = \<lparr>
     fl_num = numlib_exact,
     fl_lit = of_rat,
     fl_of_fx = (\<lambda>d. of_int d / 2 ^ 32),
     fl_sub = (-), fl_div = (/), fl_neg = uminus, fl_abs = abs,
     fl_signum = (\<lambda>x. if 0 \<le> x then 1 else - 1),
     fl_sqrt = sqrt, fl_exp = exp, fl_max = max, fl_lt = (<), fl_le = (\<le>)\<rparr>"

lemma floatlib_real_num [simp]: "fl_num floatlib_real = numlib_exact"
  by (simp add: floatlib_real_def)

section \<open>What a change of the overlay clock does to its time\<close>

text \<open>The law of the \<open>fixed\<close> crate that the overlay clock relies on: a product with zero is zero.\<close>

locale overlay_arith = fixed_point lib for lib :: "'f numlib" +
  assumes mul_zero: "fx_mul lib I96F32 0 x = 0"
begin

lemma zero_correction:
  assumes "0 \<le> oc_last_sync c" "oc_last_sync c < 2 ^ 127" "fl_num fl = lib"
  shows "overlay_correction fl (oc_last_sync c) c = 0"
proof -
  have "in_range I96F32 (1000000 * 2 ^ 32)" "in_range I96F32 0" by simp_all
  then have "\<bar>fx_div lib I96F32 0 (1000000 * 2 ^ 32) * 1000000 - 0\<bar> < 1000000"
    using div_int [of I96F32 0 1000000] by (simp del: in_range.simps)
  then have "fx_div lib I96F32 0 (1000000 * 2 ^ 32) = 0" by arith
  then show ?thesis
    using assms by (simp add: overlay_correction_def Let_def time_diff_exact duration_mul_f64_def mul_zero
      duration_div_int_def fit)
qed

lemma synced_time:
  assumes "0 \<le> oc_last_sync c" "oc_last_sync c < 2 ^ 127" "fl_num fl = lib"
    and "0 \<le> oc_last_sync c + oc_shift c" "oc_last_sync c + oc_shift c < 2 ^ 127"
  shows "time_from_underlying fl (oc_last_sync c) c = oc_last_sync c + oc_shift c"
  using assms by (simp add: time_from_underlying_def zero_correction time_add_exact)

end

interpretation overlay_exact: overlay_arith "numlib_exact :: 'f::floor_ceiling numlib"
  by unfold_locales (simp add: numlib_exact_def)

section \<open>Properties\<close>

text \<open>Changing the frequency of an overlay clock does not make its time jump: at the instant of
  the change the clock shows the same time before and after, which is also the time it reports (the
  \<open>debug_assert\<close> in the code).\<close>

theorem overlay_set_frequency_continuous:
  assumes "overlay_arith (fl_num fl)"
    and "0 \<le> ck_now ops (oc_roclock c)" "ck_now ops (oc_roclock c) < 2 ^ 127"
    and "0 \<le> overlay_now fl ops c" "overlay_now fl ops c < 2 ^ 127"
  shows "fst (overlay_set_frequency fl ops ppm c) = Some (overlay_now fl ops c)
    \<and> overlay_now fl ops (snd (overlay_set_frequency fl ops ppm c)) = overlay_now fl ops c"
proof -
  let ?t = "ck_now ops (oc_roclock c)"
  let ?c = "snd (overlay_set_frequency fl ops ppm c)"
  have c: "oc_last_sync ?c = ?t" "oc_roclock ?c = oc_roclock c"
      "oc_shift ?c = time_diff (fl_num fl) (overlay_now fl ops c) ?t"
    by (simp_all add: overlay_set_frequency_def Let_def overlay_now_def)
  have "time_diff (fl_num fl) (overlay_now fl ops c) ?t = overlay_now fl ops c - ?t"
    using assms by (intro fixed_point.time_diff_exact overlay_arith.axioms(1))
  then have "time_from_underlying fl (oc_last_sync ?c) ?c = overlay_now fl ops c"
    using overlay_arith.synced_time [OF assms(1), of ?c fl] assms c by simp
  then show ?thesis
    using c by (simp add: overlay_now_def overlay_set_frequency_def Let_def)
qed

text \<open>An overlay clock over a clock that shows \<open>2 ^ 110\<close>, ten seconds after its last change, that
  runs 100 ppm fast.\<close>

definition fixed_clock :: "(real, time) clock_ops" where
  "fixed_clock = \<lparr>ck_now = (\<lambda>t. t), ck_step_clock = (\<lambda>d t. (None, t)),
     ck_set_frequency = (\<lambda>f t. (None, t)), ck_set_properties = (\<lambda>tp t. (False, t))\<rparr>"

definition example_overlay :: "(real, time) overlay_clock" where
  "example_overlay = \<lparr>oc_roclock = 2 ^ 110, oc_last_sync = 2 ^ 110 - 10000000000 * 2 ^ 32, oc_shift = 0,
     oc_freq_scale_ppm_diff = 100\<rparr>"

lemma example_overlay_simps [simp]:
  "ck_now fixed_clock t = t" "oc_roclock example_overlay = 2 ^ 110" "oc_shift example_overlay = 0"
  by (simp_all add: fixed_clock_def example_overlay_def)

lemma overlay_arith_real: "overlay_arith (fl_num floatlib_real)"
  using overlay_exact.overlay_arith_axioms by simp

lemma round_numeral_real: "round (numeral n :: real) = numeral n"
  using round_of_int [of "numeral n"] by simp

lemma example_overlay_correction:
  "overlay_correction floatlib_real (ck_now fixed_clock (oc_roclock example_overlay)) example_overlay = 1000000 * 2 ^ 32"
  by (simp add: overlay_correction_def example_overlay_def fixed_clock_def Let_def time_diff_def
    duration_sub_def duration_add_def duration_neg_def duration_mul_f64_def duration_div_int_def numlib_exact_def
    round_numeral_real trunc_div_def)

lemma example_overlay_now:
  "overlay_now floatlib_real fixed_clock example_overlay = 2 ^ 110 + 1000000 * 2 ^ 32"
  using example_overlay_correction
  by (simp add: overlay_now_def time_from_underlying_def time_add_def example_overlay_def fixed_clock_def numlib_exact_def)

theorem overlay_set_frequency_continuous_witness:
  "overlay_now floatlib_real fixed_clock (snd (overlay_set_frequency floatlib_real fixed_clock 50 example_overlay))
    = 2 ^ 110 + 1000000 * 2 ^ 32"
  using overlay_set_frequency_continuous [OF overlay_arith_real, of fixed_clock example_overlay 50]
  by (simp add: example_overlay_now)

text \<open>Stepping an overlay clock drops the frequency correction that it has accumulated since its
  last change: its time changes by the scaled offset less that correction, and not by the offset.
  With no accumulated correction it changes by the scaled offset.\<close>

theorem overlay_step_drops_correction:
  assumes "overlay_arith (fl_num fl)"
    and "0 \<le> ck_now ops (oc_roclock c)" "ck_now ops (oc_roclock c) < 2 ^ 126"
    and "\<bar>oc_shift c\<bar> < 2 ^ 100" "\<bar>d\<bar> < 2 ^ 100" "\<bar>overlay_correction fl (ck_now ops (oc_roclock c)) c\<bar> < 2 ^ 100"
    and "2 ^ 102 \<le> ck_now ops (oc_roclock c)"
    and "d = duration_mul_f64 (fl_num fl) offset
      (fl_div fl (fl_lit fl 1000000) (fadd fl (fl_lit fl 1000000) (oc_freq_scale_ppm_diff c)))"
  shows "overlay_now fl ops (snd (overlay_step_clock fl ops offset c))
    = overlay_now fl ops c + d - overlay_correction fl (ck_now ops (oc_roclock c)) c"
proof -
  let ?t = "ck_now ops (oc_roclock c)"
  let ?c = "snd (overlay_step_clock fl ops offset c)"
  note fp = overlay_arith.axioms(1) [OF assms(1)]
  have "in_range I96F32 (oc_shift c + d)" using assms(4,5) by auto
  then have add: "duration_add (fl_num fl) (oc_shift c) d = oc_shift c + d"
    by (rule fixed_point.duration_add_exact [OF fp])
  have c: "oc_last_sync ?c = ?t" "oc_roclock ?c = oc_roclock c" "oc_shift ?c = oc_shift c + d"
    unfolding add [symmetric] by (simp_all add: overlay_step_clock_def Let_def assms(8))
  have "time_from_underlying fl (oc_last_sync ?c) ?c = ?t + oc_shift c + d"
    using overlay_arith.synced_time [OF assms(1), of ?c fl] assms(2-7) c by simp
  moreover have "time_from_underlying fl ?t c = ?t + oc_shift c + overlay_correction fl ?t c"
  proof -
    have "in_range U96F32 (?t + oc_shift c)" "in_range U96F32 (?t + oc_shift c + overlay_correction fl ?t c)"
      using assms(2-7) by auto
    then show ?thesis by (simp add: time_from_underlying_def fixed_point.time_add_exact [OF fp])
  qed
  ultimately show ?thesis using c by (simp add: overlay_now_def)
qed

theorem overlay_step_drops_correction_witness:
  "overlay_now floatlib_real fixed_clock (snd (overlay_step_clock floatlib_real fixed_clock 0 example_overlay))
    = overlay_now floatlib_real fixed_clock example_overlay - 1000000 * 2 ^ 32"
  using overlay_step_drops_correction [OF overlay_arith_real, of fixed_clock example_overlay 0 0]
    example_overlay_correction
  by (simp add: duration_mul_f64_def numlib_exact_def)

text \<open>Clones of a shared clock share it, and different clocks do not interfere: what is done
  through a clone is seen through the original, is what the clock itself does, and leaves every other
  clock as it was; a call panics only on a clock whose mutex is poisoned.\<close>

theorem shared_clock_sharing:
  assumes "s < length store"
  shows "(mx_poisoned (store ! s) \<longrightarrow> shared_set_frequency ops ppm (shared_clone s) store = panic)
    \<and> (\<not> mx_poisoned (store ! s) \<longrightarrow>
        (\<exists>store'. shared_set_frequency ops ppm (shared_clone s) store
            = Ok (fst (ck_set_frequency ops ppm (mx_clock (store ! s))), store')
          \<and> shared_now ops s store' = Ok (ck_now ops (snd (ck_set_frequency ops ppm (mx_clock (store ! s)))), store')
          \<and> (\<forall>s'. s' \<noteq> s \<longrightarrow> store' ! s' = store ! s')))"
  using assms
  by (auto simp: shared_set_frequency_def shared_now_def shared_clone_def with_lock_def index_def split_beta Let_def)

theorem shared_clock_sharing_witness:
  "\<exists>store'. shared_set_frequency fixed_clock 3 (shared_clone 0) (snd (shared_new 5 [])) = Ok (None, store')"
  using shared_clock_sharing [of 0 "snd (shared_new 5 [])" fixed_clock 3]
  by (auto simp: shared_new_def fixed_clock_def)

end
