(* ===== verification/Filters.thy ===== *)
theory Filters
  imports PortTypes
begin

text \<open>
  The trait \<open>Filter\<close> (\<open>statime/src/filters/mod.rs\<close>) as a contract: a port hands its filter
  measurements, and calls \<open>update\<close> when a timer that the filter asked for expires. A filter that
  keeps an invariant over each call survives every sequence of calls; the basic filter and the
  Kalman filter are shown to satisfy the contract.
\<close>

text \<open>A sequence of calls; \<open>None\<close> is a call of \<open>update\<close>.\<close>

fun filter_run ::
  "(measurement \<Rightarrow> 'q \<Rightarrow> 'c \<Rightarrow> ('q \<times> 'c \<times> filter_update) res) \<Rightarrow> ('q \<Rightarrow> 'c \<Rightarrow> 'q \<times> 'c \<times> filter_update) \<Rightarrow>
   measurement option list \<Rightarrow> 'q \<times> 'c \<Rightarrow> ('q \<times> 'c) res" where
  "filter_run meas update [] qc = Ok qc"
| "filter_run meas update (None # ms) (q, c) =
     (let (q', c', _) = update q c in filter_run meas update ms (q', c'))"
| "filter_run meas update (Some m # ms) (q, c) =
     andthen (meas m q c) (\<lambda>(q', c', _). filter_run meas update ms (q', c'))"

locale filter_contract =
  fixes meas :: "measurement \<Rightarrow> 'q \<Rightarrow> 'c \<Rightarrow> ('q \<times> 'c \<times> filter_update) res"
    and update :: "'q \<Rightarrow> 'c \<Rightarrow> 'q \<times> 'c \<times> filter_update"
    and inv :: "'q \<times> 'c \<Rightarrow> bool"
    and sane :: "measurement \<Rightarrow> bool"
  assumes measure_ok: "inv (q, c) \<Longrightarrow> sane m \<Longrightarrow> \<exists>q' c' u. meas m q c = Ok (q', c', u) \<and> inv (q', c')"
    and update_ok: "inv (q, c) \<Longrightarrow> update q c = (q', c', u) \<Longrightarrow> inv (q', c')"
begin

lemma run_ok:
  assumes "inv qc" and "list_all (pred_option sane) ms"
  shows "\<exists>qc'. filter_run meas update ms qc = Ok qc' \<and> inv qc'"
  using assms
proof (induction ms arbitrary: qc)
  case (Cons m ms)
  obtain q c where qc: "qc = (q, c)" by fastforce
  show ?case
  proof (cases m)
    case None
    obtain q' c' u where u: "update q c = (q', c', u)" by (metis prod_cases3)
    then have "inv (q', c')" using update_ok Cons.prems(1) qc by blast
    then show ?thesis using Cons.IH [of "(q', c')"] Cons.prems(2) None qc u by simp
  next
    case (Some m')
    then obtain q' c' u where m: "meas m' q c = Ok (q', c', u)" "inv (q', c')"
      using measure_ok [of q c m'] Cons.prems qc by auto
    then show ?thesis using Cons.IH [of "(q', c')"] Cons.prems(2) Some qc by simp
  qed
qed simp

end

end
