(* ===== verification/BasicFilter.thy ===== *)
theory BasicFilter
  imports Clocks Port Filters
begin

text \<open>
  \<open>statime/src/filters/basic.rs\<close>: the averaging filter. A measurement of the offset steps the
  clock back by a part of the offset and adapts its frequency; both are limited by a confidence that
  shrinks when measurements agree and doubles when they do not. The locale \<open>basic_arith\<close> states
  what the arithmetic has to satisfy for a gain between 0 and 1: a damped value lies between 0 and the
  value, and the confidences stay non-negative. Under it a measurement never panics and never steps
  the clock beyond the offset.
\<close>

record prev_step_data =
  ps_event_time :: time
  ps_offset :: duration
  ps_correction :: duration

record 'f basic_filter =
  bf_last_step :: "prev_step_data option"
  bf_offset_confidence :: duration
  bf_freq_confidence :: 'f
  bf_gain :: 'f
  bf_cur_freq :: 'f
  bf_last_offset :: duration
  bf_last_delay :: duration

definition basic_new :: "'f floatlib \<Rightarrow> 'f \<Rightarrow> 'f basic_filter" where
  "basic_new fl gain = \<lparr>
     bf_last_step = None,
     bf_offset_confidence = duration_from_nanos (fl_num fl) 1000000000,
     bf_freq_confidence = fl_lit fl (1 / 10000),
     bf_gain = gain,
     bf_cur_freq = fl_lit fl 0,
     bf_last_offset = duration_ZERO,
     bf_last_delay = duration_ZERO\<rparr>"

text \<open>The delays of a measurement: the later of the two assignments wins.\<close>

definition basic_delays :: "measurement \<Rightarrow> 'f basic_filter \<Rightarrow> 'f basic_filter \<times> filter_update" where
  "basic_delays m f =
     (let (f1, u1) =
            (case me_delay m of
               None \<Rightarrow> (f, \<lparr>up_next_update = None, up_mean_delay = None\<rparr>)
             | Some delay \<Rightarrow> (f\<lparr>bf_last_delay := delay\<rparr>, \<lparr>up_next_update = None, up_mean_delay = Some delay\<rparr>))
      in case me_peer_delay m of
           None \<Rightarrow> (f1, u1)
         | Some peer_delay \<Rightarrow> (f1\<lparr>bf_last_delay := peer_delay\<rparr>, u1\<lparr>up_mean_delay := Some peer_delay\<rparr>))"

text \<open>The clamped offset and the new confidence in offsets.\<close>

definition basic_clamp_offset :: "'f floatlib \<Rightarrow> duration \<Rightarrow> 'f basic_filter \<Rightarrow> (duration \<times> 'f basic_filter) res" where
  "basic_clamp_offset fl offset f =
     (let lib = fl_num fl; confidence = bf_offset_confidence f in
      if confidence < duration_abs lib offset then
        andthen (duration_clamp offset (duration_neg lib confidence) confidence) (\<lambda>clamped.
        Ok (clamped, f\<lparr>bf_offset_confidence := duration_mul_int lib confidence 2\<rparr>))
      else
        Ok (offset, f\<lparr>bf_offset_confidence := duration_sub lib confidence
              (duration_mul_f64 lib (duration_sub lib confidence (duration_abs lib offset)) (bf_gain f))\<rparr>))"

text \<open>The change of the frequency from two consecutive measurements, and the new confidence in it.\<close>

definition basic_frequency ::
  "'f floatlib \<Rightarrow> time \<Rightarrow> duration \<Rightarrow> prev_step_data \<Rightarrow> 'f basic_filter \<Rightarrow> ('f \<times> 'f basic_filter) res" where
  "basic_frequency fl event_time offset last_step f =
     (let lib = fl_num fl;
          one = fl_lit fl 1;
          interval_local = fl_of_fx fl (duration_sub lib
            (time_diff lib event_time (ps_event_time last_step)) (ps_correction last_step));
          interval_master = fl_of_fx fl (time_diff lib (time_sub lib event_time offset)
            (time_sub lib (ps_event_time last_step) (ps_offset last_step)));
          freq_diff = fl_div fl interval_local interval_master;
          confidence = bf_freq_confidence f;
          deviation = fl_abs fl (fl_sub fl freq_diff one)
      in andthen
           (if fl_lt fl confidence deviation then
              andthen (fl_clamp fl freq_diff (fl_sub fl one confidence) (fadd fl one confidence)) (\<lambda>clamped.
              Ok (clamped, f\<lparr>bf_freq_confidence := fmul fl confidence (fl_lit fl 2)\<rparr>))
            else Ok (freq_diff, f\<lparr>bf_freq_confidence :=
                   fl_sub fl confidence (fmul fl (fl_sub fl confidence deviation) (bf_gain f))\<rparr>)) (\<lambda>(freq_diff', f').
         Ok (fmul fl (fmul fl (fmul fl (fl_neg fl (fl_sub fl freq_diff' one)) (bf_gain f)) (fl_lit fl (1 / 10)))
               (fl_lit fl 1000000), f')))"

text \<open>A measurement with an offset that is not too large.\<close>

definition basic_steer ::
  "'f floatlib \<Rightarrow> ('f, 'c) clock_ops \<Rightarrow> time \<Rightarrow> duration \<Rightarrow> 'f basic_filter \<Rightarrow> 'c \<Rightarrow> ('f basic_filter \<times> 'c) res" where
  "basic_steer fl ops event_time offset f clock =
     andthen (basic_clamp_offset fl offset f) (\<lambda>(clamped_offset, f1).
     let correction = duration_mul_f64 (fl_num fl) (duration_neg (fl_num fl) clamped_offset) (bf_gain f) in
     andthen (case bf_last_step f1 of
                Some last_step \<Rightarrow>
                  andthen (basic_frequency fl event_time offset last_step f1) (\<lambda>(freq_corr, f2).
                  Ok (freq_corr, f2, clock))
              | None \<Rightarrow>
                  Ok (fl_lit fl 0, f1\<lparr>bf_cur_freq := fl_lit fl 0\<rparr>, snd (ck_set_frequency ops (fl_lit fl 0) clock)))
       (\<lambda>(freq_corr, f3, clock1).
     let f4 = f3\<lparr>bf_last_step := Some \<lparr>ps_event_time = event_time, ps_offset = offset, ps_correction = correction\<rparr>\<rparr>;
         clock2 = snd (ck_step_clock ops correction clock1);
         freq = fadd fl (bf_cur_freq f4) freq_corr;
         (result, clock3) = ck_set_frequency ops freq clock2
     in Ok (if result = None then f4 else f4\<lparr>bf_cur_freq := freq\<rparr>, clock3)))"

definition basic_measurement ::
  "'f floatlib \<Rightarrow> ('f, 'c) clock_ops \<Rightarrow> measurement \<Rightarrow> 'f basic_filter \<Rightarrow> 'c \<Rightarrow>
   ('f basic_filter \<times> 'c \<times> filter_update) res" where
  "basic_measurement fl ops m f clock =
     (let (f1, update) = basic_delays m f in
      case me_offset m of
        None \<Rightarrow> Ok (f1, clock, update)
      | Some offset \<Rightarrow>
          let lib = fl_num fl; f2 = f1\<lparr>bf_last_offset := offset\<rparr> in
          if duration_from_nanos lib 1000000000 < duration_abs lib offset then
            Ok (f2\<lparr>bf_offset_confidence := duration_from_nanos lib 1000000000,
                   bf_freq_confidence := fl_lit fl (1 / 10000)\<rparr>,
                snd (ck_step_clock ops (duration_neg lib offset) clock), update)
          else
            andthen (basic_steer fl ops (me_event_time m) offset f2 clock) (\<lambda>(f3, clock').
            Ok (f3, clock', update)))"

definition basic_demobilize :: "'f basic_filter \<Rightarrow> 'c \<Rightarrow> 'c" where
  "basic_demobilize f clock = clock"

definition basic_update :: "'f basic_filter \<Rightarrow> 'c \<Rightarrow> 'f basic_filter \<times> 'c \<times> filter_update" where
  "basic_update f clock = (f, clock, \<lparr>up_next_update = None, up_mean_delay = None\<rparr>)"

definition basic_current_estimates :: "'f basic_filter \<Rightarrow> filter_estimate" where
  "basic_current_estimates f =
     \<lparr>fe_offset_from_master = bf_last_offset f, fe_mean_delay = bf_last_delay f\<rparr>"

section \<open>The arithmetic\<close>

locale basic_arith = fixed_point "fl_num fl" for fl :: "'f floatlib" +
  fixes gain :: 'f
  assumes damp: "in_range I96F32 d \<Longrightarrow>
      min 0 d \<le> duration_mul_f64 (fl_num fl) d gain \<and> duration_mul_f64 (fl_num fl) d gain \<le> max 0 d"
    and confidence_init: "\<not> fl_lt fl (fl_lit fl (1 / 10000)) (fl_lit fl 0)"
    and confidence_double: "\<not> fl_lt fl x (fl_lit fl 0) \<Longrightarrow> \<not> fl_lt fl (fmul fl x (fl_lit fl 2)) (fl_lit fl 0)"
    and confidence_shrink: "\<not> fl_lt fl x (fl_lit fl 0) \<Longrightarrow> \<not> fl_lt fl x (fl_abs fl y) \<Longrightarrow>
      \<not> fl_lt fl (fl_sub fl x (fmul fl (fl_sub fl x (fl_abs fl y)) gain)) (fl_lit fl 0)"
    and confidence_bounds: "\<not> fl_lt fl x (fl_lit fl 0) \<Longrightarrow> fl_lt fl x (fl_abs fl y) \<Longrightarrow>
      fl_le fl (fl_sub fl (fl_lit fl 1) x) (fadd fl (fl_lit fl 1) x)"

lemma damp_exact:
  fixes d r :: int
  assumes "0 \<le> r" "r \<le> 2 ^ 32"
  shows "min 0 d \<le> d * r div 2 ^ 32 \<and> d * r div 2 ^ 32 \<le> max 0 d"
proof (cases "0 \<le> d")
  case True
  have "d * r \<le> d * 2 ^ 32" using True assms(2) by (rule mult_left_mono [rotated])
  then have "d * r div 2 ^ 32 \<le> d * 2 ^ 32 div 2 ^ 32" by (rule zdiv_mono1) simp
  then show ?thesis using True assms(1) by (simp add: pos_imp_zdiv_nonneg_iff)
next
  case False
  have "d * 2 ^ 32 \<le> d * r" using False assms(2) by (intro mult_left_mono_neg) auto
  then have "d * 2 ^ 32 div 2 ^ 32 \<le> d * r div 2 ^ 32" by (rule zdiv_mono1) simp
  moreover have "d * r \<le> 0" using False assms(1) by (simp add: mult_nonpos_nonneg)
  then have "d * r div 2 ^ 32 \<le> 0 div 2 ^ 32" by (rule zdiv_mono1) simp
  ultimately show ?thesis using False by simp
qed

lemma basic_arith_real:
  assumes "0 \<le> g" "g \<le> 1"
  shows "basic_arith floatlib_real g"
proof -
  have damp: "min 0 d \<le> duration_mul_f64 numlib_exact d g \<and> duration_mul_f64 numlib_exact d g \<le> max 0 d"
    if d: "in_range I96F32 d" for d
  proof -
    let ?r = "round (g * 2 ^ 32)"
    have "round (0 :: real) \<le> ?r" using assms by (intro round_mono) simp
    moreover have "?r \<le> round (of_int (2 ^ 32) :: real)" using assms by (intro round_mono) simp
    ultimately have r: "0 \<le> ?r" "?r \<le> 2 ^ 32" by (simp_all only: round_of_int round_0)
    then have w: "in_range I96F32 ?r" by simp
    have "in_range I96F32 (d * ?r div 2 ^ 32)" using damp_exact [OF r, of d] d by auto
    then show ?thesis
      using w damp_exact [OF r, of d]
      by (simp add: duration_mul_f64_def numlib_exact_def wrap_fmt_id del: in_range.simps wrap_fmt.simps)
  qed
  have shrink: "0 \<le> x - (x - \<bar>y\<bar>) * g" if "0 \<le> x" "\<bar>y\<bar> \<le> x" for x y :: real
  proof -
    have "(x - \<bar>y\<bar>) * g \<le> (x - \<bar>y\<bar>) * 1" using that assms by (intro mult_left_mono) auto
    then show ?thesis using that by simp
  qed
  have fp: "fixed_point (fl_num floatlib_real)" using num_exact.fixed_point_axioms by simp
  show ?thesis
  proof (intro basic_arith.intro basic_arith_axioms.intro fp)
    show "min 0 d \<le> duration_mul_f64 (fl_num floatlib_real) d g
        \<and> duration_mul_f64 (fl_num floatlib_real) d g \<le> max 0 d" if "in_range I96F32 d" for d
      using damp [OF that] by simp
  qed (use shrink in \<open>auto simp: floatlib_real_def numlib_exact_def of_rat_divide not_less\<close>)
qed

section \<open>The invariant\<close>

text \<open>The confidence in offsets stays between 0 and two seconds, the confidence in frequencies is not
  negative.\<close>

definition basic_inv :: "'f floatlib \<Rightarrow> 'f \<Rightarrow> 'f basic_filter \<Rightarrow> bool" where
  "basic_inv fl gain f \<longleftrightarrow> bf_gain f = gain
     \<and> 0 \<le> bf_offset_confidence f \<and> bf_offset_confidence f \<le> 2000000000 * 2 ^ 32
     \<and> \<not> fl_lt fl (bf_freq_confidence f) (fl_lit fl 0)"

context basic_arith
begin

lemma one_second: "duration_from_nanos (fl_num fl) 1000000000 = 1000000000 * 2 ^ 32"
  by (simp add: duration_from_nanos_def fit)

lemma basic_inv_new: "basic_inv fl gain (basic_new fl gain)"
  using confidence_init by (simp add: basic_inv_def basic_new_def one_second)

lemma basic_inv_delays: "basic_inv fl gain (fst (basic_delays m f)) \<longleftrightarrow> basic_inv fl gain f"
  by (simp add: basic_inv_def basic_delays_def split: option.split)

lemma clamp_offset_ok:
  assumes "basic_inv fl gain f" and "\<bar>offset\<bar> \<le> 1000000000 * 2 ^ 32"
  shows "\<exists>clamped c. basic_clamp_offset fl offset f = Ok (clamped, f\<lparr>bf_offset_confidence := c\<rparr>)
    \<and> 0 \<le> c \<and> c \<le> 2000000000 * 2 ^ 32 \<and> \<bar>clamped\<bar> \<le> bf_offset_confidence f
    \<and> min 0 offset \<le> clamped \<and> clamped \<le> max 0 offset"
proof -
  let ?c = "bf_offset_confidence f" and ?lib = "fl_num fl"
  have c: "0 \<le> ?c" "?c \<le> 2000000000 * 2 ^ 32" and g: "bf_gain f = gain"
    using assms(1) by (simp_all add: basic_inv_def)
  have abs: "duration_abs ?lib offset = \<bar>offset\<bar>" and neg: "duration_neg ?lib ?c = - ?c"
    using assms(2) c by (simp_all add: duration_abs_def duration_neg_def fit)
  show ?thesis
  proof (cases "?c < \<bar>offset\<bar>")
    case True
    have "duration_mul_int ?lib ?c 2 = ?c * 2"
      using mul_int [of I96F32 ?c 2] fit [of I96F32 "2 * 2 ^ 32"] c by (simp add: duration_mul_int_def)
    then show ?thesis
      using True c assms(2) by (auto simp: basic_clamp_offset_def Let_def abs neg duration_clamp_def)
  next
    case False
    let ?d = "?c - \<bar>offset\<bar>"
    have sub: "duration_sub ?lib ?c \<bar>offset\<bar> = ?d"
      using c assms(2) by (intro duration_sub_exact) auto
    have "in_range I96F32 ?d" using c assms(2) by auto
    then have m: "min 0 ?d \<le> duration_mul_f64 ?lib ?d gain" "duration_mul_f64 ?lib ?d gain \<le> max 0 ?d"
      using damp by blast+
    then have "duration_sub ?lib ?c (duration_mul_f64 ?lib ?d gain) = ?c - duration_mul_f64 ?lib ?d gain"
      using c False assms(2) by (intro duration_sub_exact) auto
    then show ?thesis
      using False c m assms(2) by (auto simp: basic_clamp_offset_def Let_def abs sub g)
  qed
qed

lemma frequency_ok:
  assumes "\<not> fl_lt fl (bf_freq_confidence f) (fl_lit fl 0)" and "bf_gain f = gain"
  shows "\<exists>corr c. basic_frequency fl t offset last_step f = Ok (corr, f\<lparr>bf_freq_confidence := c\<rparr>)
    \<and> \<not> fl_lt fl c (fl_lit fl 0)"
  using assms confidence_double [OF assms(1)] confidence_shrink [OF assms(1)] confidence_bounds [OF assms(1)]
  by (auto simp: basic_frequency_def Let_def fl_clamp_def)

text \<open>Steering: the correction lies between 0 and the opposite of the offset.\<close>

lemma steer_ok:
  assumes "basic_inv fl gain f" and "\<bar>offset\<bar> \<le> 1000000000 * 2 ^ 32"
  shows "\<exists>f' correction freq clock1. basic_steer fl ops t offset f clock
      = Ok (f', snd (ck_set_frequency ops freq (snd (ck_step_clock ops correction clock1))))
    \<and> (clock1 = clock \<or> bf_last_step f = None \<and> clock1 = snd (ck_set_frequency ops (fl_lit fl 0) clock))
    \<and> min 0 (- offset) \<le> correction \<and> correction \<le> max 0 (- offset)
    \<and> \<bar>correction\<bar> \<le> bf_offset_confidence f
    \<and> basic_inv fl gain f' \<and> bf_last_offset f' = bf_last_offset f \<and> bf_last_delay f' = bf_last_delay f"
proof -
  obtain clamped c where c: "basic_clamp_offset fl offset f = Ok (clamped, f\<lparr>bf_offset_confidence := c\<rparr>)"
      "0 \<le> c" "c \<le> 2000000000 * 2 ^ 32" "\<bar>clamped\<bar> \<le> bf_offset_confidence f"
      "min 0 offset \<le> clamped" "clamped \<le> max 0 offset"
    using clamp_offset_ok [OF assms] by blast
  let ?f = "f\<lparr>bf_offset_confidence := c\<rparr>"
  have g: "bf_gain f = gain" and fc: "\<not> fl_lt fl (bf_freq_confidence ?f) (fl_lit fl 0)"
    using assms(1) by (simp_all add: basic_inv_def)
  have neg: "duration_neg (fl_num fl) clamped = - clamped" "in_range I96F32 (- clamped)"
    using c(5,6) assms(2) by (auto simp: duration_neg_def fit min_def max_def split: if_splits)
  define correction where "correction = duration_mul_f64 (fl_num fl) (- clamped) gain"
  have bounds: "min 0 (- clamped) \<le> correction" "correction \<le> max 0 (- clamped)"
    using damp [OF neg(2)] by (simp_all add: correction_def)
  then have corr: "min 0 (- offset) \<le> correction" "correction \<le> max 0 (- offset)"
      "\<bar>correction\<bar> \<le> bf_offset_confidence f"
    using c(4,5,6) by (auto simp: min_def max_def split: if_splits)
  show ?thesis
  proof (cases "bf_last_step f")
    case None
    then show ?thesis
      using c neg corr assms(1) g
      by (auto simp: basic_steer_def Let_def correction_def [symmetric] basic_inv_def split_beta)
  next
    case (Some last_step)
    obtain x d where "basic_frequency fl t offset last_step ?f = Ok (x, ?f\<lparr>bf_freq_confidence := d\<rparr>)"
        "\<not> fl_lt fl d (fl_lit fl 0)"
      using frequency_ok [OF fc, of t offset last_step] g by auto
    then show ?thesis
      using Some c neg corr assms(1) g
      by (auto simp: basic_steer_def Let_def correction_def [symmetric] basic_inv_def split_beta)
  qed
qed

end

interpretation basic_quarter: basic_arith floatlib_real "1 / 4"
  by (rule basic_arith_real) simp_all

section \<open>A measurement\<close>

lemma basic_measurement_ok:
  assumes "basic_arith fl gain" and "basic_inv fl gain f"
    and "pred_option (\<lambda>offset. \<bar>offset\<bar> < 2 ^ 127) (me_offset m)"
  shows "\<exists>f' clock' update. basic_measurement fl ops m f clock = Ok (f', clock', update)
    \<and> basic_inv fl gain f'
    \<and> (case me_offset m of
         None \<Rightarrow> clock' = clock
       | Some offset \<Rightarrow> fe_offset_from_master (basic_current_estimates f') = offset
           \<and> (if 1000000000 * 2 ^ 32 < \<bar>offset\<bar> then clock' = snd (ck_step_clock ops (- offset) clock)
              else \<exists>correction freq clock1.
                clock' = snd (ck_set_frequency ops freq (snd (ck_step_clock ops correction clock1)))
                \<and> (clock1 = clock \<or> bf_last_step f = None \<and> clock1 = snd (ck_set_frequency ops (fl_lit fl 0) clock))
                \<and> min 0 (- offset) \<le> correction \<and> correction \<le> max 0 (- offset)
                \<and> \<bar>correction\<bar> \<le> bf_offset_confidence f))"
proof (cases "me_offset m")
  case None
  then show ?thesis
    using assms basic_arith.basic_inv_delays [OF assms(1), of m f]
    by (auto simp: basic_measurement_def split_beta)
next
  case (Some offset)
  let ?f = "(fst (basic_delays m f))\<lparr>bf_last_offset := offset\<rparr>"
  have o: "\<bar>offset\<bar> < 2 ^ 127" using assms(3) Some by simp
  note fp = basic_arith.axioms(1) [OF assms(1)]
  have "in_range I96F32 \<bar>offset\<bar>" "in_range I96F32 (- offset)" using o by auto
  then have abs: "duration_abs (fl_num fl) offset = \<bar>offset\<bar>" "duration_neg (fl_num fl) offset = - offset"
    by (simp_all add: duration_abs_def duration_neg_def fixed_point.fit [OF fp] del: in_range.simps)
  note sec = basic_arith.one_second [OF assms(1)]
  have inv: "basic_inv fl gain ?f"
    using assms(2) basic_arith.basic_inv_delays [OF assms(1), of m f] by (simp add: basic_inv_def)
  have same: "bf_offset_confidence ?f = bf_offset_confidence f" "bf_last_step ?f = bf_last_step f"
    by (simp_all add: basic_delays_def split: option.split)
  show ?thesis
  proof (cases "1000000000 * 2 ^ 32 < \<bar>offset\<bar>")
    case True
    then show ?thesis
      using Some inv abs sec basic_arith.confidence_init [OF assms(1)]
      by (auto simp: basic_measurement_def split_beta Let_def basic_inv_def basic_current_estimates_def)
  next
    case False
    then have "\<bar>offset\<bar> \<le> 1000000000 * 2 ^ 32" by simp
    from basic_arith.steer_ok [OF assms(1) inv this, of ops "me_event_time m" clock]
    obtain f' correction freq clock1 where st: "basic_steer fl ops (me_event_time m) offset ?f clock
          = Ok (f', snd (ck_set_frequency ops freq (snd (ck_step_clock ops correction clock1))))"
        "basic_inv fl gain f'" "bf_last_offset f' = bf_last_offset ?f"
      and steer: "clock1 = clock \<or> bf_last_step f = None \<and> clock1 = snd (ck_set_frequency ops (fl_lit fl 0) clock)"
        "min 0 (- offset) \<le> correction" "correction \<le> max 0 (- offset)" "\<bar>correction\<bar> \<le> bf_offset_confidence f"
      unfolding same by blast
    have "basic_measurement fl ops m f clock
        = Ok (f', snd (ck_set_frequency ops freq (snd (ck_step_clock ops correction clock1))), snd (basic_delays m f))"
      using Some False abs sec st(1) by (simp add: basic_measurement_def split_beta Let_def)
    then show ?thesis
      using Some False st(2,3) steer by (auto simp: basic_current_estimates_def)
  qed
qed

section \<open>Properties\<close>

text \<open>C27: with a gain between 0 and 1 a measurement never panics, keeps the invariant of the filter,
  and never steps the clock past the master: without an offset the clock is left alone; an offset of
  more than a second is undone by one step; any smaller offset is undone in part, by a step between
  0 and the opposite of the offset that is not larger than the confidence, followed by one change of
  the frequency. The reported offset is the measured one.\<close>

theorem basic_filter_never_overshoots:
  assumes "basic_arith fl gain" and "basic_inv fl gain f"
    and "pred_option (\<lambda>offset. \<bar>offset\<bar> < 2 ^ 127) (me_offset m)"
  shows "\<exists>f' clock' update. basic_measurement fl ops m f clock = Ok (f', clock', update)
    \<and> basic_inv fl gain f'
    \<and> (case me_offset m of
         None \<Rightarrow> clock' = clock
       | Some offset \<Rightarrow> fe_offset_from_master (basic_current_estimates f') = offset
           \<and> (if 1000000000 * 2 ^ 32 < \<bar>offset\<bar> then clock' = snd (ck_step_clock ops (- offset) clock)
              else \<exists>correction freq clock1.
                clock' = snd (ck_set_frequency ops freq (snd (ck_step_clock ops correction clock1)))
                \<and> (clock1 = clock \<or> bf_last_step f = None \<and> clock1 = snd (ck_set_frequency ops (fl_lit fl 0) clock))
                \<and> min 0 (- offset) \<le> correction \<and> correction \<le> max 0 (- offset)
                \<and> \<bar>correction\<bar> \<le> bf_offset_confidence f))"
  by (rule basic_measurement_ok [OF assms])

definition tick_clock :: "(real, duration list) clock_ops" where
  "tick_clock = \<lparr>ck_now = (\<lambda>c. 0), ck_step_clock = (\<lambda>d c. (Some 0, c @ [d])),
     ck_set_frequency = (\<lambda>f c. (Some 0, c)), ck_set_properties = (\<lambda>tp c. (True, c))\<rparr>"

theorem basic_filter_never_overshoots_witness:
  "\<exists>f' correction update. basic_measurement floatlib_real tick_clock
      (measurement_default\<lparr>me_offset := Some 400\<rparr>) (basic_new floatlib_real (1 / 4)) [] = Ok (f', [correction], update)
    \<and> - 400 \<le> correction \<and> correction \<le> 0"
  using basic_filter_never_overshoots [OF basic_quarter.basic_arith_axioms basic_quarter.basic_inv_new,
      of "measurement_default\<lparr>me_offset := Some 400\<rparr>" tick_clock "[]"]
  by (auto simp: tick_clock_def)

text \<open>The contract of filters: a run of the basic filter on measurements with offsets in range never
  panics.\<close>

lemma basic_contract:
  fixes fl :: "'f floatlib" and ops :: "('f, 'c) clock_ops"
  assumes "basic_arith fl gain"
  shows "filter_contract (basic_measurement fl ops) basic_update (\<lambda>(f, clock). basic_inv fl gain f)
    (\<lambda>m. pred_option (\<lambda>offset. \<bar>offset\<bar> < 2 ^ 127) (me_offset m))"
proof
  fix f and c :: 'c and m :: measurement
  assume "case (f, c) of (f, clock) \<Rightarrow> basic_inv fl gain f" and m: "pred_option (\<lambda>offset. \<bar>offset\<bar> < 2 ^ 127) (me_offset m)"
  then have "basic_inv fl gain f" by simp
  from basic_measurement_ok [OF assms this m, of ops c]
  show "\<exists>f' c' u. basic_measurement fl ops m f c = Ok (f', c', u) \<and> (case (f', c') of (f, clock) \<Rightarrow> basic_inv fl gain f)"
    by auto
qed (simp add: basic_update_def)

interpretation basic_run: filter_contract "basic_measurement floatlib_real ops" basic_update
  "\<lambda>(f, clock). basic_inv floatlib_real (1 / 4) f" "\<lambda>m. pred_option (\<lambda>offset. \<bar>offset\<bar> < 2 ^ 127) (me_offset m)"
  for ops
  by (rule basic_contract [OF basic_quarter.basic_arith_axioms])

text \<open>With a gain above 1 the filter can panic: after one perfect measurement at gain 2 the
  confidence in offsets is negative, and the next measurement clamps to an interval that is empty.\<close>

theorem basic_filter_gain_two_panics:
  "\<exists>f' clock update. basic_measurement floatlib_real tick_clock (measurement_default\<lparr>me_offset := Some 0\<rparr>)
      (basic_new floatlib_real 2) [] = Ok (f', clock, update)
    \<and> basic_measurement floatlib_real tick_clock (measurement_default\<lparr>me_offset := Some 0\<rparr>) f' clock = panic"
proof -
  let ?lib = "numlib_exact :: real numlib"
  let ?f = "(basic_new floatlib_real 2)\<lparr>bf_last_offset := 0\<rparr>"
  have r: "round (2 * 2 ^ 32 :: real) = 2 * 2 ^ 32" using round_of_int [of "2 * 2 ^ 32"] by simp
  have one: "duration_from_nanos ?lib 1000000000 = 1000000000 * 2 ^ 32"
    "duration_abs ?lib 0 = 0" "duration_neg ?lib 0 = 0"
    by (simp_all add: duration_from_nanos_def numlib_exact_def duration_abs_def duration_neg_def)
  have two: "duration_mul_f64 ?lib (1000000000 * 2 ^ 32) (2 :: real) = 2000000000 * 2 ^ 32"
    "duration_sub ?lib (1000000000 * 2 ^ 32) 0 = 1000000000 * 2 ^ 32"
    "duration_sub ?lib (1000000000 * 2 ^ 32) (2000000000 * 2 ^ 32) = - (1000000000 * 2 ^ 32)"
    using r by (simp_all add: duration_mul_f64_def duration_sub_def duration_add_def duration_neg_def numlib_exact_def)
  have "basic_clamp_offset floatlib_real 0 ?f = Ok (0, ?f\<lparr>bf_offset_confidence := - (1000000000 * 2 ^ 32)\<rparr>)"
    by (simp add: basic_clamp_offset_def Let_def basic_new_def one two [simplified])
  then obtain f' clock update where first: "basic_measurement floatlib_real tick_clock
        (measurement_default\<lparr>me_offset := Some 0\<rparr>) (basic_new floatlib_real 2) [] = Ok (f', clock, update)"
      "bf_offset_confidence f' = - (1000000000 * 2 ^ 32)"
    by (simp add: basic_measurement_def basic_delays_def measurement_default_def one basic_steer_def Let_def
      basic_new_def tick_clock_def)
  have "basic_clamp_offset floatlib_real 0 g = panic" if "bf_offset_confidence g = - (1000000000 * 2 ^ 32)" for g
    using that by (simp add: basic_clamp_offset_def Let_def one duration_clamp_def)
      (simp add: duration_neg_def numlib_exact_def)
  then have "basic_measurement floatlib_real tick_clock (measurement_default\<lparr>me_offset := Some 0\<rparr>) f' clock = panic"
    using first(2) by (simp add: basic_measurement_def basic_delays_def measurement_default_def one basic_steer_def)
  with first(1) show ?thesis by blast
qed

end
