(* ===== verification/Matrix.thy ===== *)
theory Matrix
  imports Clocks
begin

text \<open>
  \<open>statime/src/filters/matrix.rs\<close>: the matrices of the Kalman filter, as lists of rows. The
  dimensions, which are constants of the type in the code, are arguments where they are needed. The
  arithmetic is that of \<open>floatlib\<close>; the lemmas that need exact arithmetic are in the locale
  \<open>exact_floats\<close>.
\<close>

type_synonym 'f matrix = "'f list list"

text \<open>\<open>core::array::from_fn\<close> for an array of arrays.\<close>

definition from_fn :: "nat \<Rightarrow> nat \<Rightarrow> (nat \<Rightarrow> nat \<Rightarrow> 'f) \<Rightarrow> 'f matrix" where
  "from_fn n m f = map (\<lambda>i. map (f i) [0..<m]) [0..<n]"

definition mat_at :: "'f matrix \<Rightarrow> nat \<Rightarrow> nat \<Rightarrow> 'f" where
  "mat_at a i j = a ! i ! j"

definition mat_transpose :: "nat \<Rightarrow> nat \<Rightarrow> 'f matrix \<Rightarrow> 'f matrix" where
  "mat_transpose n m a = from_fn m n (\<lambda>i j. mat_at a j i)"

definition mat_entry :: "nat \<Rightarrow> nat \<Rightarrow> 'f matrix \<Rightarrow> nat \<Rightarrow> nat \<Rightarrow> 'f res" where
  "mat_entry n m a i j = (if i < n \<and> j < m then Ok (mat_at a i j) else panic)"

definition new_vector :: "'f list \<Rightarrow> 'f matrix" where
  "new_vector data = from_fn (length data) 1 (\<lambda>i _. data ! i)"

definition ventry :: "'f matrix \<Rightarrow> nat \<Rightarrow> 'f" where
  "ventry a i = mat_at a i 0"

definition mat_symmetrize :: "'f floatlib \<Rightarrow> nat \<Rightarrow> 'f matrix \<Rightarrow> 'f matrix" where
  "mat_symmetrize fl n a = from_fn n n (\<lambda>i j. fl_div fl (fadd fl (mat_at a i j) (mat_at a j i)) (fl_lit fl 2))"

definition mat_unit :: "'f floatlib \<Rightarrow> nat \<Rightarrow> 'f matrix" where
  "mat_unit fl n = from_fn n n (\<lambda>i j. if i = j then fl_lit fl 1 else fl_lit fl 0)"

definition mat_inverse :: "'f floatlib \<Rightarrow> 'f matrix \<Rightarrow> 'f matrix" where
  "mat_inverse fl a = [[fl_div fl (fl_lit fl 1) (mat_at a 0 0)]]"

text \<open>\<open>Iterator::sum\<close> on \<open>f64\<close> adds from the left, beginning with zero.\<close>

definition fl_sum :: "'f floatlib \<Rightarrow> 'f list \<Rightarrow> 'f" where
  "fl_sum fl xs = foldl (fadd fl) (fl_lit fl 0) xs"

definition mat_mul :: "'f floatlib \<Rightarrow> nat \<Rightarrow> nat \<Rightarrow> nat \<Rightarrow> 'f matrix \<Rightarrow> 'f matrix \<Rightarrow> 'f matrix" where
  "mat_mul fl n k m a b =
     from_fn n m (\<lambda>i j. fl_sum fl (map (\<lambda>l. fmul fl (mat_at a i l) (mat_at b l j)) [0..<k]))"

definition mat_scale :: "'f floatlib \<Rightarrow> nat \<Rightarrow> nat \<Rightarrow> 'f \<Rightarrow> 'f matrix \<Rightarrow> 'f matrix" where
  "mat_scale fl n m x a = from_fn n m (\<lambda>i j. fmul fl x (mat_at a i j))"

definition mat_add :: "'f floatlib \<Rightarrow> nat \<Rightarrow> nat \<Rightarrow> 'f matrix \<Rightarrow> 'f matrix \<Rightarrow> 'f matrix" where
  "mat_add fl n m a b = from_fn n m (\<lambda>i j. fadd fl (mat_at a i j) (mat_at b i j))"

definition mat_sub :: "'f floatlib \<Rightarrow> nat \<Rightarrow> nat \<Rightarrow> 'f matrix \<Rightarrow> 'f matrix \<Rightarrow> 'f matrix" where
  "mat_sub fl n m a b = from_fn n m (\<lambda>i j. fl_sub fl (mat_at a i j) (mat_at b i j))"

section \<open>Lemmas\<close>

definition wf_mat :: "nat \<Rightarrow> nat \<Rightarrow> 'f matrix \<Rightarrow> bool" where
  "wf_mat n m a \<longleftrightarrow> length a = n \<and> list_all (\<lambda>r. length r = m) a"

lemma wf_from_fn [simp]: "wf_mat n m (from_fn n m f)"
  by (simp add: wf_mat_def from_fn_def list_all_iff)

lemma mat_at_from_fn [simp]: "i < n \<Longrightarrow> j < m \<Longrightarrow> mat_at (from_fn n m f) i j = f i j"
  by (simp add: mat_at_def from_fn_def)

lemma mat_eqI:
  assumes "wf_mat n m a" "wf_mat n m b" "\<And>i j. i < n \<Longrightarrow> j < m \<Longrightarrow> mat_at a i j = mat_at b i j"
  shows "a = b"
  using assms by (auto simp: wf_mat_def list_all_length mat_at_def intro!: nth_equalityI)

lemma wf_mat_ops [simp]:
  "wf_mat m n (mat_transpose n m a)" "wf_mat n n (mat_symmetrize fl n a)" "wf_mat n n (mat_unit fl n)"
  "wf_mat n m (mat_mul fl n k m a b)" "wf_mat n m (mat_add fl n m a b)" "wf_mat n m (mat_sub fl n m a b)"
  by (simp_all add: mat_transpose_def mat_symmetrize_def mat_unit_def mat_mul_def mat_add_def mat_sub_def)

lemma transpose_transpose: "wf_mat n m a \<Longrightarrow> mat_transpose m n (mat_transpose n m a) = a"
  by (rule mat_eqI [of n m]) (simp_all add: mat_transpose_def)

definition symmetric :: "nat \<Rightarrow> 'f matrix \<Rightarrow> bool" where
  "symmetric n a \<longleftrightarrow> mat_transpose n n a = a"

lemma symmetricI:
  "wf_mat n n a \<Longrightarrow> (\<And>i j. i < n \<Longrightarrow> j < n \<Longrightarrow> mat_at a j i = mat_at a i j) \<Longrightarrow> symmetric n a"
  unfolding symmetric_def by (rule mat_eqI [of n n]) (simp_all add: mat_transpose_def)

lemma symmetricD: "symmetric n a \<Longrightarrow> i < n \<Longrightarrow> j < n \<Longrightarrow> mat_at a j i = mat_at a i j"
  by (metis symmetric_def mat_transpose_def mat_at_from_fn)

text \<open>Binary64 addition is commutative, so that \<open>symmetrize\<close> is exact in this sense.\<close>

lemma symmetrize_symmetric:
  "(\<And>x y. fadd fl x y = fadd fl y x) \<Longrightarrow> symmetric n (mat_symmetrize fl n a)"
  by (rule symmetricI) (simp_all add: mat_symmetrize_def)

section \<open>Exact arithmetic\<close>

text \<open>The idealization under which the Kalman filter is designed: the operations are those of an
  ordered field, without rounding.\<close>

locale exact_floats =
  fixes fl :: "'f::linordered_field floatlib"
  assumes exact [simp]: "f_add (fl_num fl) = (+)" "f_mul (fl_num fl) = (*)" "fl_sub fl = (-)" "fl_div fl = (/)"
      "fl_neg fl = uminus" "fl_abs fl = abs" "fl_max fl = max" "fl_lt fl = (<)" "fl_le fl = (\<le>)"
    and lit [simp]: "fl_lit fl 0 = 0" "fl_lit fl 1 = 1" "fl_lit fl 2 = 2" "fl_lit fl (- 1) = - 1"
      "fl_lit fl 3 = 3" "fl_lit fl 1000000 = 1000000"
begin

lemma sum3: "fl_sum fl (map f [0..<3]) = f 0 + f 1 + f 2"
  by (simp add: fl_sum_def numeral_3_eq_3 numeral_2_eq_2)

lemma symmetrize_id: "wf_mat n n a \<Longrightarrow> symmetric n a \<Longrightarrow> mat_symmetrize fl n a = a"
  by (rule mat_eqI [of n n]) (simp_all add: mat_symmetrize_def symmetricD)

end

interpretation exact_real: exact_floats floatlib_real
  by unfold_locales (simp_all add: floatlib_real_def numlib_exact_def)

end
