(* ===== verification/Kalman.thy ===== *)
theory Kalman
  imports Matrix PortTypes
begin

text \<open>
  \<open>statime/src/filters/kalman.rs\<close>: the estimator of the measurement error, the Kalman filter on
  offset, frequency and delay, and the control of the clock. The arithmetic is that of
  \<open>floatlib\<close>; logging is left out, and a \<open>debug_assert\<close> is not executed.
\<close>

section \<open>Configuration\<close>

record 'f kalman_configuration =
  kc_step_threshold :: duration
  kc_deadzone :: 'f
  kc_steer_time :: duration
  kc_max_steer :: 'f
  kc_max_freq_offset :: 'f
  kc_initial_frequency_uncertainty :: 'f
  kc_initial_wander :: 'f
  kc_delay_wander :: 'f
  kc_precision_low_probability :: 'f
  kc_precision_high_probability :: 'f
  kc_precision_hysteresis :: u8
  kc_estimate_threshold :: duration
  kc_difference_estimation_boundary :: nat
  kc_statistical_estimation_boundary :: nat
  kc_peer_delay_factor :: 'f

definition kalman_configuration_default :: "'f floatlib \<Rightarrow> 'f kalman_configuration" where
  "kalman_configuration_default fl = \<lparr>
     kc_step_threshold = duration_from_seconds (fl_num fl) (fl_lit fl (1 / 1000)),
     kc_deadzone = fl_lit fl 0,
     kc_steer_time = duration_from_seconds (fl_num fl) (fl_lit fl 2),
     kc_max_steer = fl_lit fl 200,
     kc_max_freq_offset = fl_lit fl 400,
     kc_initial_frequency_uncertainty = fl_lit fl (100 / 1000000),
     kc_initial_wander = fl_lit fl (1 / 10 ^ 16),
     kc_delay_wander = fl_div fl (fl_lit fl (1 / 10000)) (fl_lit fl 3600),
     kc_precision_low_probability = fl_div fl (fl_lit fl 1) (fl_lit fl 3),
     kc_precision_high_probability = fl_div fl (fl_lit fl 2) (fl_lit fl 3),
     kc_precision_hysteresis = 16,
     kc_estimate_threshold = duration_from_millis (fl_num fl) 200,
     kc_difference_estimation_boundary = 4,
     kc_statistical_estimation_boundary = 8,
     kc_peer_delay_factor = fl_lit fl 2\<rparr>"

definition sqr :: "'f floatlib \<Rightarrow> 'f \<Rightarrow> 'f" where
  "sqr fl x = fmul fl x x"

text \<open>The approximation of the chi-squared distribution.\<close>

definition chi_1 :: "'f floatlib \<Rightarrow> 'f \<Rightarrow> 'f" where
  "chi_1 fl chi =
     (let mul = fmul fl; add = fadd fl; lit = fl_lit fl;
          x = fl_sqrt fl (fl_div fl chi (lit 2));
          t = fl_div fl (lit 1) (add (lit 1) (mul (lit (3275911 / 10 ^ 7)) x));
          a1 = lit (254829592 / 10 ^ 9);
          a2 = lit (- 284496736 / 10 ^ 9);
          a3 = lit (1421413741 / 10 ^ 9);
          a4 = lit (- 1453152027 / 10 ^ 9);
          a5 = lit (1061405429 / 10 ^ 9)
      in mul
           (add (add (add (add (mul a1 t) (mul (mul a2 t) t)) (mul (mul (mul a3 t) t) t))
             (mul (mul (mul (mul a4 t) t) t) t)) (mul (mul (mul (mul (mul a5 t) t) t) t) t))
           (fl_exp fl (fl_neg fl (mul x x))))"

section \<open>MeasurementErrorEstimator\<close>

definition ESTIMATOR_SIZE :: nat where
  "ESTIMATOR_SIZE = 32"

record 'f error_estimator =
  ee_data :: "'f list"
  ee_next_idx :: nat
  ee_fill :: nat
  ee_last_sync :: "(time \<times> duration) option"
  ee_last_delay :: "(time \<times> duration) option"
  ee_peer_delay_detected :: bool

definition estimator_default :: "'f floatlib \<Rightarrow> 'f error_estimator" where
  "estimator_default fl = \<lparr>ee_data = replicate ESTIMATOR_SIZE (fl_lit fl 0), ee_next_idx = 0, ee_fill = 0,
     ee_last_sync = None, ee_last_delay = None, ee_peer_delay_detected = False\<rparr>"

definition estimator_mean :: "'f floatlib \<Rightarrow> 'f error_estimator \<Rightarrow> 'f" where
  "estimator_mean fl e =
     fl_div fl (fl_sum fl (take (ee_fill e) (ee_data e))) (f_of_int (fl_num fl) (int (length (ee_data e))))"

definition estimator_variance :: "'f floatlib \<Rightarrow> 'f error_estimator \<Rightarrow> 'f" where
  "estimator_variance fl e =
     (let mean = estimator_mean fl e
      in fl_div fl (fl_sum fl (map (\<lambda>v. sqr fl (fl_sub fl v mean)) (take (ee_fill e) (ee_data e))))
           (f_of_int (fl_num fl) (int (length (ee_data e) - 1))))"

text \<open>\<open>max_by\<close> and \<open>min_by\<close> with the comparison of the code; \<open>unwrap\<close> panics on no element.\<close>

definition estimator_range_size :: "'f floatlib \<Rightarrow> 'f error_estimator \<Rightarrow> 'f res" where
  "estimator_range_size fl e =
     (case take (ee_fill e) (ee_data e) of
        [] \<Rightarrow> panic
      | x # xs \<Rightarrow>
          Ok (fl_sub fl (foldl (\<lambda>a y. if fl_lt fl y a then a else y) x xs)
                        (foldl (\<lambda>a y. if fl_lt fl y a then y else a) x xs)))"

definition estimator_insert_entry :: "'f \<Rightarrow> 'f error_estimator \<Rightarrow> 'f error_estimator res" where
  "estimator_insert_entry entry e =
     (if ee_next_idx e < length (ee_data e) then
        Ok (e\<lparr>ee_data := (ee_data e)[ee_next_idx e := entry],
              ee_next_idx := (ee_next_idx e + 1) mod length (ee_data e),
              ee_fill := min (ee_fill e + 1) (length (ee_data e))\<rparr>)
      else panic)"

definition estimator_measurement_variance :: "'f floatlib \<Rightarrow> 'f kalman_configuration \<Rightarrow> 'f error_estimator \<Rightarrow> 'f res" where
  "estimator_measurement_variance fl config e =
     (if ee_fill e < kc_difference_estimation_boundary config then Ok (sqr fl (duration_seconds fl (kc_steer_time config)))
      else if ee_fill e < kc_statistical_estimation_boundary config
      then andthen (estimator_range_size fl e) (\<lambda>r. Ok (sqr fl r))
      else Ok (fl_div fl (estimator_variance fl e) (fl_lit fl 2)))"

text \<open>The first two parts of \<open>absorb_measurement\<close>: a sync offset is combined with the last delay
  offset if that is recent, and the other way round.\<close>

definition estimator_absorb_sync ::
  "'f floatlib \<Rightarrow> time \<Rightarrow> 'f \<Rightarrow> 'f kalman_configuration \<Rightarrow> duration \<Rightarrow> 'f error_estimator \<Rightarrow> 'f error_estimator res" where
  "estimator_absorb_sync fl event_time estimated_frequency config sync_offset e =
     (let lib = fl_num fl; e1 = e\<lparr>ee_last_delay := None\<rparr> in
      case ee_last_delay e of
        Some (time, delay_offset) \<Rightarrow>
          (if duration_abs lib (time_diff lib event_time time) < kc_estimate_threshold config then
             estimator_insert_entry
               (fadd fl (fl_sub fl (duration_seconds fl sync_offset) (duration_seconds fl delay_offset))
                 (fmul fl (duration_seconds fl (time_diff lib time event_time)) estimated_frequency)) e1
           else Ok (e1\<lparr>ee_last_sync := Some (event_time, sync_offset)\<rparr>))
      | None \<Rightarrow> Ok (e1\<lparr>ee_last_sync := Some (event_time, sync_offset)\<rparr>))"

definition estimator_absorb_delay ::
  "'f floatlib \<Rightarrow> time \<Rightarrow> 'f \<Rightarrow> 'f kalman_configuration \<Rightarrow> duration \<Rightarrow> 'f error_estimator \<Rightarrow> 'f error_estimator res" where
  "estimator_absorb_delay fl event_time estimated_frequency config delay_offset e =
     (let lib = fl_num fl; e1 = e\<lparr>ee_last_sync := None\<rparr> in
      case ee_last_sync e of
        Some (time, sync_offset) \<Rightarrow>
          (if duration_abs lib (time_diff lib event_time time) < kc_estimate_threshold config then
             estimator_insert_entry
               (fadd fl (fl_sub fl (duration_seconds fl sync_offset) (duration_seconds fl delay_offset))
                 (fmul fl (duration_seconds fl (time_diff lib event_time time)) estimated_frequency)) e1
           else Ok (e1\<lparr>ee_last_delay := Some (event_time, delay_offset)\<rparr>))
      | None \<Rightarrow> Ok (e1\<lparr>ee_last_delay := Some (event_time, delay_offset)\<rparr>))"

definition if_some :: "'a option \<Rightarrow> ('a \<Rightarrow> 's \<Rightarrow> 's res) \<Rightarrow> 's \<Rightarrow> 's res" where
  "if_some x f s = (case x of None \<Rightarrow> Ok s | Some a \<Rightarrow> f a s)"

definition estimator_absorb_measurement ::
  "'f floatlib \<Rightarrow> measurement \<Rightarrow> 'f \<Rightarrow> 'f kalman_configuration \<Rightarrow> 'f error_estimator \<Rightarrow> 'f error_estimator res" where
  "estimator_absorb_measurement fl m estimated_frequency config e =
     andthen (if_some (me_raw_sync_offset m)
       (estimator_absorb_sync fl (me_event_time m) estimated_frequency config) e) (\<lambda>e1.
     andthen (if_some (me_raw_delay_offset m)
       (estimator_absorb_delay fl (me_event_time m) estimated_frequency config) e1) (\<lambda>e2.
     if_some (me_peer_delay m) (\<lambda>peer_delay e.
       estimator_insert_entry (duration_seconds fl peer_delay)
         (e\<lparr>ee_last_delay := None, ee_last_sync := None, ee_peer_delay_detected := True\<rparr>)) e2))"

section \<open>InnerFilter\<close>

record 'f inner_filter =
  if_state :: "'f matrix"
  if_uncertainty :: "'f matrix"
  if_filter_time :: time

definition MEASUREMENT_SYNC :: "'f floatlib \<Rightarrow> 'f matrix" where
  "MEASUREMENT_SYNC fl = [[fl_lit fl 1, fl_lit fl 0, fl_lit fl 1]]"

definition MEASUREMENT_DELAY :: "'f floatlib \<Rightarrow> 'f matrix" where
  "MEASUREMENT_DELAY fl = [[fl_lit fl 1, fl_lit fl 0, fl_lit fl (- 1)]]"

definition MEASUREMENT_PEER_DELAY :: "'f floatlib \<Rightarrow> 'f matrix" where
  "MEASUREMENT_PEER_DELAY fl = [[fl_lit fl 0, fl_lit fl 0, fl_lit fl 1]]"

definition inner_new :: "'f floatlib \<Rightarrow> 'f \<Rightarrow> time \<Rightarrow> 'f kalman_configuration \<Rightarrow> 'f inner_filter" where
  "inner_new fl initial_offset time config =
     (let z = fl_lit fl 0; s = sqr fl (duration_seconds fl (kc_step_threshold config)) in
      \<lparr>if_state = new_vector [initial_offset, z, z],
       if_uncertainty = [[s, z, z], [z, sqr fl (kc_initial_frequency_uncertainty config), z], [z, z, s]],
       if_filter_time = time\<rparr>)"

definition inner_progress_filtertime ::
  "'f floatlib \<Rightarrow> time \<Rightarrow> 'f \<Rightarrow> 'f kalman_configuration \<Rightarrow> 'f inner_filter \<Rightarrow> 'f inner_filter" where
  "inner_progress_filtertime fl time wander config i =
     (if time < if_filter_time i then i
      else
        let mul = fmul fl; z = fl_lit fl 0; one = fl_lit fl 1;
            dt = duration_seconds fl (time_diff (fl_num fl) time (if_filter_time i));
            update = [[one, dt, z], [z, one, z], [z, z, one]];
            half = fl_div fl (mul (mul wander dt) dt) (fl_lit fl 2);
            process_noise =
              [[fl_div fl (mul (mul (mul wander dt) dt) dt) (fl_lit fl 3), half, z],
               [half, mul wander dt, z],
               [z, z, mul (mul (kc_delay_wander config) dt) (sqr fl (ventry (if_state i) 2))]]
        in i\<lparr>if_state := mat_mul fl 3 3 1 update (if_state i),
             if_uncertainty := mat_add fl 3 3
               (mat_mul fl 3 3 3 (mat_mul fl 3 3 3 update (if_uncertainty i)) (mat_transpose 3 3 update)) process_noise,
             if_filter_time := time\<rparr>)"

definition inner_predict :: "'f floatlib \<Rightarrow> 'f matrix \<Rightarrow> 'f inner_filter \<Rightarrow> 'f matrix \<times> 'f matrix" where
  "inner_predict fl transform i =
     (mat_mul fl 1 3 1 transform (if_state i),
      mat_mul fl 1 3 1 (mat_mul fl 1 3 3 transform (if_uncertainty i)) (mat_transpose 1 3 transform))"

definition inner_absorb_measurement ::
  "'f floatlib \<Rightarrow> 'f matrix \<Rightarrow> 'f matrix \<Rightarrow> 'f matrix \<Rightarrow> 'f inner_filter \<Rightarrow> 'f inner_filter" where
  "inner_absorb_measurement fl measurement_vec transform noise i =
     (let (prediction, uncertainty) = inner_predict fl transform i;
          difference = mat_sub fl 1 1 measurement_vec prediction;
          difference_covariance = mat_add fl 1 1 uncertainty noise;
          update_strength = mat_mul fl 3 1 1 (mat_mul fl 3 3 1 (if_uncertainty i) (mat_transpose 1 3 transform))
            (mat_inverse fl difference_covariance)
      in i\<lparr>if_state := mat_add fl 3 1 (if_state i) (mat_mul fl 3 1 1 update_strength difference),
           if_uncertainty := mat_symmetrize fl 3
             (mat_mul fl 3 3 3 (mat_sub fl 3 3 (mat_unit fl 3) (mat_mul fl 3 1 3 update_strength transform))
               (if_uncertainty i))\<rparr>)"

definition inner_absorb_sync_offset :: "'f floatlib \<Rightarrow> 'f \<Rightarrow> 'f \<Rightarrow> 'f inner_filter \<Rightarrow> 'f inner_filter" where
  "inner_absorb_sync_offset fl sync_offset variance =
     inner_absorb_measurement fl (new_vector [sync_offset]) (MEASUREMENT_SYNC fl) [[variance]]"

definition inner_absorb_delay_offset :: "'f floatlib \<Rightarrow> 'f \<Rightarrow> 'f \<Rightarrow> 'f inner_filter \<Rightarrow> 'f inner_filter" where
  "inner_absorb_delay_offset fl delay_offset variance =
     inner_absorb_measurement fl (new_vector [delay_offset]) (MEASUREMENT_DELAY fl) [[variance]]"

definition inner_absorb_peer_delay :: "'f floatlib \<Rightarrow> 'f \<Rightarrow> 'f \<Rightarrow> 'f inner_filter \<Rightarrow> 'f inner_filter" where
  "inner_absorb_peer_delay fl peer_delay variance =
     inner_absorb_measurement fl (new_vector [peer_delay]) (MEASUREMENT_PEER_DELAY fl) [[variance]]"

definition inner_absorb_frequency_steer ::
  "'f floatlib \<Rightarrow> 'f \<Rightarrow> time \<Rightarrow> 'f \<Rightarrow> 'f kalman_configuration \<Rightarrow> 'f inner_filter \<Rightarrow> 'f inner_filter" where
  "inner_absorb_frequency_steer fl steer time wander config i =
     (let i1 = inner_progress_filtertime fl time wander config i; z = fl_lit fl 0 in
      i1\<lparr>if_state := mat_add fl 3 1 (if_state i1)
        (new_vector [z, fmul fl steer (fl_lit fl (1 / 1000000)), z])\<rparr>)"

definition inner_absorb_offset_steer :: "'f floatlib \<Rightarrow> 'f \<Rightarrow> 'f inner_filter \<Rightarrow> 'f inner_filter" where
  "inner_absorb_offset_steer fl steer i =
     (let z = fl_lit fl 0 in
      i\<lparr>if_state := mat_add fl 3 1 (if_state i) (new_vector [steer, z, z]),
        if_filter_time := time_add (fl_num fl) (if_filter_time i) (duration_from_seconds (fl_num fl) steer)\<rparr>)"

definition inner_predict_offset :: "'f floatlib \<Rightarrow> 'f matrix \<Rightarrow> 'f inner_filter \<Rightarrow> ('f \<times> 'f) res" where
  "inner_predict_offset fl transform i =
     (let (prediction, uncertainty) = inner_predict fl transform i
      in andthen (mat_entry 1 1 prediction 0 0) (\<lambda>p. andthen (mat_entry 1 1 uncertainty 0 0) (\<lambda>u. Ok (p, u))))"

section \<open>BaseFilter\<close>

text \<open>\<open>BaseFilter(Option<InnerFilter>)\<close>: absent until the first time is known.\<close>

type_synonym 'f base_filter = "'f inner_filter option"

definition base_new :: "'f base_filter" where
  "base_new = None"

definition base_progress_filtertime ::
  "'f floatlib \<Rightarrow> time \<Rightarrow> 'f \<Rightarrow> 'f kalman_configuration \<Rightarrow> 'f base_filter \<Rightarrow> 'f base_filter" where
  "base_progress_filtertime fl time wander config b =
     (case b of
        Some inner \<Rightarrow> Some (inner_progress_filtertime fl time wander config inner)
      | None \<Rightarrow> Some (inner_new fl (fl_lit fl 0) time config))"

definition too_far :: "'f floatlib \<Rightarrow> 'f \<Rightarrow> 'f kalman_configuration \<Rightarrow> 'f inner_filter \<Rightarrow> bool" where
  "too_far fl offset config inner \<longleftrightarrow>
     fl_lt fl (duration_seconds fl (kc_step_threshold config)) (fl_abs fl (fl_sub fl offset (ventry (if_state inner) 0)))"

definition base_absorb_sync_offset ::
  "'f floatlib \<Rightarrow> 'f \<Rightarrow> 'f \<Rightarrow> 'f kalman_configuration \<Rightarrow> 'f base_filter \<Rightarrow> 'f base_filter" where
  "base_absorb_sync_offset fl sync_offset variance config =
     map_option (\<lambda>inner.
       if too_far fl sync_offset config inner then inner_new fl sync_offset (if_filter_time inner) config
       else inner_absorb_sync_offset fl sync_offset variance inner)"

definition base_absorb_delay_offset ::
  "'f floatlib \<Rightarrow> 'f \<Rightarrow> 'f \<Rightarrow> 'f kalman_configuration \<Rightarrow> 'f base_filter \<Rightarrow> 'f base_filter" where
  "base_absorb_delay_offset fl delay_offset variance config =
     map_option (\<lambda>inner.
       if too_far fl delay_offset config inner then inner_new fl delay_offset (if_filter_time inner) config
       else inner_absorb_delay_offset fl delay_offset variance inner)"

definition base_absorb_peer_delay :: "'f floatlib \<Rightarrow> 'f \<Rightarrow> 'f \<Rightarrow> 'f base_filter \<Rightarrow> 'f base_filter" where
  "base_absorb_peer_delay fl peer_delay variance = map_option (inner_absorb_peer_delay fl peer_delay variance)"

definition base_absorb_frequency_steer ::
  "'f floatlib \<Rightarrow> 'f \<Rightarrow> time \<Rightarrow> 'f \<Rightarrow> 'f kalman_configuration \<Rightarrow> 'f base_filter \<Rightarrow> 'f base_filter" where
  "base_absorb_frequency_steer fl steer time wander config b =
     (case b of
        Some inner \<Rightarrow> Some (inner_absorb_frequency_steer fl steer time wander config inner)
      | None \<Rightarrow> Some (inner_new fl (fl_lit fl 0) time config))"

definition base_absorb_offset_steer :: "'f floatlib \<Rightarrow> 'f \<Rightarrow> 'f base_filter \<Rightarrow> 'f base_filter" where
  "base_absorb_offset_steer fl steer = map_option (inner_absorb_offset_steer fl steer)"

definition base_offset :: "'f floatlib \<Rightarrow> 'f base_filter \<Rightarrow> 'f" where
  "base_offset fl b = (case b of Some inner \<Rightarrow> ventry (if_state inner) 0 | None \<Rightarrow> fl_lit fl 0)"

definition base_offset_uncertainty :: "'f floatlib \<Rightarrow> 'f kalman_configuration \<Rightarrow> 'f base_filter \<Rightarrow> 'f res" where
  "base_offset_uncertainty fl config b =
     (case b of
        Some inner \<Rightarrow> andthen (mat_entry 3 3 (if_uncertainty inner) 0 0) (\<lambda>x. Ok (fl_sqrt fl x))
      | None \<Rightarrow> Ok (duration_seconds fl (kc_step_threshold config)))"

definition base_freq_offset :: "'f floatlib \<Rightarrow> 'f base_filter \<Rightarrow> 'f" where
  "base_freq_offset fl b = (case b of Some inner \<Rightarrow> ventry (if_state inner) 1 | None \<Rightarrow> fl_lit fl 0)"

definition base_mean_delay :: "'f floatlib \<Rightarrow> 'f base_filter \<Rightarrow> 'f" where
  "base_mean_delay fl b = (case b of Some inner \<Rightarrow> ventry (if_state inner) 2 | None \<Rightarrow> fl_lit fl 0)"

definition base_predict_offset ::
  "'f floatlib \<Rightarrow> 'f matrix \<Rightarrow> 'f kalman_configuration \<Rightarrow> 'f base_filter \<Rightarrow> ('f \<times> 'f) res" where
  "base_predict_offset fl transform config b =
     (case b of
        Some inner \<Rightarrow> inner_predict_offset fl transform inner
      | None \<Rightarrow> Ok (fl_lit fl 0, sqr fl (duration_seconds fl (kc_step_threshold config))))"

definition base_predict_sync_offset :: "'f floatlib \<Rightarrow> 'f kalman_configuration \<Rightarrow> 'f base_filter \<Rightarrow> ('f \<times> 'f) res" where
  "base_predict_sync_offset fl = base_predict_offset fl (MEASUREMENT_SYNC fl)"

definition base_predict_delay_offset :: "'f floatlib \<Rightarrow> 'f kalman_configuration \<Rightarrow> 'f base_filter \<Rightarrow> ('f \<times> 'f) res" where
  "base_predict_delay_offset fl = base_predict_offset fl (MEASUREMENT_DELAY fl)"

definition after_filter_time :: "time \<Rightarrow> 'f base_filter \<Rightarrow> bool" where
  "after_filter_time time b = (case b of Some inner \<Rightarrow> if_filter_time inner \<le> time | None \<Rightarrow> True)"

definition clamp_adjustment :: "'f floatlib \<Rightarrow> 'f \<Rightarrow> 'f \<Rightarrow> 'f \<Rightarrow> 'f" where
  "clamp_adjustment fl current error bound =
     (if fl_lt fl bound (fadd fl current error) then fl_sub fl bound current
      else if fl_lt fl (fadd fl current error) (fl_neg fl bound) then fl_sub fl (fl_neg fl bound) current
      else error)"

section \<open>KalmanFilter\<close>

record 'f kalman_filter =
  kf_config :: "'f kalman_configuration"
  kf_running_filter :: "'f base_filter"
  kf_wander_filter :: "'f base_filter"
  kf_wander_score :: i8
  kf_wander :: 'f
  kf_wander_measurement_error :: 'f
  kf_estimator :: "'f error_estimator"
  kf_cur_frequency :: "'f option"

definition kalman_new :: "'f floatlib \<Rightarrow> 'f kalman_configuration \<Rightarrow> 'f kalman_filter res" where
  "kalman_new fl config =
     andthen (estimator_measurement_variance fl config (estimator_default fl)) (\<lambda>variance.
     Ok \<lparr>kf_config = config,
         kf_running_filter = base_new,
         kf_wander_filter = base_new,
         kf_wander_score = 0,
         kf_wander = kc_initial_wander config,
         kf_wander_measurement_error = fl_sqrt fl variance,
         kf_estimator = estimator_default fl,
         kf_cur_frequency = None\<rparr>)"

definition change_frequency ::
  "'f floatlib \<Rightarrow> ('f, 'c) clock_ops \<Rightarrow> 'f \<Rightarrow> 'f kalman_filter \<Rightarrow> 'c \<Rightarrow> 'f kalman_filter \<times> 'c" where
  "change_frequency fl ops target k clock =
     (case kf_cur_frequency k of
        None \<Rightarrow> (k, clock)
      | Some cur_frequency \<Rightarrow>
          let error_ppm = clamp_adjustment fl cur_frequency
                (fl_sub fl target (fmul fl (base_freq_offset fl (kf_running_filter k)) (fl_lit fl 1000000)))
                (kc_max_freq_offset (kf_config k));
              freq = fadd fl cur_frequency error_ppm;
              (result, clock') = ck_set_frequency ops freq clock;
              absorb = (\<lambda>time. base_absorb_frequency_steer fl error_ppm time (kf_wander k) (kf_config k))
          in case result of
               None \<Rightarrow> (k, clock')
             | Some time \<Rightarrow>
                 (k\<lparr>kf_cur_frequency := Some freq,
                    kf_running_filter := absorb time (kf_running_filter k),
                    kf_wander_filter := absorb time (kf_wander_filter k)\<rparr>, clock'))"

definition kalman_step :: "'f floatlib \<Rightarrow> ('f, 'c) clock_ops \<Rightarrow> 'f \<Rightarrow> 'f kalman_filter \<Rightarrow> 'c \<Rightarrow> 'f kalman_filter \<times> 'c" where
  "kalman_step fl ops offset k clock =
     (let back = fl_neg fl offset;
          (result, clock') = ck_step_clock ops (duration_from_seconds (fl_num fl) back) clock
      in if result = None then (k, clock')
         else (k\<lparr>kf_running_filter := base_absorb_offset_steer fl back (kf_running_filter k),
                 kf_wander_filter := base_absorb_offset_steer fl back (kf_wander_filter k)\<rparr>, clock'))"

definition kalman_mean_delay :: "'f floatlib \<Rightarrow> 'f kalman_filter \<Rightarrow> duration" where
  "kalman_mean_delay fl k = duration_from_seconds (fl_num fl) (base_mean_delay fl (kf_running_filter k))"

definition kalman_steer ::
  "'f floatlib \<Rightarrow> ('f, 'c) clock_ops \<Rightarrow> 'f kalman_filter \<Rightarrow> 'c \<Rightarrow> ('f kalman_filter \<times> 'c \<times> filter_update) res" where
  "kalman_steer fl ops k clock =
     (let config = kf_config k; error = base_offset fl (kf_running_filter k) in
      if fl_lt fl (fl_abs fl error) (duration_seconds fl (kc_step_threshold config)) then
        andthen (base_offset_uncertainty fl config (kf_running_filter k)) (\<lambda>uncertainty.
        let desired_adjust = fmul fl (fl_signum fl error)
              (fl_max fl (fl_sub fl (fl_abs fl error) (fmul fl uncertainty (kc_deadzone config))) (fl_lit fl 0))
        in andthen (fl_clamp fl
                (fl_div fl (fmul fl (fl_neg fl desired_adjust) (fl_lit fl 1000000))
                  (duration_seconds fl (kc_steer_time config)))
                (fl_neg fl (kc_max_steer config)) (kc_max_steer config)) (\<lambda>target.
        let (k1, clock1) = change_frequency fl ops target k clock
        in andthen (cd_from_secs_f64 (fl_num fl) (duration_seconds fl (kc_steer_time config))) (\<lambda>next_update.
        Ok (k1, clock1, \<lparr>up_next_update = Some next_update, up_mean_delay = Some (kalman_mean_delay fl k1)\<rparr>))))
      else
        let (k1, clock1) = kalman_step fl ops error k clock
        in Ok (k1, clock1, \<lparr>up_next_update = None, up_mean_delay = Some (kalman_mean_delay fl k1)\<rparr>))"

text \<open>\<open>saturating_sub\<close>, \<open>saturating_add\<close> and \<open>signum\<close> on \<open>i8\<close>.\<close>

definition i8_saturating_sub :: "i8 \<Rightarrow> i8 \<Rightarrow> i8" where
  "i8_saturating_sub a b = word_of_int (max (- 128) (min 127 (sint a - sint b)))"

definition i8_saturating_add :: "i8 \<Rightarrow> i8 \<Rightarrow> i8" where
  "i8_saturating_add a b = word_of_int (max (- 128) (min 127 (sint a + sint b)))"

definition i8_signum :: "i8 \<Rightarrow> i8" where
  "i8_signum a = word_of_int (sgn (sint a))"

definition wander_score_update ::
  "'f floatlib \<Rightarrow> 'f \<Rightarrow> 'f \<Rightarrow> 'f \<Rightarrow> 'f kalman_filter \<Rightarrow> 'f kalman_filter res" where
  "wander_score_update fl uncertainty prediction actual k =
     (let config = kf_config k; ten = fl_lit fl 10 in
      andthen (estimator_measurement_variance fl config (kf_estimator k)) (\<lambda>variance.
      let error = fl_sqrt fl variance;
          restart = (\<lambda>k. k\<lparr>kf_wander_filter := kf_running_filter k, kf_wander_measurement_error := error\<rparr>)
      in if fl_lt fl (fmul fl ten error) (kf_wander_measurement_error k) then Ok (restart k)
         else if fl_lt fl (fmul fl ten (kf_wander_measurement_error k)) (fl_sqrt fl uncertainty) then
           let p = fl_sub fl (fl_lit fl 1) (chi_1 fl (fl_div fl (sqr fl (fl_sub fl actual prediction))
                 (fadd fl uncertainty (sqr fl (kf_wander_measurement_error k)))));
               score = kf_wander_score k;
               score' =
                 (if fl_lt fl p (kc_precision_low_probability config) then i8_saturating_sub score 1
                  else if fl_lt fl (kc_precision_high_probability config) p then i8_saturating_add score 1
                  else score - i8_signum score)
           in Ok (restart (k\<lparr>kf_wander_score := score'\<rparr>))
         else Ok k))"

definition update_wander :: "'f floatlib \<Rightarrow> measurement \<Rightarrow> 'f kalman_filter \<Rightarrow> 'f kalman_filter res" where
  "update_wander fl m k =
     (let config = kf_config k;
          k1 = k\<lparr>kf_wander_filter := base_progress_filtertime fl (me_event_time m) (kf_wander k) config (kf_wander_filter k)\<rparr>;
          score = (\<lambda>predict offset k.
            andthen (predict fl config (kf_wander_filter k)) (\<lambda>(prediction, uncertainty).
            wander_score_update fl uncertainty prediction (duration_seconds fl offset) k))
      in andthen (if_some (me_raw_sync_offset m) (score base_predict_sync_offset) k1) (\<lambda>k2.
         andthen (if_some (me_raw_delay_offset m) (score base_predict_delay_offset) k2) (\<lambda>k3.
         let hysteresis = (ucast (kc_precision_hysteresis config) :: i8);
             k4 = (if sint (kf_wander_score k3) < sint (- hysteresis)
                   then k3\<lparr>kf_wander := fl_div fl (kf_wander k3) (fl_lit fl 4), kf_wander_score := 0\<rparr> else k3);
             k5 = (if sint hysteresis < sint (kf_wander_score k4)
                   then k4\<lparr>kf_wander := fmul fl (kf_wander k4) (fl_lit fl 4), kf_wander_score := 0\<rparr> else k4)
         in Ok k5)))"

definition ensure_freq_init :: "'f floatlib \<Rightarrow> ('f, 'c) clock_ops \<Rightarrow> 'f kalman_filter \<Rightarrow> 'c \<Rightarrow> 'f kalman_filter \<times> 'c" where
  "ensure_freq_init fl ops k clock =
     (if kf_cur_frequency k = None then
        let (result, clock') = ck_set_frequency ops (fl_lit fl 0) clock
        in (if result = None then k else k\<lparr>kf_cur_frequency := Some (fl_lit fl 0)\<rparr>, clock')
      else (k, clock))"

text \<open>The variance of a measurement, scaled for peer delay.\<close>

definition scaled_variance :: "'f floatlib \<Rightarrow> 'f kalman_filter \<Rightarrow> 'f res" where
  "scaled_variance fl k =
     andthen (estimator_measurement_variance fl (kf_config k) (kf_estimator k)) (\<lambda>v.
     Ok (fmul fl v (if ee_peer_delay_detected (kf_estimator k) then kc_peer_delay_factor (kf_config k) else fl_lit fl 1)))"

text \<open>The parts of \<open>measurement\<close> for a sync offset and a delay offset, with the method of the running
  filter that takes it.\<close>

definition absorb_offset ::
  "'f floatlib \<Rightarrow> ('f, 'c) clock_ops \<Rightarrow>
   ('f \<Rightarrow> 'f \<Rightarrow> 'f kalman_configuration \<Rightarrow> 'f base_filter \<Rightarrow> 'f base_filter) \<Rightarrow> duration \<Rightarrow>
   'f kalman_filter \<times> 'c \<Rightarrow> ('f kalman_filter \<times> 'c) res" where
  "absorb_offset fl ops absorb offset = (\<lambda>(k, clock).
     let (k1, clock1) = ensure_freq_init fl ops k clock in
     andthen (scaled_variance fl k1) (\<lambda>variance.
     Ok (k1\<lparr>kf_running_filter :=
           absorb (duration_seconds fl offset) variance (kf_config k1) (kf_running_filter k1)\<rparr>, clock1)))"

definition kalman_measurement ::
  "'f floatlib \<Rightarrow> ('f, 'c) clock_ops \<Rightarrow> measurement \<Rightarrow> 'f kalman_filter \<Rightarrow> 'c \<Rightarrow>
   ('f kalman_filter \<times> 'c \<times> filter_update) res" where
  "kalman_measurement fl ops m k clock =
     (if \<not> after_filter_time (me_event_time m) (kf_running_filter k)
      then Ok (k, clock, \<lparr>up_next_update = None, up_mean_delay = None\<rparr>)
      else
        andthen (estimator_absorb_measurement fl m (base_freq_offset fl (kf_running_filter k)) (kf_config k)
                   (kf_estimator k)) (\<lambda>estimator.
        andthen (update_wander fl m (k\<lparr>kf_estimator := estimator\<rparr>)) (\<lambda>k1.
        let k2 = k1\<lparr>kf_running_filter :=
              base_progress_filtertime fl (me_event_time m) (kf_wander k1) (kf_config k1) (kf_running_filter k1)\<rparr>
        in andthen (if_some (me_raw_sync_offset m) (absorb_offset fl ops (base_absorb_sync_offset fl)) (k2, clock)) (\<lambda>kc3.
           andthen (if_some (me_raw_delay_offset m) (absorb_offset fl ops (base_absorb_delay_offset fl)) kc3) (\<lambda>kc4.
           andthen (if_some (me_peer_delay m) (\<lambda>peer_delay (k, clock).
             andthen (scaled_variance fl k) (\<lambda>variance.
             Ok (k\<lparr>kf_running_filter :=
                   base_absorb_peer_delay fl (duration_seconds fl peer_delay) variance (kf_running_filter k)\<rparr>, clock))) kc4)
             (\<lambda>(k5, clock5). kalman_steer fl ops k5 clock5))))))"

definition kalman_update ::
  "'f floatlib \<Rightarrow> ('f, 'c) clock_ops \<Rightarrow> 'f kalman_filter \<Rightarrow> 'c \<Rightarrow> 'f kalman_filter \<times> 'c \<times> filter_update" where
  "kalman_update fl ops k clock =
     (let (k1, clock1) = change_frequency fl ops (fl_lit fl 0) k clock
      in (k1, clock1, \<lparr>up_next_update = None, up_mean_delay = Some (kalman_mean_delay fl k1)\<rparr>))"

definition kalman_demobilize :: "'f floatlib \<Rightarrow> ('f, 'c) clock_ops \<Rightarrow> 'f kalman_filter \<Rightarrow> 'c \<Rightarrow> 'c" where
  "kalman_demobilize fl ops k clock = snd (change_frequency fl ops (fl_lit fl 0) k clock)"

definition kalman_current_estimates :: "'f floatlib \<Rightarrow> 'f kalman_filter \<Rightarrow> filter_estimate" where
  "kalman_current_estimates fl k = \<lparr>
     fe_offset_from_master = duration_from_seconds (fl_num fl) (base_offset fl (kf_running_filter k)),
     fe_mean_delay = kalman_mean_delay fl k\<rparr>"

end
