(* ===== verification/KalmanProps.thy ===== *)
theory KalmanProps
  imports Kalman Filters "HOL-Library.Multiset"
begin

text \<open>
  What the Kalman filter guarantees: the ring buffer of the error estimator holds the last 32 entries;
  a measurement never panics under a sane configuration; every frequency that the clock is set to
  respects the configured bound; and absorbing a measurement is the Kalman update, in exact
  arithmetic.
\<close>

section \<open>The ring buffer\<close>

text \<open>The estimator after the entries \<open>h\<close> were inserted.\<close>

definition holds_window :: "'f list \<Rightarrow> 'f error_estimator \<Rightarrow> bool" where
  "holds_window h e \<longleftrightarrow> length (ee_data e) = ESTIMATOR_SIZE
     \<and> (if length h < ESTIMATOR_SIZE
        then ee_next_idx e = length h \<and> ee_fill e = length h \<and> take (length h) (ee_data e) = h
        else ee_next_idx e < ESTIMATOR_SIZE \<and> ee_fill e = ESTIMATOR_SIZE
          \<and> drop (ee_next_idx e) (ee_data e) @ take (ee_next_idx e) (ee_data e) = drop (length h - ESTIMATOR_SIZE) h)"

lemma holds_window_default: "holds_window [] (estimator_default fl)"
  by (simp add: holds_window_def estimator_default_def ESTIMATOR_SIZE_def)

lemma holds_window_insert:
  assumes "holds_window h e"
  shows "\<exists>e'. estimator_insert_entry x e = Ok e' \<and> holds_window (h @ [x]) e'
    \<and> ee_last_sync e' = ee_last_sync e \<and> ee_last_delay e' = ee_last_delay e
    \<and> ee_peer_delay_detected e' = ee_peer_delay_detected e"
proof -
  let ?n = "ee_next_idx e"
  let ?d = "(ee_data e)[?n := x]"
  have n: "?n < ESTIMATOR_SIZE" and len: "length (ee_data e) = ESTIMATOR_SIZE"
    using assms by (auto simp: holds_window_def split: if_splits)
  have split: "take (Suc ?n) ?d = take ?n (ee_data e) @ [x]" "drop (Suc ?n) ?d = drop (Suc ?n) (ee_data e)"
    using n len by (simp_all add: take_Suc_conv_app_nth)
  show ?thesis
  proof (cases "length h < ESTIMATOR_SIZE")
    case True
    then have h: "?n = length h" "ee_fill e = length h" "take (length h) (ee_data e) = h"
      using assms by (simp_all add: holds_window_def)
    show ?thesis
    proof (cases "Suc (length h) < ESTIMATOR_SIZE")
      case True
      then show ?thesis using n len h split by (simp add: estimator_insert_entry_def holds_window_def)
    next
      case False
      then have "Suc (length h) = ESTIMATOR_SIZE" using True by simp
      then show ?thesis using n len h split by (simp add: estimator_insert_entry_def holds_window_def)
    qed
  next
    case False
    then have w: "ee_fill e = ESTIMATOR_SIZE"
        "drop ?n (ee_data e) @ take ?n (ee_data e) = drop (length h - ESTIMATOR_SIZE) h"
      using assms by (simp_all add: holds_window_def)
    have "drop (Suc ?n) (ee_data e) @ take ?n (ee_data e) = tl (drop (length h - ESTIMATOR_SIZE) h)"
      using w(2) n len by (metis drop_Suc hd_drop_conv_nth Cons_nth_drop_Suc tl_append2 list.sel(3) append_Cons)
    then have "drop (Suc ?n) ?d @ take (Suc ?n) ?d = drop (Suc (length h) - ESTIMATOR_SIZE) h @ [x]"
      using split False by (simp add: drop_Suc tl_drop Suc_diff_le)
    then show ?thesis
      using n len w(1) False
      by (cases "Suc ?n = ESTIMATOR_SIZE") (auto simp: estimator_insert_entry_def holds_window_def)
  qed
qed

lemma holds_window_mset:
  assumes "holds_window h e"
  shows "mset (take (ee_fill e) (ee_data e)) = mset (drop (length h - ESTIMATOR_SIZE) h)"
proof (cases "length h < ESTIMATOR_SIZE")
  case False
  then have "mset (ee_data e) = mset (drop (ee_next_idx e) (ee_data e) @ take (ee_next_idx e) (ee_data e))"
    by (metis append_take_drop_id mset_append union_commute)
  then show ?thesis using assms False by (simp add: holds_window_def del: mset_append)
qed (use assms in \<open>simp add: holds_window_def\<close>)

lemma outcome_insert:
  assumes "holds_window h e"
  shows "outcome T (estimator_insert_entry x e) (\<lambda>e'. \<exists>h'. holds_window h' e')"
  using holds_window_insert [OF assms, of x] by (auto simp: outcome_def)

lemma holds_window_update [simp]:
  "holds_window h (e\<lparr>ee_last_sync := s\<rparr>) \<longleftrightarrow> holds_window h e"
  "holds_window h (e\<lparr>ee_last_delay := s\<rparr>) \<longleftrightarrow> holds_window h e"
  "holds_window h (e\<lparr>ee_last_delay := s, ee_last_sync := t, ee_peer_delay_detected := b\<rparr>) \<longleftrightarrow> holds_window h e"
  by (simp_all add: holds_window_def)

lemma outcome_if_some:
  assumes "\<And>a. x = Some a \<Longrightarrow> outcome T (f a s) Q" and "x = None \<Longrightarrow> Q s"
  shows "outcome T (if_some x f s) Q"
  using assms by (cases x) (simp_all add: if_some_def)

lemma outcome_absorb_sync:
  assumes "holds_window h e"
  shows "outcome T (estimator_absorb_sync fl t fr config d e) (\<lambda>e'. \<exists>h'. holds_window h' e')"
    "outcome T (estimator_absorb_delay fl t fr config d e) (\<lambda>e'. \<exists>h'. holds_window h' e')"
  using assms
  by (auto simp: estimator_absorb_sync_def estimator_absorb_delay_def Let_def split: option.split
    intro!: outcome_insert [of h])

lemma outcome_estimator_absorb:
  fixes e :: "'f error_estimator"
  assumes "holds_window h e"
  shows "outcome T (estimator_absorb_measurement fl m fr config e) (\<lambda>e'. \<exists>h'. holds_window h' e')"
  unfolding estimator_absorb_measurement_def
proof (rule outcome_bind)
  show "outcome T (if_some (me_raw_sync_offset m) (estimator_absorb_sync fl (me_event_time m) fr config) e)
      (\<lambda>e'. \<exists>h'. holds_window h' e')"
    using assms outcome_absorb_sync(1) [OF assms] by (intro outcome_if_some) auto
next
  fix e1 :: "'f error_estimator" assume "\<exists>h'. holds_window h' e1"
  then obtain h1 where h1: "holds_window h1 e1" by blast
  show "outcome T (andthen (if_some (me_raw_delay_offset m) (estimator_absorb_delay fl (me_event_time m) fr config) e1)
      (if_some (me_peer_delay m) (\<lambda>peer_delay e. estimator_insert_entry (duration_seconds fl peer_delay)
         (e\<lparr>ee_last_delay := None, ee_last_sync := None, ee_peer_delay_detected := True\<rparr>)))) (\<lambda>e'. \<exists>h'. holds_window h' e')"
  proof (rule outcome_bind)
    show "outcome T (if_some (me_raw_delay_offset m) (estimator_absorb_delay fl (me_event_time m) fr config) e1)
        (\<lambda>e'. \<exists>h'. holds_window h' e')"
      using h1 outcome_absorb_sync(2) [OF h1] by (intro outcome_if_some) auto
  qed (auto intro!: outcome_if_some intro: outcome_insert)
qed

section \<open>A measurement returns\<close>

text \<open>A configuration under which nothing panics: the largest-spread estimate needs an entry, the bound
  on steering is not negative, and the steering time is a duration of \<open>core::time\<close>.\<close>

definition sane_config :: "'f floatlib \<Rightarrow> 'f kalman_configuration \<Rightarrow> bool" where
  "sane_config fl config \<longleftrightarrow> 1 \<le> kc_difference_estimation_boundary config
     \<and> fl_le fl (fl_neg fl (kc_max_steer config)) (kc_max_steer config)
     \<and> (\<exists>d. cd_from_secs_f64 (fl_num fl) (duration_seconds fl (kc_steer_time config)) = Ok d)"

lemma outcome_variance:
  assumes "holds_window h e"
  shows "outcome (sane_config fl config) (estimator_measurement_variance fl config e) (\<lambda>_. True)"
proof -
  have "take (ee_fill e) (ee_data e) \<noteq> []" if "0 < ee_fill e"
    using assms that by (auto simp: holds_window_def ESTIMATOR_SIZE_def split: if_splits)
  then show ?thesis
    by (auto simp: estimator_measurement_variance_def estimator_range_size_def sane_config_def outcome_def
      split: list.split)
qed

section \<open>The frequency stays within its bound\<close>

text \<open>A property of the clock that every step and every frequency within the bound keeps; if it records
  the frequencies that are set, this says that only such frequencies are set.\<close>

definition clock_safe :: "('f::linordered_field, 'c) clock_ops \<Rightarrow> 'f \<Rightarrow> ('c \<Rightarrow> bool) \<Rightarrow> bool" where
  "clock_safe ops bound P \<longleftrightarrow>
     (\<forall>d c. P c \<longrightarrow> P (snd (ck_step_clock ops d c)))
     \<and> (\<forall>f c. P c \<and> \<bar>f\<bar> \<le> bound \<longrightarrow> P (snd (ck_set_frequency ops f c)))"

text \<open>The invariant of the filter with its clock.\<close>

definition kalman_inv ::
  "'f::linordered_field kalman_configuration \<Rightarrow> ('c \<Rightarrow> bool) \<Rightarrow> 'f kalman_filter \<times> 'c \<Rightarrow> bool" where
  "kalman_inv config P = (\<lambda>(k, c). kf_config k = config \<and> (\<exists>h. holds_window h (kf_estimator k))
     \<and> pred_option (\<lambda>f. \<bar>f\<bar> \<le> kc_max_freq_offset config) (kf_cur_frequency k) \<and> P c)"

lemma kalman_inv_update [simp]:
  "kalman_inv config P (k\<lparr>kf_running_filter := x\<rparr>, c) \<longleftrightarrow> kalman_inv config P (k, c)"
  "kalman_inv config P (k\<lparr>kf_wander_filter := x\<rparr>, c) \<longleftrightarrow> kalman_inv config P (k, c)"
  "kalman_inv config P (k\<lparr>kf_wander_score := x1\<rparr>, c) \<longleftrightarrow> kalman_inv config P (k, c)"
  "kalman_inv config P (k\<lparr>kf_wander_measurement_error := y\<rparr>, c) \<longleftrightarrow> kalman_inv config P (k, c)"
  "kalman_inv config P (k\<lparr>kf_wander := y\<rparr>, c) \<longleftrightarrow> kalman_inv config P (k, c)"
  by (simp_all add: kalman_inv_def)

lemma outcome_wander_score_update:
  assumes "kalman_inv config P (k, c)"
  shows "outcome (sane_config fl config) (wander_score_update fl u p a k) (\<lambda>k'. kalman_inv config P (k', c))"
proof -
  obtain h where h: "holds_window h (kf_estimator k)" "kf_config k = config"
    using assms by (auto simp: kalman_inv_def)
  show ?thesis
    unfolding wander_score_update_def Let_def h(2)
    by (rule outcome_bind [OF outcome_variance [OF h(1)]]) (use assms in auto)
qed

lemma predict_returns:
  "\<exists>r. base_predict_sync_offset fl config b = Ok r" "\<exists>r. base_predict_delay_offset fl config b = Ok r"
  by (auto simp: base_predict_sync_offset_def base_predict_delay_offset_def base_predict_offset_def
    inner_predict_offset_def mat_entry_def split_beta Let_def split: option.split)

lemma outcome_score:
  assumes "kalman_inv config P (k, c)" and "\<exists>r. predict fl config (kf_wander_filter k) = Ok r"
  shows "outcome (sane_config fl config) (andthen (predict fl config (kf_wander_filter k)) (\<lambda>(prediction, uncertainty).
    wander_score_update fl uncertainty prediction (duration_seconds fl offset) k)) (\<lambda>k'. kalman_inv config P (k', c))"
  using assms(2) outcome_wander_score_update [OF assms(1)] by (auto simp: split_beta)

lemma outcome_update_wander:
  assumes "kalman_inv config P (k, c)"
  shows "outcome (sane_config fl config) (update_wander fl m k) (\<lambda>k'. kalman_inv config P (k', c))"
proof -
  have config: "kf_config k = config" using assms by (simp add: kalman_inv_def)
  let ?k1 = "k\<lparr>kf_wander_filter := base_progress_filtertime fl (me_event_time m) (kf_wander k) config (kf_wander_filter k)\<rparr>"
  have k1: "kalman_inv config P (?k1, c)" using assms by simp
  show ?thesis
    unfolding update_wander_def Let_def config
    by (rule outcome_bind [where Q = "\<lambda>k'. kalman_inv config P (k', c)"],
        rule outcome_if_some, rule outcome_score [OF k1 predict_returns(1)], rule k1,
        rule outcome_bind [where Q = "\<lambda>k'. kalman_inv config P (k', c)"],
        rule outcome_if_some, rule outcome_score, assumption, rule predict_returns(2), assumption) simp
qed

context exact_floats
begin

lemma clamp_adjustment_bounded:
  "0 \<le> bound \<Longrightarrow> \<bar>current + clamp_adjustment fl current error bound\<bar> \<le> bound"
  by (auto simp: clamp_adjustment_def)

lemma inv_change_frequency:
  assumes "kalman_inv config P (k, c)" and "clock_safe ops (kc_max_freq_offset config) P" "0 \<le> kc_max_freq_offset config"
  shows "kalman_inv config P (change_frequency fl ops target k c)"
  using assms clamp_adjustment_bounded [OF assms(3)]
  by (auto simp: change_frequency_def kalman_inv_def clock_safe_def Let_def split_beta split: option.split)

lemma inv_kalman_step:
  assumes "kalman_inv config P (k, c)" and "clock_safe ops bound P"
  shows "kalman_inv config P (kalman_step fl ops offset k c)"
  using assms by (auto simp: kalman_step_def kalman_inv_def clock_safe_def Let_def split_beta)

lemma inv_ensure_freq_init:
  assumes "kalman_inv config P (k, c)" and "clock_safe ops (kc_max_freq_offset config) P" "0 \<le> kc_max_freq_offset config"
  shows "kalman_inv config P (ensure_freq_init fl ops k c)"
  using assms by (auto simp: ensure_freq_init_def kalman_inv_def clock_safe_def split_beta)

lemma outcome_scaled_variance:
  assumes "kalman_inv config P (k, c)"
  shows "outcome (sane_config fl config) (scaled_variance fl k) (\<lambda>_. True)"
proof -
  obtain h where h: "holds_window h (kf_estimator k)" "kf_config k = config"
    using assms by (auto simp: kalman_inv_def)
  show ?thesis
    unfolding scaled_variance_def h(2) by (rule outcome_bind [OF outcome_variance [OF h(1)]]) simp
qed

lemma outcome_absorb_offset:
  assumes "kalman_inv config P kc" and "clock_safe ops (kc_max_freq_offset config) P" "0 \<le> kc_max_freq_offset config"
  shows "outcome (sane_config fl config) (absorb_offset fl ops absorb offset kc) (kalman_inv config P)"
proof -
  obtain k c where kc: "kc = (k, c)" by fastforce
  obtain k1 c1 where e: "ensure_freq_init fl ops k c = (k1, c1)" by fastforce
  then have inv: "kalman_inv config P (k1, c1)"
    using inv_ensure_freq_init [of config P k c ops] assms kc by simp
  show ?thesis
    unfolding absorb_offset_def kc prod.case e Let_def
    by (rule outcome_bind [OF outcome_scaled_variance [OF inv]]) (use inv in simp)
qed

lemma outcome_steer:
  assumes "kalman_inv config P (k, c)" and "clock_safe ops (kc_max_freq_offset config) P" "0 \<le> kc_max_freq_offset config"
  shows "outcome (sane_config fl config) (kalman_steer fl ops k c) (\<lambda>(k', c', u). kalman_inv config P (k', c'))"
proof -
  have config: "kf_config k = config" using assms(1) by (simp add: kalman_inv_def)
  have u: "\<exists>r. base_offset_uncertainty fl config b = Ok r" for b
    by (auto simp: base_offset_uncertainty_def mat_entry_def split: option.split)
  then obtain r where r: "base_offset_uncertainty fl config (kf_running_filter k) = Ok r" by blast
  have f: "kalman_inv config P (change_frequency fl ops target k c)" for target
    using inv_change_frequency [OF assms] .
  have s: "kalman_inv config P (kalman_step fl ops offset k c)" for offset
    using inv_kalman_step [OF assms(1,2)] .
  show ?thesis
    unfolding kalman_steer_def Let_def config r andthen.simps
    using f s by (auto simp: outcome_def sane_config_def fl_clamp_def split_beta split: sum.split)
qed

lemma outcome_kalman_measurement:
  assumes "kalman_inv config P (k, c)" and "clock_safe ops (kc_max_freq_offset config) P" "0 \<le> kc_max_freq_offset config"
  shows "outcome (sane_config fl config) (kalman_measurement fl ops m k c) (\<lambda>(k', c', u). kalman_inv config P (k', c'))"
proof -
  obtain h where h: "holds_window h (kf_estimator k)" and config: "kf_config k = config"
    using assms(1) by (auto simp: kalman_inv_def)
  have peer: "outcome (sane_config fl config) (andthen (scaled_variance fl k) (\<lambda>variance.
      Ok (k\<lparr>kf_running_filter := base_absorb_peer_delay fl x variance (kf_running_filter k)\<rparr>, c)))
      (kalman_inv config P)" if "kalman_inv config P (k, c)" for k c x
    by (rule outcome_bind [OF outcome_scaled_variance [OF that]]) (use that in simp)
  have step: "outcome (sane_config fl config) (if_some (me_raw_sync_offset m) (absorb_offset fl ops absorb) kc) (kalman_inv config P)"
      "outcome (sane_config fl config) (if_some (me_raw_delay_offset m) (absorb_offset fl ops absorb) kc) (kalman_inv config P)"
    if "kalman_inv config P kc" for kc absorb
    using that outcome_absorb_offset [OF that assms(2,3)] by (auto intro!: outcome_if_some)
  show ?thesis
  proof (cases "after_filter_time (me_event_time m) (kf_running_filter k)")
    case True
    have "outcome (sane_config fl config) (andthen (estimator_absorb_measurement fl m
          (base_freq_offset fl (kf_running_filter k)) config (kf_estimator k))
        (\<lambda>estimator. update_wander fl m (k\<lparr>kf_estimator := estimator\<rparr>))) (\<lambda>k'. kalman_inv config P (k', c))"
      by (rule outcome_bind [OF outcome_estimator_absorb [OF h]], rule outcome_update_wander)
        (use assms(1) in \<open>auto simp: kalman_inv_def\<close>)
    then have "outcome (sane_config fl config) (andthen (andthen (estimator_absorb_measurement fl m
          (base_freq_offset fl (kf_running_filter k)) config (kf_estimator k))
        (\<lambda>estimator. update_wander fl m (k\<lparr>kf_estimator := estimator\<rparr>))) (\<lambda>k1.
        let k2 = k1\<lparr>kf_running_filter :=
              base_progress_filtertime fl (me_event_time m) (kf_wander k1) (kf_config k1) (kf_running_filter k1)\<rparr>
        in andthen (if_some (me_raw_sync_offset m) (absorb_offset fl ops (base_absorb_sync_offset fl)) (k2, c)) (\<lambda>kc3.
           andthen (if_some (me_raw_delay_offset m) (absorb_offset fl ops (base_absorb_delay_offset fl)) kc3) (\<lambda>kc4.
           andthen (if_some (me_peer_delay m) (\<lambda>peer_delay (k, clock).
             andthen (scaled_variance fl k) (\<lambda>variance.
             Ok (k\<lparr>kf_running_filter :=
                   base_absorb_peer_delay fl (duration_seconds fl peer_delay) variance (kf_running_filter k)\<rparr>, clock))) kc4)
             (\<lambda>(k5, clock5). kalman_steer fl ops k5 clock5)))))
        (\<lambda>(k', c', u). kalman_inv config P (k', c'))"
      unfolding Let_def
      by (rule outcome_bind, intro outcome_bind [OF step(1)] outcome_bind [OF step(2)])
        (auto intro!: outcome_bind [where Q = "kalman_inv config P"] outcome_if_some peer outcome_steer assms(2,3)
          simp del: split_paired_All)
    then show ?thesis
      using True by (simp add: kalman_measurement_def config andthen_assoc)
  qed (use assms(1) in \<open>simp add: kalman_measurement_def\<close>)
qed

end

section \<open>The Kalman update\<close>

context exact_floats
begin

lemma sum1 [simp]: "fl_sum fl [x] = x"
  by (simp add: fl_sum_def)

lemma sum_lt3: "(\<Sum>j<(3 :: nat). f j) = f 0 + f 1 + f 2"
  by (simp add: eval_nat_numeral)

lemma less_3_cases: "i < 3 \<longleftrightarrow> i = 0 \<or> i = 1 \<or> i = (2 :: nat)"
  by auto

lemma at_ops:
  "i < n \<Longrightarrow> j < m \<Longrightarrow> mat_at (mat_mul fl n k m a b) i j = fl_sum fl (map (\<lambda>l. mat_at a i l * mat_at b l j) [0..<k])"
  "i < n \<Longrightarrow> j < m \<Longrightarrow> mat_at (mat_add fl n m a b) i j = mat_at a i j + mat_at b i j"
  "i < n \<Longrightarrow> j < m \<Longrightarrow> mat_at (mat_sub fl n m a b) i j = mat_at a i j - mat_at b i j"
  "i < n \<Longrightarrow> j < n \<Longrightarrow> mat_at (mat_unit fl n) i j = (if i = j then 1 else 0)"
  "i < m \<Longrightarrow> j < n \<Longrightarrow> mat_at (mat_transpose n m a) i j = mat_at a j i"
  "mat_at (mat_inverse fl a) 0 0 = 1 / mat_at a 0 0" "mat_at [[y]] 0 0 = y"
  by (simp_all add: mat_mul_def mat_add_def mat_sub_def mat_unit_def mat_transpose_def mat_inverse_def mat_at_def [of "[[_]]"])

text \<open>The value and the variance that a filter predicts for a measurement with the given transform.\<close>

lemma predict_exact:
  "mat_at (fst (inner_predict fl h i)) 0 0
    = mat_at h 0 0 * ventry (if_state i) 0 + mat_at h 0 1 * ventry (if_state i) 1 + mat_at h 0 2 * ventry (if_state i) 2"
  "symmetric 3 (if_uncertainty i) \<Longrightarrow> mat_at (snd (inner_predict fl h i)) 0 0
    = (\<Sum>j<3. mat_at h 0 j * (\<Sum>l<3. mat_at (if_uncertainty i) j l * mat_at h 0 l))"
  by (simp_all add: inner_predict_def mat_mul_def sum3 ventry_def mat_transpose_def symmetricD
    sum_lt3 algebra_simps)

lemma absorb_exact:
  fixes i :: "'f inner_filter" and h :: "'f matrix" and z r :: 'f
  assumes "symmetric 3 (if_uncertainty i)"
  defines "u \<equiv> mat_at (snd (inner_predict fl h i)) 0 0"
    and "v \<equiv> \<lambda>j. \<Sum>l<3. mat_at (if_uncertainty i) j l * mat_at h 0 l"
    and "i' \<equiv> inner_absorb_measurement fl [[z]] h [[r]] i"
  shows "j < 3 \<Longrightarrow> ventry (if_state i') j
      = ventry (if_state i) j + v j / (u + r) * (z - mat_at (fst (inner_predict fl h i)) 0 0)"
    and "j < 3 \<Longrightarrow> l < 3 \<Longrightarrow> mat_at (if_uncertainty i') j l = mat_at (if_uncertainty i) j l - v j * v l / (u + r)"
    and "symmetric 3 (if_uncertainty i')"
proof -
  let ?p = "if_uncertainty i" and ?x = "mat_at (fst (inner_predict fl h i)) 0 0"
  define k where "k = mat_mul fl 3 1 1 (mat_mul fl 3 3 1 ?p (mat_transpose 1 3 h))
    (mat_inverse fl (mat_add fl 1 1 (snd (inner_predict fl h i)) [[r]]))"
  define q where "q = mat_mul fl 3 3 3 (mat_sub fl 3 3 (mat_unit fl 3) (mat_mul fl 3 1 3 k h)) ?p"
  have i': "if_uncertainty i' = mat_symmetrize fl 3 q"
      "if_state i' = mat_add fl 3 1 (if_state i) (mat_mul fl 3 1 1 k (mat_sub fl 1 1 [[z]] (fst (inner_predict fl h i))))"
    by (simp_all add: i'_def inner_absorb_measurement_def split_beta Let_def k_def q_def)
  have gain: "mat_at k j 0 = v j / (u + r)" if "j < 3" for j
    using that by (simp add: k_def at_ops sum3 v_def sum_lt3 u_def)
  show state: "ventry (if_state i') j = ventry (if_state i) j + v j / (u + r) * (z - ?x)" if "j < 3" for j
    using that gain [OF that] by (simp add: i'(2) ventry_def at_ops)
  have sub: "mat_at q j l = mat_at ?p j l - v j * v l / (u + r)" if "j < 3" "l < 3" for j l
  proof -
    have "mat_at q j l = (\<Sum>n<3. ((if j = n then 1 else 0) - v j / (u + r) * mat_at h 0 n) * mat_at ?p n l)"
      using that gain [OF that(1)] by (simp add: q_def at_ops sum3 sum_lt3)
    also have "\<dots> = mat_at ?p j l - v j / (u + r) * (\<Sum>n<3. mat_at ?p n l * mat_at h 0 n)"
      using that(1) unfolding less_3_cases by (auto simp: sum_lt3 algebra_simps)
    also have "(\<Sum>n<3. mat_at ?p n l * mat_at h 0 n) = v l"
      using that(2) assms(1) by (simp add: v_def symmetricD)
    finally show ?thesis by simp
  qed
  then have "mat_at q l j = mat_at q j l" if "j < 3" "l < 3" for j l
    using that symmetricD [OF assms(1)] by (simp add: mult.commute)
  moreover have wf: "wf_mat 3 3 q" by (simp add: q_def)
  ultimately have sym: "symmetric 3 q" by (intro symmetricI) simp_all
  then show "symmetric 3 (if_uncertainty i')" using wf by (simp add: i'(1) symmetrize_id)
  show "mat_at (if_uncertainty i') j l = mat_at ?p j l - v j * v l / (u + r)" if "j < 3" "l < 3" for j l
    using sub [OF that] sym wf by (simp add: i'(1) symmetrize_id)
qed

text \<open>After a measurement of value \<open>z\<close> and variance \<open>r\<close> is absorbed, the predicted value is the
  mean of prediction and measurement weighted by their precisions, and its variance is reduced.\<close>

lemma absorb_predicts:
  fixes i :: "'f inner_filter" and h :: "'f matrix" and z r :: 'f
  assumes "symmetric 3 (if_uncertainty i)"
  defines "u \<equiv> mat_at (snd (inner_predict fl h i)) 0 0" and "x \<equiv> mat_at (fst (inner_predict fl h i)) 0 0"
    and "i' \<equiv> inner_absorb_measurement fl [[z]] h [[r]] i"
  assumes "u + r \<noteq> 0"
  shows "mat_at (fst (inner_predict fl h i')) 0 0 = (r * x + u * z) / (u + r)"
    and "mat_at (snd (inner_predict fl h i')) 0 0 = u * r / (u + r)"
proof -
  define v where "v = (\<lambda>j. \<Sum>l<3. mat_at (if_uncertainty i) j l * mat_at h 0 l)"
  have u: "u = (\<Sum>j<3. mat_at h 0 j * v j)"
    unfolding u_def v_def by (rule predict_exact(2) [OF assms(1)])
  define g w where "g = (z - x) / (u + r)" and "w = 1 / (u + r)"
  have st: "ventry (if_state i') j = ventry (if_state i) j + v j * g" if "j < 3" for j
    using absorb_exact(1) [OF assms(1) that, where h = h and z = z and r = r] by (simp add: v_def u_def x_def i'_def g_def)
  have un: "mat_at (if_uncertainty i') j l = mat_at (if_uncertainty i) j l - v j * v l * w"
    if "j < 3" "l < 3" for j l
    using absorb_exact(2) [OF assms(1) that, where h = h and z = z and r = r] by (simp add: v_def u_def i'_def w_def)
  have sym: "symmetric 3 (if_uncertainty i')"
    using absorb_exact(3) [OF assms(1)] by (simp add: i'_def)
  have "mat_at (fst (inner_predict fl h i')) 0 0 = x + u * g"
    by (simp add: predict_exact(1) st x_def u sum_lt3 algebra_simps)
  also have "\<dots> = (r * x + u * z) / (u + r)" using assms(5) by (simp add: g_def field_simps)
  finally show "mat_at (fst (inner_predict fl h i')) 0 0 = (r * x + u * z) / (u + r)" .
  have "(\<Sum>l<3. mat_at (if_uncertainty i') j l * mat_at h 0 l) = v j - v j * w * u" if "j < 3" for j
  proof -
    have "(\<Sum>l<3. mat_at (if_uncertainty i') j l * mat_at h 0 l)
        = (\<Sum>l<3. mat_at (if_uncertainty i) j l * mat_at h 0 l - v j * w * (mat_at h 0 l * v l))"
      using that by (intro sum.cong) (simp_all add: un algebra_simps)
    then show ?thesis by (simp add: sum_subtractf sum_distrib_left [symmetric] u v_def)
  qed
  then have "mat_at (snd (inner_predict fl h i')) 0 0 = (\<Sum>j<3. mat_at h 0 j * (v j - v j * w * u))"
    by (simp add: predict_exact(2) [OF sym])
  also have "\<dots> = u - u * w * u"
    unfolding right_diff_distrib sum_subtractf u [symmetric] by (simp add: sum_distrib_right [symmetric] mult.assoc [symmetric] u [symmetric])
  also have "\<dots> = u * r / (u + r)" using assms(5) by (simp add: w_def field_simps)
  finally show "mat_at (snd (inner_predict fl h i')) 0 0 = u * r / (u + r)" .
qed

end

section \<open>The contract of filters\<close>

context exact_floats
begin

lemma inv_kalman_update:
  assumes "kalman_inv config P (k, c)" and "clock_safe ops (kc_max_freq_offset config) P" "0 \<le> kc_max_freq_offset config"
    and "kalman_update fl ops k c = (k', c', u)"
  shows "kalman_inv config P (k', c')"
  using inv_change_frequency [OF assms(1-3), of "fl_lit fl 0"] assms(4)
  by (auto simp: kalman_update_def Let_def split_beta)

lemma kalman_contract:
  assumes "clock_safe ops (kc_max_freq_offset config) P" "0 \<le> kc_max_freq_offset config" "sane_config fl config"
  shows "filter_contract (kalman_measurement fl ops) (kalman_update fl ops) (kalman_inv config P) (\<lambda>_. True)"
proof
  fix k c m assume "kalman_inv config P (k, c)"
  from outcome_total [OF outcome_kalman_measurement [OF this assms(1,2), of m] assms(3)]
  show "\<exists>k' c' u. kalman_measurement fl ops m k c = Ok (k', c', u) \<and> kalman_inv config P (k', c')" by auto
next
  fix k c k' c' u assume "kalman_inv config P (k, c)" "kalman_update fl ops k c = (k', c', u)"
  then show "kalman_inv config P (k', c')" using inv_kalman_update [OF _ assms(1,2)] by simp
qed

lemma kalman_inv_new:
  assumes "sane_config fl config" "P c"
  shows "\<exists>k. kalman_new fl config = Ok k \<and> kalman_inv config P (k, c)"
  using outcome_total [OF outcome_variance [OF holds_window_default] assms(1), of fl] assms(2)
    holds_window_default [of fl]
  by (auto simp: kalman_new_def kalman_inv_def)

end

section \<open>Properties\<close>

text \<open>The entries that were inserted one after the other.\<close>

primrec insert_all :: "'f list \<Rightarrow> 'f error_estimator \<Rightarrow> 'f error_estimator res" where
  "insert_all [] e = Ok e"
| "insert_all (x # xs) e = andthen (estimator_insert_entry x e) (insert_all xs)"

lemma insert_all_window:
  "holds_window h e \<Longrightarrow> \<exists>e'. insert_all xs e = Ok e' \<and> holds_window (h @ xs) e'"
proof (induction xs arbitrary: h e)
  case (Cons x xs)
  from holds_window_insert [OF Cons.prems, of x]
  obtain e1 where "estimator_insert_entry x e = Ok e1" "holds_window (h @ [x]) e1" by fast
  then show ?case using Cons.IH [of "h @ [x]" e1] by simp
qed simp

text \<open>The ring buffer of the error estimator refines a list: whatever number of entries is inserted,
  no index is out of range, and the entries that its statistics use are the last 32 inserted, or all
  of them as long as there are fewer.\<close>

theorem estimator_keeps_last_entries:
  "\<exists>e. insert_all h (estimator_default fl) = Ok e
    \<and> mset (take (ee_fill e) (ee_data e)) = mset (drop (length h - 32) h)
    \<and> ee_fill e = min 32 (length h)"
proof -
  obtain e where e: "insert_all h (estimator_default fl) = Ok e" "holds_window h e"
    using insert_all_window [OF holds_window_default, of h] by auto
  then show ?thesis
    using holds_window_mset [OF e(2)]
    by (auto simp: ESTIMATOR_SIZE_def holds_window_def min_def split: if_splits)
qed


text \<open>A clock that records the frequencies it is set to, with the default configuration.\<close>

definition recording_clock :: "(real, real list) clock_ops" where
  "recording_clock = \<lparr>ck_now = (\<lambda>c. 0), ck_step_clock = (\<lambda>d c. (Some 0, c)),
     ck_set_frequency = (\<lambda>f c. (Some 0, c @ [f])), ck_set_properties = (\<lambda>tp c. (True, c))\<rparr>"

abbreviation default_configuration :: "real kalman_configuration" where
  "default_configuration \<equiv> kalman_configuration_default floatlib_real"

lemma default_bound: "kc_max_freq_offset default_configuration = 400"
  by (simp add: kalman_configuration_default_def floatlib_real_def)

lemma default_sane: "sane_config floatlib_real default_configuration"
proof -
  have "round (2 * 2 ^ 32 :: real) = 2 * 2 ^ 32" using round_of_int [of "2 * 2 ^ 32"] by simp
  then have "duration_seconds floatlib_real (kc_steer_time default_configuration) = 2"
    by (simp add: kalman_configuration_default_def duration_seconds_def duration_from_seconds_def
      floatlib_real_def numlib_exact_def)
  moreover have "kc_max_steer default_configuration = 200" "kc_difference_estimation_boundary default_configuration = 4"
    by (simp_all add: kalman_configuration_default_def floatlib_real_def)
  ultimately show ?thesis
    by (simp add: sane_config_def) (simp add: floatlib_real_def numlib_exact_def)
qed

lemma recording_safe: "clock_safe recording_clock 400 (list_all (\<lambda>f. \<bar>f\<bar> \<le> 400))"
  by (simp add: clock_safe_def recording_clock_def)

interpretation kalman_default: filter_contract
  "kalman_measurement floatlib_real recording_clock" "kalman_update floatlib_real recording_clock"
  "kalman_inv default_configuration (list_all (\<lambda>f. \<bar>f\<bar> \<le> 400))" "\<lambda>_. True"
  by (rule exact_real.kalman_contract) (simp_all add: default_bound default_sane recording_safe)


text \<open>C26: absorbing a measurement is the Kalman update, in exact arithmetic: if the filter predicts the
  measured quantity as \<open>x\<close> with variance \<open>u\<close> and the measurement is \<open>z\<close> with
  variance \<open>r\<close>, it afterwards predicts the mean of \<open>x\<close> and \<open>z\<close> weighted with their
  precisions, with the variance \<open>u r / (u + r)\<close>, and its uncertainty is again symmetric.\<close>

theorem kalman_update_optimal:
  assumes "exact_floats fl" and "symmetric 3 (if_uncertainty i)"
    and "u = mat_at (snd (inner_predict fl h i)) 0 0" "x = mat_at (fst (inner_predict fl h i)) 0 0"
    and "u + r \<noteq> 0" and "i' = inner_absorb_measurement fl [[z]] h [[r]] i"
  shows "mat_at (fst (inner_predict fl h i')) 0 0 = (r * x + u * z) / (u + r)
    \<and> mat_at (snd (inner_predict fl h i')) 0 0 = u * r / (u + r) \<and> symmetric 3 (if_uncertainty i')"
  using exact_floats.absorb_predicts [OF assms(1,2), of h r z] exact_floats.absorb_exact(3) [OF assms(1,2)] assms(3-6)
  by simp

text \<open>A filter that predicts the sync offset 1 with variance 2, and a measurement of 5 with variance 2.\<close>

definition example_inner :: "real inner_filter" where
  "example_inner = \<lparr>if_state = [[1], [0], [0]],
     if_uncertainty = [[1, 0, 0], [0, 1, 0], [0, 0, 1]], if_filter_time = 0\<rparr>"

theorem kalman_update_optimal_witness:
  "mat_at (fst (inner_predict floatlib_real (MEASUREMENT_SYNC floatlib_real)
      (inner_absorb_sync_offset floatlib_real 5 2 example_inner))) 0 0 = 3"
proof -
  let ?h = "MEASUREMENT_SYNC floatlib_real"
  have h: "?h = [[1, 0, 1]]" by (simp add: MEASUREMENT_SYNC_def)
  have sym: "symmetric 3 (if_uncertainty example_inner)"
    by (simp add: symmetric_def mat_transpose_def from_fn_def mat_at_def example_inner_def upt_rec)
  have p: "mat_at (fst (inner_predict floatlib_real ?h example_inner)) 0 0 = 1"
      "mat_at (snd (inner_predict floatlib_real ?h example_inner)) 0 0 = 2"
    unfolding exact_real.predict_exact(1) exact_real.predict_exact(2) [OF sym] h
    by (simp_all add: example_inner_def mat_at_def ventry_def exact_real.sum_lt3 numeral_2_eq_2)
  show ?thesis
    using kalman_update_optimal [OF exact_real.exact_floats_axioms sym p(2) [symmetric] p(1) [symmetric], of 2 _ 5] p
    by (simp add: inner_absorb_sync_offset_def new_vector_def from_fn_def)
qed

end
