(* ===== verification/Metrics.thy ===== *)
theory Metrics
  imports Instance Clocks
begin

text \<open>
  The metrics exporter of the daemon: \<open>statime-linux/src/metrics/format.rs\<close> writes the observable
  state (\<open>observer.rs\<close>, \<open>metrics/exporter.rs\<close>) as an HTTP response in the text format of
  OpenMetrics. A Rust string is the list of its bytes, and a \<open>char\<close> of HOL is a byte. Writing into
  a \<open>String\<close> never fails, so a function that writes is the text that it appends. How an
  \<open>f64\<close> is displayed is the parameter \<open>disp\<close>.
\<close>

section \<open>Display\<close>

abbreviation newline :: char where
  "newline \<equiv> CHR 0x0A"

abbreviation backslash :: char where
  "backslash \<equiv> CHR 0x5C"

abbreviation quote :: char where
  "quote \<equiv> CHR 0x22"

definition digit_char :: "nat \<Rightarrow> char" where
  "digit_char d = char_of (if d < 10 then 48 + d else 87 + d)"

fun show_nat :: "nat \<Rightarrow> string" where
  "show_nat n = (if n < 10 then [digit_char n] else show_nat (n div 10) @ [digit_char (n mod 10)])"

declare show_nat.simps [simp del]

definition show_int :: "int \<Rightarrow> string" where
  "show_int i = (if i < 0 then CHR ''-'' # show_nat (nat (- i)) else show_nat (nat i))"

text \<open>\<open>{:02x}\<close> of a byte, and \<open>Display\<close> of \<open>ClockIdentity\<close>.\<close>

definition show_hex2 :: "u8 \<Rightarrow> string" where
  "show_hex2 b = [digit_char (unat b div 16), digit_char (unat b mod 16)]"

definition clock_identity_display :: "clock_identity \<Rightarrow> string" where
  "clock_identity_display ci =
     concat (map (\<lambda>(i, val). (if i \<noteq> 0 then '':'' else []) @ show_hex2 val) (enumerate 0 ci))"

definition time_interval_to_nanos :: "'f floatlib \<Rightarrow> time_interval \<Rightarrow> 'f" where
  "time_interval_to_nanos fl ti = fl_of_fx fl (sint ti * 2 ^ 16)"

section \<open>The observable state\<close>

record 'f program_data =
  pr_version :: string
  pr_build_commit :: string
  pr_build_commit_date :: string
  pr_uptime_seconds :: 'f

record observable_instance_state =
  ob_default_ds :: obs_default_ds
  ob_current_ds :: obs_current_ds
  ob_parent_ds :: obs_parent_ds
  ob_time_properties_ds :: time_properties_ds
  ob_path_trace_ds :: path_trace_ds
  ob_port_ds :: "port_ds list"

record 'f observable_state =
  os_program :: "'f program_data"
  os_instance :: observable_instance_state

text \<open>The version and the commit come from the build.\<close>

definition program_data_default :: "'f floatlib \<Rightarrow> string \<Rightarrow> string \<Rightarrow> string \<Rightarrow> 'f program_data" where
  "program_data_default fl version commit date =
     \<lparr>pr_version = version, pr_build_commit = commit, pr_build_commit_date = date, pr_uptime_seconds = fl_lit fl 0\<rparr>"

definition with_uptime :: "'f floatlib \<Rightarrow> string \<Rightarrow> string \<Rightarrow> string \<Rightarrow> 'f \<Rightarrow> 'f program_data" where
  "with_uptime fl version commit date uptime_seconds =
     (program_data_default fl version commit date)\<lparr>pr_uptime_seconds := uptime_seconds\<rparr>"

section \<open>One metric\<close>

datatype metric_unit = Seconds | Nanoseconds

fun unit_as_str :: "metric_unit \<Rightarrow> string" where
  "unit_as_str Seconds = ''seconds''"
| "unit_as_str Nanoseconds = ''nanoseconds''"

datatype metric_type = Gauge | Counter

fun metric_type_as_str :: "metric_type \<Rightarrow> string" where
  "metric_type_as_str Gauge = ''gauge''"
| "metric_type_as_str Counter = ''counter''"

type_synonym labels = "(string \<times> string) list"

text \<open>The value of a measurement is given as it is displayed.\<close>

record metric_measurement =
  mm_labels :: labels
  mm_value :: string

definition replace_char :: "char \<Rightarrow> string \<Rightarrow> string \<Rightarrow> string" where
  "replace_char c t s = concat (map (\<lambda>x. if x = c then t else [x]) s)"

definition escape_value :: "string \<Rightarrow> string" where
  "escape_value value =
     replace_char newline [backslash, CHR ''n'']
       (replace_char quote [backslash, quote]
         (replace_char backslash [backslash, backslash] value))"

definition format_labels :: "labels \<Rightarrow> string" where
  "format_labels ls =
     concat (map (\<lambda>(offset, label, value).
       label @ [CHR ''='', quote] @ escape_value value @ [quote]
         @ (if offset < length ls - 1 then '','' else [])) (enumerate 0 ls))"

definition format_measurement :: "string \<Rightarrow> metric_measurement \<Rightarrow> string" where
  "format_measurement name measurement =
     name @ (if mm_labels measurement \<noteq> [] then ''{'' @ format_labels (mm_labels measurement) @ ''}'' else [])
       @ '' '' @ mm_value measurement @ [newline]"

definition metric_name :: "string \<Rightarrow> metric_unit option \<Rightarrow> string" where
  "metric_name name unit =
     (case unit of
        Some unit \<Rightarrow> ''statime_'' @ name @ ''_'' @ unit_as_str unit
      | None \<Rightarrow> ''statime_'' @ name)"

definition format_metric ::
  "string \<Rightarrow> string \<Rightarrow> metric_type \<Rightarrow> metric_unit option \<Rightarrow> metric_measurement list \<Rightarrow> string" where
  "format_metric name help metric_type unit measurements =
     (let name = metric_name name unit in
      ''# HELP '' @ name @ '' '' @ help @ ''.'' @ [newline]
      @ ''# TYPE '' @ name @ '' '' @ metric_type_as_str metric_type @ [newline]
      @ (case unit of Some unit \<Rightarrow> ''# UNIT '' @ name @ '' '' @ unit_as_str unit @ [newline] | None \<Rightarrow> [])
      @ concat (map (format_measurement name) measurements))"

text \<open>The macro \<open>format_bool\<close>, as it is written.\<close>

definition format_bool :: "bool \<Rightarrow> nat" where
  "format_bool value = (case value of True \<Rightarrow> 0 | False \<Rightarrow> 1)"

section \<open>The data sets\<close>

abbreviation one_measurement :: "labels \<Rightarrow> string \<Rightarrow> metric_measurement list" where
  "one_measurement ls v \<equiv> [\<lparr>mm_labels = ls, mm_value = v\<rparr>]"

definition format_default_ds :: "obs_default_ds \<Rightarrow> labels \<Rightarrow> string" where
  "format_default_ds default_ds ls =
     format_metric ''number_ports'' ''The amount of ports assigned'' Gauge None
       (one_measurement ls (show_nat (unat (od_number_ports default_ds))))
     @ format_metric ''quality_class'' ''The PTP clock class'' Gauge None
       (one_measurement ls (show_nat (unat (cq_clock_class (od_clock_quality default_ds)))))
     @ format_metric ''quality_accuracy'' ''The quality of the clock'' Gauge None
       (one_measurement ls (show_nat (unat (clock_accuracy_to_primitive (cq_clock_accuracy (od_clock_quality default_ds))))))
     @ format_metric ''quality_offset_scaled_log_variance''
       ''2-log of the variance (in seconds^2) of the clock when not synchronized'' Gauge None
       (one_measurement ls (show_nat (unat (cq_offset_scaled_log_variance (od_clock_quality default_ds)))))
     @ format_metric ''priority_1'' ''priority 1 used in the BMCA'' Gauge None
       (one_measurement ls (show_nat (unat (od_priority_1 default_ds))))
     @ format_metric ''priority_2'' ''priority 2 used in the BMCA'' Gauge None
       (one_measurement ls (show_nat (unat (od_priority_2 default_ds))))"

definition format_current_ds :: "'f floatlib \<Rightarrow> ('f \<Rightarrow> string) \<Rightarrow> obs_current_ds \<Rightarrow> labels \<Rightarrow> string" where
  "format_current_ds fl disp current_ds ls =
     format_metric ''steps_removed''
       ''The number of paths traversed between this instance and the Grandmaster PTP instance'' Gauge None
       (one_measurement ls (show_nat (unat (oc_steps_removed current_ds))))
     @ format_metric ''offset_from_master''
       ''Time difference between a Master PTP Instance as calculated by the Slave instance'' Gauge (Some Nanoseconds)
       (one_measurement ls (disp (duration_seconds fl (oc_offset_from_master current_ds))))
     @ format_metric ''mean_delay''
       ''Packet delay between a Master PTP Instance as calculated by the Slave instance'' Gauge (Some Nanoseconds)
       (one_measurement ls (disp (duration_seconds fl (oc_mean_delay current_ds))))"

definition format_parent_ds :: "obs_parent_ds \<Rightarrow> labels \<Rightarrow> string" where
  "format_parent_ds parent_ds labels0 =
     (let ls = labels0
            @ [(''parent_clock_identity'', clock_identity_display (pi_clock_identity (op_parent_port_identity parent_ds))),
               (''parent_port_number'', show_nat (unat (pi_port_number (op_parent_port_identity parent_ds))))]
      in format_metric ''grandmaster_clock_quality_class'' ''The PTP clock class'' Gauge None
           (one_measurement ls (show_nat (unat (cq_clock_class (op_grandmaster_clock_quality parent_ds)))))
         @ format_metric ''grandmaster_clock_quality_accuracy'' ''The quality of the clock'' Gauge None
           (one_measurement ls
             (show_nat (unat (clock_accuracy_to_primitive (cq_clock_accuracy (op_grandmaster_clock_quality parent_ds))))))
         @ format_metric ''grandmaster_clock_quality_offset_scaled_log_variance''
           ''2-log of the variance (in seconds^2) of the grandmaster clock when not synchronized'' Gauge None
           (one_measurement ls (show_nat (unat (cq_offset_scaled_log_variance (op_grandmaster_clock_quality parent_ds)))))
         @ format_metric ''grandmaster_priority_1'' (''priority 1 of the parent'' @ [CHR 0x27] @ ''s grandmaster'') Gauge None
           (one_measurement ls (show_nat (unat (op_grandmaster_priority_1 parent_ds))))
         @ format_metric ''grandmaster_priority_2'' (''priority 2 of the parent'' @ [CHR 0x27] @ ''s grandmaster'') Gauge None
           (one_measurement ls (show_nat (unat (op_grandmaster_priority_2 parent_ds)))))"

definition leap_minute :: "leap_indicator \<Rightarrow> nat" where
  "leap_minute l = (case l of NoLeap \<Rightarrow> 60 | Leap61 \<Rightarrow> 61 | Leap59 \<Rightarrow> 59)"

definition format_time_properties_ds :: "time_properties_ds \<Rightarrow> labels \<Rightarrow> string" where
  "format_time_properties_ds tp ls =
     (case tp_current_utc_offset tp of
        Some current_utc_offset \<Rightarrow>
          format_metric ''current_utc_offset'' ''Current offset from UTC in seconds'' Gauge (Some Seconds)
            (one_measurement ls (show_int (sint current_utc_offset)))
      | None \<Rightarrow> [])
     @ format_metric ''upcoming_leap'' ''The amount of seconds the last minute of this will be'' Gauge (Some Seconds)
       (one_measurement ls (show_nat (leap_minute (tp_leap_indicator tp))))
     @ format_metric ''time_traceable'' ''Whether the timescale is traceable to a primary reference'' Gauge None
       (one_measurement ls (show_nat (format_bool (tp_time_traceable tp))))
     @ format_metric ''frequency_traceable''
       ''Whether the frequency determining the timescale is traceable to a primary reference'' Gauge None
       (one_measurement ls (show_nat (format_bool (tp_frequency_traceable tp))))
     @ format_metric ''ptp_timescale'' ''Whether the timescale of the Grandmaster PTP Instance is PTP'' Gauge None
       (one_measurement ls (show_nat (format_bool (tp_ptp_timescale tp))))
     @ format_metric ''time_source'' ''The source of time used by the Grandmaster PTP instance'' Gauge None
       (one_measurement ls (show_nat (unat (time_source_to_primitive (tp_time_source tp)))))"

definition format_path_trace_ds :: "path_trace_ds \<Rightarrow> labels \<Rightarrow> string" where
  "format_path_trace_ds path_trace_ds ls =
     format_metric ''path_trace_enable'' ''1 if path trace options is enabled, 0 otherwise'' Gauge None
       (one_measurement ls (show_nat (format_bool (pt_enable path_trace_ds))))
     @ (let measurements = map (\<lambda>(steps_removed, clock_identity).
              \<lparr>mm_labels = ls @ [(''node'', clock_identity_display clock_identity)], mm_value = show_nat steps_removed\<rparr>)
              (enumerate 0 (pt_list path_trace_ds))
        in format_metric ''path_trace_list'' ''list of clocks from grandmaster to local clock'' Gauge None
             (measurements @ [\<lparr>mm_labels = ls @ [(''node'', ''self'')], mm_value = show_nat (length (pt_list path_trace_ds))\<rparr>]))"

fun port_state_as_u8 :: "obs_port_state \<Rightarrow> nat" where
  "port_state_as_u8 OPS_Initializing = 1"
| "port_state_as_u8 OPS_Faulty = 2"
| "port_state_as_u8 OPS_Disabled = 3"
| "port_state_as_u8 OPS_Listening = 4"
| "port_state_as_u8 OPS_PreMaster = 5"
| "port_state_as_u8 OPS_Master = 6"
| "port_state_as_u8 OPS_Passive = 7"
| "port_state_as_u8 OPS_Uncalibrated = 8"
| "port_state_as_u8 OPS_Slave = 9"

abbreviation port_label :: "port_ds \<Rightarrow> string \<times> string" where
  "port_label p \<equiv> (''port'', show_nat (unat (pi_port_number (pds_port_identity p))))"

definition link_delay_measurement :: "'f floatlib \<Rightarrow> ('f \<Rightarrow> string) \<Rightarrow> labels \<Rightarrow> port_ds \<Rightarrow> metric_measurement option" where
  "link_delay_measurement fl disp ls p =
     (case pds_delay_mechanism p of
        ODM_P2P _ mean_link_delay \<Rightarrow>
          Some \<lparr>mm_labels = ls @ [port_label p], mm_value = disp (time_interval_to_nanos fl mean_link_delay)\<rparr>
      | _ \<Rightarrow> None)"

definition format_port_ds :: "'f floatlib \<Rightarrow> ('f \<Rightarrow> string) \<Rightarrow> port_ds list \<Rightarrow> labels \<Rightarrow> string" where
  "format_port_ds fl disp port_ds ls =
     format_metric ''port_state'' ''The current state of the port'' Gauge None
       (map (\<lambda>p. \<lparr>mm_labels = ls @ [port_label p], mm_value = show_nat (port_state_as_u8 (pds_port_state p))\<rparr>) port_ds)
     @ format_metric ''mean_link_delay'' ''The current mean link delay of the port'' Gauge (Some Nanoseconds)
       (List.map_filter (link_delay_measurement fl disp ls) port_ds)"

section \<open>The response\<close>

definition format_state :: "'f floatlib \<Rightarrow> ('f \<Rightarrow> string) \<Rightarrow> 'f observable_state \<Rightarrow> string" where
  "format_state fl disp state =
     (let program = os_program state; inst = os_instance state;
          ls = [(''clock_identity'', clock_identity_display (od_clock_identity (ob_default_ds inst)))]
      in format_metric ''uptime'' ''The time that statime has been running'' Gauge (Some Seconds)
           (one_measurement
             [(''version'', pr_version program), (''build_commit'', pr_build_commit program),
              (''build_commit_date'', pr_build_commit_date program)] (disp (pr_uptime_seconds program)))
         @ format_default_ds (ob_default_ds inst) ls
         @ format_current_ds fl disp (ob_current_ds inst) ls
         @ format_parent_ds (ob_parent_ds inst) ls
         @ format_time_properties_ds (ob_time_properties_ds inst) ls
         @ format_path_trace_ds (ob_path_trace_ds inst) ls
         @ format_port_ds fl disp (ob_port_ds inst) ls
         @ ''# EOF'' @ [newline])"

abbreviation crlf :: string where
  "crlf \<equiv> [CHR 0x0D, CHR 0x0A]"

definition format_response :: "'f floatlib \<Rightarrow> ('f \<Rightarrow> string) \<Rightarrow> string \<Rightarrow> 'f observable_state \<Rightarrow> string" where
  "format_response fl disp buf state =
     (let content = format_state fl disp state in
      buf @ ''HTTP/1.1 200 OK'' @ crlf @ ''content-type: text/plain'' @ crlf
        @ ''content-length: '' @ show_nat (length content) @ crlf @ crlf @ content)"

end
