(* ===== verification/MetricsProps.thy ===== *)
theory MetricsProps
  imports Metrics
begin

text \<open>
  What a client reads from the metrics exporter. The client is specified by a reader of HTTP
  responses and of the text format: it takes the body of the length that the header announces, skips
  comment lines up to the mark of the end, and reads a name, labels with escaped values and a value
  from every other line. The theorem says that it reads exactly the samples of the observable state,
  whatever characters the values of labels contain.
\<close>

section \<open>The reader\<close>

fun parse_value :: "string \<Rightarrow> (string \<times> string) option" where
  "parse_value [] = None"
| "parse_value (c # cs) =
     (if c = quote then Some ([], cs)
      else if c = backslash then
        (case cs of
           [] \<Rightarrow> None
         | d # ds \<Rightarrow> map_option (\<lambda>(v, r). ((if d = CHR ''n'' then newline else d) # v, r)) (parse_value ds))
      else map_option (\<lambda>(v, r). (c # v, r)) (parse_value cs))"

lemma parse_value_shorter: "parse_value s = Some (v, r) \<Longrightarrow> length r < length s"
proof (induction s arbitrary: v rule: parse_value.induct)
  case (2 c cs)
  then show ?case by (fastforce split: if_splits list.splits)
qed simp

lemma length_dropWhile_Cons: "dropWhile P s = x # xs \<Longrightarrow> length xs < length s"
  by (metis length_dropWhile_le length_Cons Suc_le_lessD)

function parse_labels :: "string \<Rightarrow> (labels \<times> string) option" where
  "parse_labels s =
     (case dropWhile (\<lambda>c. c \<noteq> CHR ''='') s of
        _ # q # rest \<Rightarrow>
          if q = quote then
            (case parse_value rest of
               Some (v, c # rest') \<Rightarrow>
                 (let l = (takeWhile (\<lambda>c. c \<noteq> CHR ''='') s, v) in
                  if c = CHR ''}'' then Some ([l], rest')
                  else if c = CHR '','' then map_option (\<lambda>(ls, r). (l # ls, r)) (parse_labels rest')
                  else None)
             | _ \<Rightarrow> None)
          else None
      | _ \<Rightarrow> None)"
  by pat_completeness auto

termination
  by (relation "measure length") (auto dest!: length_dropWhile_Cons parse_value_shorter)

declare parse_labels.simps [simp del]

type_synonym sample = "string \<times> labels \<times> string"

definition parse_sample :: "string \<Rightarrow> sample option" where
  "parse_sample l =
     (let name = takeWhile (\<lambda>c. c \<noteq> CHR ''{'' \<and> c \<noteq> CHR '' '') l in
      case dropWhile (\<lambda>c. c \<noteq> CHR ''{'' \<and> c \<noteq> CHR '' '') l of
        c # rest \<Rightarrow>
          if c = CHR '' '' then Some (name, [], rest)
          else (case parse_labels rest of
                  Some (ls, d # value) \<Rightarrow> if d = CHR '' '' then Some (name, ls, value) else None
                | _ \<Rightarrow> None)
      | [] \<Rightarrow> None)"

lemma length_rest [termination_simp]:
  "s \<noteq> [] \<Longrightarrow> length (dropWhile P s) - Suc 0 < length s"
  by (cases s) (auto intro: le_less_trans [OF diff_le_self] simp: le_imp_less_Suc length_dropWhile_le)

fun split_lines :: "string \<Rightarrow> string list" where
  "split_lines s =
     (if s = [] then []
      else takeWhile (\<lambda>c. c \<noteq> newline) s # split_lines (drop 1 (dropWhile (\<lambda>c. c \<noteq> newline) s)))"

declare split_lines.simps [simp del]

fun parse_lines :: "string list \<Rightarrow> sample list option" where
  "parse_lines [] = None"
| "parse_lines (l # ls) =
     (if l = ''# EOF'' then (if ls = [] then Some [] else None)
      else if take 1 l = ''#'' then parse_lines ls
      else case parse_sample l of
             None \<Rightarrow> None
           | Some s \<Rightarrow> map_option (Cons s) (parse_lines ls))"

definition parse_exposition :: "string \<Rightarrow> sample list option" where
  "parse_exposition s = parse_lines (split_lines s)"

definition parse_nat :: "string \<Rightarrow> nat option" where
  "parse_nat s =
     (if s \<noteq> [] \<and> list_all (\<lambda>c. 48 \<le> (of_char c :: nat) \<and> (of_char c :: nat) \<le> 57) s
      then Some (foldl (\<lambda>n c. 10 * n + (of_char c - 48)) 0 s) else None)"

function read_headers :: "string \<Rightarrow> (string list \<times> string) option" where
  "read_headers s =
     (case dropWhile (\<lambda>c. c \<noteq> CHR 0x0D) s of
        _ # lf # rest \<Rightarrow>
          if lf = newline then
            (let l = takeWhile (\<lambda>c. c \<noteq> CHR 0x0D) s in
             if l = [] then Some ([], rest) else map_option (\<lambda>(ls, body). (l # ls, body)) (read_headers rest))
          else None
      | _ \<Rightarrow> None)"
  by pat_completeness auto

termination
  by (relation "measure length") (auto dest!: length_dropWhile_Cons)

declare read_headers.simps [simp del]

definition http_body :: "string \<Rightarrow> string option" where
  "http_body s =
     (case read_headers s of
        Some (status # hs, rest) \<Rightarrow>
          if status \<noteq> ''HTTP/1.1 200 OK'' then None
          else (case List.find (\<lambda>h. take 16 h = ''content-length: '') hs of
                  None \<Rightarrow> None
                | Some h \<Rightarrow> Option.bind (parse_nat (drop 16 h)) (\<lambda>n. if n \<le> length rest then Some (take n rest) else None))
      | _ \<Rightarrow> None)"

definition scrape :: "string \<Rightarrow> sample list option" where
  "scrape s = Option.bind (http_body s) parse_exposition"

section \<open>Reading what was written\<close>

fun escape_char :: "char \<Rightarrow> string" where
  "escape_char c =
     (if c = backslash then [backslash, backslash] else if c = quote then [backslash, quote]
      else if c = newline then [backslash, CHR ''n''] else [c])"

lemma replace_char_simps [simp]:
  "replace_char c t [] = []"
  "replace_char c t (x # xs) = (if x = c then t else [x]) @ replace_char c t xs"
  "replace_char c t (xs @ ys) = replace_char c t xs @ replace_char c t ys"
  by (simp_all add: replace_char_def)

lemma escape_value_simps [simp]:
  "escape_value [] = []" "escape_value (c # cs) = escape_char c @ escape_value cs"
  by (simp_all add: escape_value_def)

lemma escape_value_newline [simp]: "newline \<notin> set (escape_value v)"
  by (induction v) auto

lemma while_append:
  assumes "list_all P l" "\<not> P c"
  shows "takeWhile P (l @ c # r) = l" "dropWhile P (l @ c # r) = c # r"
  using assms by (induction l) simp_all

lemma parse_escaped: "parse_value (escape_value v @ quote # rest) = Some (v, rest)"
  by (induction v) simp_all

lemma format_labels_simps:
  "format_labels [(l, v)] = l @ CHR ''='' # quote # escape_value v @ [quote]"
  "format_labels ((l, v) # x # xs) = l @ CHR ''='' # quote # escape_value v @ quote # CHR '','' # format_labels (x # xs)"
  by (simp_all add: format_labels_def enumerate_Suc_eq [of "Suc 0"] case_prod_unfold comp_def)

lemma labels_induct [consumes 1, case_names one more]:
  "xs \<noteq> [] \<Longrightarrow> (\<And>l v. P [(l, v)]) \<Longrightarrow> (\<And>l v y ys. P (y # ys) \<Longrightarrow> P ((l, v) # y # ys)) \<Longrightarrow> P xs"
  for xs :: labels
  by (induction xs rule: list_nonempty_induct) (auto simp: neq_Nil_conv)

abbreviation plain_label :: "string \<times> string \<Rightarrow> bool" where
  "plain_label l \<equiv> CHR ''='' \<notin> set (fst l) \<and> newline \<notin> set (fst l)"

lemma parse_label:
  assumes "CHR ''='' \<notin> set l"
  shows "parse_labels (l @ CHR ''='' # quote # escape_value v @ quote # c # rest) =
    (if c = CHR ''}'' then Some ([(l, v)], rest)
     else if c = CHR '','' then map_option (\<lambda>(ls, r). ((l, v) # ls, r)) (parse_labels rest) else None)"
proof -
  have "list_all (\<lambda>c. c \<noteq> CHR ''='') l" using assms by (auto simp: list_all_iff)
  then show ?thesis
    by (subst parse_labels.simps) (simp add: while_append parse_escaped Let_def)
qed

lemma parse_format_labels:
  assumes "ls \<noteq> []" "list_all plain_label ls"
  shows "parse_labels (format_labels ls @ CHR ''}'' # rest) = Some (ls, rest)"
  using assms
proof (induction ls rule: labels_induct)
  case (more l v y ys)
  then show ?case by (simp add: format_labels_simps parse_label)
qed (simp add: format_labels_simps parse_label)

lemma format_labels_newline: "list_all plain_label ls \<Longrightarrow> newline \<notin> set (format_labels ls)"
proof (cases "ls = []")
  case False
  then show "list_all plain_label ls \<Longrightarrow> ?thesis"
    by (induction ls rule: labels_induct) (auto simp: format_labels_simps)
qed (simp add: format_labels_def)

text \<open>The line of a measurement without its end.\<close>

abbreviation plain_measurement :: "metric_measurement \<Rightarrow> bool" where
  "plain_measurement m \<equiv> list_all plain_label (mm_labels m) \<and> newline \<notin> set (mm_value m)"

abbreviation plain_name :: "string \<Rightarrow> bool" where
  "plain_name name \<equiv> list_all (\<lambda>c. c \<noteq> newline \<and> c \<noteq> CHR ''{'' \<and> c \<noteq> CHR '' '') name"

lemma split_line:
  assumes "newline \<notin> set l"
  shows "split_lines (l @ newline # rest) = l # split_lines rest"
proof -
  have "list_all (\<lambda>c. c \<noteq> newline) l" using assms by (auto simp: list_all_iff)
  then show ?thesis by (subst split_lines.simps) (simp add: while_append)
qed

lemma parse_format_measurement:
  assumes "plain_name name" "plain_measurement m" "name \<noteq> []"
  shows "\<exists>l. format_measurement name m = l @ [newline] \<and> newline \<notin> set l
    \<and> parse_sample l = Some (name, mm_labels m, mm_value m) \<and> take 1 l = take 1 name"
proof -
  have n: "list_all (\<lambda>c. c \<noteq> CHR ''{'' \<and> c \<noteq> CHR '' '') name" "newline \<notin> set name"
    using assms(1) by (auto simp: list_all_iff)
  show ?thesis
  proof (cases "mm_labels m = []")
    case True
    let ?l = "name @ '' '' @ mm_value m"
    have "parse_sample ?l = Some (name, [], mm_value m)"
      using n(1) by (simp add: parse_sample_def while_append)
    then show ?thesis
      using True assms n(2) by (intro exI [of _ ?l]) (simp add: format_measurement_def Suc_le_eq)
  next
    case False
    let ?l = "name @ ''{'' @ format_labels (mm_labels m) @ ''}'' @ '' '' @ mm_value m"
    have "parse_labels (format_labels (mm_labels m) @ CHR ''}'' # CHR '' '' # mm_value m)
        = Some (mm_labels m, CHR '' '' # mm_value m)"
      using False assms(2) by (intro parse_format_labels) auto
    then have "parse_sample ?l = Some (name, mm_labels m, mm_value m)"
      using n(1) by (simp add: parse_sample_def while_append)
    then show ?thesis
      using False assms n(2) by (intro exI [of _ ?l]) (simp add: format_measurement_def format_labels_newline Suc_le_eq)
  qed
qed

lemma parse_skip_line:
  assumes "newline \<notin> set l" "take 1 l = ''#''" "l \<noteq> ''# EOF''"
  shows "parse_exposition (l @ newline # rest) = parse_exposition rest"
  using assms by (simp add: parse_exposition_def split_line)

lemma parse_measurements:
  assumes "plain_name name" "list_all plain_measurement ms" "take 1 name \<noteq> ''#''" "name \<noteq> []"
  shows "parse_exposition (concat (map (format_measurement name) ms) @ rest)
    = map_option (append (map (\<lambda>m. (name, mm_labels m, mm_value m)) ms)) (parse_exposition rest)"
  using assms(2)
proof (induction ms)
  case Nil
  then show ?case by (simp add: option.map_ident)
next
  case (Cons m ms)
  obtain l where l: "format_measurement name m = l @ [newline]" "newline \<notin> set l"
      "parse_sample l = Some (name, mm_labels m, mm_value m)" "take 1 l = take 1 name"
    using parse_format_measurement [OF assms(1) _ assms(4), of m] Cons.prems by auto
  have "l \<noteq> ''# EOF''" using l(4) assms(3) by auto
  then have "parse_exposition (l @ newline # x) = map_option (Cons (name, mm_labels m, mm_value m)) (parse_exposition x)" for x
    using l(2,3,4) assms(3) by (simp add: parse_exposition_def split_line)
  then show ?case
    using Cons by (simp add: l(1) option.map_comp comp_def)
qed

lemma parse_metric [simp]:
  assumes "plain_name name" "newline \<notin> set help" "list_all plain_measurement ms"
  shows "parse_exposition (format_metric name help type unit ms @ rest)
    = map_option (append (map (\<lambda>m. (metric_name name unit, mm_labels m, mm_value m)) ms)) (parse_exposition rest)"
proof -
  let ?n = "metric_name name unit"
  have u: "plain_name (unit_as_str u)" for u by (cases u) simp_all
  have t: "newline \<notin> set (metric_type_as_str type)" by (cases type) simp_all
  have n: "plain_name ?n" "take 1 ?n \<noteq> ''#''" "?n \<noteq> []" "newline \<notin> set ?n"
    using assms(1) u by (auto simp: metric_name_def list_all_iff split: option.split)
  have head: "parse_exposition (''# HELP '' @ ?n @ '' '' @ help @ ''.'' @ [newline] @ r) = parse_exposition r"
      "parse_exposition (''# TYPE '' @ ?n @ '' '' @ metric_type_as_str type @ [newline] @ r) = parse_exposition r"
      "parse_exposition (''# UNIT '' @ ?n @ '' '' @ unit_as_str w @ [newline] @ r) = parse_exposition r" for r w
    using parse_skip_line [of "''# HELP '' @ ?n @ '' '' @ help @ ''.''" r]
      parse_skip_line [of "''# TYPE '' @ ?n @ '' '' @ metric_type_as_str type" r]
      parse_skip_line [of "''# UNIT '' @ ?n @ '' '' @ unit_as_str w" r] n(4) assms(2) u t
    by (auto simp: list_all_iff)
  show ?thesis
    using head parse_measurements [OF n(1) assms(3) n(2,3), of rest]
    by (cases unit) (simp_all add: format_metric_def Let_def)
qed

section \<open>Numbers\<close>

lemma of_char_digit [simp]: "d < 10 \<Longrightarrow> (of_char (digit_char d) :: nat) = 48 + d"
  by (simp add: digit_char_def)

lemma show_nat_digits: "list_all (\<lambda>c. 48 \<le> (of_char c :: nat) \<and> (of_char c :: nat) \<le> 57) (show_nat n) \<and> show_nat n \<noteq> []"
  by (induction n rule: show_nat.induct) (subst (1 2) show_nat.simps, auto simp: less_Suc_eq_le)

lemma parse_show_nat: "parse_nat (show_nat n) = Some n"
proof -
  have "foldl (\<lambda>n c. 10 * n + (of_char c - 48)) 0 (show_nat n) = n"
    by (induction n rule: show_nat.induct) (subst show_nat.simps, simp)
  then show ?thesis using show_nat_digits [of n] by (simp add: parse_nat_def)
qed

lemma show_nat_plain [simp]: "newline \<notin> set (show_nat n)" "CHR 0x0D \<notin> set (show_nat n)"
  using show_nat_digits [of n] by (auto simp: list_all_iff)

lemma show_int_plain [simp]: "newline \<notin> set (show_int i)"
  by (simp add: show_int_def)

section \<open>The samples of a state\<close>

text \<open>What the exporter publishes, as names, labels and values. The truth values are written as 0 for
  true and 1 for false, and the offset and the delay, which are named as nanoseconds, in seconds.\<close>

abbreviation bool_text :: "bool \<Rightarrow> string" where
  "bool_text b \<equiv> if b then ''0'' else ''1''"

abbreviation dec :: "'a::len word \<Rightarrow> string" where
  "dec w \<equiv> show_nat (unat w)"

definition default_samples :: "labels \<Rightarrow> obs_default_ds \<Rightarrow> sample list" where
  "default_samples own d =
     [(''statime_number_ports'', own, dec (od_number_ports d)),
      (''statime_quality_class'', own, dec (cq_clock_class (od_clock_quality d))),
      (''statime_quality_accuracy'', own, dec (clock_accuracy_to_primitive (cq_clock_accuracy (od_clock_quality d)))),
      (''statime_quality_offset_scaled_log_variance'', own, dec (cq_offset_scaled_log_variance (od_clock_quality d))),
      (''statime_priority_1'', own, dec (od_priority_1 d)),
      (''statime_priority_2'', own, dec (od_priority_2 d))]"

definition current_samples :: "'f floatlib \<Rightarrow> ('f \<Rightarrow> string) \<Rightarrow> labels \<Rightarrow> obs_current_ds \<Rightarrow> sample list" where
  "current_samples fl disp own c =
     [(''statime_steps_removed'', own, dec (oc_steps_removed c)),
      (''statime_offset_from_master_nanoseconds'', own, disp (duration_seconds fl (oc_offset_from_master c))),
      (''statime_mean_delay_nanoseconds'', own, disp (duration_seconds fl (oc_mean_delay c)))]"

definition parent_samples :: "labels \<Rightarrow> obs_parent_ds \<Rightarrow> sample list" where
  "parent_samples own p =
     (let g = op_grandmaster_clock_quality p;
          parent = own @ [(''parent_clock_identity'', clock_identity_display (pi_clock_identity (op_parent_port_identity p))),
                          (''parent_port_number'', dec (pi_port_number (op_parent_port_identity p)))]
      in [(''statime_grandmaster_clock_quality_class'', parent, dec (cq_clock_class g)),
          (''statime_grandmaster_clock_quality_accuracy'', parent, dec (clock_accuracy_to_primitive (cq_clock_accuracy g))),
          (''statime_grandmaster_clock_quality_offset_scaled_log_variance'', parent, dec (cq_offset_scaled_log_variance g)),
          (''statime_grandmaster_priority_1'', parent, dec (op_grandmaster_priority_1 p)),
          (''statime_grandmaster_priority_2'', parent, dec (op_grandmaster_priority_2 p))])"

definition time_samples :: "labels \<Rightarrow> time_properties_ds \<Rightarrow> sample list" where
  "time_samples own tp =
     (case tp_current_utc_offset tp of
        None \<Rightarrow> [] | Some off \<Rightarrow> [(''statime_current_utc_offset_seconds'', own, show_int (sint off))])
     @ [(''statime_upcoming_leap_seconds'', own,
          case tp_leap_indicator tp of NoLeap \<Rightarrow> ''60'' | Leap61 \<Rightarrow> ''61'' | Leap59 \<Rightarrow> ''59''),
        (''statime_time_traceable'', own, bool_text (tp_time_traceable tp)),
        (''statime_frequency_traceable'', own, bool_text (tp_frequency_traceable tp)),
        (''statime_ptp_timescale'', own, bool_text (tp_ptp_timescale tp)),
        (''statime_time_source'', own, dec (time_source_to_primitive (tp_time_source tp)))]"

definition path_samples :: "labels \<Rightarrow> path_trace_ds \<Rightarrow> sample list" where
  "path_samples own pt =
     (''statime_path_trace_enable'', own, bool_text (pt_enable pt))
     # map (\<lambda>(i, ci). (''statime_path_trace_list'', own @ [(''node'', clock_identity_display ci)], show_nat i))
         (enumerate 0 (pt_list pt))
     @ [(''statime_path_trace_list'', own @ [(''node'', ''self'')], show_nat (length (pt_list pt)))]"

definition port_samples :: "'f floatlib \<Rightarrow> ('f \<Rightarrow> string) \<Rightarrow> labels \<Rightarrow> port_ds list \<Rightarrow> sample list" where
  "port_samples fl disp own ps =
     map (\<lambda>po. (''statime_port_state'', own @ [port_label po], show_nat (port_state_as_u8 (pds_port_state po)))) ps
     @ List.map_filter (\<lambda>po. case pds_delay_mechanism po of
           ODM_P2P _ delay \<Rightarrow> Some (''statime_mean_link_delay_nanoseconds'', own @ [port_label po],
             disp (time_interval_to_nanos fl delay))
         | _ \<Rightarrow> None) ps"

definition samples :: "'f floatlib \<Rightarrow> ('f \<Rightarrow> string) \<Rightarrow> 'f observable_state \<Rightarrow> sample list" where
  "samples fl disp state =
     (let program = os_program state; inst = os_instance state;
          own = [(''clock_identity'', clock_identity_display (od_clock_identity (ob_default_ds inst)))]
      in (''statime_uptime_seconds'',
          [(''version'', pr_version program), (''build_commit'', pr_build_commit program),
           (''build_commit_date'', pr_build_commit_date program)], disp (pr_uptime_seconds program))
         # default_samples own (ob_default_ds inst)
         @ current_samples fl disp own (ob_current_ds inst)
         @ parent_samples own (ob_parent_ds inst)
         @ time_samples own (ob_time_properties_ds inst)
         @ path_samples own (ob_path_trace_ds inst)
         @ port_samples fl disp own (ob_port_ds inst))"

lemma parse_eof: "parse_exposition (''# EOF'' @ [newline]) = Some []"
  using split_line [of "''# EOF''" "[]"] by (simp add: parse_exposition_def split_lines.simps [of "[]"])

lemma plain_link_delays:
  assumes "\<And>x. newline \<notin> set (disp x)" "list_all plain_label ls"
  shows "list_all plain_measurement (List.map_filter (link_delay_measurement fl disp ls) ps)"
  using assms
  by (induction ps) (auto simp: map_filter_simps link_delay_measurement_def split: obs_delay_mechanism.split)

lemma link_delay_samples:
  "map (\<lambda>m. (n, mm_labels m, mm_value m)) (List.map_filter (link_delay_measurement fl disp ls) ps)
    = List.map_filter (\<lambda>po. case pds_delay_mechanism po of
        ODM_P2P _ delay \<Rightarrow> Some (n, ls @ [port_label po], disp (time_interval_to_nanos fl delay)) | _ \<Rightarrow> None) ps"
  by (induction ps) (auto simp: map_filter_simps link_delay_measurement_def split: obs_delay_mechanism.split)

lemma show_small [simp]:
  "show_nat 0 = ''0''" "show_nat (Suc 0) = ''1''" "show_nat 60 = ''60''" "show_nat 61 = ''61''" "show_nat 59 = ''59''"
  by code_simp+

lemma plain_list_all [simp]: "list_all (\<lambda>x. True) xs"
  by (simp add: list_all_iff)

lemma append_fun:
  "(@) [] = (\<lambda>ys. ys)" "(@) (x # xs) = (\<lambda>ys. x # xs @ ys)" "(@) (as @ bs) = (\<lambda>ys. as @ bs @ ys)"
  by (simp_all add: fun_eq_iff)

lemma parse_default_ds [simp]:
  "list_all plain_label ls \<Longrightarrow> parse_exposition (format_default_ds d ls @ rest)
    = map_option (append (default_samples ls d)) (parse_exposition rest)"
  by (simp add: format_default_ds_def metric_name_def default_samples_def option.map_comp comp_def append_fun)

lemma parse_current_ds [simp]:
  "(\<And>x. newline \<notin> set (disp x)) \<Longrightarrow> list_all plain_label ls \<Longrightarrow> parse_exposition (format_current_ds fl disp c ls @ rest)
    = map_option (append (current_samples fl disp ls c)) (parse_exposition rest)"
  by (simp add: format_current_ds_def metric_name_def current_samples_def option.map_comp comp_def append_fun)

lemma parse_parent_ds [simp]:
  "list_all plain_label ls \<Longrightarrow> parse_exposition (format_parent_ds p ls @ rest)
    = map_option (append (parent_samples ls p)) (parse_exposition rest)"
  by (simp add: format_parent_ds_def metric_name_def parent_samples_def option.map_comp comp_def append_fun Let_def)

lemma parse_time_properties_ds [simp]:
  "list_all plain_label ls \<Longrightarrow> parse_exposition (format_time_properties_ds tp ls @ rest)
    = map_option (append (time_samples ls tp)) (parse_exposition rest)"
  by (cases "tp_current_utc_offset tp"; cases "tp_leap_indicator tp")
    (simp_all add: format_time_properties_ds_def metric_name_def time_samples_def option.map_comp comp_def append_fun
      format_bool_def leap_minute_def)

lemma parse_path_trace_ds [simp]:
  "list_all plain_label ls \<Longrightarrow> parse_exposition (format_path_trace_ds pt ls @ rest)
    = map_option (append (path_samples ls pt)) (parse_exposition rest)"
  by (simp add: format_path_trace_ds_def metric_name_def path_samples_def option.map_comp comp_def append_fun Let_def
    format_bool_def list.pred_map case_prod_unfold)

lemma parse_port_ds [simp]:
  "(\<And>x. newline \<notin> set (disp x)) \<Longrightarrow> list_all plain_label ls \<Longrightarrow> parse_exposition (format_port_ds fl disp ps ls @ rest)
    = map_option (append (port_samples fl disp ls ps)) (parse_exposition rest)"
  by (simp add: format_port_ds_def metric_name_def port_samples_def option.map_comp comp_def append_fun list.pred_map
    link_delay_samples plain_link_delays)

lemma parse_state:
  assumes "\<And>x. newline \<notin> set (disp x)"
  shows "parse_exposition (format_state fl disp state) = Some (samples fl disp state)"
  using assms parse_eof by (simp add: format_state_def Let_def metric_name_def samples_def)

section \<open>The response\<close>

lemma read_header:
  assumes "CHR 0x0D \<notin> set l"
  shows "read_headers (l @ CHR 0x0D # newline # rest)
    = (if l = [] then Some ([], rest) else map_option (\<lambda>(ls, body). (l # ls, body)) (read_headers rest))"
proof -
  have "list_all (\<lambda>c. c \<noteq> CHR 0x0D) l" using assms by (auto simp: list_all_iff)
  then show ?thesis by (subst read_headers.simps) (simp add: while_append Let_def)
qed

lemma body_of_response: "http_body (format_response fl disp [] state) = Some (format_state fl disp state)"
proof -
  let ?content = "format_state fl disp state"
  have "read_headers (format_response fl disp [] state)
      = Some ([''HTTP/1.1 200 OK'', ''content-type: text/plain'', ''content-length: '' @ show_nat (length ?content)], ?content)"
    using read_header [of "''HTTP/1.1 200 OK''"] read_header [of "''content-type: text/plain''"]
      read_header [of "''content-length: '' @ show_nat (length ?content)"] read_header [of "[]"]
    by (simp add: format_response_def Let_def)
  then show ?thesis by (simp add: http_body_def parse_show_nat)
qed

text \<open>A client that reads the body of the announced length and parses the text format gets exactly the
  samples of the state.\<close>

lemma metrics_scraped:
  assumes "\<And>x. newline \<notin> set (disp x)"
  shows "scrape (format_response fl disp [] state) = Some (samples fl disp state)"
  using parse_state [OF assms] by (simp add: scrape_def body_of_response)

text \<open>A state whose version has a quotation mark and a line break.\<close>

definition example_observable :: "real observable_state" where
  "example_observable = \<lparr>
     os_program = \<lparr>pr_version = [quote, newline], pr_build_commit = ''c'', pr_build_commit_date = ''d'', pr_uptime_seconds = 0\<rparr>,
     os_instance = \<lparr>
       ob_default_ds = \<lparr>od_clock_identity = clock_identity_default, od_number_ports = 1, od_clock_quality = clock_quality_default,
         od_priority_1 = 128, od_priority_2 = 128, od_domain_number = 0, od_slave_only = False, od_sdo_id = 0\<rparr>,
       ob_current_ds = \<lparr>oc_steps_removed = 0, oc_offset_from_master = 0, oc_mean_delay = 0\<rparr>,
       ob_parent_ds = \<lparr>op_parent_port_identity = port_identity_default, op_grandmaster_identity = clock_identity_default,
         op_grandmaster_clock_quality = clock_quality_default, op_grandmaster_priority_1 = 128, op_grandmaster_priority_2 = 128\<rparr>,
       ob_time_properties_ds = new_arbitrary_time False False TS_InternalOscillator,
       ob_path_trace_ds = path_trace_ds_new True, ob_port_ds = []\<rparr>\<rparr>"

end
