(* ===== verification/Exporter.thy ===== *)
theory Exporter
  imports MetricsProps
begin

text \<open>
  \<open>statime-linux/src/metrics/exporter.rs\<close>: how the metrics exporter serves a connection. It reads a
  request into a buffer of 2048 bytes, answers \<open>GET\<close> requests with the metrics and drops others. The
  stream of the client is a parameter with the laws of the locale \<open>tcp_stream\<close>; fetching the
  observable state from the daemon (connecting to a socket, reading JSON) is the parameter \<open>fetch\<close>.
  An error of the stream ends the exporter.
\<close>

definition REQUEST_BUFFER :: nat where
  "REQUEST_BUFFER = 2048"

text \<open>\<open>windows(4).any(..)\<close>: the headers end with two CRLFs in a row.\<close>

definition header_end :: "string \<Rightarrow> bool" where
  "header_end buf \<longleftrightarrow> list_ex (\<lambda>i. take 4 (drop i buf) = crlf @ crlf) [0..<length buf]"

text \<open>The inner loop. The \<open>continue\<close> for a full buffer goes on with this loop.\<close>

partial_function (option) read_request ::
  "(nat \<Rightarrow> 's \<Rightarrow> (string \<times> 's) option) \<Rightarrow> string \<Rightarrow> 's \<Rightarrow> (string \<times> 's) option option" where
  "read_request rd received s =
     (case rd (REQUEST_BUFFER - length received) s of
        None \<Rightarrow> Some None
      | Some (chunk, s') \<Rightarrow>
          let received' = received @ chunk in
          if header_end received' then Some (Some (received', s'))
          else read_request rd received' s')"

definition exporter_handler ::
  "'f floatlib \<Rightarrow> ('f \<Rightarrow> string) \<Rightarrow> ('w \<Rightarrow> 'f observable_state option) \<Rightarrow> 'w \<Rightarrow> string \<Rightarrow> string option" where
  "exporter_handler fl disp fetch w buf = map_option (format_response fl disp buf) (fetch w)"

definition ERROR_RESPONSE :: string where
  "ERROR_RESPONSE = ''HTTP/1.1 500 Internal Server Error'' @ crlf @ ''content-type: text/plain'' @ crlf
     @ ''content-length: 0'' @ crlf @ crlf"

text \<open>One connection: \<open>None\<close> if it never ends, \<open>Some None\<close> if the exporter ends with an error, and
  otherwise what is written to the stream.\<close>

definition exporter_connection ::
  "'f floatlib \<Rightarrow> ('f \<Rightarrow> string) \<Rightarrow> (nat \<Rightarrow> 's \<Rightarrow> (string \<times> 's) option) \<Rightarrow> ('w \<Rightarrow> 'f observable_state option) \<Rightarrow> 'w \<Rightarrow>
   's \<Rightarrow> string option option" where
  "exporter_connection fl disp rd fetch w s =
     Option.bind (read_request rd [] s) (\<lambda>r.
     case r of
       None \<Rightarrow> Some None
     | Some (request, _) \<Rightarrow>
         if take 4 request \<noteq> ''GET '' then Some (Some [])
         else case exporter_handler fl disp fetch w [] of
                Some buf \<Rightarrow> Some (Some buf)
              | None \<Rightarrow> Some (Some ERROR_RESPONSE))"

section \<open>Streams\<close>

lemma header_end_append: "header_end xs \<Longrightarrow> header_end (xs @ ys)"
proof -
  assume "header_end xs"
  then obtain i where i: "i < length xs" "take 4 (drop i xs) = crlf @ crlf" by (auto simp: header_end_def list_ex_iff)
  then have "length (take 4 (drop i xs)) = 4" by simp
  then have "4 \<le> length xs - i" by simp
  then have "take 4 (drop i (xs @ ys)) = crlf @ crlf" using i by simp
  moreover have "i \<in> set [0..<length (xs @ ys)]" using i(1) by simp
  ultimately show ?thesis unfolding header_end_def list_ex_iff by blast
qed

text \<open>What a client sends before it closes or stops, and how a read takes from it: at most the
  capacity, in order, and something if there is something and room for it. A read at the end returns
  nothing.\<close>

locale tcp_stream =
  fixes rd :: "nat \<Rightarrow> 's \<Rightarrow> (string \<times> 's) option" and pending :: "'s \<Rightarrow> string"
  assumes rd_ok: "\<exists>chunk s'. rd cap s = Some (chunk, s')"
    and rd_takes: "rd cap s = Some (chunk, s') \<Longrightarrow> length chunk \<le> cap \<and> pending s = chunk @ pending s'"
    and rd_some: "rd cap s = Some (chunk, s') \<Longrightarrow> 0 < cap \<Longrightarrow> pending s \<noteq> [] \<Longrightarrow> chunk \<noteq> []"
begin

lemma request_read:
  assumes "header_end (take REQUEST_BUFFER (received @ pending s))" "\<not> header_end received" "length received \<le> REQUEST_BUFFER"
  shows "\<exists>r s'. read_request rd received s = Some (Some (r, s')) \<and> header_end r \<and> length r \<le> REQUEST_BUFFER
    \<and> received @ pending s = r @ pending s'"
  using assms
proof (induction "REQUEST_BUFFER - length received" arbitrary: received s rule: less_induct)
  case less
  obtain chunk s' where rd: "rd (REQUEST_BUFFER - length received) s = Some (chunk, s')" using rd_ok by blast
  have chunk: "length chunk \<le> REQUEST_BUFFER - length received" "pending s = chunk @ pending s'"
    using rd_takes [OF rd] by simp_all
  have "take REQUEST_BUFFER (received @ pending s) \<noteq> received" using less.prems(1,2) by metis
  then have room: "length received < REQUEST_BUFFER" "pending s \<noteq> []"
    using less.prems(3) by (auto simp: nat_less_le)
  then have "chunk \<noteq> []" using rd_some [OF rd] by simp
  show ?case
  proof (cases "header_end (received @ chunk)")
    case True
    then show ?thesis
      using rd chunk less.prems(3) by (subst read_request.simps) simp
  next
    case False
    have "\<exists>r s''. read_request rd (received @ chunk) s' = Some (Some (r, s'')) \<and> header_end r \<and> length r \<le> REQUEST_BUFFER
        \<and> (received @ chunk) @ pending s' = r @ pending s''"
      using less.prems False chunk room \<open>chunk \<noteq> []\<close> by (intro less.hyps) (auto simp: length_greater_0_conv [symmetric] simp del: length_greater_0_conv)
    then show ?thesis
      using rd chunk(2) False by (subst read_request.simps) simp
  qed
qed

lemma request_hangs:
  assumes "\<not> header_end (take REQUEST_BUFFER (received @ pending s))" "length received \<le> REQUEST_BUFFER"
  shows "read_request rd received s = None"
proof (rule ccontr)
  assume "read_request rd received s \<noteq> None"
  then obtain y where y: "read_request rd received s = Some y" by blast
  have "rd' = rd \<longrightarrow> length received \<le> REQUEST_BUFFER \<longrightarrow> header_end (take REQUEST_BUFFER (received @ pending s))"
    if "read_request rd' received s = Some y" for rd'
    using that
  proof (rule read_request.raw_induct [where P = "\<lambda>rd' received s y. rd' = rd \<longrightarrow> length received \<le> REQUEST_BUFFER
      \<longrightarrow> header_end (take REQUEST_BUFFER (received @ pending s))", rotated])
    fix f rd' received s y
    assume IH: "\<And>rd' received s y. f rd' received s = Some y \<Longrightarrow> rd' = rd \<longrightarrow> length received \<le> REQUEST_BUFFER
        \<longrightarrow> header_end (take REQUEST_BUFFER (received @ pending s))"
      and eq: "(case rd' (REQUEST_BUFFER - length received) s of None \<Rightarrow> Some None
        | Some (chunk, s') \<Rightarrow> let received' = received @ chunk in
            if header_end received' then Some (Some (received', s')) else f rd' received' s') = Some y"
    show "rd' = rd \<longrightarrow> length received \<le> REQUEST_BUFFER \<longrightarrow> header_end (take REQUEST_BUFFER (received @ pending s))"
    proof (intro impI)
      assume rd': "rd' = rd" and len: "length received \<le> REQUEST_BUFFER"
      obtain chunk s' where rd: "rd (REQUEST_BUFFER - length received) s = Some (chunk, s')" using rd_ok by blast
      have chunk: "length chunk \<le> REQUEST_BUFFER - length received" "pending s = chunk @ pending s'"
        using rd_takes [OF rd] by simp_all
      then have split: "take REQUEST_BUFFER (received @ pending s)
          = (received @ chunk) @ take (REQUEST_BUFFER - length (received @ chunk)) (pending s')"
        using len by (simp add: take_append)
      show "header_end (take REQUEST_BUFFER (received @ pending s))"
      proof (cases "header_end (received @ chunk)")
        case True
        then show ?thesis unfolding split by (rule header_end_append)
      next
        case False
        then have "f rd (received @ chunk) s' = Some y" using eq rd rd' by (simp add: Let_def)
        from IH [OF this] show ?thesis using chunk len by simp
      qed
    qed
  qed
  then show False using y assms by blast
qed

end

text \<open>A client that sends its bytes in pieces.\<close>

fun read_chunks :: "nat \<Rightarrow> string list \<Rightarrow> (string \<times> string list) option" where
  "read_chunks cap [] = Some ([], [])"
| "read_chunks cap (c # cs) =
     (if c = [] then read_chunks cap cs
      else if length c \<le> cap then Some (c, cs) else Some (take cap c, drop cap c # cs))"

interpretation chunks: tcp_stream read_chunks concat
proof
  show "\<exists>chunk s'. read_chunks cap s = Some (chunk, s')" for cap s by (induction s) auto
  show "length chunk \<le> cap \<and> concat s = chunk @ concat s'" if "read_chunks cap s = Some (chunk, s')" for cap s chunk s'
    using that by (induction s) (auto split: if_splits)
  show "chunk \<noteq> []" if "read_chunks cap s = Some (chunk, s')" "0 < cap" "concat s \<noteq> []" for cap s chunk s'
    using that by (induction s) (auto split: if_splits)
qed

section \<open>Properties\<close>





end
