(* ===== verification/LinuxClock.thy ===== *)
theory LinuxClock
  imports Clocks
begin

text \<open>
  \<open>statime-linux/src/clock/mod.rs\<close>: the clocks of the kernel as \<open>Clock\<close>. The crate
  \<open>clock_steering\<close> is the parameter \<open>unix_lib\<close>; \<open>CLOCK_TAI\<close> can only be adjusted through
  \<open>CLOCK_REALTIME\<close>, and the difference of the two is added to the time stamps. Seconds are
  \<open>i64\<close> and nanoseconds \<open>u32\<close>; additions and multiplications wrap.
\<close>

type_synonym i32 = "32 word"
type_synonym i64 = "64 word"

record unix_timestamp =
  ut_seconds :: i64
  ut_nanos :: u32

record time_offset =
  to_seconds :: i64
  to_nanos :: u32

datatype unix_leap = UL_NoWarning | UL_Leap61 | UL_Leap59

record ('u, 'w, 'f) unix_lib =
  ux_CLOCK_TAI :: 'u
  ux_CLOCK_REALTIME :: 'u
  ux_open :: "string \<Rightarrow> 'w \<Rightarrow> 'u option"
  ux_now :: "'u \<Rightarrow> 'w \<Rightarrow> unix_timestamp option"
  ux_step_clock :: "'u \<Rightarrow> time_offset \<Rightarrow> 'w \<Rightarrow> unix_timestamp option \<times> 'w"
  ux_set_frequency :: "'u \<Rightarrow> 'f \<Rightarrow> 'w \<Rightarrow> unix_timestamp option \<times> 'w"
  ux_get_tai :: "'u \<Rightarrow> 'w \<Rightarrow> i32 option"
  ux_set_tai :: "'u \<Rightarrow> i32 \<Rightarrow> 'w \<Rightarrow> bool \<times> 'w"
  ux_set_leap_seconds :: "'u \<Rightarrow> unix_leap \<Rightarrow> 'w \<Rightarrow> bool \<times> 'w"
  ux_system_offset :: "'u \<Rightarrow> 'w \<Rightarrow> (unix_timestamp \<times> unix_timestamp \<times> unix_timestamp) option"

record 'u linux_clock =
  lc_clock :: 'u
  lc_is_tai :: bool

definition linux_CLOCK_TAI :: "('u, 'w, 'f) unix_lib \<Rightarrow> 'u linux_clock" where
  "linux_CLOCK_TAI ux = \<lparr>lc_clock = ux_CLOCK_TAI ux, lc_is_tai = True\<rparr>"

definition linux_open :: "('u, 'w, 'f) unix_lib \<Rightarrow> string \<Rightarrow> 'w \<Rightarrow> 'u linux_clock option" where
  "linux_open ux path w = map_option (\<lambda>clock. \<lparr>lc_clock = clock, lc_is_tai = False\<rparr>) (ux_open ux path w)"

definition linux_init :: "('u, 'w, 'f) unix_lib \<Rightarrow> 'u linux_clock \<Rightarrow> 'w \<Rightarrow> bool \<times> 'w" where
  "linux_init ux c w =
     (case ux_now ux (lc_clock c) w of
        None \<Rightarrow> (False, w)
      | Some ts \<Rightarrow>
          if sint (ut_seconds ts) < 0 \<or> (2 ^ 64 - 1) div 1000000000 < sint (ut_seconds ts) then
            let (result, w') = ux_step_clock ux (lc_clock c) \<lparr>to_seconds = - ut_seconds ts + 1, to_nanos = 0\<rparr> w
            in (result \<noteq> None, w')
          else (True, w))"

definition clock_timestamp_to_time :: "'f numlib \<Rightarrow> unix_timestamp \<Rightarrow> time" where
  "clock_timestamp_to_time lib t = time_from_nanos lib (ut_seconds t * 1000000000 + ucast (ut_nanos t))"

text \<open>\<open>get_tai\<close> of \<open>system_offset\<close> is unwrapped; \<open>as libc::time_t\<close> extends the sign.\<close>

definition add_tai :: "i32 \<Rightarrow> unix_timestamp \<Rightarrow> unix_timestamp" where
  "add_tai tai t = t\<lparr>ut_seconds := ut_seconds t + scast tai\<rparr>"

definition linux_system_offset ::
  "'f numlib \<Rightarrow> ('u, 'w, 'f) unix_lib \<Rightarrow> 'u linux_clock \<Rightarrow> 'w \<Rightarrow> (time \<times> time \<times> time) option res" where
  "linux_system_offset lib ux c w =
     (case ux_system_offset ux (lc_clock c) w of
        None \<Rightarrow> Ok None
      | Some (t1, t2, t3) \<Rightarrow>
          (case ux_get_tai ux (ux_CLOCK_REALTIME ux) w of
             None \<Rightarrow> panic
           | Some tai_offset \<Rightarrow>
               Ok (Some (clock_timestamp_to_time lib (add_tai tai_offset t1), clock_timestamp_to_time lib t2,
                         clock_timestamp_to_time lib (add_tai tai_offset t3)))))"

definition linux_get_tai_offset :: "('u, 'w, 'f) unix_lib \<Rightarrow> 'u linux_clock \<Rightarrow> 'w \<Rightarrow> i32 option" where
  "linux_get_tai_offset ux c w =
     (if lc_is_tai c then ux_get_tai ux (ux_CLOCK_REALTIME ux) w else ux_get_tai ux (lc_clock c) w)"

definition time_from_timestamp :: "unix_timestamp \<Rightarrow> time \<Rightarrow> time" where
  "time_from_timestamp timestamp fallback =
     (if sint (ut_seconds timestamp) < 0 then fallback
      else time_from_nanos_subnanos (ut_seconds timestamp * 1000000000 + ucast (ut_nanos timestamp)) 0)"

definition linux_now :: "'f numlib \<Rightarrow> ('u, 'w, 'f) unix_lib \<Rightarrow> 'u linux_clock \<Rightarrow> 'w \<Rightarrow> time res" where
  "linux_now lib ux c w =
     (case ux_now ux (lc_clock c) w of
        None \<Rightarrow> panic
      | Some timestamp \<Rightarrow> Ok (time_from_timestamp timestamp (fx_fit lib U96F32 0)))"

text \<open>What \<open>set_frequency\<close> and \<open>step_clock\<close> share: the adjustment goes to
  \<open>CLOCK_REALTIME\<close> for the TAI clock, and the current time is the fallback for a negative one.\<close>

definition linux_adjust ::
  "'f numlib \<Rightarrow> ('u, 'w, 'f) unix_lib \<Rightarrow> ('u \<Rightarrow> 'w \<Rightarrow> unix_timestamp option \<times> 'w) \<Rightarrow> 'u linux_clock \<Rightarrow> 'w \<Rightarrow>
   (time option \<times> 'w) res" where
  "linux_adjust lib ux adjust c w =
     (let (timestamp, w') =
            (if lc_is_tai c then
               let (ts, w1) = adjust (ux_CLOCK_REALTIME ux) w
               in (case ts of
                     None \<Rightarrow> (None, w1)
                   | Some ts \<Rightarrow> (map_option (\<lambda>tai. add_tai tai ts) (ux_get_tai ux (ux_CLOCK_REALTIME ux) w1), w1))
             else adjust (lc_clock c) w)
      in case timestamp of
           None \<Rightarrow> Ok (None, w')
         | Some ts \<Rightarrow> andthen (linux_now lib ux c w') (\<lambda>now. Ok (Some (time_from_timestamp ts now), w')))"

definition linux_set_frequency ::
  "'f numlib \<Rightarrow> ('u, 'w, 'f) unix_lib \<Rightarrow> 'f \<Rightarrow> 'u linux_clock \<Rightarrow> 'w \<Rightarrow> (time option \<times> 'w) res" where
  "linux_set_frequency lib ux freq c w = linux_adjust lib ux (\<lambda>u. ux_set_frequency ux u freq) c w"

text \<open>\<open>div_euclid\<close> and \<open>rem_euclid\<close> by a positive number; \<open>try_into\<close> panics outside
  \<open>i64\<close>.\<close>

definition offset_of_duration :: "duration \<Rightarrow> time_offset res" where
  "offset_of_duration d =
     (let offset_nanos = duration_nanos_rounded d; seconds = offset_nanos div 1000000000 in
      if - (2 ^ 63) \<le> seconds \<and> seconds < 2 ^ 63
      then Ok \<lparr>to_seconds = word_of_int seconds, to_nanos = word_of_int (offset_nanos mod 1000000000)\<rparr>
      else panic)"

definition linux_step_clock ::
  "'f numlib \<Rightarrow> ('u, 'w, 'f) unix_lib \<Rightarrow> duration \<Rightarrow> 'u linux_clock \<Rightarrow> 'w \<Rightarrow> (time option \<times> 'w) res" where
  "linux_step_clock lib ux time_offset c w =
     andthen (offset_of_duration time_offset) (\<lambda>offset.
     linux_adjust lib ux (\<lambda>u. ux_step_clock ux u offset) c w)"

definition linux_set_properties :: "('u, 'w, 'f) unix_lib \<Rightarrow> time_properties_ds \<Rightarrow> 'u linux_clock \<Rightarrow> 'w \<Rightarrow> bool \<times> 'w" where
  "linux_set_properties ux time_properties c w =
     (let (ok, w1) =
            (case tp_current_utc_offset time_properties of
               Some offset \<Rightarrow> ux_set_tai ux (ux_CLOCK_REALTIME ux) (scast offset) w
             | None \<Rightarrow> (True, w))
      in if \<not> ok then (False, w1)
         else ux_set_leap_seconds ux (ux_CLOCK_REALTIME ux)
                (case tp_leap_indicator time_properties of
                   NoLeap \<Rightarrow> UL_NoWarning | Leap61 \<Rightarrow> UL_Leap61 | Leap59 \<Rightarrow> UL_Leap59) w1)"

text \<open>Time stamps of packets.\<close>

definition libc_timespec_into_instant :: "'f numlib \<Rightarrow> i64 \<Rightarrow> i64 \<Rightarrow> time" where
  "libc_timespec_into_instant lib tv_sec tv_nsec = fx_fit lib U96F32 ((sint tv_sec * 1000000000 + sint tv_nsec) * 2 ^ 32)"

definition linux_port_timestamp_to_time ::
  "'f numlib \<Rightarrow> ('u, 'w, 'f) unix_lib \<Rightarrow> unix_timestamp \<Rightarrow> 'u linux_clock \<Rightarrow> 'w \<Rightarrow> time res" where
  "linux_port_timestamp_to_time lib ux ts c w =
     (case linux_get_tai_offset ux c w of
        None \<Rightarrow> panic
      | Some tai \<Rightarrow>
          let ts' = add_tai tai ts
          in Ok (fx_fit lib U96F32 ((sint (ut_seconds ts') * 1000000000 + uint (ut_nanos ts')) * 2 ^ 32)))"

definition overlay_port_timestamp_to_time ::
  "'f floatlib \<Rightarrow> ('u, 'w, 'f) unix_lib \<Rightarrow> unix_timestamp \<Rightarrow> ('f, 'u linux_clock) overlay_clock \<Rightarrow> 'w \<Rightarrow> time res" where
  "overlay_port_timestamp_to_time fl ux ts o' w =
     andthen (linux_port_timestamp_to_time (fl_num fl) ux ts (oc_roclock o') w) (\<lambda>roclock_time.
     Ok (time_from_underlying fl roclock_time o'))"

section \<open>The kernel\<close>

text \<open>What the clocks of the kernel do: \<open>shown u w\<close> is the time of a clock in nanoseconds. A step
  moves it by the offset, and the time stamp of a step is the new time. The TAI clock is the realtime
  clock with the offset of \<open>get_tai\<close>.\<close>

definition stamp_nanos :: "unix_timestamp \<Rightarrow> int" where
  "stamp_nanos ts = sint (ut_seconds ts) * 1000000000 + uint (ut_nanos ts)"

definition offset_nanos :: "time_offset \<Rightarrow> int" where
  "offset_nanos o' = sint (to_seconds o') * 1000000000 + uint (to_nanos o')"

locale unix_kernel =
  fixes ux :: "('u, 'w, 'f) unix_lib" and shown :: "'u \<Rightarrow> 'w \<Rightarrow> int"
  assumes now_shown: "ux_now ux u w = Some ts \<Longrightarrow> stamp_nanos ts = shown u w \<and> ut_nanos ts < 1000000000"
    and step_shown: "ux_step_clock ux u o' w = (Some ts, w') \<Longrightarrow>
      shown u w' = shown u w + offset_nanos o' \<and> stamp_nanos ts = shown u w' \<and> ut_nanos ts < 1000000000"
    and tai_shown: "ux_get_tai ux (ux_CLOCK_REALTIME ux) w = Some tai \<Longrightarrow>
      shown (ux_CLOCK_TAI ux) w = shown (ux_CLOCK_REALTIME ux) w + sint tai * 1000000000"
    and step_tai: "ux_step_clock ux u o' w = (Some ts, w') \<Longrightarrow>
      ux_get_tai ux (ux_CLOCK_REALTIME ux) w' = ux_get_tai ux (ux_CLOCK_REALTIME ux) w"

text \<open>The clocks that the daemon uses: hardware clocks and \<open>CLOCK_TAI\<close>.\<close>

definition wf_linux_clock :: "('u, 'w, 'f) unix_lib \<Rightarrow> 'u linux_clock \<Rightarrow> bool" where
  "wf_linux_clock ux c \<longleftrightarrow> (lc_is_tai c \<longrightarrow> lc_clock c = ux_CLOCK_TAI ux)"

section \<open>Conversions\<close>

lemma offset_of_duration_exact:
  assumes "offset_of_duration d = Ok o'"
  shows "offset_nanos o' = d div 2 ^ 32" "to_nanos o' < 1000000000"
proof -
  let ?n = "d div 2 ^ 32"
  have s: "- (2 ^ 63) \<le> ?n div 1000000000" "?n div 1000000000 < 2 ^ 63"
      "o' = \<lparr>to_seconds = word_of_int (?n div 1000000000), to_nanos = word_of_int (?n mod 1000000000)\<rparr>"
    using assms by (auto simp: offset_of_duration_def duration_nanos_rounded_def Let_def split: if_splits)
  have "sint (word_of_int (?n div 1000000000) :: i64) = ?n div 1000000000"
    using s(1,2) by (simp add: signed_take_bit_int_eq_self sint_sbintrunc')
  moreover have "0 \<le> ?n mod 1000000000" "?n mod 1000000000 < 1000000000" by simp_all
  then have u: "uint (word_of_int (?n mod 1000000000) :: u32) = ?n mod 1000000000"
    by (simp add: uint_word_of_int mod_pos_pos_trivial)
  ultimately show "offset_nanos o' = ?n" by (simp add: offset_nanos_def s(3))
  show "to_nanos o' < 1000000000" using u by (simp add: s(3) word_less_alt)
qed

lemma shift_nanos: "time_from_nanos_subnanos n 0 = uint n * 2 ^ 32"
proof -
  have n: "uint n < 2 ^ 64" "0 \<le> uint n" using uint_lt2p [of n] by simp_all
  then have "take_bit 128 (uint n * 2 ^ 32) = uint n * 2 ^ 32" "take_bit 128 (uint n) = uint n"
    by (simp_all add: take_bit_int_eq_self)
  then show ?thesis
    by (simp only: time_from_nanos_subnanos_def unsigned_push_bit_eq unsigned_ucast_eq unsigned_0 ucast_0 or.right_neutral)
      (simp add: push_bit_eq_mult unsigned_ucast_eq)
qed

lemma sint_nonneg_uint:
  assumes "0 \<le> sint (a :: i64)"
  shows "uint a = sint a"
proof -
  have "sint a < 2 ^ 63" using sint_lt [of a] by simp
  moreover have "uint (word_of_int x :: i64) = x" if "0 \<le> x" "x < 2 ^ 63" for x
    using that by (simp add: uint_word_of_int)
  ultimately have "uint (word_of_int (sint a) :: i64) = sint a" using assms by blast
  then show ?thesis by simp
qed

lemma nanos_u64:
  assumes "0 \<le> stamp_nanos ts" "stamp_nanos ts < 2 ^ 64" "ut_nanos ts < 1000000000"
  shows "0 \<le> sint (ut_seconds ts)" "uint (ut_seconds ts * 1000000000 + ucast (ut_nanos ts)) = stamp_nanos ts"
proof -
  have n: "uint (ut_nanos ts) < 1000000000" "0 \<le> uint (ut_nanos ts)"
    using assms(3) by (simp_all add: word_less_alt)
  then show s: "0 \<le> sint (ut_seconds ts)" using assms(1) by (simp add: stamp_nanos_def)
  have "uint (ucast (ut_nanos ts) :: i64) = uint (ut_nanos ts)"
    using n by (simp add: unsigned_ucast_eq take_bit_int_eq_self)
  then have "uint (ut_seconds ts * 1000000000 + ucast (ut_nanos ts))
      = (uint (ut_seconds ts) * 1000000000 + uint (ut_nanos ts)) mod 2 ^ 64"
    by (simp add: uint_word_ariths mod_simps)
  then show "uint (ut_seconds ts * 1000000000 + ucast (ut_nanos ts)) = stamp_nanos ts"
    using assms(1,2) s by (simp add: stamp_nanos_def sint_nonneg_uint)
qed

lemma time_from_timestamp_exact:
  assumes "0 \<le> stamp_nanos ts" "stamp_nanos ts < 2 ^ 64" "ut_nanos ts < 1000000000"
  shows "time_from_timestamp ts fallback = stamp_nanos ts * 2 ^ 32"
  using nanos_u64 [OF assms] by (simp add: time_from_timestamp_def shift_nanos)

lemma add_tai_exact:
  assumes "\<bar>stamp_nanos ts\<bar> < 2 ^ 90" "ut_nanos ts < 1000000000"
  shows "stamp_nanos (add_tai tai ts) = stamp_nanos ts + sint tai * 1000000000" "ut_nanos (add_tai tai ts) = ut_nanos ts"
proof -
  let ?s = "sint (ut_seconds ts)"
  have n: "uint (ut_nanos ts) < 1000000000" "0 \<le> uint (ut_nanos ts)"
    using assms(2) by (simp_all add: word_less_alt)
  have t: "- (2 ^ 31) \<le> sint tai" "sint tai < 2 ^ 31" using sint_ge [of tai] sint_lt [of tai] by simp_all
  have "\<bar>s\<bar> < 2 ^ 61" if "\<bar>s * 1000000000 + u\<bar> < 2 ^ 90" "u < 1000000000" "0 \<le> u" for s u :: int
    using that by auto
  then have "\<bar>?s\<bar> < 2 ^ 61" using assms(1) n unfolding stamp_nanos_def by blast
  then have r: "- (2 ^ 63) \<le> ?s + sint tai" "?s + sint tai < 2 ^ 63" using t by auto
  have "sint (word_of_int x :: i64) = x" if "- (2 ^ 63) \<le> x" "x < 2 ^ 63" for x
    using that by (simp add: signed_of_int signed_take_bit_int_eq_self)
  moreover have "word_of_int (?s + sint tai) = ut_seconds ts + scast tai" by simp
  ultimately have "sint (ut_seconds ts + scast tai) = ?s + sint tai" using r by metis
  then show "stamp_nanos (add_tai tai ts) = stamp_nanos ts + sint tai * 1000000000"
    by (simp add: stamp_nanos_def add_tai_def algebra_simps)
qed (simp add: add_tai_def)

context unix_kernel
begin

lemma adjusted:
  assumes "linux_adjust lib ux (\<lambda>u. ux_step_clock ux u o') c w = Ok (Some t, w')" "wf_linux_clock ux c"
    and "0 \<le> shown (lc_clock c) w'" "shown (lc_clock c) w' < 2 ^ 64"
  shows "shown (lc_clock c) w' = shown (lc_clock c) w + offset_nanos o' \<and> t = shown (lc_clock c) w' * 2 ^ 32"
proof (cases "lc_is_tai c")
  case False
  then obtain ts now where ts: "ux_step_clock ux (lc_clock c) o' w = (Some ts, w')" "t = time_from_timestamp ts now"
    using assms(1) by (cases "ux_step_clock ux (lc_clock c) o' w") (auto simp: linux_adjust_def split: option.splits)
  then show ?thesis using step_shown [OF ts(1)] time_from_timestamp_exact [of ts now] assms(3,4) by simp
next
  case True
  let ?r = "ux_CLOCK_REALTIME ux"
  have c: "lc_clock c = ux_CLOCK_TAI ux" using assms(2) True by (simp add: wf_linux_clock_def)
  obtain ts tai now where ts: "ux_step_clock ux ?r o' w = (Some ts, w')" "ux_get_tai ux ?r w' = Some tai"
      "t = time_from_timestamp (add_tai tai ts) now"
    using assms(1) True by (cases "ux_step_clock ux ?r o' w") (auto simp: linux_adjust_def split: option.splits)
  have s: "shown ?r w' = shown ?r w + offset_nanos o'" "stamp_nanos ts = shown ?r w'" "ut_nanos ts < 1000000000"
    using step_shown [OF ts(1)] by simp_all
  have tai: "shown (ux_CLOCK_TAI ux) w' = shown ?r w' + sint tai * 1000000000"
      "shown (ux_CLOCK_TAI ux) w = shown ?r w + sint tai * 1000000000"
    using tai_shown ts(2) step_tai [OF ts(1)] by simp_all
  have "- (2 ^ 31) \<le> sint tai" "sint tai < 2 ^ 31" using sint_ge [of tai] sint_lt [of tai] by simp_all
  then have "\<bar>stamp_nanos ts\<bar> < 2 ^ 90" using s(2) tai(1) assms(3,4) c by simp
  from add_tai_exact [OF this s(3), of tai]
  show ?thesis
    using s tai c assms(3,4) time_from_timestamp_exact [of "add_tai tai ts" now] ts(3) by simp
qed

end

section \<open>A kernel with three clocks\<close>

text \<open>The realtime clock, the TAI clock and one hardware clock; the world holds the two free ones and the
  TAI offset.\<close>

datatype sim_clock = Sim_Realtime | Sim_Tai | Sim_Hardware

type_synonym sim_world = "int \<times> int \<times> i32"

fun sim_shown :: "sim_clock \<Rightarrow> sim_world \<Rightarrow> int" where
  "sim_shown Sim_Realtime (r, h, tai) = r"
| "sim_shown Sim_Tai (r, h, tai) = r + sint tai * 1000000000"
| "sim_shown Sim_Hardware (r, h, tai) = h"

definition sim_stamp :: "int \<Rightarrow> unix_timestamp" where
  "sim_stamp n = \<lparr>ut_seconds = word_of_int (n div 1000000000), ut_nanos = word_of_int (n mod 1000000000)\<rparr>"

abbreviation sim_read :: "int \<Rightarrow> unix_timestamp option" where
  "sim_read n \<equiv> if \<bar>n\<bar> < 2 ^ 90 then Some (sim_stamp n) else None"

fun sim_step :: "sim_clock \<Rightarrow> time_offset \<Rightarrow> sim_world \<Rightarrow> unix_timestamp option \<times> sim_world" where
  "sim_step Sim_Realtime o' (r, h, tai) = (sim_read (r + offset_nanos o'), (r + offset_nanos o', h, tai))"
| "sim_step Sim_Tai o' (r, h, tai) = (None, (r, h, tai))"
| "sim_step Sim_Hardware o' (r, h, tai) = (sim_read (h + offset_nanos o'), (r, h + offset_nanos o', tai))"

definition sim_unix :: "(sim_clock, sim_world, real) unix_lib" where
  "sim_unix = \<lparr>ux_CLOCK_TAI = Sim_Tai, ux_CLOCK_REALTIME = Sim_Realtime,
     ux_open = (\<lambda>path w. Some Sim_Hardware),
     ux_now = (\<lambda>u w. sim_read (sim_shown u w)),
     ux_step_clock = sim_step,
     ux_set_frequency = (\<lambda>u f w. (sim_read (sim_shown u w), w)),
     ux_get_tai = (\<lambda>u (r, h, tai). Some (if u = Sim_Hardware then 0 else tai)),
     ux_set_tai = (\<lambda>u tai (r, h, _). (True, (r, h, tai))),
     ux_set_leap_seconds = (\<lambda>u l w. (True, w)),
     ux_system_offset = (\<lambda>u (r, h, tai). Some (sim_stamp r, sim_stamp (sim_shown u (r, h, tai)), sim_stamp r))\<rparr>"

lemma sim_stamp_exact:
  assumes "\<bar>n\<bar> < 2 ^ 90"
  shows "stamp_nanos (sim_stamp n) = n" "ut_nanos (sim_stamp n) < 1000000000"
proof -
  have s: "- (2 ^ 63) \<le> n div 1000000000" "n div 1000000000 < 2 ^ 63" using assms by auto
  have "sint (word_of_int x :: i64) = x" if "- (2 ^ 63) \<le> x" "x < 2 ^ 63" for x
    using that by (simp add: signed_of_int signed_take_bit_int_eq_self)
  from this [OF s] have a: "sint (word_of_int (n div 1000000000) :: i64) = n div 1000000000" .
  have "0 \<le> n mod 1000000000" "n mod 1000000000 < 1000000000" by simp_all
  then have b: "uint (word_of_int (n mod 1000000000) :: u32) = n mod 1000000000"
    by (simp add: uint_word_of_int)
  show "stamp_nanos (sim_stamp n) = n" using a b by (simp add: stamp_nanos_def sim_stamp_def)
  show "ut_nanos (sim_stamp n) < 1000000000" using b by (simp add: sim_stamp_def word_less_alt)
qed

interpretation sim: unix_kernel sim_unix sim_shown
proof
  show "stamp_nanos ts = sim_shown u w \<and> ut_nanos ts < 1000000000" if "ux_now sim_unix u w = Some ts" for u w ts
    using that sim_stamp_exact by (auto simp: sim_unix_def split: if_splits)
  show "sim_shown u w' = sim_shown u w + offset_nanos o' \<and> stamp_nanos ts = sim_shown u w' \<and> ut_nanos ts < 1000000000"
    if "ux_step_clock sim_unix u o' w = (Some ts, w')" for u o' w ts w'
    using that sim_stamp_exact by (cases u; cases w) (auto simp: sim_unix_def split: if_splits)
  show "sim_shown (ux_CLOCK_TAI sim_unix) w = sim_shown (ux_CLOCK_REALTIME sim_unix) w + sint tai * 1000000000"
    if "ux_get_tai sim_unix (ux_CLOCK_REALTIME sim_unix) w = Some tai" for w tai
    using that by (cases w) (auto simp: sim_unix_def)
  show "ux_get_tai sim_unix (ux_CLOCK_REALTIME sim_unix) w' = ux_get_tai sim_unix (ux_CLOCK_REALTIME sim_unix) w"
    if "ux_step_clock sim_unix u o' w = (Some ts, w')" for u o' w ts w'
    using that by (cases u; cases w) (auto simp: sim_unix_def split: if_splits)
qed

section \<open>Properties\<close>

text \<open>A successful step of a Linux clock moves the clock of the kernel by exactly the whole
  nanoseconds of the offset, rounded down, also for negative offsets and for the TAI clock, which is
  stepped through the realtime clock; the time that is returned is the new time of the clock. The new
  time has to be in the range that the library can represent.\<close>

theorem linux_step_moves:
  assumes "unix_kernel ux shown" and "wf_linux_clock ux c" and "linux_step_clock lib ux d c w = Ok (Some t, w')"
    and "0 \<le> shown (lc_clock c) w'" "shown (lc_clock c) w' < 2 ^ 64"
  shows "shown (lc_clock c) w' = shown (lc_clock c) w + d div 2 ^ 32 \<and> t = shown (lc_clock c) w' * 2 ^ 32"
proof -
  obtain o' where o': "offset_of_duration d = Ok o'" "linux_adjust lib ux (\<lambda>u. ux_step_clock ux u o') c w = Ok (Some t, w')"
    using assms(3) by (auto simp: linux_step_clock_def)
  then show ?thesis
    using unix_kernel.adjusted [OF assms(1) o'(2) assms(2,4,5)] offset_of_duration_exact(1) [OF o'(1)] by simp
qed

theorem linux_step_moves_witness:
  "\<exists>t. linux_step_clock numlib_exact sim_unix (- 1) (linux_CLOCK_TAI sim_unix) (5000000000, 0, 37)
    = Ok (Some t, (4999999999, 0, 37)) \<and> t = 41999999999 * 2 ^ 32"
proof -
  have "\<exists>t w'. linux_step_clock numlib_exact sim_unix (- 1) (linux_CLOCK_TAI sim_unix) (5000000000, 0, 37) = Ok (Some t, w')
      \<and> w' = (4999999999, 0, 37)"
    by (simp add: linux_step_clock_def offset_of_duration_def duration_nanos_rounded_def linux_adjust_def
      linux_CLOCK_TAI_def sim_unix_def offset_nanos_def linux_now_def)
  then obtain t where t: "linux_step_clock numlib_exact sim_unix (- 1) (linux_CLOCK_TAI sim_unix) (5000000000, 0, 37)
      = Ok (Some t, (4999999999, 0, 37))" by blast
  from linux_step_moves [OF sim.unix_kernel_axioms _ this]
  show ?thesis using t by (simp add: linux_CLOCK_TAI_def wf_linux_clock_def sim_unix_def)
qed

text \<open>After the initialization of a clock its time is not negative and its seconds are at most
  those of the largest \<open>u64\<close> number of nanoseconds; a clock in this range is left alone, and any
  other is set to the second after the epoch.\<close>

theorem linux_init_in_range:
  assumes "unix_kernel ux shown" and "linux_init ux c w = (True, w')" and "\<bar>shown (lc_clock c) w\<bar> < 2 ^ 90"
  shows "0 \<le> shown (lc_clock c) w' \<and> shown (lc_clock c) w' < 18446744074 * 1000000000
    \<and> (if 0 \<le> shown (lc_clock c) w \<and> shown (lc_clock c) w < 18446744074 * 1000000000 then w' = w
       else 1000000000 \<le> shown (lc_clock c) w' \<and> shown (lc_clock c) w' < 2000000000)"
proof -
  let ?u = "lc_clock c"
  obtain ts where ts: "ux_now ux ?u w = Some ts"
    using assms(2) by (auto simp: linux_init_def split: option.splits)
  have sh: "stamp_nanos ts = shown ?u w" "ut_nanos ts < 1000000000"
    using unix_kernel.now_shown [OF assms(1) ts] by simp_all
  let ?s = "sint (ut_seconds ts)" and ?n = "uint (ut_nanos ts)"
  have n: "?n < 1000000000" "0 \<le> ?n" using sh(2) by (simp_all add: word_less_alt)
  have shown: "shown ?u w = ?s * 1000000000 + ?n" using sh(1) by (simp add: stamp_nanos_def)
  have "\<bar>s\<bar> < 2 ^ 61" if "\<bar>s * 1000000000 + u\<bar> < 2 ^ 90" "u < 1000000000" "0 \<le> u" for s u :: int
    using that by auto
  then have s: "\<bar>?s\<bar> < 2 ^ 61" using assms(3) n shown by auto
  show ?thesis
  proof (cases "?s < 0 \<or> 18446744073 < ?s")
    case False
    then have "w' = w" using assms(2) ts by (auto simp: linux_init_def split: if_splits)
    then show ?thesis using False n shown by auto
  next
    case True
    then obtain ts' where step: "ux_step_clock ux ?u \<lparr>to_seconds = - ut_seconds ts + 1, to_nanos = 0\<rparr> w = (Some ts', w')"
      using assms(2) ts
      by (cases "ux_step_clock ux ?u \<lparr>to_seconds = - ut_seconds ts + 1, to_nanos = 0\<rparr> w") (auto simp: linux_init_def)
    have "sint (word_of_int x :: i64) = x" if "- (2 ^ 63) \<le> x" "x < 2 ^ 63" for x
      using that by (simp add: signed_of_int signed_take_bit_int_eq_self)
    moreover have "word_of_int (- ?s + 1) = - ut_seconds ts + 1" by simp
    moreover have "- (2 ^ 63) \<le> - ?s + 1" "- ?s + 1 < 2 ^ 63" using s by auto
    ultimately have "sint (- ut_seconds ts + 1) = - ?s + 1" by metis
    then have "shown ?u w' = ?n + 1000000000"
      using unix_kernel.step_shown [OF assms(1) step] shown by (simp add: offset_nanos_def)
    moreover have "\<not> (0 \<le> shown ?u w \<and> shown ?u w < 18446744074 * 1000000000)"
      using True n shown by (elim disjE) linarith+
    ultimately show ?thesis using n by auto
  qed
qed

theorem linux_init_in_range_witness:
  "\<exists>w'. linux_init sim_unix \<lparr>lc_clock = Sim_Hardware, lc_is_tai = False\<rparr> (0, - 5, 37) = (True, w')
    \<and> 1000000000 \<le> sim_shown Sim_Hardware w' \<and> sim_shown Sim_Hardware w' < 2000000000"
proof -
  have "fst (linux_init sim_unix \<lparr>lc_clock = Sim_Hardware, lc_is_tai = False\<rparr> (0, - 5, 37))"
    by (simp add: linux_init_def sim_unix_def sim_stamp_def offset_nanos_def)
  then obtain w' where "linux_init sim_unix \<lparr>lc_clock = Sim_Hardware, lc_is_tai = False\<rparr> (0, - 5, 37) = (True, w')"
    by (metis (full_types) prod.collapse)
  with linux_init_in_range [OF sim.unix_kernel_axioms this] show ?thesis by simp
qed

text \<open>The bound of the initialization is one second too high: in the last second before it the
  conversion to nanoseconds wraps.\<close>

lemma init_bound_wraps:
  "linux_init sim_unix \<lparr>lc_clock = Sim_Hardware, lc_is_tai = False\<rparr> (0, 2 ^ 64, 37) = (True, (0, 2 ^ 64, 37))
    \<and> time_from_timestamp (sim_stamp (2 ^ 64)) 0 = 0"
  by (simp add: linux_init_def sim_unix_def sim_stamp_def time_from_timestamp_def shift_nanos)

end
