(* ===== verification/PortTask.thy ===== *)
theory PortTask
  imports InstanceRun TlvForwarder LinuxClock
begin

text \<open>
  The task that drives one port in the Linux daemon (\<open>port_task\<close>, \<open>ethernet_port_task\<close>,
  \<open>handle_actions\<close>, \<open>handle_actions_ethernet\<close> and \<open>Timer\<close> in \<open>statime-linux/src/main.rs\<close>,
  the addresses of \<open>socket.rs\<close>). An iteration of its inner loop is one step: the event that
  \<open>select!\<close> took, the call on the port, and the processing of the resulting actions until no
  transmit time stamp is left. The sockets are the parameter \<open>net_ops\<close>. The two tasks differ in
  their sockets and addresses, which is the parameter \<open>transport\<close>.
\<close>

section \<open>Addresses\<close>

record socket_addr_v4 =
  v4_ip :: "u8 list"
  v4_port :: u16

record socket_addr_v6 =
  v6_ip :: "u16 list"
  v6_port :: u16
  v6_flowinfo :: u32
  v6_scope_id :: u32

record ethernet_address =
  ea_protocol :: u16
  ea_mac :: "u8 list"
  ea_if_index :: i32

record 'a ptp_target_address =
  PRIMARY_EVENT :: 'a
  PRIMARY_GENERAL :: 'a
  PDELAY_EVENT :: 'a
  PDELAY_GENERAL :: 'a

definition EVENT_PORT :: u16 where "EVENT_PORT = 319"
definition GENERAL_PORT :: u16 where "GENERAL_PORT = 320"
definition PTP_ETHERTYPE :: u16 where "PTP_ETHERTYPE = 0x88f7"
definition IPV4_PRIMARY_MULTICAST :: "u8 list" where "IPV4_PRIMARY_MULTICAST = [224, 0, 1, 129]"
definition IPV4_PDELAY_MULTICAST :: "u8 list" where "IPV4_PDELAY_MULTICAST = [224, 0, 0, 107]"
definition IPV6_PRIMARY_MULTICAST :: "u16 list" where "IPV6_PRIMARY_MULTICAST = [0xff0e, 0, 0, 0, 0, 0, 0, 0x181]"
definition IPV6_PDELAY_MULTICAST :: "u16 list" where "IPV6_PDELAY_MULTICAST = [0xff02, 0, 0, 0, 0, 0, 0, 0x6b]"

definition target_v4 :: "socket_addr_v4 ptp_target_address" where
  "target_v4 = \<lparr>
     PRIMARY_EVENT = \<lparr>v4_ip = IPV4_PRIMARY_MULTICAST, v4_port = EVENT_PORT\<rparr>,
     PRIMARY_GENERAL = \<lparr>v4_ip = IPV4_PRIMARY_MULTICAST, v4_port = GENERAL_PORT\<rparr>,
     PDELAY_EVENT = \<lparr>v4_ip = IPV4_PDELAY_MULTICAST, v4_port = EVENT_PORT\<rparr>,
     PDELAY_GENERAL = \<lparr>v4_ip = IPV4_PDELAY_MULTICAST, v4_port = GENERAL_PORT\<rparr>\<rparr>"

definition target_v6 :: "socket_addr_v6 ptp_target_address" where
  "target_v6 =
     (let addr = (\<lambda>ip port. \<lparr>v6_ip = ip, v6_port = port, v6_flowinfo = 0, v6_scope_id = 0\<rparr>) in
      \<lparr>PRIMARY_EVENT = addr IPV6_PRIMARY_MULTICAST EVENT_PORT,
       PRIMARY_GENERAL = addr IPV6_PRIMARY_MULTICAST GENERAL_PORT,
       PDELAY_EVENT = addr IPV6_PDELAY_MULTICAST EVENT_PORT,
       PDELAY_GENERAL = addr IPV6_PDELAY_MULTICAST GENERAL_PORT\<rparr>)"

definition target_ethernet :: "ethernet_address ptp_target_address" where
  "target_ethernet =
     (let primary = \<lparr>ea_protocol = PTP_ETHERTYPE, ea_mac = [0x01, 0x1b, 0x19, 0, 0, 0], ea_if_index = 0\<rparr>;
          pdelay = \<lparr>ea_protocol = PTP_ETHERTYPE, ea_mac = [0x01, 0x80, 0xc2, 0, 0, 0x0e], ea_if_index = 0\<rparr>
      in \<lparr>PRIMARY_EVENT = primary, PRIMARY_GENERAL = primary, PDELAY_EVENT = pdelay, PDELAY_GENERAL = pdelay\<rparr>)"

section \<open>Timers\<close>

text \<open>Instants are nanoseconds. The future of a timer that is not running is never ready.\<close>

type_synonym instant = nat

record timer =
  tm_deadline :: instant
  tm_running :: bool

definition timer_new :: "instant \<Rightarrow> timer" where
  "timer_new now = \<lparr>tm_deadline = now, tm_running = False\<rparr>"

definition timer_reset :: "instant \<Rightarrow> core_duration \<Rightarrow> timer \<Rightarrow> timer" where
  "timer_reset now duration t = t\<lparr>tm_deadline := now + duration, tm_running := True\<rparr>"

definition timer_poll :: "instant \<Rightarrow> timer \<Rightarrow> bool \<times> timer" where
  "timer_poll now t =
     (if tm_running t then (if tm_deadline t \<le> now then (True, t\<lparr>tm_running := False\<rparr>) else (False, t))
      else (False, t))"

record timers =
  port_sync_timer :: timer
  port_announce_timer :: timer
  port_announce_timeout_timer :: timer
  delay_request_timer :: timer
  filter_update_timer :: timer

definition timers_new :: "instant \<Rightarrow> timers" where
  "timers_new now = \<lparr>port_sync_timer = timer_new now, port_announce_timer = timer_new now,
     port_announce_timeout_timer = timer_new now, delay_request_timer = timer_new now,
     filter_update_timer = timer_new now\<rparr>"

section \<open>Actions\<close>

text \<open>\<open>ne_send\<close> sends on the event socket (\<open>True\<close>) or the general socket; the outer \<open>None\<close> is an
  error, the inner one a missing time stamp. \<open>ne_to_time\<close> is \<open>port_timestamp_to_time\<close> of the
  clock of the port.\<close>

record ('a, 'n) net_ops =
  ne_send :: "bool \<Rightarrow> bytes \<Rightarrow> 'a \<Rightarrow> 'n \<Rightarrow> unix_timestamp option option \<times> 'n"
  ne_to_time :: "unix_timestamp \<Rightarrow> 'n \<Rightarrow> time res"

record 'a transport =
  tr_ethernet :: bool
  tr_address :: "bool \<Rightarrow> bool \<Rightarrow> 'a"

definition udp_transport :: "'a ptp_target_address \<Rightarrow> 'a transport" where
  "udp_transport targets = \<lparr>tr_ethernet = False, tr_address = (\<lambda>event link_local.
     if event then (if link_local then PDELAY_EVENT targets else PRIMARY_EVENT targets)
     else (if link_local then PDELAY_GENERAL targets else PRIMARY_GENERAL targets))\<rparr>"

definition ethernet_transport :: "i32 \<Rightarrow> ethernet_address transport" where
  "ethernet_transport interface = \<lparr>tr_ethernet = True, tr_address = (\<lambda>event link_local.
     let target =
       (if event then (if link_local then PDELAY_EVENT target_ethernet else PRIMARY_EVENT target_ethernet)
        else (if link_local then PDELAY_GENERAL target_ethernet else PRIMARY_GENERAL target_ethernet))
     in \<lparr>ea_protocol = ea_protocol target, ea_mac = ea_mac target, ea_if_index = interface\<rparr>)\<rparr>"

record ('s, 'v, 'n) task =
  ta_now :: instant
  ta_net :: 'n
  ta_timers :: timers
  ta_forwarder :: "('s, 'v) tlv_forwarder"

text \<open>One action: the pending time stamp and the task after it.\<close>

definition handle_action ::
  "('s, 'v) channel_lib \<Rightarrow> ('a, 'n) net_ops \<Rightarrow> 'a transport \<Rightarrow> port_action \<Rightarrow>
   (timestamp_context \<times> time) option \<times> ('s, 'v, 'n) task \<Rightarrow> ((timestamp_context \<times> time) option \<times> ('s, 'v, 'n) task) res" where
  "handle_action lib ops tr action = (\<lambda>(pending, t).
     let timers = ta_timers t; set = (\<lambda>timers. Ok (pending, t\<lparr>ta_timers := timers\<rparr>)) in
     case action of
       SendEvent context data link_local \<Rightarrow>
         (case ne_send ops True data (tr_address tr True link_local) (ta_net t) of
            (None, _) \<Rightarrow> panic
          | (Some None, net) \<Rightarrow> Ok (pending, t\<lparr>ta_net := net\<rparr>)
          | (Some (Some time), net) \<Rightarrow>
              andthen (ne_to_time ops time net) (\<lambda>time. Ok (Some (context, time), t\<lparr>ta_net := net\<rparr>)))
     | SendGeneral data link_local \<Rightarrow>
         (case ne_send ops False data (tr_address tr False link_local) (ta_net t) of
            (None, _) \<Rightarrow> panic
          | (Some _, net) \<Rightarrow> Ok (pending, t\<lparr>ta_net := net\<rparr>))
     | ResetAnnounceTimer duration \<Rightarrow>
         set (timers\<lparr>port_announce_timer := timer_reset (ta_now t) duration (port_announce_timer timers)\<rparr>)
     | ResetSyncTimer duration \<Rightarrow>
         set (timers\<lparr>port_sync_timer := timer_reset (ta_now t) duration (port_sync_timer timers)\<rparr>)
     | ResetDelayRequestTimer duration \<Rightarrow>
         set (timers\<lparr>delay_request_timer := timer_reset (ta_now t) duration (delay_request_timer timers)\<rparr>)
     | ResetAnnounceReceiptTimer duration \<Rightarrow>
         set (timers\<lparr>port_announce_timeout_timer := timer_reset (ta_now t) duration (port_announce_timeout_timer timers)\<rparr>)
     | ResetFilterUpdateTimer duration \<Rightarrow>
         set (timers\<lparr>filter_update_timer := timer_reset (ta_now t) duration (filter_update_timer timers)\<rparr>)
     | ForwardTLV tlv \<Rightarrow> Ok (pending, t\<lparr>ta_forwarder := tlv_forwarder_forward lib tlv (ta_forwarder t)\<rparr>))"

fun handle_list ::
  "('s, 'v) channel_lib \<Rightarrow> ('a, 'n) net_ops \<Rightarrow> 'a transport \<Rightarrow> port_action list \<Rightarrow>
   (timestamp_context \<times> time) option \<times> ('s, 'v, 'n) task \<Rightarrow> ((timestamp_context \<times> time) option \<times> ('s, 'v, 'n) task) res" where
  "handle_list lib ops tr [] pt = Ok pt"
| "handle_list lib ops tr (a # as) pt = andthen (handle_action lib ops tr a pt) (handle_list lib ops tr as)"

definition handle_actions ::
  "('s, 'v) channel_lib \<Rightarrow> ('a, 'n) net_ops \<Rightarrow> 'a transport \<Rightarrow> port_action_iterator \<Rightarrow>
   ('s, 'v, 'n) task \<Rightarrow> ((timestamp_context \<times> time) option \<times> ('s, 'v, 'n) task) res" where
  "handle_actions lib ops tr acts t =
     andthen (drain acts) (\<lambda>as. handle_list lib ops tr as (None, t))"

text \<open>The loop that handles actions until there is no pending time stamp.\<close>

partial_function (option) process_actions ::
  "('f, 'r, 'c, 'k, 'q) host \<Rightarrow> ('s, 'v) channel_lib \<Rightarrow> ('a, 'n) net_ops \<Rightarrow> 'a transport \<Rightarrow> ptp_instance_state \<Rightarrow>
   port_action_iterator \<Rightarrow> ('r, 'c, 'k, 'q) running_port \<Rightarrow> ('s, 'v, 'n) task \<Rightarrow>
   (('r, 'c, 'k, 'q) running_port \<times> ('s, 'v, 'n) task) res option" where
  "process_actions host lib ops tr state acts p t =
     (case handle_actions lib ops tr acts t of
        Inl e \<Rightarrow> Some (Inl e)
      | Inr (None, t') \<Rightarrow> Some (Ok (p, t'))
      | Inr (Some (context, timestamp), t') \<Rightarrow>
          (case handle_send_timestamp host context timestamp state p of
             Inl e \<Rightarrow> Some (Inl e)
           | Inr (p', acts') \<Rightarrow> process_actions host lib ops tr state acts' p' t'))"

section \<open>The task\<close>

text \<open>The branches of \<open>select!\<close>; the end of the inner loop for the best master clock algorithm is
  \<open>port_task_stop\<close>.\<close>

datatype task_event =
    TE_EventRecv bytes "unix_timestamp option"
  | TE_GeneralRecv bytes
  | TE_RecvError
  | TE_AnnounceTimer
  | TE_SyncTimer
  | TE_AnnounceTimeoutTimer
  | TE_DelayRequestTimer
  | TE_FilterUpdateTimer

text \<open>A timer branch is taken when its timer is ready; otherwise nothing happens.\<close>

definition on_timer ::
  "(timers \<Rightarrow> timer) \<Rightarrow> (timer \<Rightarrow> timers \<Rightarrow> timers) \<Rightarrow> ('s, 'v, 'n) task \<Rightarrow> bool \<times> ('s, 'v, 'n) task" where
  "on_timer sel upd t =
     (let (ready, tm) = timer_poll (ta_now t) (sel (ta_timers t)) in (ready, t\<lparr>ta_timers := upd tm (ta_timers t)\<rparr>))"

type_synonym ('r, 'c, 'k, 'q, 's, 'v, 'n) selected =
  "(ptp_instance_state \<times> ('r, 'c, 'k, 'q) running_port \<times> ('s, 'v, 'n) task \<times> port_action_iterator) res"

definition call_port ::
  "(ptp_instance_state \<times> ('r, 'c, 'k, 'q) running_port \<times> port_action_iterator) res \<Rightarrow> ('s, 'v, 'n) task \<Rightarrow>
   ('r, 'c, 'k, 'q, 's, 'v, 'n) selected" where
  "call_port r t = andthen r (\<lambda>(state, p, acts). Ok (state, p, t, acts))"

definition select_timer ::
  "(timers \<Rightarrow> timer) \<Rightarrow> (timer \<Rightarrow> timers \<Rightarrow> timers) \<Rightarrow>
   (ptp_instance_state \<times> ('r, 'c, 'k, 'q) running_port \<times> port_action_iterator) res \<Rightarrow>
   ptp_instance_state \<Rightarrow> ('r, 'c, 'k, 'q) running_port \<Rightarrow> ('s, 'v, 'n) task \<Rightarrow> ('r, 'c, 'k, 'q, 's, 'v, 'n) selected" where
  "select_timer sel upd r state p t =
     (let (ready, t') = on_timer sel upd t in
      if ready then call_port r t' else Ok (state, p, t', actions_empty))"

definition port_task_select ::
  "('f, 'r, 'c, 'k, 'q) host \<Rightarrow> ('s, 'v) channel_lib \<Rightarrow> ('a, 'n) net_ops \<Rightarrow> 'a transport \<Rightarrow> task_event \<Rightarrow>
   ptp_instance_state \<Rightarrow> ('r, 'c, 'k, 'q) running_port \<Rightarrow> ('s, 'v, 'n) task \<Rightarrow>
   ('r, 'c, 'k, 'q, 's, 'v, 'n) selected option" where
  "port_task_select host lib ops tr ev state p t =
     (case ev of
        TE_EventRecv data timestamp \<Rightarrow>
          Some (if \<not> tr_ethernet tr \<and> \<not> is_compatible data then Ok (state, p, t, actions_empty)
                else case timestamp of
                       Some timestamp \<Rightarrow>
                         andthen (ne_to_time ops timestamp (ta_net t)) (\<lambda>time.
                         call_port (handle_event_receive host data time state p) t)
                     | None \<Rightarrow>
                         if tr_ethernet tr then call_port (handle_general_receive host data state p) t
                         else Ok (state, p, t, actions_empty))
      | TE_GeneralRecv data \<Rightarrow> Some (call_port (handle_general_receive host data state p) t)
      | TE_RecvError \<Rightarrow> Some panic
      | TE_AnnounceTimer \<Rightarrow>
          (let (ready, t') = on_timer port_announce_timer (\<lambda>tm ts. ts\<lparr>port_announce_timer := tm\<rparr>) t in
           if ready then
             map_option (\<lambda>r. andthen r (\<lambda>(forwarder, p', acts). Ok (state, p', t'\<lparr>ta_forwarder := forwarder\<rparr>, acts)))
               (handle_announce_timer host (\<lambda>n f. the (next_if_smaller lib n f)) state (ta_forwarder t') p)
           else Some (Ok (state, p, t', actions_empty)))
      | TE_SyncTimer \<Rightarrow>
          Some (select_timer port_sync_timer (\<lambda>tm ts. ts\<lparr>port_sync_timer := tm\<rparr>)
            (keep_state state (handle_sync_timer host state p)) state p t)
      | TE_AnnounceTimeoutTimer \<Rightarrow>
          Some (select_timer port_announce_timeout_timer (\<lambda>tm ts. ts\<lparr>port_announce_timeout_timer := tm\<rparr>)
            (keep_state state (handle_announce_receipt_timer host state p)) state p t)
      | TE_DelayRequestTimer \<Rightarrow>
          Some (select_timer delay_request_timer (\<lambda>tm ts. ts\<lparr>delay_request_timer := tm\<rparr>)
            (keep_state state (handle_delay_request_timer host state p)) state p t)
      | TE_FilterUpdateTimer \<Rightarrow>
          Some (select_timer filter_update_timer (\<lambda>tm ts. ts\<lparr>filter_update_timer := tm\<rparr>)
            (keep_state state (handle_filter_update_timer host p)) state p t))"

text \<open>One iteration of the inner loop.\<close>

definition port_task_step ::
  "('f, 'r, 'c, 'k, 'q) host \<Rightarrow> ('s, 'v) channel_lib \<Rightarrow> ('a, 'n) net_ops \<Rightarrow> 'a transport \<Rightarrow> task_event \<Rightarrow>
   ptp_instance_state \<Rightarrow> ('r, 'c, 'k, 'q) running_port \<Rightarrow> ('s, 'v, 'n) task \<Rightarrow>
   (ptp_instance_state \<times> ('r, 'c, 'k, 'q) running_port \<times> ('s, 'v, 'n) task) res option" where
  "port_task_step host lib ops tr ev state p t =
     Option.bind (port_task_select host lib ops tr ev state p t) (\<lambda>r.
     case r of
       Inl e \<Rightarrow> Some (Inl e)
     | Inr (state', p', t', acts) \<Rightarrow>
         map_option (\<lambda>r. andthen r (\<lambda>(p'', t''). Ok (state', p'', t'')))
           (process_actions host lib ops tr state' acts p' t'))"

text \<open>When a port comes from the best master clock algorithm, its pending actions are processed; only
  the Ethernet task empties its forwarder first, if the port is a master.\<close>

definition port_task_start ::
  "('f, 'r, 'c, 'k, 'q) host \<Rightarrow> ('s, 'v) channel_lib \<Rightarrow> ('a, 'n) net_ops \<Rightarrow> 'a transport \<Rightarrow> ptp_instance_state \<Rightarrow>
   ('r, 'c, 'k, 'q) bmca_port \<Rightarrow> ('s, 'v, 'n) task \<Rightarrow> (('r, 'c, 'k, 'q) running_port \<times> ('s, 'v, 'n) task) res option" where
  "port_task_start host lib ops tr state port_in_bmca t =
     Option.bind (if tr_ethernet tr \<and> is_master port_in_bmca then tlv_forwarder_empty lib (ta_forwarder t)
                  else Some (ta_forwarder t)) (\<lambda>forwarder.
     let (p, acts) = end_bmca port_in_bmca
     in process_actions host lib ops tr state acts p (t\<lparr>ta_forwarder := forwarder\<rparr>))"

definition port_task_stop :: "('r, 'c, 'k, 'q) running_port \<Rightarrow> ('r, 'c, 'k, 'q) bmca_port" where
  "port_task_stop p = start_bmca p"

text \<open>The task of an Ethernet port: one socket for both kinds of message, a packet without a time
  stamp is a general message.\<close>

definition handle_actions_ethernet ::
  "('s, 'v) channel_lib \<Rightarrow> (ethernet_address, 'n) net_ops \<Rightarrow> i32 \<Rightarrow> port_action_iterator \<Rightarrow>
   ('s, 'v, 'n) task \<Rightarrow> ((timestamp_context \<times> time) option \<times> ('s, 'v, 'n) task) res" where
  "handle_actions_ethernet lib ops interface acts t = handle_actions lib ops (ethernet_transport interface) acts t"

definition ethernet_port_task_start ::
  "('f, 'r, 'c, 'k, 'q) host \<Rightarrow> ('s, 'v) channel_lib \<Rightarrow> (ethernet_address, 'n) net_ops \<Rightarrow> i32 \<Rightarrow> ptp_instance_state \<Rightarrow>
   ('r, 'c, 'k, 'q) bmca_port \<Rightarrow> ('s, 'v, 'n) task \<Rightarrow> (('r, 'c, 'k, 'q) running_port \<times> ('s, 'v, 'n) task) res option" where
  "ethernet_port_task_start host lib ops interface state p t =
     port_task_start host lib ops (ethernet_transport interface) state p t"

definition ethernet_port_task_step ::
  "('f, 'r, 'c, 'k, 'q) host \<Rightarrow> ('s, 'v) channel_lib \<Rightarrow> (ethernet_address, 'n) net_ops \<Rightarrow> i32 \<Rightarrow> task_event \<Rightarrow>
   ptp_instance_state \<Rightarrow> ('r, 'c, 'k, 'q) running_port \<Rightarrow> ('s, 'v, 'n) task \<Rightarrow>
   (ptp_instance_state \<times> ('r, 'c, 'k, 'q) running_port \<times> ('s, 'v, 'n) task) res option" where
  "ethernet_port_task_step host lib ops interface ev state p t =
     port_task_step host lib ops (ethernet_transport interface) ev state p t"

section \<open>The loop over the time stamps\<close>

fun is_event_send :: "port_action \<Rightarrow> bool" where
  "is_event_send (SendEvent _ _ _) \<longleftrightarrow> True"
| "is_event_send _ \<longleftrightarrow> False"

lemma drain_subset:
  "drain acts = Inr as \<Longrightarrow> a \<in> set as \<Longrightarrow> a \<in> set (ai_internal acts) \<or> (\<exists>t. a = ForwardTLV t)"
proof (induction acts arbitrary: as rule: drain.induct)
  case (1 acts)
  from "1.prems"(1) consider
      (stop) it where "action_iterator_next acts = Inr (None, it)" "as = []"
    | (more) b it as' where "action_iterator_next acts = Inr (Some b, it)" "drain it = Inr as'" "as = b # as'"
    by (subst (asm) drain.simps) (auto split: sum.splits option.splits)
  then show ?case
  proof cases
    case more
    have b: "b \<in> set (ai_internal acts) \<or> (\<exists>t. b = ForwardTLV t)"
      and it: "set (ai_internal it) \<subseteq> set (ai_internal acts)"
      using more(1) by (auto simp: action_iterator_next_def split: list.splits)
    show ?thesis using "1.IH" [OF more(1) refl refl more(2)] "1.prems"(2) more(3) b it by auto
  qed (use "1.prems" in simp)
qed

lemma handle_list_no_event:
  "handle_list lib ops tr as (pending, t) = Inr (pending', t') \<Longrightarrow> list_all (\<lambda>a. \<not> is_event_send a) as \<Longrightarrow>
    pending' = pending"
proof (induction as arbitrary: t)
  case (Cons a as)
  then obtain t1 where "handle_action lib ops tr a (pending, t) = Inr (pending, t1)"
      "handle_list lib ops tr as (pending, t1) = Inr (pending', t')"
    by (cases a) (auto simp: handle_action_def Let_def split: prod.splits option.splits)
  then show ?case using Cons by simp
qed simp

lemma handle_no_event:
  assumes "handle_actions lib ops tr acts t = Inr (pending, t')"
    and "list_all (\<lambda>a. \<not> is_event_send a) (ai_internal acts)"
  shows "pending = None"
proof -
  obtain as where as: "drain acts = Inr as" "handle_list lib ops tr as (None, t) = Inr (pending, t')"
    using assms(1) by (cases "drain acts") (simp_all add: handle_actions_def)
  have "list_all (\<lambda>a. \<not> is_event_send a) as"
    unfolding list_all_iff
  proof
    fix a assume "a \<in> set as"
    from drain_subset [OF as(1) this] show "\<not> is_event_send a"
      using assms(2) by (cases a) (auto simp: list_all_iff)
  qed
  with as(2) show ?thesis by (rule handle_list_no_event)
qed

lemma no_event_simps:
  "list_all (\<lambda>a. \<not> is_event_send a) (ai_internal (actions_from_filter u))"
  "list_all (\<lambda>a. \<not> is_event_send a) (ai_internal (actions []))"
  "list_all (\<lambda>a. \<not> is_event_send a) (ai_internal (actions [SendGeneral d b]))"
  by (auto simp: actions_from_filter_def actions_def split: option.split)

lemma measurement_no_event:
  "handle_time_measurement host p = Inr (p', acts) \<Longrightarrow> list_all (\<lambda>a. \<not> is_event_send a) (ai_internal acts)"
  by (cases "extract_measurement host p")
    (auto simp: handle_time_measurement_def feed_filter_def Let_def no_event_simps split: option.splits)

text \<open>The time stamp of a sent message never makes the port send another event message.\<close>

lemma send_timestamp_no_event:
  "handle_send_timestamp host c ts state p = Inr (p', acts) \<Longrightarrow> list_all (\<lambda>a. \<not> is_event_send a) (ai_internal acts)"
  by (cases c)
    (auto simp: handle_send_timestamp_def handle_sync_timestamp_def handle_delay_timestamp_def handle_pdelay_timestamp_def
      handle_pdelay_response_timestamp_def send_message_def no_event_simps Let_def
      split: if_splits sum.splits failure.splits port_state.splits delay_state.splits peer_delay_state.splits option.splits
      dest: measurement_no_event)

lemma process_actions_eq:
  "process_actions host lib ops tr state acts p t =
    Some (andthen (handle_actions lib ops tr acts t) (\<lambda>(pending, t').
      case pending of
        None \<Rightarrow> Ok (p, t')
      | Some (context, timestamp) \<Rightarrow>
          andthen (handle_send_timestamp host context timestamp state p) (\<lambda>(p', acts').
          andthen (handle_actions lib ops tr acts' t') (\<lambda>(pending, t''). Ok (p', t'')))))"
proof (cases "handle_actions lib ops tr acts t")
  case (Inr r)
  obtain pending t' where r: "r = (pending, t')" by (cases r)
  show ?thesis
  proof (cases pending)
    case (Some c)
    obtain cx ts where c: "c = (cx, ts)" by (cases c)
    show ?thesis
    proof (cases "handle_send_timestamp host cx ts state p")
      case (Inr q)
      obtain p' acts' where q: "q = (p', acts')" by (cases q)
      have "process_actions host lib ops tr state acts' p' t'
          = Some (andthen (handle_actions lib ops tr acts' t') (\<lambda>(pending, t''). Ok (p', t'')))"
        using handle_no_event [OF _ send_timestamp_no_event [OF Inr [unfolded q]]]
        by (subst process_actions.simps) (fastforce split: sum.split option.split)
      then show ?thesis
        using \<open>handle_actions lib ops tr acts t = Inr r\<close> r Some c Inr q by (subst process_actions.simps) simp
    qed (use Inr r Some c in \<open>subst process_actions.simps, simp\<close>)
  qed (use Inr r in \<open>subst process_actions.simps, simp\<close>)
qed (subst process_actions.simps, simp)

section \<open>The timers of a master\<close>

text \<open>What the application relies on: the sockets accept every packet of a port, and the time stamps
  they return can be converted.\<close>

definition sound_net :: "('a, 'n) net_ops \<Rightarrow> bool" where
  "sound_net ops \<longleftrightarrow>
     (\<forall>event data addr net. length data \<le> MAX_DATA_LEN \<longrightarrow> fst (ne_send ops event data addr net) \<noteq> None)
     \<and> (\<forall>ts net. \<exists>time. ne_to_time ops ts net = Ok time)"

definition running_both :: "timers \<Rightarrow> bool" where
  "running_both ts \<longleftrightarrow> tm_running (port_announce_timer ts) \<and> tm_running (port_sync_timer ts)"

definition master_armed :: "('l, 'r, 'c, 'k, 'q) port \<Rightarrow> ('s, 'v, 'n) task \<Rightarrow> bool" where
  "master_armed p t \<longleftrightarrow> (is_master p \<longrightarrow> running_both (ta_timers t))"

text \<open>The timers of a master run, or one of the actions starts them.\<close>

definition arms :: "port_action list \<Rightarrow> timers \<Rightarrow> bool" where
  "arms as ts \<longleftrightarrow>
     (tm_running (port_announce_timer ts) \<or> (\<exists>d. ResetAnnounceTimer d \<in> set as))
     \<and> (tm_running (port_sync_timer ts) \<or> (\<exists>d. ResetSyncTimer d \<in> set as))"

lemma arms_simps [simp]:
  "arms [] ts \<longleftrightarrow> running_both ts"
  "running_both ts \<Longrightarrow> arms as ts"
  by (simp_all add: arms_def running_both_def)

fun wf_context :: "timestamp_context \<Rightarrow> bool" where
  "wf_context (TC_PDelayResp _ requestor) \<longleftrightarrow> wf_port_identity requestor"
| "wf_context _ \<longleftrightarrow> True"

lemma wf_send_event: "wf_event (EvSendTimestamp c ts) \<longleftrightarrow> wf_context c"
  by (cases c) simp_all

fun fits :: "port_action \<Rightarrow> bool" where
  "fits (SendEvent c data _) \<longleftrightarrow> length data \<le> MAX_DATA_LEN \<and> wf_context c"
| "fits (SendGeneral data _) \<longleftrightarrow> length data \<le> MAX_DATA_LEN"
| "fits _ \<longleftrightarrow> True"

lemma sane_fits: "sane_action m a \<Longrightarrow> fits a"
  by (cases a) (auto split: timestamp_context.splits)

definition handled :: "bool \<Rightarrow> port_action list \<Rightarrow> (timestamp_context \<times> time) option \<times> ('s, 'v, 'n) task \<Rightarrow> bool" where
  "handled master as = (\<lambda>(pending, t). (master \<longrightarrow> arms as (ta_timers t))
     \<and> (case pending of None \<Rightarrow> True | Some (c, ts) \<Rightarrow> wf_context c))"

lemma outcome_handle_action:
  assumes "T \<longrightarrow> sound_net ops" and "fits a" and "handled master (a # as) pt"
  shows "outcome T (handle_action lib ops tr a pt) (handled master as)"
proof (cases a)
  case (SendEvent c data link_local)
  obtain r net where s: "ne_send ops True data (tr_address tr True link_local) (ta_net (snd pt)) = (r, net)"
    by (cases "ne_send ops True data (tr_address tr True link_local) (ta_net (snd pt))")
  have r: "T \<longrightarrow> r \<noteq> None"
    using assms(1,2) s SendEvent unfolding sound_net_def by (metis fits.simps(1) fst_conv)
  have time: "outcome T (ne_to_time ops ts net) (\<lambda>_. True)" for ts
    using assms(1) unfolding sound_net_def by (blast intro: outcome_returns)
  obtain pending t where pt: "pt = (pending, t)" by (cases pt)
  show ?thesis
  proof (cases r)
    case None
    then show ?thesis using r s pt SendEvent by (simp add: handle_action_def outcome_def)
  next
    case (Some x)
    show ?thesis
      using s pt assms(2,3) SendEvent Some
      by (cases x) (auto simp: handle_action_def handled_def arms_def intro!: outcome_bind [OF time])
  qed
next
  case (SendGeneral data link_local)
  obtain r net where s: "ne_send ops False data (tr_address tr False link_local) (ta_net (snd pt)) = (r, net)"
    by (cases "ne_send ops False data (tr_address tr False link_local) (ta_net (snd pt))")
  have "T \<longrightarrow> r \<noteq> None"
    using assms(1,2) s SendGeneral unfolding sound_net_def by (metis fits.simps(2) fst_conv)
  then show ?thesis
    using s assms(3) SendGeneral
    by (cases pt; cases r) (auto simp: handle_action_def handled_def arms_def outcome_def split: option.splits)
qed (use assms(3) in \<open>cases pt; auto simp: handle_action_def handled_def arms_def timer_reset_def Let_def\<close>)+

lemma outcome_handle_list:
  "T \<longrightarrow> sound_net ops \<Longrightarrow> list_all fits as \<Longrightarrow> handled master as pt \<Longrightarrow>
    outcome T (handle_list lib ops tr as pt) (handled master [])"
  by (induction as arbitrary: pt) (auto intro: outcome_bind [OF outcome_handle_action])

lemma outcome_handle_actions:
  assumes "T \<longrightarrow> sound_net ops" and "good_actions p acts" and "master \<longrightarrow> arms (ai_internal acts) (ta_timers t)"
  shows "outcome T (handle_actions lib ops tr acts t) (handled master [])"
proof -
  obtain ts where ts: "wf_tlvs ts" "ai_tlvs acts = tlvs_enc ts"
    using assms(2) tlvs_wf by (auto simp: good_actions_def)
  let ?as = "ai_internal acts @ forwards (ai_sender_identity acts) ts"
  have "drain acts = Ok ?as"
    using drain_eq [OF ts(1), of "ai_internal acts" "ai_sender_identity acts"] ts(2) by (cases acts) simp
  moreover have "list_all fits ?as"
    using assms(2) by (auto simp: good_actions_def forwards_def list_all_iff intro: sane_fits)
  moreover have "handled master ?as (None, t)"
    using assms(3) by (auto simp: handled_def arms_def)
  ultimately show ?thesis
    using outcome_handle_list [OF assms(1)] by (auto simp: handle_actions_def simp del: list_all_append)
qed

text \<open>The invariant of a running task, and what the actions of a call have to satisfy.\<close>

definition task_ok :: "('r, 'c, 'k, 'q) running_port \<Rightarrow> ('s, 'v, 'n) task \<Rightarrow> bool" where
  "task_ok p t \<longleftrightarrow> wf_port p \<and> settled p \<and> master_armed p t"

definition to_process :: "('r, 'c, 'k, 'q) running_port \<Rightarrow> ('s, 'v, 'n) task \<Rightarrow> port_action_iterator \<Rightarrow> bool" where
  "to_process p t acts \<longleftrightarrow> wf_port p \<and> settled p \<and> good_actions p acts
     \<and> (is_master p \<longrightarrow> arms (ai_internal acts) (ta_timers t))"

text \<open>A task never makes its port a slave: only the best master clock algorithm does.\<close>

definition moved_on :: "('l, 'r, 'c, 'k, 'q) port \<Rightarrow> ('m, 'r, 'c, 'k, 'q) port \<Rightarrow> bool" where
  "moved_on p p' \<longleftrightarrow> same_port p p' \<and> (\<forall>q. mode p' = M_Slave q \<longrightarrow> mode p = M_Slave q)"

lemma moved_on_refl [simp]: "moved_on p p"
  by (simp add: moved_on_def)

lemma moved_on_trans: "moved_on p p' \<Longrightarrow> moved_on p' p'' \<Longrightarrow> moved_on p p''"
  by (auto simp: moved_on_def intro: same_port_trans)

lemma stepped_moved: "stepped ev state p (state', p', acts) \<Longrightarrow> moved_on p p'"
  by (auto simp: stepped_def moved_on_def transition_to_slave)

lemma became_master:
  "stepped ev state p (state', p', acts) \<Longrightarrow> is_master p' \<Longrightarrow> ev \<noteq> EvAnnounceReceiptTimer \<Longrightarrow> is_master p"
  using mode_of_iff(3) [of "po_port_state p", unfolded eq_commute [of "mode p"]]
  by (auto simp: stepped_def is_master_def transition_to_master)

lemma outcome_timestamp:
  assumes "T \<longrightarrow> host_total host (po_config p)" and "wf_port p" "settled p" "wf_instance_state state"
    and "wf_context c"
  shows "outcome T (handle_send_timestamp host c ts state p) (\<lambda>(p', acts).
    wf_port p' \<and> settled p' \<and> moved_on p p' \<and> good_actions p' acts \<and> (is_master p' \<longrightarrow> is_master p))"
proof -
  have "outcome T (keep_state state (handle_send_timestamp host c ts state p)) (stepped (EvSendTimestamp c ts) state p)"
    using assms by (intro outcome_send_timestamp) (simp_all add: wf_send_event)
  then have "outcome T (keep_state state (handle_send_timestamp host c ts state p))
      (\<lambda>r. stepped (EvSendTimestamp c ts) state p r \<and> moved_on p (fst (snd r)) \<and> (is_master (fst (snd r)) \<longrightarrow> is_master p))"
    by (rule outcome_mono) (use became_master stepped_moved in fastforce)
  then show ?thesis
    by (cases "handle_send_timestamp host c ts state p") (auto simp: outcome_def keep_state_def stepped_def)
qed

lemma outcome_process:
  assumes "T \<longrightarrow> host_total host (po_config p) \<and> sound_net ops" and "wf_instance_state state"
    and "to_process p t acts" and "process_actions host lib ops tr state acts p t = Some r"
  shows "outcome T r (\<lambda>(p', t'). task_ok p' t' \<and> moved_on p p')"
proof -
  have p: "wf_port p" "settled p" "good_actions p acts" "is_master p \<longrightarrow> arms (ai_internal acts) (ta_timers t)"
    using assms(3) by (simp_all add: to_process_def)
  have T: "T \<longrightarrow> sound_net ops" "T \<longrightarrow> host_total host (po_config p)" using assms(1) by simp_all
  have again: "outcome T (andthen (handle_actions lib ops tr acts' t') (\<lambda>(pending, t''). Ok (p', t'')))
      (\<lambda>(p', t'). task_ok p' t' \<and> moved_on p p')"
    if "wf_port p'" "settled p'" "moved_on p p'" "good_actions p' acts'" "is_master p' \<longrightarrow> is_master p"
      "is_master p \<longrightarrow> running_both (ta_timers t')" for p' acts' t'
    using that by (intro outcome_bind [OF outcome_handle_actions [OF T(1), of p' acts' "is_master p'"]])
      (auto simp: handled_def task_ok_def master_armed_def)
  have "outcome T (case pending of None \<Rightarrow> Ok (p, t')
        | Some (context, timestamp) \<Rightarrow>
          andthen (handle_send_timestamp host context timestamp state p) (\<lambda>(p', acts').
          andthen (handle_actions lib ops tr acts' t') (\<lambda>(pending, t''). Ok (p', t''))))
        (\<lambda>(p', t'). task_ok p' t' \<and> moved_on p p')"
    if "handled (is_master p) [] (pending, t')" for pending t'
  proof (cases pending)
    case (Some c)
    with that have "wf_context (fst c)" "is_master p \<longrightarrow> running_both (ta_timers t')"
      by (auto simp: handled_def split: prod.splits)
    then show ?thesis
      unfolding Some option.case
      by (cases c) (auto simp del: outcome_Ok
        intro!: outcome_bind_pair [OF outcome_timestamp [OF T(2) p(1,2) assms(2)]] again)
  qed (use that in \<open>simp add: handled_def task_ok_def master_armed_def p\<close>)
  then show ?thesis
    unfolding assms(4) [unfolded process_actions_eq option.inject, symmetric]
    by (intro outcome_bind [OF outcome_handle_actions [OF T(1) p(3,4)]]) auto
qed

lemma timer_poll_simps:
  "fst (timer_poll now tm) \<Longrightarrow> tm_running tm"
  "\<not> fst (timer_poll now tm) \<Longrightarrow> snd (timer_poll now tm) = tm"
  by (auto simp: timer_poll_def split: if_splits)

text \<open>A port that is a master after a call was one before, or its timers are started.\<close>

lemma stepped_to_process:
  assumes "stepped ev state p (state', p', acts)" and "ev \<noteq> EvAnnounceReceiptTimer" and "running_both (ta_timers t) \<or> \<not> is_master p"
  shows "to_process p' t acts" "moved_on p p'" "wf_instance_state state'" "same_roots state state'"
  using assms became_master [OF assms(1) _ assms(2)] stepped_moved [OF assms(1)] by (auto simp: stepped_def to_process_def)

lemma send_message_OkD:
  assumes "send_message m p k = Inr r" and "wf_message m"
  obtains p' data where "k p' data = Inr r"
proof (cases "message_wire_size m \<le> length (po_packet_buffer p)")
  case True
  then show ?thesis
    using assms that message_serialize_layout [OF assms(2) True]
    by (auto simp: send_message_def slice_def split: if_splits)
next
  case False
  then show ?thesis
    using assms message_serialize_short [OF assms(2), of "po_packet_buffer p"] by (simp add: send_message_def)
qed

lemma sync_resets:
  assumes "send_sync host state p = Inr (p', acts)" and "wf_port p" and "is_master p"
  shows "\<exists>d. ResetSyncTimer d \<in> set (ai_internal acts)"
  using assms
  by (auto simp: send_sync_def generate_def Let_def is_master_def actions_def wf_port_def
    elim!: send_message_OkD intro: wf_sent_messages)

lemma announce_resets:
  assumes "send_announce host next_tlv state s p = Some (Inr (s', p', acts))"
    and "wf_port p" and "wf_instance_state state" and "is_master p"
  shows "\<exists>d. ResetAnnounceTimer d \<in> set (ai_internal acts)"
proof -
  have wf: "wf_message ((msg_announce state (po_port_identity p) i v)\<lparr>ms_suffix := x\<rparr>)" for i v x
    using assms(2,3) wf_sent_messages(8) wf_announce_suffix by (auto simp: wf_port_def wf_instance_state_def)
  show ?thesis
    using assms(1,4)
    by (auto simp: send_announce_def generate_def Let_def is_master_def actions_def
      elim!: send_message_OkD [OF _ wf] split: option.splits)
qed

lemma receipt_resets:
  assumes "handle_announce_receipt_timer host state p = Inr (p', acts)" and "is_master p'"
  shows "arms (ai_internal acts) ts"
  using assms
  by (auto simp: handle_announce_receipt_timer_def is_master_def arms_def actions_def
    dest!: set_forced_port_state_OkD(1) split: if_splits)

section \<open>An iteration of the task\<close>

text \<open>The events after which a call of the port does not panic: the packet is short, the socket did
  not fail, and no announce message has to be built from forwarded TLVs.\<close>

fun safe_event :: "task_event \<Rightarrow> bool" where
  "safe_event (TE_EventRecv data _) \<longleftrightarrow> length data < 1100"
| "safe_event (TE_GeneralRecv data) \<longleftrightarrow> length data < 1100"
| "safe_event TE_RecvError \<longleftrightarrow> False"
| "safe_event TE_AnnounceTimer \<longleftrightarrow> False"
| "safe_event _ \<longleftrightarrow> True"

definition selected_ok ::
  "ptp_instance_state \<Rightarrow> ('r, 'c, 'k, 'q) running_port \<Rightarrow>
   ptp_instance_state \<times> ('r, 'c, 'k, 'q) running_port \<times> ('s, 'v, 'n) task \<times> port_action_iterator \<Rightarrow> bool" where
  "selected_ok state p = (\<lambda>(state', p', t', acts).
     wf_instance_state state' \<and> same_roots state state' \<and> to_process p' t' acts \<and> moved_on p p')"

lemma selected_nothing:
  "wf_instance_state state \<Longrightarrow> task_ok p t \<Longrightarrow> selected_ok state p (state, p, t, actions_empty)"
  using good_actions_simps(1) [of p]
  by (auto simp: selected_ok_def to_process_def task_ok_def master_armed_def actions_empty_def actions_def)

lemma outcome_call_port:
  assumes "outcome T r (stepped ev state p)" and "ev \<noteq> EvAnnounceReceiptTimer" and "master_armed p t"
  shows "outcome T (call_port r t) (selected_ok state p)"
  unfolding call_port_def
  by (rule outcome_bind [OF assms(1)])
    (use assms(2,3) stepped_to_process in \<open>fastforce simp: selected_ok_def master_armed_def\<close>)

text \<open>A timer branch, when the call restarts the timer that went off or starts both timers.\<close>

lemma outcome_select_timer:
  assumes step: "outcome T r (stepped ev state p)" and ok: "task_ok p t" "wf_instance_state state"
    and kept: "\<not> fst (on_timer sel upd t) \<Longrightarrow> snd (on_timer sel upd t) = t"
    and arms: "\<And>state' p' acts. r = Inr (state', p', acts) \<Longrightarrow> stepped ev state p (state', p', acts) \<Longrightarrow>
      is_master p' \<Longrightarrow> arms (ai_internal acts) (ta_timers (snd (on_timer sel upd t)))"
  shows "outcome T (select_timer sel upd r state p t) (selected_ok state p)"
proof (cases "on_timer sel upd t")
  case (Pair ready t')
  show ?thesis
  proof (cases ready)
    case True
    have "outcome T r (\<lambda>(state', p', acts). stepped ev state p (state', p', acts)
        \<and> (is_master p' \<longrightarrow> arms (ai_internal acts) (ta_timers t')))"
      using step arms Pair by (cases r) (auto simp: outcome_def)
    then have "outcome T (call_port r t') (selected_ok state p)"
      unfolding call_port_def
      by (rule outcome_bind) (use stepped_moved in \<open>fastforce simp: selected_ok_def to_process_def stepped_def\<close>)
    then show ?thesis using Pair True by (simp add: select_timer_def)
  next
    case False
    then show ?thesis using Pair kept selected_nothing [OF ok(2,1)] by (simp add: select_timer_def)
  qed
qed

lemma on_timer_simps:
  "\<not> fst (on_timer sel upd t) \<Longrightarrow> upd (sel (ta_timers t)) (ta_timers t) = ta_timers t \<Longrightarrow> snd (on_timer sel upd t) = t"
  "ta_timers (snd (on_timer sel upd t)) = upd (snd (timer_poll (ta_now t) (sel (ta_timers t)))) (ta_timers t)"
  by (auto simp: on_timer_def timer_poll_def Let_def split: if_splits)

lemma outcome_select:
  assumes "T \<longrightarrow> host_total host (po_config p) \<and> sound_net ops \<and> safe_event ev"
    and "wf_instance_state state" and "task_ok p t"
    and "port_task_select host lib ops tr ev state p t = Some r"
  shows "outcome T r (selected_ok state p)"
proof -
  have p: "wf_port p" "settled p" "master_armed p t" using assms(3) by (simp_all add: task_ok_def)
  have T: "T \<longrightarrow> host_total host (po_config p)" "T \<longrightarrow> sound_net ops" using assms(1) by simp_all
  have step: "outcome T (port_step host pe state p) (stepped pe state p)"
    if "T \<longrightarrow> short_event pe" "wf_event pe" for pe
    using that T(1) by (intro outcome_step) (simp_all add: p assms(2))
  have call: "outcome T (call_port (port_step host pe state p) t) (selected_ok state p)"
    if "T \<longrightarrow> short_event pe" "wf_event pe" "pe \<noteq> EvAnnounceReceiptTimer" for pe
    using outcome_call_port [OF step _ p(3)] that by simp
  have run: "is_master p \<Longrightarrow> running_both (ta_timers t)" using p(3) by (simp add: master_armed_def)
  note idle = selected_nothing [OF assms(2,3)]
  note timer = outcome_select_timer [OF step assms(3,2) on_timer_simps(1)]
  have held: "running_both (ta_timers t)"
    if "stepped pe state p (state', p', acts)" "is_master p'" "pe \<noteq> EvAnnounceReceiptTimer" for pe state' p' acts
    using became_master [OF that] run by blast
  show ?thesis
  proof (cases ev)
    case (TE_EventRecv data ts)
    have time: "outcome T (ne_to_time ops x (ta_net t)) (\<lambda>_. True)" for x
      using T(2) unfolding sound_net_def by (blast intro: outcome_returns)
    have d: "T \<longrightarrow> length data < 1100" using assms(1) TE_EventRecv by simp
    show ?thesis
      using assms(4) call [of "EvEventReceive data _"] call [of "EvGeneralReceive data"] idle d TE_EventRecv
      by (cases ts) (auto simp: port_task_select_def intro!: outcome_bind [OF time] split: if_splits)
  next
    case TE_AnnounceTimer
    obtain ready t' where o: "on_timer port_announce_timer (\<lambda>tm ts. ts\<lparr>port_announce_timer := tm\<rparr>) t = (ready, t')"
      by (cases "on_timer port_announce_timer (\<lambda>tm ts. ts\<lparr>port_announce_timer := tm\<rparr>) t")
    have sync: "is_master p \<Longrightarrow> tm_running (port_sync_timer (ta_timers t'))"
      using on_timer_simps(2) [of port_announce_timer "\<lambda>tm ts. ts\<lparr>port_announce_timer := tm\<rparr>" t] o run
      by (simp add: running_both_def)
    have "selected_ok state p (state, p', t'\<lparr>ta_forwarder := f\<rparr>, acts)"
      if "handle_announce_timer host (\<lambda>n f. the (next_if_smaller lib n f)) state (ta_forwarder t') p = Some (Inr (f, p', acts))"
      for f p' acts
      using send_announce_sent [OF that [unfolded handle_announce_timer_def] p(1) assms(2)]
        announce_resets [OF that [unfolded handle_announce_timer_def] p(1) assms(2)] sync
        stepped_sent [OF assms(2) p(1,2), of p' acts EvSyncTimer] stepped_moved [of EvSyncTimer state p state p' acts]
      by (auto simp: selected_ok_def to_process_def arms_def stepped_def sent_def is_master_def)
    then show ?thesis
      using assms(1,4) o idle on_timer_simps(1) [of port_announce_timer "\<lambda>tm ts. ts\<lparr>port_announce_timer := tm\<rparr>" t]
        TE_AnnounceTimer
      by (auto simp: port_task_select_def outcome_def split: if_splits sum.splits)
  next
    case TE_SyncTimer
    have "arms (ai_internal acts) (ta_timers (snd (on_timer port_sync_timer (\<lambda>tm ts. ts\<lparr>port_sync_timer := tm\<rparr>) t)))"
      if r: "port_step host EvSyncTimer state p = Inr (state', p', acts)"
        and s: "stepped EvSyncTimer state p (state', p', acts)" "is_master p'" for state' p' acts
    proof -
      have "is_master p" using became_master [OF s] by simp
      then have "\<exists>d. ResetSyncTimer d \<in> set (ai_internal acts)"
        using sync_resets [of host state p p' acts] p(1) r by (auto simp: handle_sync_timer_def keep_state_def)
      then show ?thesis using held [OF s] by (auto simp: arms_def running_both_def on_timer_simps(2))
    qed
    then show ?thesis
      using assms(4) timer [of EvSyncTimer port_sync_timer "\<lambda>tm ts. ts\<lparr>port_sync_timer := tm\<rparr>"] TE_SyncTimer
      by (simp add: port_task_select_def)
  next
    case TE_AnnounceTimeoutTimer
    then show ?thesis
      using assms(4) timer [of EvAnnounceReceiptTimer port_announce_timeout_timer "\<lambda>tm ts. ts\<lparr>port_announce_timeout_timer := tm\<rparr>"]
        receipt_resets
      by (fastforce simp: port_task_select_def keep_state_def)
  next
    case TE_DelayRequestTimer
    then show ?thesis
      using assms(4) timer [of EvDelayRequestTimer delay_request_timer "\<lambda>tm ts. ts\<lparr>delay_request_timer := tm\<rparr>"] held
      by (fastforce simp: port_task_select_def running_both_def arms_def on_timer_simps(2))
  next
    case TE_FilterUpdateTimer
    then show ?thesis
      using assms(4) timer [of EvFilterUpdateTimer filter_update_timer "\<lambda>tm ts. ts\<lparr>filter_update_timer := tm\<rparr>"] held
      by (fastforce simp: port_task_select_def running_both_def arms_def on_timer_simps(2))
  next
    case (TE_GeneralRecv data)
    then show ?thesis using assms(1,4) call [of "EvGeneralReceive data"] by (simp add: port_task_select_def)
  qed (use assms in \<open>auto simp: port_task_select_def outcome_def\<close>)
qed

lemma select_returns:
  assumes "broadcast lib unread"
  shows "\<exists>r. port_task_select host lib ops tr ev state p t = Some r"
proof (cases ev)
  case TE_AnnounceTimer
  obtain ready t' where o: "on_timer port_announce_timer (\<lambda>tm ts. ts\<lparr>port_announce_timer := tm\<rparr>) t = (ready, t')"
    by (cases "on_timer port_announce_timer (\<lambda>tm ts. ts\<lparr>port_announce_timer := tm\<rparr>) t")
  obtain r where "handle_announce_timer host (\<lambda>n f. the (next_if_smaller lib n f)) state (ta_forwarder t') p = Some r"
    using broadcast.announce_returns [OF assms] unfolding handle_announce_timer_def by blast
  then show ?thesis using o TE_AnnounceTimer by (simp add: port_task_select_def)
qed (simp_all add: port_task_select_def)

lemma step_eq:
  assumes "port_task_select host lib ops tr ev state p t = Some r"
  shows "port_task_step host lib ops tr ev state p t = Some (andthen r (\<lambda>(state', p', t', acts).
    andthen (the (process_actions host lib ops tr state' acts p' t')) (\<lambda>(p'', t''). Ok (state', p'', t''))))"
  using assms by (cases r) (auto simp: port_task_step_def process_actions_eq)

lemma outcome_task_step:
  assumes "T \<longrightarrow> host_total host (po_config p) \<and> sound_net ops \<and> safe_event ev"
    and "wf_instance_state state" and "task_ok p t"
    and "port_task_step host lib ops tr ev state p t = Some r"
  shows "outcome T r (\<lambda>(state', p', t'). wf_instance_state state' \<and> same_roots state state' \<and> task_ok p' t' \<and> moved_on p p')"
proof -
  obtain q where q: "port_task_select host lib ops tr ev state p t = Some q"
    using assms(4) by (cases "port_task_select host lib ops tr ev state p t") (simp_all add: port_task_step_def)
  have "outcome T (andthen (the (process_actions host lib ops tr state' acts p' t')) (\<lambda>(p'', t''). Ok (state', p'', t'')))
      (\<lambda>(state', p', t'). wf_instance_state state' \<and> same_roots state state' \<and> task_ok p' t' \<and> moved_on p p')"
    if "selected_ok state p (state', p', t', acts)" for state' p' t' acts
  proof -
    obtain r' where r': "process_actions host lib ops tr state' acts p' t' = Some r'" by (simp add: process_actions_eq)
    have "T \<longrightarrow> host_total host (po_config p') \<and> sound_net ops"
      using assms(1) that by (simp add: selected_ok_def moved_on_def same_port_def)
    from outcome_process [OF this _ _ r'] that show ?thesis
      unfolding r' option.sel selected_ok_def
      by (intro outcome_bind_pair [where Q = "\<lambda>p'' t''. task_ok p'' t'' \<and> moved_on p' p''"]) (auto intro: moved_on_trans)
  qed
  then show ?thesis
    using assms(4) unfolding step_eq [OF q] option.inject
    by (auto intro!: outcome_bind [OF outcome_select [OF assms(1-3) q]])
qed

section \<open>From and to the best master clock algorithm\<close>

definition to_start :: "('r, 'c, 'k, 'q) bmca_port \<Rightarrow> ('s, 'v, 'n) task \<Rightarrow> bool" where
  "to_start p t \<longleftrightarrow> to_process (fst (end_bmca p)) t (snd (end_bmca p))"

lemma start_returns:
  assumes "broadcast lib unread"
  obtains f where "(if tr_ethernet tr \<and> is_master p then tlv_forwarder_empty lib (ta_forwarder t) else Some (ta_forwarder t)) = Some f"
  using broadcast.empty_refines_queue [OF assms, of "ta_forwarder t"]
  by (cases "tr_ethernet tr \<and> is_master p") auto

lemma outcome_task_start:
  assumes "T \<longrightarrow> host_total host (po_config p) \<and> sound_net ops" and "wf_instance_state state" and "to_start p t"
    and "port_task_start host lib ops tr state p t = Some r"
  shows "outcome T r (\<lambda>(p', t'). task_ok p' t' \<and> moved_on p p')"
proof -
  obtain q acts where q: "end_bmca p = (q, acts)" by (cases "end_bmca p")
  then have s: "moved_on p q" by (auto simp: end_bmca_def moved_on_def same_port_def change_lifecycle_def)
  obtain f where "process_actions host lib ops tr state acts q (t\<lparr>ta_forwarder := f\<rparr>) = Some r"
    using assms(4) q
    by (cases "if tr_ethernet tr \<and> is_master p then tlv_forwarder_empty lib (ta_forwarder t) else Some (ta_forwarder t)")
      (simp_all add: port_task_start_def)
  then have "outcome T r (\<lambda>(p', t'). task_ok p' t' \<and> moved_on q p')"
    using assms(1-3) q s
    by (intro outcome_process) (auto simp: to_start_def to_process_def moved_on_def same_port_def)
  then show ?thesis by (rule outcome_mono) (auto intro: moved_on_trans [OF s])
qed

text \<open>A run of the algorithm on the ports of all tasks.\<close>

lemma bmca_to_start:
  assumes "instance_inv inst ports" and "list_all2 task_ok ports tasks"
    and "instance_bmca host inst (map port_task_stop ports) = Inr (inst', ports')"
  shows "wf_instance_state (in_state inst')" "list_all2 same_port ports ports'" "list_all2 to_start ports' tasks"
proof -
  obtain best_ports ebest where b: "bmca_ran (in_state inst) (map start_bmca ports) best_ports ebest (in_state inst') ports'"
    using outcome_OkD [OF bmca_returns [OF assms(1), of False host]] assms(3) by (auto simp: port_task_stop_def [abs_def])
  then show "wf_instance_state (in_state inst')" by (simp add: bmca_ran_def)
  have same: "list_all2 same_port (map start_bmca ports) ports'" by (rule bmca_ran_ports(2) [OF b])
  then show "list_all2 same_port ports ports'"
    by (auto simp: list_all2_conv_all_nth start_bmca_def same_port_def change_lifecycle_def)
  show "list_all2 to_start ports' tasks"
    unfolding list_all2_conv_all_nth
  proof (intro conjI allI impI)
    show "length ports' = length tasks" using same assms(2) by (auto dest!: list_all2_lengthD)
    fix i assume i: "i < length ports'"
    then have "with_best (start_bmca (ports ! i)) (best_ports ! i)"
        "port_ran (is_default_ds (in_state inst)) ebest (best_ports ! i) (ports' ! i)" "task_ok (ports ! i) (tasks ! i)"
      using b assms(2) by (auto simp: bmca_ran_def list_all2_conv_all_nth)
    moreover from this(1) have "is_master (best_ports ! i) \<longleftrightarrow> is_master (ports ! i)"
      unfolding is_master_def mode_of_iff(3) [symmetric] by (simp add: with_best_def)
    ultimately show "to_start (ports' ! i) (tasks ! i)"
      by (auto simp: to_start_def to_process_def end_bmca_def port_ran_def with_best_def promoted_def is_master_def
        task_ok_def master_armed_def arms_def running_both_def wf_change_lifecycle settled_change_lifecycle good_actions_def)
  qed
qed

section \<open>An example task\<close>

text \<open>Sockets that record what is sent and return no time stamp.\<close>

definition example_net :: "(socket_addr_v4, (bytes \<times> socket_addr_v4) list) net_ops" where
  "example_net = \<lparr>ne_send = (\<lambda>event data addr net. (Some None, (data, addr) # net)), ne_to_time = (\<lambda>ts net. Ok 0)\<rparr>"

definition example_task :: "(unit, nat \<times> forwarded_tlv list, (bytes \<times> socket_addr_v4) list) task" where
  "example_task = \<lparr>ta_now = 5, ta_net = [],
     ta_timers = (timers_new 0)\<lparr>port_announce_timeout_timer := timer_reset 0 5 (timer_new 0)\<rparr>,
     ta_forwarder = example_forwarder []\<rparr>"

lemma sound_example_net: "sound_net example_net"
  by (simp add: sound_net_def example_net_def)

lemma example_task_ok: "task_ok (example_port PS_Listening PD_Empty) example_task"
  by (simp add: task_ok_def wf_example_port settled_example(1) master_armed_def is_master_def) (simp add: example_port_def)

section \<open>Properties\<close>

text \<open>C30: an iteration of a port task always ends: whichever branch of \<open>select!\<close> is taken, whatever
  the sockets and the filter do, the loop that handles actions while there is a pending transmit
  time stamp stops (with a result or a panic), because the time stamp of a sent message never makes
  the port send another event message. The same holds for the actions that the best master clock
  algorithm left to a port.\<close>

theorem port_task_returns:
  assumes "broadcast lib unread"
  shows "(\<exists>r. port_task_step host lib ops tr ev state p t = Some r)
    \<and> (\<exists>r. port_task_start host lib ops tr state q t = Some r)"
proof
  show "\<exists>r. port_task_step host lib ops tr ev state p t = Some r"
    using select_returns [OF assms, of host ops tr ev state p t] step_eq by blast
  obtain f where "(if tr_ethernet tr \<and> is_master q then tlv_forwarder_empty lib (ta_forwarder t) else Some (ta_forwarder t)) = Some f"
    using start_returns [OF assms] by blast
  then show "\<exists>r. port_task_start host lib ops tr state q t = Some r"
    by (simp add: port_task_start_def process_actions_eq split: prod.split)
qed

theorem port_task_returns_witness:
  "(\<exists>r. port_task_step recording_host list_channel example_net (udp_transport target_v4) TE_AnnounceTimeoutTimer
      (example_state False) (example_port PS_Listening PD_Empty) example_task = Some r)
    \<and> (\<exists>r. port_task_start recording_host list_channel example_net (udp_transport target_v4)
      (example_state False) (start_bmca (example_port PS_Listening PD_Empty)) example_task = Some r)"
  by (rule port_task_returns [OF list_bc.broadcast_axioms])



end
