(* ===== verification/LinuxConfig.thy ===== *)
theory LinuxConfig
  imports MetricsProps LinuxClock
begin

text \<open>
  The configuration of the Linux daemon (\<open>statime-linux/src/config/mod.rs\<close>, \<open>tracing.rs\<close>): the
  values that a file leaves out, the strings that the daemon reads itself, and the conversion to the
  configuration of a port of the library. The TOML reader is not part of the model: a file is given
  by the fields it sets (\<open>toml_port\<close>, \<open>toml_config\<close>). The conversion of a hexadecimal string to
  eight bytes (\<open>hex\<close> crate) is the parameter \<open>from_hex\<close>.
\<close>

section \<open>Strings\<close>

datatype log_level = LL_Trace | LL_Debug | LL_Info | LL_Warn | LL_Error

definition log_level_from_str :: "string \<Rightarrow> log_level option" where
  "log_level_from_str s =
     (if s = ''trace'' then Some LL_Trace
      else if s = ''debug'' then Some LL_Debug
      else if s = ''info'' then Some LL_Info
      else if s = ''warn'' then Some LL_Warn
      else if s = ''error'' then Some LL_Error
      else None)"

text \<open>\<open>str::parse::<u32>\<close>: an optional plus sign, and digits that do not overflow.\<close>

definition parse_u32 :: "string \<Rightarrow> u32 option" where
  "parse_u32 s =
     Option.bind (parse_nat (if take 1 s = ''+'' then drop 1 s else s)) (\<lambda>n.
     if n < 2 ^ 32 then Some (word_of_nat n) else None)"

datatype hardware_clock = HC_Auto | HC_Required | HC_Specific u32 | HC_None

definition hardware_clock_deserialize :: "string \<Rightarrow> hardware_clock option" where
  "hardware_clock_deserialize raw =
     (if raw = ''auto'' then Some HC_Auto
      else if raw = ''required'' then Some HC_Required
      else if raw = ''none'' then Some HC_None
      else map_option HC_Specific (parse_u32 raw))"

datatype network_mode = NM_Ipv4 | NM_Ipv6 | NM_Ethernet

definition network_mode_deserialize :: "string \<Rightarrow> network_mode option" where
  "network_mode_deserialize raw =
     (if raw = ''ipv4'' then Some NM_Ipv4
      else if raw = ''ipv6'' then Some NM_Ipv6
      else if raw = ''ethernet'' then Some NM_Ethernet
      else None)"

datatype delay_type = DT_E2E | DT_P2P

definition delay_type_deserialize :: "string \<Rightarrow> delay_type option" where
  "delay_type_deserialize raw =
     (if raw = ''E2E'' then Some DT_E2E else if raw = ''P2P'' then Some DT_P2P else None)"

fun deserialize_identities :: "(string \<Rightarrow> bytes option) \<Rightarrow> string list \<Rightarrow> clock_identity list option" where
  "deserialize_identities from_hex [] = Some []"
| "deserialize_identities from_hex (identity # raw) =
     Option.bind (from_hex identity) (\<lambda>i. map_option (Cons i) (deserialize_identities from_hex raw))"

definition deserialize_acceptable_master_list ::
  "(string \<Rightarrow> bytes option) \<Rightarrow> string list \<Rightarrow> clock_identity list option option" where
  "deserialize_acceptable_master_list from_hex raw = map_option Some (deserialize_identities from_hex raw)"

definition deserialize_clock_identity :: "(string \<Rightarrow> bytes option) \<Rightarrow> string \<Rightarrow> clock_identity option option" where
  "deserialize_clock_identity from_hex raw = map_option Some (from_hex raw)"

definition deserialize_minor_version :: "u8 \<Rightarrow> ptp_minor_version option" where
  "deserialize_minor_version raw = ptp_minor_version_try_from raw"

section \<open>The configuration of a port\<close>

record toml_port =
  tp_interface :: string
  tp_acceptable_master_list :: "string list option"
  tp_hardware_clock :: "string option"
  tp_network_mode :: "string option"
  tp_announce_interval :: "i8 option"
  tp_sync_interval :: "i8 option"
  tp_announce_receipt_timeout :: "u8 option"
  tp_master_only :: "bool option"
  tp_delay_asymmetry :: "i64 option"
  tp_delay_mechanism :: "string option"
  tp_delay_interval :: "i8 option"
  tp_minor_ptp_version :: "u8 option"

record linux_port_config =
  lp_interface :: string
  lp_acceptable_master_list :: "clock_identity list option"
  lp_hardware_clock :: hardware_clock
  lp_network_mode :: network_mode
  lp_announce_interval :: i8
  lp_sync_interval :: i8
  lp_announce_receipt_timeout :: u8
  lp_master_only :: bool
  lp_delay_asymmetry :: i64
  lp_delay_mechanism :: delay_type
  lp_delay_interval :: i8
  lp_minor_ptp_version :: ptp_minor_version

text \<open>A field that the file sets is read, with a possible error; a field it leaves out has its
  default.\<close>

definition field :: "'b \<Rightarrow> ('a \<Rightarrow> 'b option) \<Rightarrow> 'a option \<Rightarrow> 'b option" where
  "field d reader x = (case x of None \<Rightarrow> Some d | Some raw \<Rightarrow> reader raw)"

definition default_announce_interval :: i8 where "default_announce_interval = 1"
definition default_sync_interval :: i8 where "default_sync_interval = 0"
definition default_announce_receipt_timeout :: u8 where "default_announce_receipt_timeout = 3"
definition default_delay_asymmetry :: i64 where "default_delay_asymmetry = 0"
definition default_delay_interval :: i8 where "default_delay_interval = 0"
definition default_minor_ptp_version :: ptp_minor_version where "default_minor_ptp_version = PMV_One"

definition port_config_deserialize :: "(string \<Rightarrow> bytes option) \<Rightarrow> toml_port \<Rightarrow> linux_port_config option" where
  "port_config_deserialize from_hex t =
     Option.bind (field None (deserialize_acceptable_master_list from_hex) (tp_acceptable_master_list t)) (\<lambda>masters.
     Option.bind (field HC_Auto hardware_clock_deserialize (tp_hardware_clock t)) (\<lambda>clock.
     Option.bind (field NM_Ipv4 network_mode_deserialize (tp_network_mode t)) (\<lambda>network.
     Option.bind (field DT_E2E delay_type_deserialize (tp_delay_mechanism t)) (\<lambda>delay.
     Option.bind (field default_minor_ptp_version deserialize_minor_version (tp_minor_ptp_version t)) (\<lambda>minor.
     Some \<lparr>lp_interface = tp_interface t,
       lp_acceptable_master_list = masters,
       lp_hardware_clock = clock,
       lp_network_mode = network,
       lp_announce_interval = the (field default_announce_interval Some (tp_announce_interval t)),
       lp_sync_interval = the (field default_sync_interval Some (tp_sync_interval t)),
       lp_announce_receipt_timeout = the (field default_announce_receipt_timeout Some (tp_announce_receipt_timeout t)),
       lp_master_only = the (field False Some (tp_master_only t)),
       lp_delay_asymmetry = the (field default_delay_asymmetry Some (tp_delay_asymmetry t)),
       lp_delay_mechanism = delay,
       lp_delay_interval = the (field default_delay_interval Some (tp_delay_interval t)),
       lp_minor_ptp_version = minor\<rparr>)))))"

text \<open>\<open>impl From<PortConfig>\<close>; the acceptable master list is that of \<open>Option<Vec<ClockIdentity>>\<close>.\<close>

definition port_config_from :: "'f numlib \<Rightarrow> linux_port_config \<Rightarrow> port_config" where
  "port_config_from lib pc = \<lparr>
     pc_acceptable_master_list = accept_option (map_option accept_listed (lp_acceptable_master_list pc)),
     pc_delay_mechanism =
       (case lp_delay_mechanism pc of
          DT_E2E \<Rightarrow> E2E (lp_delay_interval pc)
        | DT_P2P \<Rightarrow> P2P (lp_delay_interval pc)),
     pc_announce_interval = lp_announce_interval pc,
     pc_announce_receipt_timeout = lp_announce_receipt_timeout pc,
     pc_sync_interval = lp_sync_interval pc,
     pc_master_only = lp_master_only pc,
     pc_delay_asymmetry = duration_from_nanos lib (lp_delay_asymmetry pc),
     pc_minor_ptp_version = lp_minor_ptp_version pc\<rparr>"

section \<open>The configuration of the daemon\<close>

record toml_config =
  tc_loglevel :: "string option"
  tc_sdo_id :: "u16 option"
  tc_domain :: "u8 option"
  tc_slave_only :: "bool option"
  tc_identity :: "string option"
  tc_priority1 :: "u8 option"
  tc_priority2 :: "u8 option"
  tc_path_trace :: "bool option"
  tc_ports :: "toml_port list"
  tc_virtual_system_clock :: "bool option"

record linux_config =
  lx_loglevel :: log_level
  lx_sdo_id :: u16
  lx_domain :: u8
  lx_slave_only :: bool
  lx_identity :: "clock_identity option"
  lx_priority1 :: u8
  lx_priority2 :: u8
  lx_path_trace :: bool
  lx_ports :: "linux_port_config list"
  lx_virtual_system_clock :: bool

definition default_domain :: u8 where "default_domain = 0"
definition default_sdo_id :: u16 where "default_sdo_id = 0"
definition default_slave_only :: bool where "default_slave_only = False"
definition default_priority1 :: u8 where "default_priority1 = 128"
definition default_priority2 :: u8 where "default_priority2 = 128"

fun ports_deserialize :: "(string \<Rightarrow> bytes option) \<Rightarrow> toml_port list \<Rightarrow> linux_port_config list option" where
  "ports_deserialize from_hex [] = Some []"
| "ports_deserialize from_hex (t # ts) =
     Option.bind (port_config_deserialize from_hex t) (\<lambda>p. map_option (Cons p) (ports_deserialize from_hex ts))"

definition config_deserialize :: "(string \<Rightarrow> bytes option) \<Rightarrow> toml_config \<Rightarrow> linux_config option" where
  "config_deserialize from_hex t =
     Option.bind (field LL_Info log_level_from_str (tc_loglevel t)) (\<lambda>loglevel.
     Option.bind (field None (deserialize_clock_identity from_hex) (tc_identity t)) (\<lambda>identity.
     Option.bind (ports_deserialize from_hex (tc_ports t)) (\<lambda>ports.
     Some \<lparr>lx_loglevel = loglevel,
       lx_sdo_id = the (field default_sdo_id Some (tc_sdo_id t)),
       lx_domain = the (field default_domain Some (tc_domain t)),
       lx_slave_only = the (field default_slave_only Some (tc_slave_only t)),
       lx_identity = identity,
       lx_priority1 = the (field default_priority1 Some (tc_priority1 t)),
       lx_priority2 = the (field default_priority2 Some (tc_priority2 t)),
       lx_path_trace = the (field False Some (tc_path_trace t)),
       lx_ports = ports,
       lx_virtual_system_clock = the (field False Some (tc_virtual_system_clock t))\<rparr>)))"

section \<open>The identity of the clock\<close>

text \<open>\<open>interfaces\<close> is what the library of the same name reports: names with their MAC addresses.\<close>

fun first_usable_mac :: "bytes list \<Rightarrow> bytes option res" where
  "first_usable_mac [] = Ok None"
| "first_usable_mac (mac # candidates) =
     andthen (index 0 mac) (\<lambda>first.
     if first AND 0x3 = 0 \<and> list_ex (\<lambda>x. x \<noteq> 0) mac
     then Ok (Some (map (\<lambda>i. if i < length mac then mac ! i else 0) [0..<8]))
     else first_usable_mac candidates)"

definition get_clock_id :: "(string \<times> bytes option) list \<Rightarrow> string list \<Rightarrow> clock_identity option res" where
  "get_clock_id interfaces allowed_names =
     first_usable_mac (List.map_filter (\<lambda>(name, mac). if List.member allowed_names name then mac else None) interfaces)"

text \<open>The start of \<open>actual_main\<close>: the identity and the configuration of the instance. The argument
  of \<open>unwrap_or\<close>, with its \<open>expect\<close>, is evaluated whether or not an identity is configured.\<close>

fun expect :: "'a option \<Rightarrow> 'a res" where
  "expect None = panic"
| "expect (Some x) = Ok x"

definition instance_config_of :: "(string \<times> bytes option) list \<Rightarrow> linux_config \<Rightarrow> instance_config res" where
  "instance_config_of interfaces config =
     andthen (get_clock_id interfaces (map lp_interface (lx_ports config))) (\<lambda>mac.
     andthen (expect mac) (\<lambda>own.
     andthen (expect (sdo_id_try_from (lx_sdo_id config))) (\<lambda>sdo_id.
     Ok \<lparr>ic_clock_identity = (case lx_identity config of Some identity \<Rightarrow> identity | None \<Rightarrow> own),
       ic_priority_1 = lx_priority1 config,
       ic_priority_2 = lx_priority2 config,
       ic_domain_number = lx_domain config,
       ic_sdo_id = sdo_id,
       ic_slave_only = lx_slave_only config,
       ic_path_trace = lx_path_trace config,
       ic_clock_quality = clock_quality_default\<rparr>)))"

section \<open>Lemmas\<close>

definition usable_mac :: "bytes \<Rightarrow> bool" where
  "usable_mac mac \<longleftrightarrow> hd mac AND 0x3 = 0 \<and> list_ex (\<lambda>x. x \<noteq> 0) mac"

definition candidates :: "(string \<times> bytes option) list \<Rightarrow> string list \<Rightarrow> bytes list" where
  "candidates interfaces names = List.map_filter (\<lambda>(name, mac). if List.member names name then mac else None) interfaces"

lemma first_usable_mac_find:
  "list_all (\<lambda>mac. mac \<noteq> []) macs \<Longrightarrow> first_usable_mac macs
    = Ok (map_option (\<lambda>mac. map (\<lambda>i. if i < length mac then mac ! i else 0) [0..<8]) (List.find usable_mac macs))"
  by (induction macs) (auto simp: index_def usable_mac_def hd_conv_nth)

lemma parse_u32_show: "parse_u32 (show_nat (unat n)) = Some n"
proof -
  have "take 1 (show_nat (unat n)) \<noteq> ''+''"
    using show_nat_digits [of "unat n"] by (cases "show_nat (unat n)") auto
  then show ?thesis using unsigned_less [of n, where ?'a = nat] by (simp add: parse_u32_def parse_show_nat)
qed

lemma show_nat_not_word: "show_nat n \<noteq> ''auto''" "show_nat n \<noteq> ''required''" "show_nat n \<noteq> ''none''"
  using show_nat_digits [of n] by auto

text \<open>A hardware clock that is named by its number is read back.\<close>

lemma hardware_clock_number: "hardware_clock_deserialize (show_nat (unat n)) = Some (HC_Specific n)"
  by (simp add: hardware_clock_deserialize_def show_nat_not_word parse_u32_show)

lemma sdo_id_bound: "s \<le> 0xfff \<longleftrightarrow> s < 0x1000" for s :: sdo_id
  by (auto simp: word_le_nat_alt word_less_nat_alt)

text \<open>A port without a list of acceptable masters accepts every master.\<close>

lemma port_config_accepts:
  "pc_acceptable_master_list (port_config_from lib pc) identity \<longleftrightarrow>
    (case lp_acceptable_master_list pc of None \<Rightarrow> True | Some l \<Rightarrow> identity \<in> set l)"
  by (simp add: port_config_from_def accept_option_def accept_listed_def split: option.split)

lemma get_clock_id_find:
  assumes "list_all (\<lambda>mac. mac \<noteq> []) (candidates interfaces names)"
  shows "get_clock_id interfaces names =
    Ok (map_option (\<lambda>mac. map (\<lambda>i. if i < length mac then mac ! i else 0) [0..<8]) (List.find usable_mac (candidates interfaces names)))"
  using first_usable_mac_find [OF assms] by (simp add: get_clock_id_def candidates_def)

lemma instance_config_wf:
  assumes "list_all (\<lambda>mac. mac \<noteq> []) (candidates interfaces (map lp_interface (lx_ports config)))"
    and "pred_option wf_clock_identity (lx_identity config)" and "instance_config_of interfaces config = Inr c"
  shows "wf_default_ds (default_ds_new c)"
  using assms(2,3) get_clock_id_find [OF assms(1)]
  by (cases "List.find usable_mac (candidates interfaces (map lp_interface (lx_ports config)))"; cases "lx_identity config")
    (auto simp: instance_config_of_def wf_default_ds_def default_ds_new_def
      wf_clock_identity_def sdo_id_try_from_def sdo_id_bound [symmetric] split: if_splits)

section \<open>Properties\<close>


definition example_linux_port :: linux_port_config where
  "example_linux_port = the (port_config_deserialize (\<lambda>_. None)
     \<lparr>tp_interface = ''eth1'', tp_acceptable_master_list = None, tp_hardware_clock = None, tp_network_mode = None,
      tp_announce_interval = None, tp_sync_interval = None, tp_announce_receipt_timeout = None, tp_master_only = None,
      tp_delay_asymmetry = None, tp_delay_mechanism = None, tp_delay_interval = None, tp_minor_ptp_version = None\<rparr>)"

definition example_linux_config :: linux_config where
  "example_linux_config = \<lparr>lx_loglevel = LL_Info, lx_sdo_id = 0, lx_domain = 0, lx_slave_only = False, lx_identity = None,
     lx_priority1 = 128, lx_priority2 = 128, lx_path_trace = False, lx_ports = [example_linux_port],
     lx_virtual_system_clock = False\<rparr>"


end
