(* ===== verification/Daemon.thy ===== *)
theory Daemon
  imports PortTask LinuxConfig Kalman Exporter
begin

text \<open>
  \<open>statime-linux/src/main.rs\<close>: how the daemon sets up its ports and clocks, an iteration of
  \<open>run\<close>, which stops all ports for the best master clock algorithm, and the task that keeps a
  hardware clock and the system clock together (\<open>clock_task\<close>). The operating system is the
  parameter \<open>unix_lib\<close> of the clocks; the hardware clock of a network interface is the parameter
  \<open>lookup_phc\<close>. Spawning a task is an entry in a list of the model.
\<close>

section \<open>Clocks of the daemon\<close>

text \<open>\<open>SystemClock\<close> and \<open>BoxedClock\<close>: the system clock or a shared overlay over it, of which
  all ports and clock tasks hold the same reference.\<close>

datatype 'u system_clock = SC_Linux "'u linux_clock" | SC_Overlay shared_clock

datatype 'u boxed_clock = BC_Linux "'u linux_clock" | BC_Overlay shared_clock

fun clone_boxed :: "'u system_clock \<Rightarrow> 'u boxed_clock" where
  "clone_boxed (SC_Linux clock) = BC_Linux clock"
| "clone_boxed (SC_Overlay clock) = BC_Overlay clock"

datatype timestamp_mode = HardwarePTPAll | SoftwareAll

definition linux_open_idx :: "('u, 'w, 'f) unix_lib \<Rightarrow> u32 \<Rightarrow> 'w \<Rightarrow> 'u linux_clock option" where
  "linux_open_idx ux idx w = linux_open ux (''/dev/ptp'' @ show_nat (unat idx)) w"

section \<open>Setting up\<close>

text \<open>\<open>su_internal_sync_senders\<close> lists the hardware clocks for which a clock task runs.\<close>

record ('u, 'w) startup =
  su_world :: 'w
  su_clock_name_map :: "u32 \<rightharpoonup> nat"
  su_clock_port_map :: "nat option list"
  su_internal_sync_senders :: "'u linux_clock list"

definition startup_new :: "'w \<Rightarrow> ('u, 'w) startup" where
  "startup_new w = \<lparr>su_world = w, su_clock_name_map = Map.empty, su_clock_port_map = [], su_internal_sync_senders = []\<rparr>"

type_synonym ('u, 'w) port_clock = "(u32 option \<times> 'u boxed_clock \<times> timestamp_mode) \<times> ('u, 'w) startup"

definition add_hw_clock :: "('u, 'w, 'f) unix_lib \<Rightarrow> u32 \<Rightarrow> ('u, 'w) startup \<Rightarrow> ('u, 'w) port_clock res" where
  "add_hw_clock ux idx su =
     andthen (expect (linux_open_idx ux idx (su_world su))) (\<lambda>clock.
     andthen
       (case su_clock_name_map su idx of
          Some n \<Rightarrow> Ok (su\<lparr>su_clock_port_map := su_clock_port_map su @ [Some n]\<rparr>)
        | None \<Rightarrow>
            (let (ok, w) = linux_init ux clock (su_world su); n = length (su_internal_sync_senders su) in
             if ok then
               Ok (su\<lparr>su_world := w,
                 su_clock_port_map := su_clock_port_map su @ [Some n],
                 su_clock_name_map := (su_clock_name_map su)(idx \<mapsto> n),
                 su_internal_sync_senders := su_internal_sync_senders su @ [clock]\<rparr>)
             else panic)) (\<lambda>su'.
     Ok ((Some idx, BC_Linux clock, HardwarePTPAll), su')))"

definition add_sw_clock :: "'u system_clock \<Rightarrow> ('u, 'w) startup \<Rightarrow> ('u, 'w) port_clock" where
  "add_sw_clock system_clock su =
     ((None, clone_boxed system_clock, SoftwareAll), su\<lparr>su_clock_port_map := su_clock_port_map su @ [None]\<rparr>)"

definition choose_clock ::
  "('u, 'w, 'f) unix_lib \<Rightarrow> (string \<Rightarrow> u32 option) \<Rightarrow> 'u system_clock \<Rightarrow> linux_port_config \<Rightarrow> ('u, 'w) startup \<Rightarrow>
   ('u, 'w) port_clock res" where
  "choose_clock ux lookup_phc system_clock pc su =
     (case lp_hardware_clock pc of
        HC_Auto \<Rightarrow>
          (case lookup_phc (lp_interface pc) of
             Some idx \<Rightarrow> add_hw_clock ux idx su
           | None \<Rightarrow> Ok (add_sw_clock system_clock su))
      | HC_Required \<Rightarrow> andthen (expect (lookup_phc (lp_interface pc))) (\<lambda>idx. add_hw_clock ux idx su)
      | HC_Specific idx \<Rightarrow> add_hw_clock ux idx su
      | HC_None \<Rightarrow> Ok (add_sw_clock system_clock su))"

text \<open>The task that is spawned for a port: its transport, the clock it binds the socket to, the time
  stamping mode, and its clock. Opening the sockets is part of the task.\<close>

record 'u spawned =
  sp_network_mode :: network_mode
  sp_bind_phc :: "u32 option"
  sp_timestamping :: timestamp_mode
  sp_clock :: "'u boxed_clock"

text \<open>The loop over the configured ports. \<open>rng n\<close> is the generator of port \<open>n\<close>.\<close>

fun startup_ports ::
  "('f, 'r, 'u boxed_clock, 'k, 'q) host \<Rightarrow> 'k \<Rightarrow> (nat \<Rightarrow> 'r) \<Rightarrow> ('u, 'w, 'f) unix_lib \<Rightarrow> (string \<Rightarrow> u32 option) \<Rightarrow>
   'u system_clock \<Rightarrow> linux_port_config list \<Rightarrow> ('u, 'w) startup \<Rightarrow> ptp_instance \<Rightarrow>
   (('u, 'w) startup \<times> ptp_instance \<times> (('r, 'u boxed_clock, 'k, 'q) bmca_port \<times> 'u spawned) list) res" where
  "startup_ports host fc rng ux lookup_phc system_clock [] su inst = Ok (su, inst, [])"
| "startup_ports host fc rng ux lookup_phc system_clock (pc # pcs) su inst =
     andthen (choose_clock ux lookup_phc system_clock pc su) (\<lambda>((bind_phc, clock, timestamping), su1).
     andthen (add_port host (port_config_from (ho_num host) pc) fc clock (rng (length (su_clock_port_map su))) inst) (\<lambda>(inst1, p).
     andthen (startup_ports host fc rng ux lookup_phc system_clock pcs su1 inst1) (\<lambda>(su2, inst2, ports).
     Ok (su2, inst2, (p, \<lparr>sp_network_mode = lp_network_mode pc, sp_bind_phc = bind_phc,
       sp_timestamping = timestamping, sp_clock = clock\<rparr>) # ports))))"

text \<open>\<open>actual_main\<close> up to the call of \<open>run\<close>.\<close>

definition daemon_startup ::
  "('f, 'r, 'u boxed_clock, 'k, 'q) host \<Rightarrow> 'k \<Rightarrow> (nat \<Rightarrow> 'r) \<Rightarrow> ('u, 'w, 'f) unix_lib \<Rightarrow> (string \<Rightarrow> u32 option) \<Rightarrow>
   (string \<times> bytes option) list \<Rightarrow> linux_config \<Rightarrow> 'w \<Rightarrow>
   (('u, 'w) startup \<times> ptp_instance \<times> (('r, 'u boxed_clock, 'k, 'q) bmca_port \<times> 'u spawned) list) res" where
  "daemon_startup host fc rng ux lookup_phc interfaces config w =
     andthen (instance_config_of interfaces config) (\<lambda>instance_config.
     let system_clock = (if lx_virtual_system_clock config then SC_Overlay 0 else SC_Linux (linux_CLOCK_TAI ux));
         inst = ptp_instance_new instance_config (new_arbitrary_time False False TS_InternalOscillator)
     in startup_ports host fc rng ux lookup_phc system_clock (lx_ports config) (startup_new w) inst)"

section \<open>Running\<close>

datatype clock_sync_mode = FromSystem | ToSystem

text \<open>The loop that collects the modes of the clock tasks; both indexings panic out of range.\<close>

fun collect_modes ::
  "nat option list \<Rightarrow> nat \<Rightarrow> ('l, 'r, 'c, 'k, 'q) port list \<Rightarrow> clock_sync_mode list \<Rightarrow> clock_sync_mode list res" where
  "collect_modes clock_port_map idx [] clock_states = Ok clock_states"
| "collect_modes clock_port_map idx (p # ports) clock_states =
     andthen
       (if is_steering p then
          andthen (index idx clock_port_map) (\<lambda>clock.
          case clock of Some n \<Rightarrow> put1 n ToSystem clock_states | None \<Rightarrow> Ok clock_states)
        else Ok clock_states)
       (collect_modes clock_port_map (Suc idx) ports)"

definition observe ::
  "('f, 'r, 'c, 'k, 'q) host \<Rightarrow> ptp_instance \<Rightarrow> ('l, 'r, 'c, 'k, 'q) port list \<Rightarrow> observable_instance_state" where
  "observe host inst ports = \<lparr>
     ob_default_ds = instance_default_ds inst,
     ob_current_ds = instance_current_ds inst
       (case List.map_filter (port_current_ds_contribution host) ports of [] \<Rightarrow> None | c # _ \<Rightarrow> Some c),
     ob_parent_ds = instance_parent_ds inst,
     ob_time_properties_ds = is_time_properties_ds (in_state inst),
     ob_path_trace_ds = is_path_trace_ds (in_state inst),
     ob_port_ds = map port_ds_of ports\<rparr>"

text \<open>An iteration of \<open>run\<close>, from the ports that the tasks sent: the instance and the ports that
  are sent back, the state for the observers, and the modes for the clock tasks.\<close>

definition run_iteration ::
  "('f, 'r, 'c, 'k, 'q) host \<Rightarrow> nat option list \<Rightarrow> nat \<Rightarrow> ptp_instance \<Rightarrow> ('r, 'c, 'k, 'q) bmca_port list \<Rightarrow>
   (ptp_instance \<times> ('r, 'c, 'k, 'q) bmca_port list \<times> observable_instance_state \<times> clock_sync_mode list) res" where
  "run_iteration host clock_port_map senders inst bmca_ports =
     andthen (instance_bmca host inst bmca_ports) (\<lambda>(inst', ports').
     andthen (collect_modes clock_port_map 0 ports' (replicate senders FromSystem)) (\<lambda>clock_states.
     Ok (inst', ports', observe host inst' ports', clock_states)))"

section \<open>The task of a hardware clock\<close>

text \<open>What \<open>clock_task\<close> measures: \<open>t1\<close> and \<open>t3\<close> of the system clock, \<open>t2\<close> of the
  hardware clock between them.\<close>

definition interclock_measurement :: "'f numlib \<Rightarrow> clock_sync_mode \<Rightarrow> time \<Rightarrow> time \<Rightarrow> time \<Rightarrow> measurement" where
  "interclock_measurement lib current t1 t2 t3 =
     (let delay = duration_div_int lib (time_diff lib t3 t1) 2;
          offset_a = time_diff lib t2 t1;
          offset_b = time_diff lib t3 t2
      in case current of
           FromSystem \<Rightarrow> \<lparr>
             me_event_time = t2,
             me_offset = Some (duration_sub lib offset_a delay),
             me_delay = Some delay,
             me_peer_delay = None,
             me_raw_sync_offset = Some offset_a,
             me_raw_delay_offset = Some (duration_neg lib offset_b)\<rparr>
         | ToSystem \<Rightarrow> \<lparr>
             me_event_time = time_add lib t1 delay,
             me_offset = Some (duration_sub lib offset_b delay),
             me_delay = Some delay,
             me_peer_delay = None,
             me_raw_sync_offset = Some offset_b,
             me_raw_delay_offset = Some (duration_neg lib offset_a)\<rparr>)"

text \<open>\<open>cs_hw\<close> and \<open>cs_sys\<close> are the two clocks, both acting on the world of the machine;
  \<open>cs_offset\<close> is \<open>system_offset\<close> of the hardware clock, and \<open>cs_convert\<close> the conversion of a
  time of the underlying clock to the overlay, or the identity.\<close>

record ('f, 'w) clock_pair =
  cs_hw :: "('f, 'w) clock_ops"
  cs_sys :: "('f, 'w) clock_ops"
  cs_offset :: "'w \<Rightarrow> (time \<times> time \<times> time) option res"
  cs_convert :: "'w \<Rightarrow> time \<Rightarrow> time"

definition steered :: "('f, 'w) clock_pair \<Rightarrow> clock_sync_mode \<Rightarrow> ('f, 'w) clock_ops" where
  "steered cs current = (case current of FromSystem \<Rightarrow> cs_hw cs | ToSystem \<Rightarrow> cs_sys cs)"

record ('f, 'w) clock_task =
  ct_now :: instant
  ct_world :: 'w
  ct_filter :: "'f kalman_filter"
  ct_mode :: clock_sync_mode
  ct_measurement_timer :: timer
  ct_update_timer :: timer

definition clock_task_new :: "'f floatlib \<Rightarrow> instant \<Rightarrow> 'w \<Rightarrow> clock_sync_mode \<Rightarrow> ('f, 'w) clock_task res" where
  "clock_task_new fl now w current =
     andthen (kalman_new fl (kalman_configuration_default fl)) (\<lambda>filter.
     Ok \<lparr>ct_now = now, ct_world = w, ct_filter = filter, ct_mode = current,
         ct_measurement_timer = timer_reset now 0 (timer_new now), ct_update_timer = timer_new now\<rparr>)"

definition schedule_update :: "filter_update \<Rightarrow> ('f, 'w) clock_task \<Rightarrow> ('f, 'w) clock_task" where
  "schedule_update update t =
     (case up_next_update update of
        Some timeout \<Rightarrow> t\<lparr>ct_update_timer := timer_reset (ct_now t) timeout (ct_update_timer t)\<rparr>
      | None \<Rightarrow> t)"

datatype clock_event = CE_Measurement | CE_Update | CE_Mode clock_sync_mode

text \<open>The branches of \<open>select!\<close>; a timer branch is taken when its timer is ready.\<close>

definition clock_task_step ::
  "'f floatlib \<Rightarrow> ('f, 'w) clock_pair \<Rightarrow> clock_event \<Rightarrow> ('f, 'w) clock_task \<Rightarrow> ('f, 'w) clock_task res" where
  "clock_task_step fl cs ev t =
     (case ev of
        CE_Measurement \<Rightarrow>
          (let (ready, timer) = timer_poll (ct_now t) (ct_measurement_timer t); t0 = t\<lparr>ct_measurement_timer := timer\<rparr> in
           if \<not> ready then Ok t0
           else
             andthen (cs_offset cs (ct_world t)) (\<lambda>offset.
             andthen (expect offset) (\<lambda>(raw_t1, t2, raw_t3).
             let t1 = cs_convert cs (ct_world t) raw_t1; t3 = cs_convert cs (ct_world t) raw_t3 in
             andthen (kalman_measurement fl (steered cs (ct_mode t)) (interclock_measurement (fl_num fl) (ct_mode t) t1 t2 t3)
                        (ct_filter t) (ct_world t)) (\<lambda>(filter, w, update).
             let t' = schedule_update update (t0\<lparr>ct_filter := filter, ct_world := w\<rparr>)
             in Ok (t'\<lparr>ct_measurement_timer := timer_reset (ct_now t) 250000000 (ct_measurement_timer t')\<rparr>)))))
      | CE_Update \<Rightarrow>
          (let (ready, timer) = timer_poll (ct_now t) (ct_update_timer t); t0 = t\<lparr>ct_update_timer := timer\<rparr> in
           if \<not> ready then Ok t0
           else
             let (filter, w, update) = kalman_update fl (steered cs (ct_mode t)) (ct_filter t) (ct_world t)
             in Ok (schedule_update update (t0\<lparr>ct_filter := filter, ct_world := w\<rparr>)))
      | CE_Mode new_mode \<Rightarrow>
          (if new_mode \<noteq> ct_mode t then
             andthen (kalman_new fl (kalman_configuration_default fl)) (\<lambda>new_filter.
             Ok (t\<lparr>ct_filter := new_filter,
               ct_world := kalman_demobilize fl (steered cs (ct_mode t)) (ct_filter t) (ct_world t),
               ct_mode := new_mode\<rparr>))
           else Ok t))"

section \<open>Lemmas on the start\<close>

text \<open>A clock task runs for every hardware clock in use, and for no clock twice.\<close>

definition startup_ok :: "('u, 'w) startup \<Rightarrow> bool" where
  "startup_ok su \<longleftrightarrow> inj_on (su_clock_name_map su) (dom (su_clock_name_map su))
     \<and> ran (su_clock_name_map su) = {..<length (su_internal_sync_senders su)}"

definition mapped :: "(u32 \<rightharpoonup> nat) \<Rightarrow> u32 option \<Rightarrow> nat option \<Rightarrow> bool" where
  "mapped names bind_phc clock \<longleftrightarrow>
     (case bind_phc of None \<Rightarrow> clock = None | Some idx \<Rightarrow> idx \<in> dom names \<and> clock = names idx)"

lemma mapped_mono: "mapped names b c \<Longrightarrow> names \<subseteq>\<^sub>m names' \<Longrightarrow> mapped names' b c"
  by (auto simp: mapped_def map_le_def dom_def split: option.splits)

lemma add_hw_clock_ok:
  assumes "add_hw_clock ux idx su = Inr ((b, c, m), su')" and "startup_ok su"
  shows "startup_ok su' \<and> su_clock_name_map su \<subseteq>\<^sub>m su_clock_name_map su'
    \<and> (\<exists>x. su_clock_port_map su' = su_clock_port_map su @ [x] \<and> mapped (su_clock_name_map su') b x)"
proof (cases "su_clock_name_map su idx")
  case None
  let ?n = "length (su_internal_sync_senders su)"
  have fresh: "su_clock_name_map su x \<noteq> Some ?n" for x
    using assms(2) ranI [of "su_clock_name_map su" x ?n] by (auto simp: startup_ok_def)
  have dom: "idx \<notin> dom (su_clock_name_map su)" using None by (simp add: domIff)
  obtain clock where o: "linux_open_idx ux idx (su_world su) = Some clock"
    using assms(1) by (cases "linux_open_idx ux idx (su_world su)") (simp_all add: add_hw_clock_def)
  obtain ok w where i: "linux_init ux clock (su_world su) = (ok, w)" by (cases "linux_init ux clock (su_world su)")
  have su': "su_clock_name_map su' = (su_clock_name_map su)(idx \<mapsto> ?n)" "b = Some idx"
      "su_clock_port_map su' = su_clock_port_map su @ [Some ?n]"
      "length (su_internal_sync_senders su') = Suc ?n"
    using assms(1) None o i by (auto simp: add_hw_clock_def Let_def split: if_splits)
  have "inj_on ((su_clock_name_map su)(idx \<mapsto> ?n)) (dom ((su_clock_name_map su)(idx \<mapsto> ?n)))"
    using assms(2) fresh dom by (auto simp: startup_ok_def inj_on_def)
  moreover have "ran ((su_clock_name_map su)(idx \<mapsto> ?n)) = {..<Suc ?n}"
    using assms(2) None by (simp add: ran_map_upd startup_ok_def lessThan_Suc)
  ultimately show ?thesis using su' None by (auto simp: startup_ok_def mapped_def map_le_def)
next
  case (Some n)
  then have "su' = su\<lparr>su_clock_port_map := su_clock_port_map su @ [Some n]\<rparr>" "b = Some idx"
    using assms(1) by (auto simp: add_hw_clock_def)
  then show ?thesis using assms(2) Some by (auto simp: startup_ok_def mapped_def)
qed

lemma choose_clock_ok:
  assumes "choose_clock ux lookup_phc system_clock pc su = Inr ((b, c, m), su')" and "startup_ok su"
  shows "startup_ok su' \<and> su_clock_name_map su \<subseteq>\<^sub>m su_clock_name_map su'
    \<and> (\<exists>x. su_clock_port_map su' = su_clock_port_map su @ [x] \<and> mapped (su_clock_name_map su') b x)"
proof -
  have "(\<exists>idx. add_hw_clock ux idx su = Inr ((b, c, m), su')) \<or> add_sw_clock system_clock su = ((b, c, m), su')"
  proof (cases "lp_hardware_clock pc")
    case HC_Auto
    with assms(1) show ?thesis unfolding choose_clock_def by (cases "lookup_phc (lp_interface pc)") (simp_all, blast)
  next
    case HC_Required
    with assms(1) show ?thesis unfolding choose_clock_def by auto
  next
    case (HC_Specific idx)
    with assms(1) have "add_hw_clock ux idx su = Inr ((b, c, m), su')" by (simp add: choose_clock_def)
    then show ?thesis by blast
  next
    case HC_None
    with assms(1) show ?thesis by (simp add: choose_clock_def)
  qed
  then show ?thesis
  proof (elim disjE exE)
    assume "add_sw_clock system_clock su = ((b, c, m), su')"
    then have "b = None" "su' = su\<lparr>su_clock_port_map := su_clock_port_map su @ [None]\<rparr>"
      by (simp_all add: add_sw_clock_def)
    then show ?thesis using assms(2) by (simp add: startup_ok_def mapped_def)
  qed (rule add_hw_clock_ok [OF _ assms(2)])
qed

text \<open>A port that has been added and has not run yet.\<close>

definition new_port :: "('r, 'c, 'k, 'q) bmca_port \<Rightarrow> bool" where
  "new_port p \<longleftrightarrow> po_port_state p = PS_Listening
     \<and> (\<exists>d. ib_pending_action (po_lifecycle p) = actions [ResetAnnounceReceiptTimer d])"

lemma added_new_port: "add_port host pc fc clock rng inst = Inr (inst', p) \<Longrightarrow> new_port p"
  by (auto simp: add_port_def port_new_def new_port_def Let_def)

lemma startup_ports_ok:
  assumes "startup_ports host fc rng ux lookup_phc system_clock pcs su inst = Inr (su', inst', ports)"
    and "startup_ok su" and "instance_inv inst ports0"
  shows "startup_ok su' \<and> su_clock_name_map su \<subseteq>\<^sub>m su_clock_name_map su' \<and> length ports = length pcs
    \<and> instance_inv inst' (ports0 @ map (fst \<circ> end_bmca \<circ> fst) ports) \<and> list_all (new_port \<circ> fst) ports
    \<and> (\<exists>xs. su_clock_port_map su' = su_clock_port_map su @ xs
        \<and> list_all2 (\<lambda>p x. mapped (su_clock_name_map su') (sp_bind_phc (snd p)) x) ports xs)"
  using assms
proof (induction pcs arbitrary: su inst ports ports0)
  case (Cons pc pcs)
  obtain b c m su1 inst1 p ports1 where
      1: "choose_clock ux lookup_phc system_clock pc su = Inr ((b, c, m), su1)"
      "add_port host (port_config_from (ho_num host) pc) fc c (rng (length (su_clock_port_map su))) inst = Inr (inst1, p)"
      "startup_ports host fc rng ux lookup_phc system_clock pcs su1 inst1 = Inr (su', inst', ports1)"
      "ports = (p, \<lparr>sp_network_mode = lp_network_mode pc, sp_bind_phc = b, sp_timestamping = m, sp_clock = c\<rparr>) # ports1"
    using Cons.prems(1) by auto
  note su1 = choose_clock_ok [OF 1(1) Cons.prems(2)]
  have "instance_inv inst1 (ports0 @ [fst (end_bmca p)])" by (rule inv_added [OF Cons.prems(3) 1(2)])
  from Cons.IH [OF 1(3) _ this] su1 show ?case
    using 1(4) added_new_port [OF 1(2)] by (auto intro: map_le_trans mapped_mono)
qed simp

lemma daemon_started:
  assumes "daemon_startup host fc rng ux lookup_phc interfaces config w = Ok (su, inst, ports)"
    and "list_all (\<lambda>mac. mac \<noteq> []) (candidates interfaces (map lp_interface (lx_ports config)))"
    and "pred_option wf_clock_identity (lx_identity config)"
  shows "startup_ok su" "length ports = length (lx_ports config)"
    "instance_inv inst (map (fst \<circ> end_bmca \<circ> fst) ports)" "list_all (new_port \<circ> fst) ports"
    "list_all2 (\<lambda>p x. mapped (su_clock_name_map su) (sp_bind_phc (snd p)) x) ports (su_clock_port_map su)"
proof -
  obtain ic where ic: "instance_config_of interfaces config = Inr ic"
      "startup_ports host fc rng ux lookup_phc
        (if lx_virtual_system_clock config then SC_Overlay 0 else SC_Linux (linux_CLOCK_TAI ux)) (lx_ports config)
        (startup_new w) (ptp_instance_new ic (new_arbitrary_time False False TS_InternalOscillator)) = Inr (su, inst, ports)"
    using assms(1) by (auto simp: daemon_startup_def Let_def)
  have "wf_default_ds (default_ds_new ic)"
    using instance_config_wf [OF assms(2,3) ic(1)] .
  then have "instance_inv (ptp_instance_new ic (new_arbitrary_time False False TS_InternalOscillator)) []"
    using reachable_inv [OF reachable.created] by blast
  moreover have "startup_ok (startup_new w)" by (simp add: startup_ok_def startup_new_def)
  ultimately show "startup_ok su" "length ports = length (lx_ports config)"
      "instance_inv inst (map (fst \<circ> end_bmca \<circ> fst) ports)" "list_all (new_port \<circ> fst) ports"
      "list_all2 (\<lambda>p x. mapped (su_clock_name_map su) (sp_bind_phc (snd p)) x) ports (su_clock_port_map su)"
    using startup_ports_ok [OF ic(2), of "[]"] by (auto simp: startup_new_def)
qed

lemma started_range:
  assumes "startup_ok su" and "list_all2 (\<lambda>p x. mapped (su_clock_name_map su) (b p) x) ports (su_clock_port_map su)"
  shows "list_all (pred_option (\<lambda>n. n < length (su_internal_sync_senders su))) (su_clock_port_map su)"
proof -
  have "n < length (su_internal_sync_senders su)" if "su_clock_name_map su a = Some n" for a n
    using assms(1) ranI [of "su_clock_name_map su" a n, OF that] by (auto simp: startup_ok_def)
  then have "pred_option (\<lambda>n. n < length (su_internal_sync_senders su)) x"
    if "mapped (su_clock_name_map su) idx x" for idx x
    using that by (cases x) (auto simp: mapped_def split: option.splits)
  then show ?thesis
    using assms(2) unfolding list_all2_conv_all_nth list_all_length by metis
qed

section \<open>Lemmas on an iteration of run\<close>

lemma collect_modes_ok:
  assumes "idx + length ports \<le> length clock_port_map" and "\<And>n. Some n \<in> set clock_port_map \<Longrightarrow> n < length states"
  shows "\<exists>states'. collect_modes clock_port_map idx ports states = Ok states' \<and> length states' = length states
    \<and> (\<forall>n<length states. states' ! n = (if \<exists>i<length ports. is_steering (ports ! i) \<and> clock_port_map ! (idx + i) = Some n
        then ToSystem else states ! n))"
  using assms
proof (induction ports arbitrary: idx states)
  case (Cons p ports)
  have split: "(\<exists>i<length (p # ports). is_steering ((p # ports) ! i) \<and> clock_port_map ! (idx + i) = Some n)
      \<longleftrightarrow> is_steering p \<and> clock_port_map ! idx = Some n
        \<or> (\<exists>i<length ports. is_steering (ports ! i) \<and> clock_port_map ! (Suc idx + i) = Some n)" for n
    by (auto simp: less_Suc_eq_0_disj)
  have idx: "idx < length clock_port_map" using Cons.prems(1) by simp
  have step: "\<exists>states1. (if is_steering p then andthen (index idx clock_port_map) (\<lambda>clock.
        case clock of Some n \<Rightarrow> put1 n ToSystem states | None \<Rightarrow> Ok states) else Ok states) = Ok states1
      \<and> length states1 = length states
      \<and> (\<forall>n<length states. states1 ! n = (if is_steering p \<and> clock_port_map ! idx = Some n then ToSystem else states ! n))"
  proof (cases "clock_port_map ! idx")
    case (Some m)
    then have "m < length states" using Cons.prems(2) idx by (metis nth_mem)
    then show ?thesis using idx Some by (auto simp: index_def put1_def nth_list_update)
  qed (use idx in \<open>simp add: index_def\<close>)
  then obtain states1 where s: "(if is_steering p then andthen (index idx clock_port_map) (\<lambda>clock.
        case clock of Some n \<Rightarrow> put1 n ToSystem states | None \<Rightarrow> Ok states) else Ok states) = Ok states1"
      "length states1 = length states"
      "\<And>n. n < length states \<Longrightarrow>
        states1 ! n = (if is_steering p \<and> clock_port_map ! idx = Some n then ToSystem else states ! n)"
    by blast
  have "Suc idx + length ports \<le> length clock_port_map" using Cons.prems(1) by simp
  then have "\<exists>states'. collect_modes clock_port_map (Suc idx) ports states1 = Ok states' \<and> length states' = length states1
    \<and> (\<forall>n<length states1. states' ! n = (if \<exists>i<length ports. is_steering (ports ! i) \<and> clock_port_map ! (Suc idx + i) = Some n
        then ToSystem else states1 ! n))"
    by (rule Cons.IH) (use Cons.prems(2) s(2) in simp)
  then obtain states' where r: "collect_modes clock_port_map (Suc idx) ports states1 = Ok states'" "length states' = length states1"
      "\<forall>n<length states1. states' ! n
        = (if \<exists>i<length ports. is_steering (ports ! i) \<and> clock_port_map ! (Suc idx + i) = Some n then ToSystem else states1 ! n)"
    by (elim exE conjE)
  have "collect_modes clock_port_map idx (p # ports) states = Ok states'"
    using r(1) unfolding collect_modes.simps s(1) andthen.simps .
  moreover have "states' ! n = (if \<exists>i<length (p # ports). is_steering ((p # ports) ! i) \<and> clock_port_map ! (idx + i) = Some n
        then ToSystem else states ! n)" if "n < length states" for n
    unfolding split using r(3) [rule_format, of n] s(2) s(3) [OF that] that by auto
  ultimately show ?case
    by (intro exI [of _ states']) (simp only: r(2) s(2) simp_thms, blast)
qed simp

lemma filter_unique:
  assumes "length (filter P xs) \<le> 1" and "i < length xs" "P (xs ! i)" "j < length xs" "P (xs ! j)"
  shows "i = j"
  using assms card_le_Suc0_iff_eq [of "{i. i < length xs \<and> P (xs ! i)}"]
  by (auto simp: length_filter_conv_card)

lemma run_iteration_returns:
  assumes "instance_inv inst ports" and "length ports < 2 ^ 16" and "list_all2 task_ok ports tasks"
    and "length clock_port_map = length ports" and "list_all (pred_option (\<lambda>n. n < senders)) clock_port_map"
    and "list_all (\<lambda>p. host_total host (po_config p)) ports"
  shows "\<exists>inst' ports' modes. run_iteration host clock_port_map senders inst (map port_task_stop ports)
      = Ok (inst', ports', observe host inst' ports', modes)
    \<and> instance_inv inst' (map (fst \<circ> end_bmca) ports') \<and> length ports' = length ports
    \<and> length modes = senders
    \<and> (\<forall>n < senders. modes ! n = ToSystem \<longleftrightarrow> (\<exists>i<length ports. is_steering (ports' ! i) \<and> clock_port_map ! i = Some n))
    \<and> length (filter (\<lambda>m. m = ToSystem) modes) \<le> 1
    \<and> list_all2 to_start ports' tasks \<and> list_all2 same_port ports ports' \<and> wf_instance_state (in_state inst')
    \<and> in_log_bmca_interval inst' = in_log_bmca_interval inst"
proof -
  have stop: "map port_task_stop ports = map start_bmca ports" by (simp add: port_task_stop_def)
  obtain inst' ports' where b: "instance_bmca host inst (map start_bmca ports) = Inr (inst', ports')"
    using outcome_total [OF bmca_returns [OF assms(1), of True host]] assms(6) by auto
  have start: "wf_instance_state (in_state inst')" "length ports' = length ports" "list_all2 to_start ports' tasks"
      "list_all2 same_port ports ports'"
    using bmca_to_start [OF assms(1,3) b [folded stop]] by (auto dest: list_all2_lengthD)
  have log: "in_log_bmca_interval inst' = in_log_bmca_interval inst"
    using outcome_OkD [OF bmca_returns [OF assms(1), of False] b] by simp
  have inv: "instance_inv inst' (map (fst \<circ> end_bmca) ports')" by (rule inv_bmca [OF assms(1) b])
  let ?steer = "\<lambda>n. \<exists>i<length ports'. is_steering (ports' ! i) \<and> clock_port_map ! i = Some n"
  have range: "n < length (replicate senders FromSystem)" if "Some n \<in> set clock_port_map" for n
    using assms(5) that by (auto simp: list_all_iff)
  obtain modes where m: "collect_modes clock_port_map 0 ports' (replicate senders FromSystem) = Ok modes" "length modes = senders"
      "\<And>n. n < senders \<Longrightarrow> modes ! n = (if ?steer n then ToSystem else FromSystem)"
    using collect_modes_ok [of 0 ports' clock_port_map "replicate senders FromSystem", OF _ range] start(2) assms(4)
    by (auto cong: if_cong)
  have "length (filter is_steering ports') \<le> 1"
    using inv start(2) assms(2) by (simp add: instance_inv_def one_slave_def is_steering_def [abs_def] end_bmca_def filter_map comp_def)
  then have "n = k" if "n < senders" "k < senders" "modes ! n = ToSystem" "modes ! k = ToSystem" for n k
    using filter_unique [of is_steering ports'] m(3) [OF that(1)] m(3) [OF that(2)] that(3,4)
    by (metis clock_sync_mode.distinct(1) option.inject)
  then have one: "length (filter (\<lambda>m. m = ToSystem) modes) \<le> 1"
    using card_le_Suc0_iff_eq [of "{i. i < length modes \<and> modes ! i = ToSystem}"] m(2)
    by (auto simp: length_filter_conv_card)
  have "run_iteration host clock_port_map senders inst (map port_task_stop ports)
      = Ok (inst', ports', observe host inst' ports', modes)"
    using b m(1) by (simp add: run_iteration_def stop)
  then show ?thesis
    using inv start m(2,3) one log by (intro exI [of _ inst'] exI [of _ ports'] exI [of _ modes]) auto
qed

section \<open>Properties\<close>

text \<open>C31: when the daemon starts, every port has its place in the map of clocks; the number of a clock
  task is in range and two ports are synchronized by the same clock task exactly when they use the
  same hardware clock; a port without a hardware clock has none. The instance and its ports satisfy
  the invariant of an instance.\<close>

theorem daemon_startup_invariant:
  assumes "daemon_startup host fc rng ux lookup_phc interfaces config w = Ok (su, inst, ports)"
    and "list_all (\<lambda>mac. mac \<noteq> []) (candidates interfaces (map lp_interface (lx_ports config)))"
    and "pred_option wf_clock_identity (lx_identity config)"
  shows "length ports = length (lx_ports config) \<and> length (su_clock_port_map su) = length ports
    \<and> instance_inv inst (map (fst \<circ> end_bmca \<circ> fst) ports)
    \<and> (\<forall>i<length ports. \<forall>n. su_clock_port_map su ! i = Some n \<longrightarrow> n < length (su_internal_sync_senders su))
    \<and> (\<forall>i<length ports. su_clock_port_map su ! i = None \<longleftrightarrow> sp_bind_phc (snd (ports ! i)) = None)
    \<and> (\<forall>i<length ports. \<forall>j<length ports. su_clock_port_map su ! i = su_clock_port_map su ! j \<longleftrightarrow>
        sp_bind_phc (snd (ports ! i)) = sp_bind_phc (snd (ports ! j)))"
proof -
  note s = daemon_started [OF assms]
  have m: "mapped (su_clock_name_map su) (sp_bind_phc (snd (ports ! i))) (su_clock_port_map su ! i)" if "i < length ports" for i
    using s(5) that by (simp add: list_all2_conv_all_nth)
  have inj: "a = b" if "su_clock_name_map su a = Some n" "su_clock_name_map su b = Some n" for a b n
    using s(1) that inj_onD [of "su_clock_name_map su" "dom (su_clock_name_map su)" a b] by (auto simp: startup_ok_def)
  have "su_clock_port_map su ! i = su_clock_port_map su ! j \<longleftrightarrow> sp_bind_phc (snd (ports ! i)) = sp_bind_phc (snd (ports ! j))"
    if "i < length ports" "j < length ports" for i j
    using m [OF that(1)] m [OF that(2)] inj by (auto simp: mapped_def domIff split: option.splits)
  moreover have "n < length (su_internal_sync_senders su)" if "i < length ports" "su_clock_port_map su ! i = Some n" for i n
    using started_range [OF s(1,5)] list_all2_lengthD [OF s(5)] that unfolding list_all_length
    by (metis option.pred_inject(2))
  moreover have "su_clock_port_map su ! i = None \<longleftrightarrow> sp_bind_phc (snd (ports ! i)) = None" if "i < length ports" for i
    using m [OF that] by (auto simp: mapped_def split: option.splits)
  ultimately show ?thesis using s(2,3,5) by (auto dest: list_all2_lengthD)
qed

definition daemon_host :: "(real, unit, sim_clock boxed_clock, unit, unit) host" where
  "daemon_host = \<lparr>
     ho_num = numlib_exact,
     ho_open01 = (\<lambda>rng. (1 / 2, rng)),
     ho_set_properties = (\<lambda>tp clock. clock),
     ho_filter_new = (\<lambda>config. ()),
     ho_filter_measurement = (\<lambda>m filter clock. Ok ((), clock, \<lparr>up_next_update = None, up_mean_delay = None\<rparr>)),
     ho_filter_update = (\<lambda>filter clock. Ok ((), clock, \<lparr>up_next_update = None, up_mean_delay = None\<rparr>)),
     ho_filter_demobilize = (\<lambda>filter clock. Ok clock),
     ho_filter_estimates = (\<lambda>filter. \<lparr>fe_offset_from_master = 0, fe_mean_delay = 0\<rparr>)\<rparr>"

theorem daemon_startup_invariant_witness:
  "\<exists>su inst ports. daemon_startup daemon_host () (\<lambda>_. ()) sim_unix (\<lambda>_. Some 3) [(''eth1'', Some [0, 1, 2, 3, 4, 5])]
      example_linux_config (5, 7, 37) = Ok (su, inst, ports)
    \<and> length ports = 1 \<and> length (su_clock_port_map su) = 1"
proof -
  have "\<exists>su inst ports. daemon_startup daemon_host () (\<lambda>_. ()) sim_unix (\<lambda>_. Some 3) [(''eth1'', Some [0, 1, 2, 3, 4, 5])]
      example_linux_config (5, 7, 37) = Ok (su, inst, ports)"
    by (simp add: daemon_startup_def example_linux_config_def example_linux_port_def port_config_deserialize_def field_def instance_config_of_def get_clock_id_def List.map_filter_def index_def sdo_id_try_from_def Let_def choose_clock_def add_hw_clock_def linux_open_idx_def linux_open_def sim_unix_def startup_new_def linux_init_def sim_stamp_def add_port_def port_new_def daemon_host_def announce_duration_def port_config_from_def interval_as_core_duration_def interval_as_f64_def numlib_exact_def
      default_announce_interval_def default_announce_receipt_timeout_def)
  then obtain su inst ports where s: "daemon_startup daemon_host () (\<lambda>_. ()) sim_unix (\<lambda>_. Some 3)
      [(''eth1'', Some [0, 1, 2, 3, 4, 5])] example_linux_config (5, 7, 37) = Ok (su, inst, ports)"
    by blast
  then show ?thesis
    using daemon_startup_invariant [OF s]
    by (simp add: candidates_def List.map_filter_def example_linux_config_def example_linux_port_def
      port_config_deserialize_def field_def)
qed


lemma example_instance_inv:
  "instance_inv \<lparr>in_state = example_state False, in_log_bmca_interval = 1\<rparr> [example_port PS_Listening PD_Empty]"
  by (simp add: instance_inv_def wf_example_state wf_example_port settled_example numbered_def one_slave_def follows_def)
    (simp add: example_port_def example_state_def example_identity_def Let_def)


text \<open>The measurement between the clocks. If the hardware clock is ahead of the system clock by
  \<open>e\<close> and each of the two readings of the system clock is \<open>d\<close> away from the reading of the
  hardware clock, a clock task that steers the hardware clock reports the offset \<open>e\<close> and the delay
  \<open>d\<close>, and one that steers the system clock reports the offset \<open>- e\<close>; the raw offsets are
  those of a sync message and of a delay request over a path with this delay.\<close>

theorem interclock_offset:
  assumes "fixed_point lib" and "0 \<le> t" "t < 2 ^ 90" "\<bar>e\<bar> < 2 ^ 90" "0 \<le> d" "d < 2 ^ 90" "0 \<le> t + d + e"
  shows "interclock_measurement lib FromSystem t (t + d + e) (t + 2 * d) =
      \<lparr>me_event_time = t + d + e, me_offset = Some e, me_delay = Some d, me_peer_delay = None,
       me_raw_sync_offset = Some (e + d), me_raw_delay_offset = Some (e - d)\<rparr>
    \<and> interclock_measurement lib ToSystem t (t + d + e) (t + 2 * d) =
      \<lparr>me_event_time = t + d, me_offset = Some (- e), me_delay = Some d, me_peer_delay = None,
       me_raw_sync_offset = Some (- e + d), me_raw_delay_offset = Some (- e - d)\<rparr>"
proof -
  let ?t2 = "t + d + e" and ?t3 = "t + 2 * d"
  have sm: "small t" "small ?t2" "small ?t3" using assms(2-) by (simp_all add: small_def)
  have diffs: "time_diff lib ?t3 t = 2 * d" "time_diff lib ?t2 t = e + d" "time_diff lib ?t3 ?t2 = d - e"
    using fixed_point.diff_small [OF assms(1)] sm assms(2-) by simp_all
  have half: "duration_div_int lib (2 * d) 2 = d"
    by (rule fixed_point.div2_exact [OF assms(1)]) (use assms(2-) in auto)
  have subs: "duration_sub lib (e + d) d = e" "duration_sub lib (d - e) d = - e"
    using fixed_point.sub_bounded [OF assms(1), of "e + d" d] fixed_point.sub_bounded [OF assms(1), of "d - e" d] assms(2-)
    by simp_all
  have negs: "duration_neg lib (d - e) = e - d" "duration_neg lib (e + d) = - e - d"
    using fixed_point.duration_neg_exact [OF assms(1), of "d - e"] fixed_point.duration_neg_exact [OF assms(1), of "e + d"] assms(2-)
    by simp_all
  have "time_add lib t d = t + d"
    by (rule fixed_point.time_add_exact [OF assms(1)]) (use assms(2-) in auto)
  then show ?thesis by (simp add: interclock_measurement_def diffs half subs negs)
qed

theorem interclock_offset_witness:
  "interclock_measurement numlib_ref FromSystem 1000 1017 1020 =
    \<lparr>me_event_time = 1017, me_offset = Some 7, me_delay = Some 10, me_peer_delay = None,
     me_raw_sync_offset = Some 17, me_raw_delay_offset = Some (- 3)\<rparr>"
  using interclock_offset [OF fixed_point_ref, of 1000 7 10] by simp

end
