(* ===== verification/Channels.thy ===== *)
theory Channels
  imports Prelude
begin

text \<open>
  The bounded channels between the tasks of an application, \<open>rtic_sync::channel\<close> in the embedded
  example and \<open>tokio::sync::mpsc\<close> in the daemon. The channel is a parameter of the models; the
  locale states what the documentation of both libraries promises.
\<close>

section \<open>Channels\<close>

text \<open>The result of polling \<open>recv\<close>; \<open>NoSender\<close> is its error. \<open>ch_try_send\<close> is \<open>None\<close> for an
  error.\<close>

datatype ('m, 'ch) polled = Pend | Received 'm 'ch | NoSender

record ('m, 'ch) channel_ops =
  ch_make :: 'ch
  ch_try_send :: "'m \<Rightarrow> 'ch \<Rightarrow> 'ch option"
  ch_recv :: "'ch \<Rightarrow> ('m, 'ch) polled"

text \<open>What the libraries document of a channel of a fixed capacity whose sender and receiver are not
  dropped: a queue that refuses a message when it is full.\<close>

locale bounded_channel =
  fixes ops :: "('m, 'ch) channel_ops" and capacity :: nat and queued :: "'ch \<Rightarrow> 'm list"
  assumes made: "queued (ch_make ops) = []"
    and accepts: "length (queued ch) < capacity \<Longrightarrow> \<exists>ch'. ch_try_send ops m ch = Some ch' \<and> queued ch' = queued ch @ [m]"
    and refuses: "capacity \<le> length (queued ch) \<Longrightarrow> ch_try_send ops m ch = None"
    and receives_first: "queued ch = m # ms \<Longrightarrow> \<exists>ch'. ch_recv ops ch = Received m ch' \<and> queued ch' = ms"
    and waits: "queued ch = [] \<Longrightarrow> ch_recv ops ch = Pend"
begin

lemma try_send_iff:
  "ch_try_send ops m ch = Some ch' \<Longrightarrow> length (queued ch) < capacity \<and> queued ch' = queued ch @ [m]"
  using accepts [of ch m] refuses [of ch m] by (cases "length (queued ch) < capacity") auto

lemma recv_cases:
  "ch_recv ops ch = Pend \<and> queued ch = [] \<or> (\<exists>m ch'. ch_recv ops ch = Received m ch' \<and> queued ch = m # queued ch')"
  using waits [of ch] receives_first [of ch] by (cases "queued ch") auto

end

definition queue_ops :: "nat \<Rightarrow> ('m, 'm list) channel_ops" where
  "queue_ops capacity = \<lparr>
     ch_make = [],
     ch_try_send = (\<lambda>m ch. if length ch < capacity then Some (ch @ [m]) else None),
     ch_recv = (\<lambda>ch. case ch of [] \<Rightarrow> Pend | m # ms \<Rightarrow> Received m ms)\<rparr>"

interpretation queue: bounded_channel "queue_ops capacity" capacity "\<lambda>ch. ch"
  by unfold_locales (simp_all add: queue_ops_def)

end
