(* ===== verification/DaemonLoop.thy ===== *)
theory DaemonLoop
  imports Daemon Channels
begin

text \<open>
  The daemon as a whole (\<open>statime-linux/src/main.rs\<close>): the loop of \<open>run\<close> and the loops of the port
  tasks, which pass the ports to each other. A port is either with its task, which then runs it, or
  with \<open>run\<close>, which needs all of them for the best master clock algorithm; in between it is in one
  of two channels of capacity one. A step of the model is what a task does from one point where it
  waits to the next. The channels (\<open>tokio::sync::mpsc\<close>) are a parameter with the contract
  \<open>bounded_channel\<close>; a \<open>watch\<close> channel is its last value.
\<close>

section \<open>The state\<close>

text \<open>Where \<open>run\<close> waits: for its timer, for the next port from a task, or for room in the channel to
  task \<open>i\<close> with the ports that are still to be sent.\<close>

datatype ('r, 'c, 'k, 'q) main_phase =
    MP_Timer
  | MP_Collecting "('r, 'c, 'k, 'q) bmca_port list"
  | MP_Returning nat "('r, 'c, 'k, 'q) bmca_port list"

text \<open>Where a port task waits: for its port, for an event, or for room in the channel to \<open>run\<close>.\<close>

datatype ('r, 'c, 'k, 'q) task_phase =
    TP_Receiving
  | TP_Running "('r, 'c, 'k, 'q) running_port"
  | TP_Sending "('r, 'c, 'k, 'q) bmca_port"

text \<open>\<open>sl_to_task\<close> is the channel of \<open>main_task_sender\<close> and \<open>port_task_receiver\<close>, \<open>sl_to_main\<close> the
  one of \<open>port_task_sender\<close> and \<open>main_task_receiver\<close>.\<close>

record ('r, 'c, 'k, 'q, 's, 'v, 'n, 'ch) slot =
  sl_phase :: "('r, 'c, 'k, 'q) task_phase"
  sl_task :: "('s, 'v, 'n) task"
  sl_to_task :: 'ch
  sl_to_main :: 'ch

record ('r, 'c, 'k, 'q, 's, 'v, 'n, 'ch) daemon =
  dm_instance :: ptp_instance
  dm_now :: instant
  dm_phase :: "('r, 'c, 'k, 'q) main_phase"
  dm_bmca_timer :: timer
  dm_bmca_notify :: bool
  dm_instance_state :: observable_instance_state
  dm_clock_modes :: "clock_sync_mode list"
  dm_slots :: "('r, 'c, 'k, 'q, 's, 'v, 'n, 'ch) slot list"

text \<open>The host and the libraries, the sockets and the transport of every port, and what the start
  has computed about the clocks.\<close>

record ('f, 'r, 'c, 'k, 'q, 's, 'v, 'a, 'n, 'ch) daemon_env =
  de_host :: "('f, 'r, 'c, 'k, 'q) host"
  de_broadcast :: "('s, 'v) channel_lib"
  de_channel :: "(('r, 'c, 'k, 'q) bmca_port, 'ch) channel_ops"
  de_net :: "nat \<Rightarrow> ('a, 'n) net_ops"
  de_transport :: "nat \<Rightarrow> 'a transport"
  de_clock_port_map :: "nat option list"
  de_sync_senders :: nat

section \<open>Starting\<close>

definition slot_new ::
  "('f, 'r, 'c, 'k, 'q, 's, 'v, 'a, 'n, 'ch) daemon_env \<Rightarrow> instant \<Rightarrow> 'n \<Rightarrow> ('r, 'c, 'k, 'q, 's, 'v, 'n, 'ch) slot" where
  "slot_new env now net = \<lparr>
     sl_phase = TP_Receiving,
     sl_task = \<lparr>ta_now = now, ta_net = net, ta_timers = timers_new now,
       ta_forwarder = tlv_forwarder_duplicate (de_broadcast env) (tlv_forwarder_new (de_broadcast env))\<rparr>,
     sl_to_task = ch_make (de_channel env),
     sl_to_main = ch_make (de_channel env)\<rparr>"

text \<open>The end of \<open>actual_main\<close>, which sends the first ports the way \<open>run\<close> sends them later.\<close>

definition daemon_run ::
  "('f, 'r, 'c, 'k, 'q, 's, 'v, 'a, 'n, 'ch) daemon_env \<Rightarrow> instant \<Rightarrow> (nat \<Rightarrow> 'n) \<Rightarrow> ptp_instance \<Rightarrow>
   ('r, 'c, 'k, 'q) bmca_port list \<Rightarrow> ('r, 'c, 'k, 'q, 's, 'v, 'n, 'ch) daemon" where
  "daemon_run env now nets inst ports = \<lparr>
     dm_instance = inst,
     dm_now = now,
     dm_phase = MP_Returning 0 ports,
     dm_bmca_timer = timer_new now,
     dm_bmca_notify = False,
     dm_instance_state = observe (de_host env) inst ([] :: ('r, 'c, 'k, 'q) bmca_port list),
     dm_clock_modes = replicate (de_sync_senders env) FromSystem,
     dm_slots = map (\<lambda>i. slot_new env now (nets i)) [0..<length ports]\<rparr>"

section \<open>The loop of run\<close>

definition set_slot ::
  "nat \<Rightarrow> ('r, 'c, 'k, 'q, 's, 'v, 'n, 'ch) slot \<Rightarrow> ('r, 'c, 'k, 'q, 's, 'v, 'n, 'ch) daemon \<Rightarrow>
   ('r, 'c, 'k, 'q, 's, 'v, 'n, 'ch) daemon" where
  "set_slot i s d = d\<lparr>dm_slots := (dm_slots d)[i := s]\<rparr>"

text \<open>One poll of \<open>run\<close>. If what it waits for has not happened, nothing changes.\<close>

definition run_poll ::
  "('f, 'r, 'c, 'k, 'q, 's, 'v, 'a, 'n, 'ch) daemon_env \<Rightarrow> ('r, 'c, 'k, 'q, 's, 'v, 'n, 'ch) daemon \<Rightarrow>
   ('r, 'c, 'k, 'q, 's, 'v, 'n, 'ch) daemon res" where
  "run_poll env d =
     (case dm_phase d of
        MP_Timer \<Rightarrow>
          (let (ready, timer) = timer_poll (dm_now d) (dm_bmca_timer d); d' = d\<lparr>dm_bmca_timer := timer\<rparr> in
           if ready then Ok (d'\<lparr>dm_bmca_notify := True, dm_phase := MP_Collecting []\<rparr>) else Ok d')
      | MP_Collecting bmca_ports \<Rightarrow>
          (if length bmca_ports < length (dm_slots d) then
             let i = length bmca_ports; s = dm_slots d ! i in
             case ch_recv (de_channel env) (sl_to_main s) of
               NoSender \<Rightarrow> panic
             | Pend \<Rightarrow> Ok d
             | Received port ch \<Rightarrow>
                 Ok (set_slot i (s\<lparr>sl_to_main := ch\<rparr>) (d\<lparr>dm_phase := MP_Collecting (bmca_ports @ [port])\<rparr>))
           else
             andthen (run_iteration (de_host env) (de_clock_port_map env) (de_sync_senders env) (dm_instance d) bmca_ports)
               (\<lambda>(inst, ports, observed, modes).
             Ok (d\<lparr>dm_bmca_notify := False, dm_instance := inst, dm_instance_state := observed, dm_clock_modes := modes,
               dm_phase := MP_Returning 0 ports\<rparr>)))
      | MP_Returning i bmca_ports \<Rightarrow>
          (case bmca_ports of
             [] \<Rightarrow>
               andthen (bmca_interval (ho_num (de_host env)) (dm_instance d)) (\<lambda>interval.
               Ok (d\<lparr>dm_bmca_timer := timer_reset (dm_now d) interval (dm_bmca_timer d), dm_phase := MP_Timer\<rparr>))
           | port # rest \<Rightarrow>
               let s = dm_slots d ! i in
               case ch_try_send (de_channel env) port (sl_to_task s) of
                 None \<Rightarrow> Ok d
               | Some ch \<Rightarrow> Ok (set_slot i (s\<lparr>sl_to_task := ch\<rparr>) (d\<lparr>dm_phase := MP_Returning (Suc i) rest\<rparr>))))"

section \<open>The loop of a port task\<close>

definition task_receive ::
  "('f, 'r, 'c, 'k, 'q, 's, 'v, 'a, 'n, 'ch) daemon_env \<Rightarrow> nat \<Rightarrow> ('r, 'c, 'k, 'q, 's, 'v, 'n, 'ch) daemon \<Rightarrow>
   ('r, 'c, 'k, 'q, 's, 'v, 'n, 'ch) daemon res option" where
  "task_receive env i d =
     (let s = dm_slots d ! i in
      case ch_recv (de_channel env) (sl_to_task s) of
        NoSender \<Rightarrow> Some panic
      | Pend \<Rightarrow> Some (Ok d)
      | Received port_in_bmca ch \<Rightarrow>
          map_option (\<lambda>r. andthen r (\<lambda>(p, t).
              Ok (set_slot i (s\<lparr>sl_to_task := ch, sl_phase := TP_Running p, sl_task := t\<rparr>) d)))
            (port_task_start (de_host env) (de_broadcast env) (de_net env i) (de_transport env i)
              (in_state (dm_instance d)) port_in_bmca (sl_task s)))"

definition task_event_step ::
  "('f, 'r, 'c, 'k, 'q, 's, 'v, 'a, 'n, 'ch) daemon_env \<Rightarrow> nat \<Rightarrow> task_event \<Rightarrow> ('r, 'c, 'k, 'q) running_port \<Rightarrow>
   ('r, 'c, 'k, 'q, 's, 'v, 'n, 'ch) daemon \<Rightarrow> ('r, 'c, 'k, 'q, 's, 'v, 'n, 'ch) daemon res option" where
  "task_event_step env i ev p d =
     (let s = dm_slots d ! i in
      map_option (\<lambda>r. andthen r (\<lambda>(state, p, t).
          Ok (set_slot i (s\<lparr>sl_phase := TP_Running p, sl_task := t\<rparr>)
            (d\<lparr>dm_instance := (dm_instance d)\<lparr>in_state := state\<rparr>\<rparr>))))
        (port_task_step (de_host env) (de_broadcast env) (de_net env i) (de_transport env i) ev
          (in_state (dm_instance d)) p (sl_task s)))"

text \<open>The branch of \<open>select!\<close> for the notification, which ends the inner loop.\<close>

definition task_notified ::
  "nat \<Rightarrow> ('r, 'c, 'k, 'q) running_port \<Rightarrow> ('r, 'c, 'k, 'q, 's, 'v, 'n, 'ch) daemon \<Rightarrow>
   ('r, 'c, 'k, 'q, 's, 'v, 'n, 'ch) daemon" where
  "task_notified i p d =
     (if dm_bmca_notify d then set_slot i ((dm_slots d ! i)\<lparr>sl_phase := TP_Sending (port_task_stop p)\<rparr>) d else d)"

definition task_send ::
  "('f, 'r, 'c, 'k, 'q, 's, 'v, 'a, 'n, 'ch) daemon_env \<Rightarrow> nat \<Rightarrow> ('r, 'c, 'k, 'q) bmca_port \<Rightarrow>
   ('r, 'c, 'k, 'q, 's, 'v, 'n, 'ch) daemon \<Rightarrow> ('r, 'c, 'k, 'q, 's, 'v, 'n, 'ch) daemon" where
  "task_send env i port_in_bmca d =
     (let s = dm_slots d ! i in
      case ch_try_send (de_channel env) port_in_bmca (sl_to_main s) of
        None \<Rightarrow> d
      | Some ch \<Rightarrow> set_slot i (s\<lparr>sl_to_main := ch, sl_phase := TP_Receiving\<rparr>) d)"

section \<open>The system\<close>

text \<open>The steps of the program, in any order, and of its surroundings: time passes for all tasks, and
  the sockets of a task and the TLVs that it receives from other ports change.\<close>

datatype daemon_action =
    DA_Run
  | DA_Receive nat
  | DA_Event nat task_event
  | DA_Notified nat
  | DA_Send nat
  | DA_Outside

definition outside_task :: "instant \<Rightarrow> 'n \<Rightarrow> 'v \<Rightarrow> ('s, 'v, 'n) task \<Rightarrow> ('s, 'v, 'n) task" where
  "outside_task now net receiver t =
     t\<lparr>ta_now := now, ta_net := net, ta_forwarder := (ta_forwarder t)\<lparr>tf_receiver := receiver\<rparr>\<rparr>"

definition outside ::
  "instant \<Rightarrow> (nat \<Rightarrow> 'n) \<Rightarrow> (nat \<Rightarrow> 'v) \<Rightarrow> ('r, 'c, 'k, 'q, 's, 'v, 'n, 'ch) daemon \<Rightarrow>
   ('r, 'c, 'k, 'q, 's, 'v, 'n, 'ch) daemon" where
  "outside now nets receivers d = d\<lparr>dm_now := now, dm_slots :=
     map (\<lambda>(i, s). s\<lparr>sl_task := outside_task now (nets i) (receivers i) (sl_task s)\<rparr>) (enumerate 0 (dm_slots d))\<rparr>"

inductive daemon_step ::
  "('f, 'r, 'c, 'k, 'q, 's, 'v, 'a, 'n, 'ch) daemon_env \<Rightarrow> daemon_action \<Rightarrow>
   ('r, 'c, 'k, 'q, 's, 'v, 'n, 'ch) daemon \<Rightarrow> ('r, 'c, 'k, 'q, 's, 'v, 'n, 'ch) daemon \<Rightarrow> bool"
  for env :: "('f, 'r, 'c, 'k, 'q, 's, 'v, 'a, 'n, 'ch) daemon_env" where
  run: "run_poll env d = Ok d' \<Longrightarrow> daemon_step env DA_Run d d'"
| receive: "i < length (dm_slots d) \<Longrightarrow> sl_phase (dm_slots d ! i) = TP_Receiving \<Longrightarrow> task_receive env i d = Some (Ok d') \<Longrightarrow>
    daemon_step env (DA_Receive i) d d'"
| event: "i < length (dm_slots d) \<Longrightarrow> sl_phase (dm_slots d ! i) = TP_Running p \<Longrightarrow> task_event_step env i ev p d = Some (Ok d') \<Longrightarrow>
    daemon_step env (DA_Event i ev) d d'"
| notified: "i < length (dm_slots d) \<Longrightarrow> sl_phase (dm_slots d ! i) = TP_Running p \<Longrightarrow>
    daemon_step env (DA_Notified i) d (task_notified i p d)"
| send: "i < length (dm_slots d) \<Longrightarrow> sl_phase (dm_slots d ! i) = TP_Sending q \<Longrightarrow>
    daemon_step env (DA_Send i) d (task_send env i q d)"
| outside: "dm_now d \<le> now \<Longrightarrow> daemon_step env DA_Outside d (outside now nets receivers d)"

inductive daemon_reachable ::
  "('f, 'r, 'c, 'k, 'q, 's, 'v, 'a, 'n, 'ch) daemon_env \<Rightarrow> ptp_instance \<Rightarrow> ('r, 'c, 'k, 'q) bmca_port list \<Rightarrow>
   ('r, 'c, 'k, 'q, 's, 'v, 'n, 'ch) daemon \<Rightarrow> bool"
  for env :: "('f, 'r, 'c, 'k, 'q, 's, 'v, 'a, 'n, 'ch) daemon_env" and inst and ports where
  started: "daemon_reachable env inst ports (daemon_run env now nets inst ports)"
| stepped: "daemon_reachable env inst ports d \<Longrightarrow> daemon_step env a d d' \<Longrightarrow> daemon_reachable env inst ports d'"

section \<open>The invariant\<close>

text \<open>Where the port of a task is.\<close>

datatype ('r, 'c, 'k, 'q) place =
    PL_Run "('r, 'c, 'k, 'q) bmca_port"
  | PL_ToTask "('r, 'c, 'k, 'q) bmca_port"
  | PL_Task "('r, 'c, 'k, 'q) running_port"
  | PL_Stopped "('r, 'c, 'k, 'q) bmca_port"
  | PL_ToRun "('r, 'c, 'k, 'q) bmca_port"

fun at_run :: "('r, 'c, 'k, 'q) main_phase \<Rightarrow> nat \<Rightarrow> ('r, 'c, 'k, 'q) bmca_port list" where
  "at_run MP_Timer i = []"
| "at_run (MP_Collecting ps) i = (if i < length ps then [ps ! i] else [])"
| "at_run (MP_Returning k ps) i = (if k \<le> i \<and> i < k + length ps then [ps ! (i - k)] else [])"

fun at_task :: "('r, 'c, 'k, 'q) task_phase \<Rightarrow> ('r, 'c, 'k, 'q) place list" where
  "at_task TP_Receiving = []"
| "at_task (TP_Running p) = [PL_Task p]"
| "at_task (TP_Sending q) = [PL_Stopped q]"

definition places ::
  "('ch \<Rightarrow> ('r, 'c, 'k, 'q) bmca_port list) \<Rightarrow> ('r, 'c, 'k, 'q) main_phase \<Rightarrow> nat \<Rightarrow>
   ('r, 'c, 'k, 'q, 's, 'v, 'n, 'ch) slot \<Rightarrow> ('r, 'c, 'k, 'q) place list" where
  "places cq phase i s = map PL_Run (at_run phase i) @ map PL_ToTask (cq (sl_to_task s)) @ at_task (sl_phase s)
     @ map PL_ToRun (cq (sl_to_main s))"

fun is_collecting :: "('r, 'c, 'k, 'q) main_phase \<Rightarrow> bool" where
  "is_collecting (MP_Collecting _) \<longleftrightarrow> True"
| "is_collecting _ \<longleftrightarrow> False"

text \<open>\<open>p\<close> is the port as its task runs it: on its way to the task what the algorithm left to do starts
  it, and on its way back it has just been stopped.\<close>

definition starting :: "('s, 'v, 'n) task \<Rightarrow> ('r, 'c, 'k, 'q) bmca_port \<Rightarrow> ('r, 'c, 'k, 'q) running_port \<Rightarrow> bool" where
  "starting t q p \<longleftrightarrow> to_start q t \<and> p = fst (end_bmca q)"

definition halted :: "('s, 'v, 'n) task \<Rightarrow> ('r, 'c, 'k, 'q) bmca_port \<Rightarrow> ('r, 'c, 'k, 'q) running_port \<Rightarrow> bool" where
  "halted t q p \<longleftrightarrow> task_ok p t \<and> q = start_bmca p"

fun place_ok ::
  "bool \<Rightarrow> ('s, 'v, 'n) task \<Rightarrow> ('r, 'c, 'k, 'q) running_port \<Rightarrow> ('r, 'c, 'k, 'q) place \<Rightarrow> bool" where
  "place_ok collecting t p (PL_Run q) \<longleftrightarrow> (if collecting then halted t q p else starting t q p)"
| "place_ok collecting t p (PL_ToTask q) \<longleftrightarrow> starting t q p"
| "place_ok collecting t p (PL_Task p') \<longleftrightarrow> task_ok p t \<and> p' = p"
| "place_ok collecting t p (PL_Stopped q) \<longleftrightarrow> collecting \<and> halted t q p"
| "place_ok collecting t p (PL_ToRun q) \<longleftrightarrow> collecting \<and> halted t q p"

definition slot_ok ::
  "('ch \<Rightarrow> ('r, 'c, 'k, 'q) bmca_port list) \<Rightarrow> ('r, 'c, 'k, 'q) main_phase \<Rightarrow> nat \<Rightarrow>
   ('r, 'c, 'k, 'q, 's, 'v, 'n, 'ch) slot \<Rightarrow> ('r, 'c, 'k, 'q) running_port \<Rightarrow> bool" where
  "slot_ok cq phase i s p \<longleftrightarrow>
     (\<exists>pl. places cq phase i s = [pl] \<and> place_ok (is_collecting phase) (sl_task s) p pl)"

fun phase_fits :: "nat \<Rightarrow> ('r, 'c, 'k, 'q) main_phase \<Rightarrow> bool" where
  "phase_fits n MP_Timer \<longleftrightarrow> True"
| "phase_fits n (MP_Collecting ps) \<longleftrightarrow> length ps \<le> n"
| "phase_fits n (MP_Returning k ps) \<longleftrightarrow> k + length ps = n"

text \<open>The daemon holds the ports \<open>ports\<close> of a well-formed instance, each in one place.\<close>

definition holds ::
  "('ch \<Rightarrow> ('r, 'c, 'k, 'q) bmca_port list) \<Rightarrow> ('r, 'c, 'k, 'q, 's, 'v, 'n, 'ch) daemon \<Rightarrow>
   ('r, 'c, 'k, 'q) running_port list \<Rightarrow> bool" where
  "holds cq d ports \<longleftrightarrow> length (dm_slots d) = length ports \<and> instance_inv (dm_instance d) ports
     \<and> (\<forall>i<length ports. slot_ok cq (dm_phase d) i (dm_slots d ! i) (ports ! i))
     \<and> dm_bmca_notify d = is_collecting (dm_phase d) \<and> phase_fits (length ports) (dm_phase d)"

text \<open>How many steps are left until all ports run and \<open>run\<close> waits for its timer.\<close>

fun weight :: "bool \<Rightarrow> ('r, 'c, 'k, 'q) place \<Rightarrow> nat" where
  "weight collecting (PL_Run q) = 2"
| "weight collecting (PL_ToTask q) = (if collecting then 6 else 1)"
| "weight collecting (PL_Task p) = (if collecting then 5 else 0)"
| "weight collecting (PL_Stopped q) = 4"
| "weight collecting (PL_ToRun q) = 3"

definition load ::
  "('ch \<Rightarrow> ('r, 'c, 'k, 'q) bmca_port list) \<Rightarrow> ('r, 'c, 'k, 'q) main_phase \<Rightarrow> nat \<Rightarrow>
   ('r, 'c, 'k, 'q, 's, 'v, 'n, 'ch) slot \<Rightarrow> nat" where
  "load cq phase i s = sum_list (map (weight (is_collecting phase)) (places cq phase i s))"

fun phase_weight :: "('r, 'c, 'k, 'q) main_phase \<Rightarrow> nat" where
  "phase_weight MP_Timer = 0"
| "phase_weight (MP_Collecting _) = 2"
| "phase_weight (MP_Returning _ _) = 1"

definition work ::
  "('ch \<Rightarrow> ('r, 'c, 'k, 'q) bmca_port list) \<Rightarrow> ('r, 'c, 'k, 'q, 's, 'v, 'n, 'ch) daemon \<Rightarrow> nat" where
  "work cq d = phase_weight (dm_phase d) + (\<Sum>i<length (dm_slots d). load cq (dm_phase d) i (dm_slots d ! i))"

lemma slot_ok_cases:
  assumes "slot_ok cq phase i s p"
  obtains
    (run) q where "at_run phase i = [q]" "cq (sl_to_task s) = []" "sl_phase s = TP_Receiving" "cq (sl_to_main s) = []"
      "if is_collecting phase then halted (sl_task s) q p else starting (sl_task s) q p"
  | (to_task) q where "at_run phase i = []" "cq (sl_to_task s) = [q]" "sl_phase s = TP_Receiving" "cq (sl_to_main s) = []"
      "starting (sl_task s) q p"
  | (running) "at_run phase i = []" "cq (sl_to_task s) = []" "sl_phase s = TP_Running p" "cq (sl_to_main s) = []"
      "task_ok p (sl_task s)"
  | (stopped) q where "at_run phase i = []" "cq (sl_to_task s) = []" "sl_phase s = TP_Sending q" "cq (sl_to_main s) = []"
      "is_collecting phase" "halted (sl_task s) q p"
  | (to_run) q where "at_run phase i = []" "cq (sl_to_task s) = []" "sl_phase s = TP_Receiving" "cq (sl_to_main s) = [q]"
      "is_collecting phase" "halted (sl_task s) q p"
proof -
  obtain pl where "places cq phase i s = [pl]" "place_ok (is_collecting phase) (sl_task s) p pl"
    using assms by (auto simp: slot_ok_def)
  then show ?thesis
    using that by (cases "sl_phase s") (auto simp: places_def append_eq_Cons_conv)
qed

text \<open>One slot changes, and \<open>run\<close> with it.\<close>

lemma holds_slot:
  assumes "holds cq d ports" and "i < length ports" and "instance_inv inst' (ports[i := p'])"
    and "is_collecting phase' = is_collecting (dm_phase d)" "phase_fits (length ports) phase'"
    and "\<And>j. j \<noteq> i \<Longrightarrow> at_run phase' j = at_run (dm_phase d) j"
    and "slot_ok cq phase' i s' p'"
  shows "holds cq (set_slot i s' (d\<lparr>dm_phase := phase', dm_instance := inst'\<rparr>)) (ports[i := p'])"
  using assms by (auto simp: holds_def set_slot_def nth_list_update slot_ok_def places_def)

lemma work_slot:
  assumes "holds cq d ports" and "i < length ports"
    and "is_collecting phase' = is_collecting (dm_phase d)" "phase_weight phase' = phase_weight (dm_phase d)"
    and "\<And>j. j \<noteq> i \<Longrightarrow> at_run phase' j = at_run (dm_phase d) j"
    and "load cq phase' i s' < load cq (dm_phase d) i (dm_slots d ! i)"
  shows "work cq (set_slot i s' (d\<lparr>dm_phase := phase', dm_instance := inst'\<rparr>)) < work cq d"
proof -
  let ?d = "set_slot i s' (d\<lparr>dm_phase := phase', dm_instance := inst'\<rparr>)"
  have n: "length (dm_slots d) = length ports" using assms(1) by (simp add: holds_def)
  have "load cq phase' j (dm_slots ?d ! j) = load cq (dm_phase d) j (dm_slots d ! j)" if "j \<noteq> i" for j
    using assms(3,5) that by (simp add: load_def places_def set_slot_def)
  then have "(\<Sum>j<length ports. load cq phase' j (dm_slots ?d ! j)) < (\<Sum>j<length ports. load cq (dm_phase d) j (dm_slots d ! j))"
    using assms(2,6) n by (intro sum_strict_mono_ex1) (auto simp: set_slot_def nth_list_update intro!: bexI [of _ i])
  then show ?thesis using assms(4) n by (simp add: work_def set_slot_def)
qed

section \<open>The steps keep the invariant\<close>

text \<open>The configurations of the ports and the interval of the algorithm never change.\<close>

definition preserved ::
  "('ch \<Rightarrow> ('r, 'c, 'k, 'q) bmca_port list) \<Rightarrow> ('r, 'c, 'k, 'q, 's, 'v, 'n, 'ch) daemon \<Rightarrow>
   ('r, 'c, 'k, 'q) running_port list \<Rightarrow> ('r, 'c, 'k, 'q, 's, 'v, 'n, 'ch) daemon \<Rightarrow> bool" where
  "preserved cq d ports d' \<longleftrightarrow>
     (\<exists>ports'. holds cq d' ports' \<and> map po_config ports' = map po_config ports)
     \<and> in_log_bmca_interval (dm_instance d') = in_log_bmca_interval (dm_instance d)"

lemma preserved_refl: "holds cq d ports \<Longrightarrow> preserved cq d ports d"
  by (auto simp: preserved_def)

lemma preservedI:
  assumes "holds cq d' (ports[i := p'])" and "same_port (ports ! i) p'"
    and "in_log_bmca_interval (dm_instance d') = in_log_bmca_interval (dm_instance d)"
  shows "preserved cq d ports d'"
proof -
  have "map po_config (ports[i := p']) = map po_config ports"
    using assms(2) by (cases "i < length ports") (simp_all add: map_update same_port_def list_update_same_conv list_update_beyond)
  then show ?thesis using assms(1,3) by (auto simp: preserved_def)
qed

lemma inv_moved:
  assumes "instance_inv inst ports" and "i < length ports"
    and "wf_instance_state state'" "same_roots (in_state inst) state'" "task_ok p' t'" "moved_on (ports ! i) p'"
  shows "instance_inv (inst\<lparr>in_state := state'\<rparr>) (ports[i := p'])"
  using assms
  by (intro inv_update) (auto simp: task_ok_def moved_on_def is_slave_state_iff)

lemma inv_kept:
  assumes "instance_inv inst ports" and "i < length ports" and "task_ok p' t'" "moved_on (ports ! i) p'"
  shows "instance_inv inst (ports[i := p'])"
  using inv_moved [OF assms(1,2) _ same_roots_refl assms(3,4)] assms(1) by (simp add: instance_inv_def)

lemma starting_moved: "starting t q p \<Longrightarrow> moved_on q p' \<Longrightarrow> moved_on p p'"
  by (auto simp: starting_def moved_on_def end_bmca_def same_port_def change_lifecycle_def)

locale daemon_setting =
  fixes env :: "('f, 'r, 'c, 'k, 'q, 's, 'v, 'a, 'n, 'ch) daemon_env"
    and cq :: "'ch \<Rightarrow> ('r, 'c, 'k, 'q) bmca_port list" and unread :: "'v \<Rightarrow> forwarded_tlv list"
  assumes channels: "bounded_channel (de_channel env) 1 cq"
    and forwarding: "broadcast (de_broadcast env) unread"
begin

lemma recv_empty: "cq ch = [] \<Longrightarrow> ch_recv (de_channel env) ch = Pend"
  by (rule bounded_channel.waits [OF channels])

lemma recv_one:
  assumes "cq ch = [q]"
  obtains ch' where "ch_recv (de_channel env) ch = Received q ch'" "cq ch' = []"
  using bounded_channel.receives_first [OF channels assms] by blast

lemma send_one:
  assumes "cq ch = []"
  obtains ch' where "ch_try_send (de_channel env) q ch = Some ch'" "cq ch' = [q]"
  using bounded_channel.accepts [OF channels, of ch q] assms by auto

lemma receive_kept:
  assumes "holds cq d ports" and "i < length ports" and "sl_phase (dm_slots d ! i) = TP_Receiving"
    and "task_receive env i d = Some (Ok d')"
  shows "preserved cq d ports d'" "work cq d' \<le> work cq d"
    "cq (sl_to_task (dm_slots d ! i)) \<noteq> [] \<Longrightarrow> work cq d' < work cq d"
proof -
  let ?s = "dm_slots d ! i" and ?p = "ports ! i"
  have "slot_ok cq (dm_phase d) i ?s ?p" using assms(1,2) by (simp add: holds_def)
  then have "d' = d \<and> cq (sl_to_task ?s) = [] \<or> preserved cq d ports d' \<and> work cq d' < work cq d"
  proof (cases rule: slot_ok_cases)
    case (to_task q)
    obtain ch where ch: "ch_recv (de_channel env) (sl_to_task ?s) = Received q ch" "cq ch = []"
      by (rule recv_one [OF to_task(2)])
    obtain p' t' where r: "port_task_start (de_host env) (de_broadcast env) (de_net env i) (de_transport env i)
          (in_state (dm_instance d)) q (sl_task ?s) = Some (Ok (p', t'))"
        and d': "d' = set_slot i (?s\<lparr>sl_to_task := ch, sl_phase := TP_Running p', sl_task := t'\<rparr>) d"
      using assms(4) ch(1) by (auto simp: task_receive_def Let_def)
    have inv: "instance_inv (dm_instance d) ports" using assms(1) by (simp add: holds_def)
    have p': "task_ok p' t'" "moved_on q p'"
      using outcome_OkD [OF outcome_task_start [OF _ _ _ r, of False]] inv to_task(5)
      by (auto simp: instance_inv_def starting_def)
    have m: "moved_on ?p p'" by (rule starting_moved [OF to_task(5) p'(2)])
    let ?s' = "?s\<lparr>sl_to_task := ch, sl_phase := TP_Running p', sl_task := t'\<rparr>"
    have "slot_ok cq (dm_phase d) i ?s' p'"
      using to_task ch(2) p'(1) by (simp add: slot_ok_def places_def)
    then have "holds cq d' (ports[i := p'])"
      using holds_slot [OF assms(1,2) inv_kept [OF inv assms(2) p'(1) m], of "dm_phase d" ?s'] assms(1) d'
      by (simp add: holds_def)
    moreover have "work cq d' < work cq d"
      using work_slot [OF assms(1,2), of "dm_phase d" ?s' "dm_instance d"] to_task ch(2) d'
      by (simp add: load_def places_def)
    ultimately show ?thesis
      using preservedI m d' by (fastforce simp: moved_on_def set_slot_def)
  qed (use assms(3,4) recv_empty in \<open>simp_all add: task_receive_def Let_def\<close>)
  then show "preserved cq d ports d'" "work cq d' \<le> work cq d"
    "cq (sl_to_task ?s) \<noteq> [] \<Longrightarrow> work cq d' < work cq d"
    using preserved_refl [OF assms(1)] by auto
qed

end

lemma work_slot_same:
  assumes "i < length (dm_slots d)" and "load cq (dm_phase d) i s' = load cq (dm_phase d) i (dm_slots d ! i)"
  shows "work cq (set_slot i s' (d\<lparr>dm_instance := inst'\<rparr>)) = work cq d"
  using assms by (auto simp: work_def set_slot_def nth_list_update intro!: sum.cong)

lemma outside_slots:
  "length (dm_slots (outside now nets receivers d)) = length (dm_slots d)"
  "i < length (dm_slots d) \<Longrightarrow> dm_slots (outside now nets receivers d) ! i
    = (dm_slots d ! i)\<lparr>sl_task := outside_task now (nets i) (receivers i) (sl_task (dm_slots d ! i))\<rparr>"
  by (simp_all add: outside_def nth_enumerate_eq)

lemma outside_place: "place_ok c (outside_task now net r t) p pl = place_ok c t p pl"
  by (cases pl) (simp_all add: outside_task_def starting_def halted_def to_start_def to_process_def task_ok_def master_armed_def)

lemma outside_kept:
  assumes "holds cq d ports"
  shows "preserved cq d ports (outside now nets receivers d)" "work cq (outside now nets receivers d) = work cq d"
proof -
  let ?d = "outside now nets receivers d"
  note slots = outside_slots [where now = now and nets = nets and receivers = receivers and d = d]
  have same: "dm_phase ?d = dm_phase d" "dm_instance ?d = dm_instance d" "dm_bmca_notify ?d = dm_bmca_notify d"
    by (simp_all add: outside_def)
  have pl: "places cq phase i (dm_slots ?d ! i) = places cq phase i (dm_slots d ! i)" if "i < length (dm_slots d)" for phase i
    using that by (simp add: slots places_def)
  have "slot_ok cq phase i (dm_slots ?d ! i) p = slot_ok cq phase i (dm_slots d ! i) p" if "i < length (dm_slots d)" for phase i p
    using that by (simp add: slot_ok_def pl) (simp add: slots outside_place)
  then have "holds cq ?d ports" using assms by (simp add: holds_def same slots(1))
  then show "preserved cq d ports ?d" by (auto simp: preserved_def same)
  show "work cq ?d = work cq d" by (simp add: work_def load_def same slots(1) pl)
qed

context daemon_setting
begin

lemma event_kept:
  assumes "holds cq d ports" and "i < length ports" and "sl_phase (dm_slots d ! i) = TP_Running p"
    and "task_event_step env i ev p d = Some (Ok d')"
  shows "preserved cq d ports d'" "work cq d' = work cq d"
proof -
  let ?s = "dm_slots d ! i"
  have inv: "instance_inv (dm_instance d) ports" and n: "length (dm_slots d) = length ports"
    using assms(1) by (simp_all add: holds_def)
  have "slot_ok cq (dm_phase d) i ?s (ports ! i)" using assms(1,2) by (simp add: holds_def)
  then have s: "p = ports ! i" "task_ok p (sl_task ?s)" "at_run (dm_phase d) i = []" "cq (sl_to_task ?s) = []" "cq (sl_to_main ?s) = []"
    using assms(3) by (cases rule: slot_ok_cases; simp)+
  obtain state' p' t' where r: "port_task_step (de_host env) (de_broadcast env) (de_net env i) (de_transport env i) ev
        (in_state (dm_instance d)) p (sl_task ?s) = Some (Ok (state', p', t'))"
      and d': "d' = set_slot i (?s\<lparr>sl_phase := TP_Running p', sl_task := t'\<rparr>)
        (d\<lparr>dm_instance := (dm_instance d)\<lparr>in_state := state'\<rparr>\<rparr>)"
    using assms(4) by (auto simp: task_event_step_def Let_def)
  have p': "wf_instance_state state'" "same_roots (in_state (dm_instance d)) state'" "task_ok p' t'" "moved_on (ports ! i) p'"
    using outcome_OkD [OF outcome_task_step [OF _ _ _ r, of False]] inv s(1,2) by (auto simp: instance_inv_def)
  let ?s' = "?s\<lparr>sl_phase := TP_Running p', sl_task := t'\<rparr>"
  have "slot_ok cq (dm_phase d) i ?s' p'" using s p'(3) by (simp add: slot_ok_def places_def)
  then have "holds cq d' (ports[i := p'])"
    using holds_slot [OF assms(1,2) inv_moved [OF inv assms(2) p'], of "dm_phase d" ?s'] assms(1) d'
    by (simp add: holds_def)
  then show "preserved cq d ports d'"
    by (rule preservedI) (use p'(4) d' in \<open>simp_all add: moved_on_def set_slot_def\<close>)
  show "work cq d' = work cq d"
    unfolding d' by (rule work_slot_same) (use s assms(2,3) n in \<open>simp_all add: load_def places_def\<close>)
qed

lemma notified_kept:
  assumes "holds cq d ports" and "i < length ports" and "sl_phase (dm_slots d ! i) = TP_Running p"
  shows "preserved cq d ports (task_notified i p d)" "work cq (task_notified i p d) \<le> work cq d"
    "is_collecting (dm_phase d) \<Longrightarrow> work cq (task_notified i p d) < work cq d"
proof -
  let ?s = "dm_slots d ! i" and ?s' = "(dm_slots d ! i)\<lparr>sl_phase := TP_Sending (port_task_stop p)\<rparr>"
  have inv: "instance_inv (dm_instance d) ports" using assms(1) by (simp add: holds_def)
  have "slot_ok cq (dm_phase d) i ?s (ports ! i)" using assms(1,2) by (simp add: holds_def)
  then have s: "p = ports ! i" "task_ok p (sl_task ?s)" "at_run (dm_phase d) i = []" "cq (sl_to_task ?s) = []" "cq (sl_to_main ?s) = []"
    using assms(3) by (cases rule: slot_ok_cases; simp)+
  have k: "preserved cq d ports (task_notified i p d) \<and> work cq (task_notified i p d) < work cq d" if c: "is_collecting (dm_phase d)"
  proof -
    have d': "task_notified i p d = set_slot i ?s' d" using assms(1) c by (simp add: task_notified_def holds_def)
    have "slot_ok cq (dm_phase d) i ?s' p" using s c by (simp add: slot_ok_def places_def halted_def port_task_stop_def)
    then have "holds cq (task_notified i p d) (ports[i := p])"
      using holds_slot [OF assms(1,2), of "dm_instance d" p "dm_phase d" ?s'] assms(1) inv d' s(1) by (simp add: holds_def)
    then have "preserved cq d ports (task_notified i p d)"
      by (rule preservedI) (use s(1) d' in \<open>simp_all add: set_slot_def\<close>)
    moreover have "work cq (task_notified i p d) < work cq d"
      using work_slot [OF assms(1,2), of "dm_phase d" ?s' "dm_instance d"] s(3-) c assms(3) d'
      by (simp add: load_def places_def)
    ultimately show ?thesis by simp
  qed
  then show "is_collecting (dm_phase d) \<Longrightarrow> work cq (task_notified i p d) < work cq d" by simp
  have "task_notified i p d = d" if "\<not> is_collecting (dm_phase d)"
    using assms(1) that by (simp add: task_notified_def holds_def)
  then show "preserved cq d ports (task_notified i p d)" "work cq (task_notified i p d) \<le> work cq d"
    using k preserved_refl [OF assms(1)] by (cases "is_collecting (dm_phase d)"; auto)+
qed

lemma send_kept:
  assumes "holds cq d ports" and "i < length ports" and "sl_phase (dm_slots d ! i) = TP_Sending q"
  shows "preserved cq d ports (task_send env i q d)" "work cq (task_send env i q d) < work cq d"
proof -
  let ?s = "dm_slots d ! i"
  have inv: "instance_inv (dm_instance d) ports" using assms(1) by (simp add: holds_def)
  have "slot_ok cq (dm_phase d) i ?s (ports ! i)" using assms(1,2) by (simp add: holds_def)
  then have s: "halted (sl_task ?s) q (ports ! i)" "is_collecting (dm_phase d)" "at_run (dm_phase d) i = []"
      "cq (sl_to_task ?s) = []" "cq (sl_to_main ?s) = []"
    using assms(3) by (cases rule: slot_ok_cases; simp)+
  obtain ch where ch: "ch_try_send (de_channel env) q (sl_to_main ?s) = Some ch" "cq ch = [q]"
    by (rule send_one [OF s(5)])
  let ?s' = "?s\<lparr>sl_to_main := ch, sl_phase := TP_Receiving\<rparr>"
  have d': "task_send env i q d = set_slot i ?s' d" using ch(1) by (simp add: task_send_def)
  have "slot_ok cq (dm_phase d) i ?s' (ports ! i)" using s ch(2) by (simp add: slot_ok_def places_def)
  then have "holds cq (task_send env i q d) (ports[i := ports ! i])"
    using holds_slot [OF assms(1,2), of "dm_instance d" "ports ! i" "dm_phase d" ?s'] assms(1) inv d' by (simp add: holds_def)
  then show "preserved cq d ports (task_send env i q d)"
    by (rule preservedI) (use d' in \<open>simp_all add: set_slot_def\<close>)
  show "work cq (task_send env i q d) < work cq d"
    using work_slot [OF assms(1,2), of "dm_phase d" ?s' "dm_instance d"] s(3-) s(2) ch(2) assms(3) d'
    by (simp add: load_def places_def)
qed

end

section \<open>The steps of run\<close>

text \<open>When \<open>run\<close> has collected the ports, no task runs: the algorithm stops the world.\<close>

lemma collected:
  assumes "holds cq d ports" and "dm_phase d = MP_Collecting ps" and "length ps = length ports"
  shows "ps = map port_task_stop ports" "list_all2 task_ok ports (map sl_task (dm_slots d))"
    "\<And>i. i < length ports \<Longrightarrow> sl_phase (dm_slots d ! i) = TP_Receiving \<and> cq (sl_to_task (dm_slots d ! i)) = []
      \<and> cq (sl_to_main (dm_slots d ! i)) = [] \<and> halted (sl_task (dm_slots d ! i)) (ps ! i) (ports ! i)"
proof -
  show slot: "sl_phase (dm_slots d ! i) = TP_Receiving \<and> cq (sl_to_task (dm_slots d ! i)) = []
      \<and> cq (sl_to_main (dm_slots d ! i)) = [] \<and> halted (sl_task (dm_slots d ! i)) (ps ! i) (ports ! i)" if "i < length ports" for i
  proof -
    have "slot_ok cq (dm_phase d) i (dm_slots d ! i) (ports ! i)" using assms(1) that by (simp add: holds_def)
    then show ?thesis by (cases rule: slot_ok_cases) (use assms(2,3) that in auto)
  qed
  have n: "length (dm_slots d) = length ports" using assms(1) by (simp add: holds_def)
  show "ps = map port_task_stop ports"
    using assms(3) slot by (intro nth_equalityI) (auto simp: halted_def port_task_stop_def)
  show "list_all2 task_ok ports (map sl_task (dm_slots d))"
    using slot n by (simp add: list_all2_conv_all_nth halted_def)
qed

text \<open>A run of the algorithm, with the ports that go back.\<close>

lemma returned:
  assumes "holds cq d ports" and "dm_phase d = MP_Collecting (map port_task_stop ports)"
    and "instance_bmca host (dm_instance d) (map port_task_stop ports) = Inr (inst', ports')"
    and "d' = d\<lparr>dm_bmca_notify := False, dm_instance := inst', dm_instance_state := obs, dm_clock_modes := modes,
      dm_phase := MP_Returning 0 ports'\<rparr>"
  shows "preserved cq d ports d'" "work cq d' < work cq d"
proof -
  have inv: "instance_inv (dm_instance d) ports" and n: "length (dm_slots d) = length ports"
    using assms(1) by (simp_all add: holds_def)
  note slot = collected [OF assms(1,2) length_map]
  note start = bmca_to_start [OF inv slot(2) assms(3)]
  have stop: "map port_task_stop ports = map start_bmca ports" by (simp add: port_task_stop_def)
  have len: "length ports' = length ports" using start(2) by (simp add: list_all2_conv_all_nth)
  have log: "in_log_bmca_interval inst' = in_log_bmca_interval (dm_instance d)"
    using outcome_OkD [OF bmca_returns [OF inv, of False] assms(3) [unfolded stop]] by simp
  have inv': "instance_inv inst' (map (fst \<circ> end_bmca) ports')" by (rule inv_bmca [OF inv assms(3) [unfolded stop]])
  have pl: "places cq (MP_Returning 0 ports') i (dm_slots d ! i) = [PL_Run (ports' ! i)]"
      "places cq (dm_phase d) i (dm_slots d ! i) = [PL_Run (map port_task_stop ports ! i)]" if "i < length ports" for i
    using slot(3) [OF that] that len assms(2) by (simp_all add: places_def)
  have "slot_ok cq (MP_Returning 0 ports') i (dm_slots d ! i) (fst (end_bmca (ports' ! i)))" if "i < length ports" for i
    using pl(1) [OF that] start(3) that len n by (simp add: slot_ok_def starting_def list_all2_conv_all_nth)
  then have "holds cq d' (map (fst \<circ> end_bmca) ports')"
    using n len inv' assms(4) by (simp add: holds_def)
  moreover have "map po_config (map (fst \<circ> end_bmca) ports') = map po_config ports"
    using start(2) len by (intro nth_equalityI) (auto simp: list_all2_conv_all_nth same_port_def end_bmca_def)
  ultimately show "preserved cq d ports d'" using log assms(4) by (auto simp: preserved_def)
  have "work cq d' = 1 + (\<Sum>i<length ports. 2)"
    using pl(1) n assms(4) by (simp add: work_def load_def)
  moreover have "work cq d = 2 + (\<Sum>i<length ports. 2)"
    unfolding work_def n load_def using pl(2) assms(2) by simp
  ultimately show "work cq d' < work cq d" by simp
qed

text \<open>\<open>run\<close> moves on without a port.\<close>

lemma holds_phase:
  assumes "holds cq d ports" and "\<And>i. at_run phase' i = []" "phase_fits (length ports) phase'"
    and "\<not> is_collecting (dm_phase d)" "\<And>i. at_run (dm_phase d) i = []"
    and "d' = d\<lparr>dm_bmca_timer := timer, dm_bmca_notify := is_collecting phase', dm_phase := phase'\<rparr>"
  shows "preserved cq d ports d'"
proof -
  have "slot_ok cq phase' i (dm_slots d ! i) (ports ! i)" if i: "i < length ports" for i
  proof -
    have "slot_ok cq (dm_phase d) i (dm_slots d ! i) (ports ! i)" using assms(1) i by (simp add: holds_def)
    then show ?thesis by (cases rule: slot_ok_cases) (use assms(2,4,5) in \<open>simp_all add: slot_ok_def places_def\<close>)
  qed
  then have "holds cq d' ports" using assms(1,3,6) by (simp add: holds_def)
  then show ?thesis using assms(6) by (auto simp: preserved_def)
qed

context daemon_setting
begin

lemma poll_collects:
  assumes "holds cq d ports" and "dm_phase d = MP_Collecting ps" and "length ps < length ports"
  shows "cq (sl_to_main (dm_slots d ! length ps)) = [] \<and> run_poll env d = Ok d
    \<or> (\<exists>d'. run_poll env d = Ok d' \<and> preserved cq d ports d' \<and> work cq d' < work cq d)"
proof -
  let ?i = "length ps"
  let ?s = "dm_slots d ! ?i"
  have inv: "instance_inv (dm_instance d) ports" and n: "length (dm_slots d) = length ports"
    using assms(1) by (simp_all add: holds_def)
  have "slot_ok cq (dm_phase d) ?i ?s (ports ! ?i)" using assms(1,3) by (simp add: holds_def)
  then show ?thesis
  proof (cases rule: slot_ok_cases)
    case (to_run q)
    obtain ch where ch: "ch_recv (de_channel env) (sl_to_main ?s) = Received q ch" "cq ch = []"
      by (rule recv_one [OF to_run(4)])
    let ?s' = "?s\<lparr>sl_to_main := ch\<rparr>" and ?ph = "MP_Collecting (ps @ [q])"
    let ?d = "set_slot ?i ?s' (d\<lparr>dm_phase := ?ph\<rparr>)"
    have r: "run_poll env d = Ok ?d" using assms(2,3) n ch(1) by (simp add: run_poll_def Let_def)
    have other: "at_run ?ph j = at_run (dm_phase d) j" if "j \<noteq> ?i" for j
      using that assms(2) by (simp add: nth_append less_Suc_eq)
    have "slot_ok cq ?ph ?i ?s' (ports ! ?i)" using to_run ch(2) by (simp add: slot_ok_def places_def)
    then have "holds cq ?d (ports[?i := ports ! ?i])"
      using holds_slot [OF assms(1,3), of "dm_instance d" "ports ! ?i" ?ph ?s'] inv other assms(2,3) by simp
    then have "preserved cq d ports ?d" by (rule preservedI) (simp_all add: set_slot_def)
    moreover have "work cq ?d < work cq d"
      using work_slot [OF assms(1,3), of ?ph ?s' "dm_instance d"] other to_run ch(2) assms(2)
      by (simp add: load_def places_def)
    ultimately show ?thesis using r by blast
  qed (use assms(2,3) n recv_empty in \<open>auto simp: run_poll_def Let_def\<close>)
qed

lemma poll_returns_port:
  assumes "holds cq d ports" and "dm_phase d = MP_Returning i (q # rest)"
  shows "\<exists>d'. run_poll env d = Ok d' \<and> preserved cq d ports d' \<and> work cq d' < work cq d"
proof -
  let ?s = "dm_slots d ! i"
  have inv: "instance_inv (dm_instance d) ports" and i: "i < length ports"
    using assms by (auto simp: holds_def)
  have "slot_ok cq (dm_phase d) i ?s (ports ! i)" using assms(1) i by (simp add: holds_def)
  then have s: "cq (sl_to_task ?s) = []" "sl_phase ?s = TP_Receiving" "cq (sl_to_main ?s) = []" "starting (sl_task ?s) q (ports ! i)"
    using assms(2) by (cases rule: slot_ok_cases; simp)+
  obtain ch where ch: "ch_try_send (de_channel env) q (sl_to_task ?s) = Some ch" "cq ch = [q]"
    by (rule send_one [OF s(1)])
  let ?s' = "?s\<lparr>sl_to_task := ch\<rparr>" and ?ph = "MP_Returning (Suc i) rest"
  let ?d = "set_slot i ?s' (d\<lparr>dm_phase := ?ph\<rparr>)"
  have r: "run_poll env d = Ok ?d" using assms(2) ch(1) by (simp add: run_poll_def)
  have other: "at_run ?ph j = at_run (dm_phase d) j" if "j \<noteq> i" for j
    using that assms(2) by (auto simp: nth_Cons' Suc_le_eq)
  have fits: "phase_fits (length ports) ?ph" using assms by (simp add: holds_def)
  have "slot_ok cq ?ph i ?s' (ports ! i)" using s ch(2) by (simp add: slot_ok_def places_def)
  then have "holds cq ?d (ports[i := ports ! i])"
    using holds_slot [OF assms(1) i, of "dm_instance d" "ports ! i" ?ph ?s'] inv other fits assms(2) by simp
  then have "preserved cq d ports ?d" by (rule preservedI) (simp_all add: set_slot_def)
  moreover have "work cq ?d < work cq d"
    using work_slot [OF assms(1) i, of ?ph ?s' "dm_instance d"] other s ch(2) assms(2)
    by (simp add: load_def places_def)
  ultimately show ?thesis using r by blast
qed

lemma poll_ends_round:
  assumes "holds cq d ports" and "dm_phase d = MP_Returning i []" and "run_poll env d = Ok d'"
  shows "preserved cq d ports d'" "work cq d' < work cq d"
proof -
  obtain interval where d': "d' = d\<lparr>dm_bmca_timer := timer_reset (dm_now d) interval (dm_bmca_timer d), dm_phase := MP_Timer\<rparr>"
    using assms(2,3) by (auto simp: run_poll_def)
  have none: "at_run (MP_Returning i []) j = []" for j by simp
  have "dm_bmca_notify d = False" using assms(1,2) by (simp add: holds_def)
  then have "d' = d\<lparr>dm_bmca_timer := timer_reset (dm_now d) interval (dm_bmca_timer d), dm_bmca_notify := is_collecting MP_Timer,
      dm_phase := MP_Timer\<rparr>"
    unfolding d' by (cases d) simp
  then show "preserved cq d ports d'"
    using holds_phase [OF assms(1), of MP_Timer d'] none unfolding assms(2) by simp
  have "load cq (MP_Returning i []) j (dm_slots d ! j) = load cq MP_Timer j (dm_slots d ! j)" for j
    unfolding load_def places_def none by simp
  then show "work cq d' < work cq d" unfolding work_def assms(2) d' by simp
qed

lemma poll_runs_bmca:
  assumes "holds cq d ports" and "dm_phase d = MP_Collecting ps" and "length ps = length ports" and "run_poll env d = Ok d'"
  shows "preserved cq d ports d'" "work cq d' < work cq d"
proof -
  have n: "length (dm_slots d) = length ports" using assms(1) by (simp add: holds_def)
  note ps = collected(1) [OF assms(1-3)]
  obtain inst ports' obs modes where
      "run_iteration (de_host env) (de_clock_port_map env) (de_sync_senders env) (dm_instance d) ps = Ok (inst, ports', obs, modes)"
      "d' = d\<lparr>dm_bmca_notify := False, dm_instance := inst, dm_instance_state := obs, dm_clock_modes := modes,
        dm_phase := MP_Returning 0 ports'\<rparr>"
    using assms(2-4) n by (auto simp: run_poll_def)
  moreover from this(1) have "instance_bmca (de_host env) (dm_instance d) (map port_task_stop ports) = Inr (inst, ports')"
    unfolding ps by (auto simp: run_iteration_def)
  ultimately show "preserved cq d ports d'" "work cq d' < work cq d"
    using returned [OF assms(1)] assms(2) unfolding ps by blast+
qed

lemma poll_waits:
  assumes "holds cq d ports" and "dm_phase d = MP_Timer"
  obtains d' where "run_poll env d = Ok d'" "preserved cq d ports d'"
proof -
  obtain ready tm where t: "timer_poll (dm_now d) (dm_bmca_timer d) = (ready, tm)"
    by (cases "timer_poll (dm_now d) (dm_bmca_timer d)")
  have n: "dm_bmca_notify d = False" using assms by (simp add: holds_def)
  show ?thesis
  proof (cases ready)
    case True
    then show ?thesis
      using that holds_phase [OF assms(1) _ _ _ _ refl, of "MP_Collecting []" tm] assms(2) t by (simp add: run_poll_def)
  next
    case False
    have same: "d\<lparr>dm_bmca_timer := tm, dm_bmca_notify := False, dm_phase := MP_Timer\<rparr> = d\<lparr>dm_bmca_timer := tm\<rparr>"
      using n assms(2) by (cases d) simp
    from False show ?thesis
      using that holds_phase [OF assms(1) _ _ _ _ refl, of MP_Timer tm] assms(2) same t by (simp add: run_poll_def)
  qed
qed

lemma poll_kept:
  assumes "holds cq d ports" and "run_poll env d = Ok d'"
  shows "preserved cq d ports d'" "dm_phase d \<noteq> MP_Timer \<Longrightarrow> work cq d' \<le> work cq d"
proof -
  have "preserved cq d ports d' \<and> (dm_phase d \<noteq> MP_Timer \<longrightarrow> work cq d' \<le> work cq d)"
  proof (cases "dm_phase d")
    case MP_Timer
    then show ?thesis using poll_waits [OF assms(1)] assms(2) by (metis sum.inject(2))
  next
    case (MP_Collecting ps)
    have "length ps \<le> length ports" using assms(1) MP_Collecting by (simp add: holds_def)
    then consider "length ps < length ports" | "length ps = length ports" by linarith
    then show ?thesis
    proof cases
      case 1
      then show ?thesis using poll_collects [OF assms(1) MP_Collecting] preserved_refl [OF assms(1)] assms(2) by auto
    next
      case 2
      then show ?thesis using poll_runs_bmca [OF assms(1) MP_Collecting 2 assms(2)] by simp
    qed
  next
    case (MP_Returning i ps)
    then show ?thesis
      using poll_returns_port [OF assms(1)] poll_ends_round [OF assms(1) _ assms(2)] assms(2) by (cases ps) fastforce+
  qed
  then show "preserved cq d ports d'" "dm_phase d \<noteq> MP_Timer \<Longrightarrow> work cq d' \<le> work cq d" by simp_all
qed

lemma step_kept:
  assumes "daemon_step env a d d'" and "holds cq d ports"
  shows "preserved cq d ports d'" "dm_phase d \<noteq> MP_Timer \<or> a \<noteq> DA_Run \<Longrightarrow> work cq d' \<le> work cq d"
proof -
  have n: "length (dm_slots d) = length ports" using assms(2) by (simp add: holds_def)
  from assms(1) have "preserved cq d ports d' \<and> (dm_phase d \<noteq> MP_Timer \<or> a \<noteq> DA_Run \<longrightarrow> work cq d' \<le> work cq d)"
  proof (cases rule: daemon_step.cases)
    case run
    then show ?thesis using poll_kept [OF assms(2)] by blast
  next
    case (receive i)
    then show ?thesis using receive_kept(1,2) [OF assms(2)] n by auto
  next
    case (event i p ev)
    then show ?thesis using event_kept [OF assms(2)] n by auto
  next
    case (notified i p)
    then show ?thesis using notified_kept(1,2) [OF assms(2)] n by auto
  next
    case (send i q)
    then show ?thesis using send_kept [OF assms(2)] n by fastforce
  next
    case (outside now nets receivers)
    then show ?thesis using outside_kept [OF assms(2)] by simp
  qed
  then show "preserved cq d ports d'" "dm_phase d \<noteq> MP_Timer \<or> a \<noteq> DA_Run \<Longrightarrow> work cq d' \<le> work cq d" by blast+
qed

end

section \<open>Reachable states\<close>

lemma new_port_starting:
  assumes "new_port q" and "wf_port (fst (end_bmca q))" "settled (fst (end_bmca q))"
  shows "starting t q (fst (end_bmca q))"
  using assms
  by (auto simp: starting_def to_start_def to_process_def new_port_def end_bmca_def good_actions_def is_master_def actions_def
    MAX_ACTIONS_def)

text \<open>What the host, the sockets and the start guarantee: no filter panics, the sockets take the packets,
  the interval of the algorithm is a duration, and the map of clocks is in range.\<close>

definition sound_daemon ::
  "('f, 'r, 'c, 'k, 'q, 's, 'v, 'a, 'n, 'ch) daemon_env \<Rightarrow> ptp_instance \<Rightarrow> ('r, 'c, 'k, 'q) bmca_port list \<Rightarrow> bool" where
  "sound_daemon env inst ports \<longleftrightarrow> list_all (\<lambda>p. host_total (de_host env) (po_config p)) ports
     \<and> (\<forall>i. sound_net (de_net env i)) \<and> (\<exists>interval. bmca_interval (ho_num (de_host env)) inst = Ok interval)
     \<and> length ports < 2 ^ 16 \<and> length (de_clock_port_map env) = length ports
     \<and> list_all (pred_option (\<lambda>n. n < de_sync_senders env)) (de_clock_port_map env)"

definition quiet :: "('r, 'c, 'k, 'q, 's, 'v, 'n, 'ch) daemon \<Rightarrow> bool" where
  "quiet d \<longleftrightarrow> dm_phase d = MP_Timer \<and> (\<forall>i<length (dm_slots d). \<exists>p. sl_phase (dm_slots d ! i) = TP_Running p)"

definition some_step ::
  "('f, 'r, 'c, 'k, 'q, 's, 'v, 'a, 'n, 'ch) daemon_env \<Rightarrow> ('r, 'c, 'k, 'q, 's, 'v, 'n, 'ch) daemon \<Rightarrow>
   ('r, 'c, 'k, 'q, 's, 'v, 'n, 'ch) daemon \<Rightarrow> bool" where
  "some_step env d d' \<longleftrightarrow> (\<exists>a. daemon_step env a d d')"

lemma work_bound:
  assumes "holds cq d ports"
  shows "work cq d \<le> 6 * length ports + 2"
proof -
  have "load cq (dm_phase d) i (dm_slots d ! i) \<le> 6" if i: "i < length ports" for i
  proof -
    obtain pl where "places cq (dm_phase d) i (dm_slots d ! i) = [pl]" using assms i by (auto simp: holds_def slot_ok_def)
    then show ?thesis by (cases pl) (simp_all add: load_def)
  qed
  then have "(\<Sum>i<length ports. load cq (dm_phase d) i (dm_slots d ! i)) \<le> length ports * 6"
    using sum_bounded_above [of "{..<length ports}" "\<lambda>i. load cq (dm_phase d) i (dm_slots d ! i)" 6] by simp
  moreover have "phase_weight (dm_phase d) \<le> 2" by (cases "dm_phase d") simp_all
  ultimately show ?thesis using assms by (simp add: work_def holds_def)
qed

context daemon_setting
begin

lemma started_holds:
  assumes "instance_inv inst (map (fst \<circ> end_bmca) ports)" and "list_all new_port ports"
  shows "holds cq (daemon_run env now nets inst ports) (map (fst \<circ> end_bmca) ports)"
proof -
  have "slot_ok cq (MP_Returning 0 ports) i (slot_new env now (nets i)) (fst (end_bmca (ports ! i)))" if "i < length ports" for i
  proof -
    have "starting (sl_task (slot_new env now (nets i))) (ports ! i) (fst (end_bmca (ports ! i)))"
      by (rule new_port_starting) (use assms that in \<open>simp_all add: instance_inv_def list_all_length\<close>)
    then show ?thesis
      using that bounded_channel.made [OF channels] by (simp add: slot_ok_def places_def slot_new_def)
  qed
  then show ?thesis using assms(1) by (simp add: holds_def daemon_run_def)
qed

lemma reachable_holds:
  assumes "daemon_reachable env inst ports d"
    and "instance_inv inst (map (fst \<circ> end_bmca) ports)" and "list_all new_port ports"
  shows "\<exists>ps. holds cq d ps \<and> map po_config ps = map po_config ports
    \<and> in_log_bmca_interval (dm_instance d) = in_log_bmca_interval inst"
  using assms(1)
proof induction
  case (started now nets)
  have "map po_config (map (fst \<circ> end_bmca) ports) = map po_config ports" by (simp add: end_bmca_def)
  then show ?case using started_holds [OF assms(2,3), of now nets] by (auto simp: daemon_run_def)
next
  case (stepped d a d')
  then show ?case using step_kept(1) by (metis preserved_def)
qed

lemma start_progress:
  assumes "holds cq d ps" and "i < length ps" and "cq (sl_to_task (dm_slots d ! i)) \<noteq> []"
    and "host_total (de_host env) (po_config (ps ! i))" "sound_net (de_net env i)"
  shows "\<exists>d'. daemon_step env (DA_Receive i) d d' \<and> work cq d' < work cq d"
proof -
  let ?s = "dm_slots d ! i"
  have inv: "instance_inv (dm_instance d) ps" and n: "length (dm_slots d) = length ps"
    using assms(1) by (simp_all add: holds_def)
  have "slot_ok cq (dm_phase d) i ?s (ps ! i)" using assms(1,2) by (simp add: holds_def)
  then obtain q where q: "cq (sl_to_task ?s) = [q]" "sl_phase ?s = TP_Receiving" "starting (sl_task ?s) q (ps ! i)"
    by (cases rule: slot_ok_cases) (use assms(3) in simp_all)
  obtain ch where ch: "ch_recv (de_channel env) (sl_to_task ?s) = Received q ch" by (rule recv_one [OF q(1)])
  obtain f where f: "(if tr_ethernet (de_transport env i) \<and> is_master q
      then tlv_forwarder_empty (de_broadcast env) (ta_forwarder (sl_task ?s)) else Some (ta_forwarder (sl_task ?s))) = Some f"
    by (rule start_returns [OF forwarding])
  then obtain r where r: "port_task_start (de_host env) (de_broadcast env) (de_net env i) (de_transport env i)
      (in_state (dm_instance d)) q (sl_task ?s) = Some r"
    unfolding port_task_start_def f process_actions_eq by (cases "end_bmca q") simp
  have "po_config q = po_config (ps ! i)" using q(3) by (simp add: starting_def end_bmca_def)
  then have "\<exists>x. r = Inr x"
    using outcome_total [OF outcome_task_start [OF _ _ _ r, of True]] inv q(3) assms(4,5)
    by (auto simp: instance_inv_def starting_def)
  then have "\<exists>d'. task_receive env i d = Some (Ok d')" using ch r by (auto simp: task_receive_def Let_def)
  then show ?thesis
    using receive_kept(3) [OF assms(1,2) q(2) _ assms(3)] daemon_step.receive [OF _ q(2)] assms(2) n by metis
qed

lemma poll_progress:
  assumes "holds cq d ps" and "map po_config ps = map po_config ports" and "sound_daemon env inst ports"
    and "in_log_bmca_interval (dm_instance d) = in_log_bmca_interval inst"
    and "dm_phase d \<noteq> MP_Timer" and "\<And>i. i < length ps \<Longrightarrow> cq (sl_to_main (dm_slots d ! i)) = [] \<Longrightarrow> at_run (dm_phase d) i \<noteq> [] \<or> \<not> is_collecting (dm_phase d)"
  shows "\<exists>d'. run_poll env d = Ok d' \<and> work cq d' < work cq d"
proof (cases "dm_phase d")
  case (MP_Collecting bs)
  have len: "length ports = length ps" and n: "length (dm_slots d) = length ps" and inv: "instance_inv (dm_instance d) ps"
    using assms(1) map_eq_imp_length_eq [OF assms(2)] by (simp_all add: holds_def)
  have total: "list_all (\<lambda>p. host_total (de_host env) (po_config p)) ps"
    using assms(2,3) by (simp add: sound_daemon_def list_all_length) (metis len length_map nth_map)
  have "length bs \<le> length ps" using assms(1) MP_Collecting by (simp add: holds_def)
  then consider "length bs < length ps" | "length bs = length ps" by linarith
  then show ?thesis
  proof cases
    case 1
    then show ?thesis
      using poll_collects [OF assms(1) MP_Collecting 1] assms(6) [of "length bs"] MP_Collecting by auto
  next
    case 2
    note c = collected [OF assms(1) MP_Collecting 2]
    have "\<exists>x. run_iteration (de_host env) (de_clock_port_map env) (de_sync_senders env) (dm_instance d) bs = Ok x"
      using run_iteration_returns [OF inv _ c(2) _ _ total, of "de_clock_port_map env" "de_sync_senders env"] assms(3) len
      unfolding c(1) by (auto simp: sound_daemon_def)
    then have "\<exists>d'. run_poll env d = Ok d'" using MP_Collecting 2 n by (auto simp: run_poll_def)
    then show ?thesis using poll_runs_bmca [OF assms(1) MP_Collecting 2] by blast
  qed
next
  case (MP_Returning i bs)
  show ?thesis
  proof (cases bs)
    case Nil
    have "\<exists>x. bmca_interval (ho_num (de_host env)) (dm_instance d) = Ok x"
      using assms(3,4) by (simp add: sound_daemon_def bmca_interval_def)
    then have "\<exists>d'. run_poll env d = Ok d'" using MP_Returning Nil by (auto simp: run_poll_def)
    then show ?thesis using poll_ends_round [OF assms(1)] MP_Returning Nil by blast
  qed (use poll_returns_port [OF assms(1)] MP_Returning in blast)
qed (use assms(5) in simp)

lemma progress:
  assumes "holds cq d ps" and "map po_config ps = map po_config ports" and "sound_daemon env inst ports"
    and "in_log_bmca_interval (dm_instance d) = in_log_bmca_interval inst" and "\<not> quiet d"
  shows "\<exists>d'. some_step env d d' \<and> work cq d' < work cq d"
proof -
  have n: "length (dm_slots d) = length ps" and ok: "\<And>i. i < length ps \<Longrightarrow> slot_ok cq (dm_phase d) i (dm_slots d ! i) (ps ! i)"
    using assms(1) by (simp_all add: holds_def)
  have total: "host_total (de_host env) (po_config (ps ! i))" "sound_net (de_net env i)" if "i < length ps" for i
    using assms(2,3) that by (simp_all add: sound_daemon_def list_all_length) (metis length_map nth_map)
  consider (receive) i where "i < length ps" "cq (sl_to_task (dm_slots d ! i)) \<noteq> []"
    | (send) i q where "i < length ps" "sl_phase (dm_slots d ! i) = TP_Sending q"
    | (stop) i p where "i < length ps" "sl_phase (dm_slots d ! i) = TP_Running p" "is_collecting (dm_phase d)"
    | (main) "\<And>i. i < length ps \<Longrightarrow> cq (sl_to_task (dm_slots d ! i)) = [] \<and> (\<forall>q. sl_phase (dm_slots d ! i) \<noteq> TP_Sending q)
        \<and> (is_collecting (dm_phase d) \<longrightarrow> (\<forall>p. sl_phase (dm_slots d ! i) \<noteq> TP_Running p))"
    by metis
  then show ?thesis
  proof cases
    case receive
    then show ?thesis using start_progress [OF assms(1)] total unfolding some_step_def by blast
  next
    case send
    then show ?thesis using send_kept(2) [OF assms(1)] daemon_step.send n by (metis some_step_def)
  next
    case stop
    then show ?thesis using notified_kept(3) [OF assms(1)] daemon_step.notified n by (metis some_step_def)
  next
    case main
    have timer: "dm_phase d \<noteq> MP_Timer"
    proof
      assume t: "dm_phase d = MP_Timer"
      have "\<exists>p. sl_phase (dm_slots d ! i) = TP_Running p" if "i < length ps" for i
        using ok [OF that] by (cases rule: slot_ok_cases) (use main [OF that] t in auto)
      then show False using assms(5) t n by (simp add: quiet_def)
    qed
    have "at_run (dm_phase d) i \<noteq> [] \<or> \<not> is_collecting (dm_phase d)"
      if "i < length ps" "cq (sl_to_main (dm_slots d ! i)) = []" for i
      using ok [OF that(1)] by (cases rule: slot_ok_cases) (use main [OF that(1)] that(2) in auto)
    from poll_progress [OF assms(1-4) timer this] show ?thesis using daemon_step.run by (metis some_step_def)
  qed
qed

lemma settles:
  assumes "holds cq d ps" and "map po_config ps = map po_config ports" and "sound_daemon env inst ports"
    and "in_log_bmca_interval (dm_instance d) = in_log_bmca_interval inst"
  shows "\<exists>k d'. k \<le> work cq d \<and> (some_step env ^^ k) d d' \<and> quiet d'"
  using assms
proof (induction "work cq d" arbitrary: d ps rule: less_induct)
  case less
  show ?case
  proof (cases "quiet d")
    case True
    then show ?thesis by (intro exI [of _ 0] exI [of _ d]) simp
  next
    case False
    obtain d1 where d1: "some_step env d d1" "work cq d1 < work cq d"
      using progress [OF less.prems False] by blast
    then obtain ps1 where "holds cq d1 ps1" "map po_config ps1 = map po_config ports"
        "in_log_bmca_interval (dm_instance d1) = in_log_bmca_interval inst"
      using step_kept(1) [OF _ less.prems(1)] less.prems(2,4) by (auto simp: some_step_def preserved_def)
    then obtain k d' where "k \<le> work cq d1" "(some_step env ^^ k) d1 d'" "quiet d'"
      using less.hyps [OF d1(2)] less.prems(3) by blast
    then show ?thesis
      using d1 by (intro exI [of _ "Suc k"] exI [of _ d']) (auto simp del: relpowp.simps intro: relpowp_Suc_I2)
  qed
qed

end

context daemon_setting
begin

lemma poll_total:
  assumes "holds cq d ps" and "map po_config ps = map po_config ports" and "sound_daemon env inst ports"
    and "in_log_bmca_interval (dm_instance d) = in_log_bmca_interval inst"
  shows "\<exists>d'. run_poll env d = Ok d'"
proof (cases "dm_phase d")
  case MP_Timer
  then show ?thesis using poll_waits [OF assms(1)] by blast
next
  case (MP_Collecting bs)
  show ?thesis
  proof (cases "length bs < length ps")
    case True
    then show ?thesis using poll_collects [OF assms(1) MP_Collecting] by blast
  next
    case False
    then show ?thesis using poll_progress [OF assms] MP_Collecting by fastforce
  qed
next
  case (MP_Returning i bs)
  then show ?thesis using poll_progress [OF assms] by fastforce
qed

text \<open>The ports of two tasks are never both slaves.\<close>

lemma running_ok:
  assumes "holds cq d ps" and "i < length ps" and "sl_phase (dm_slots d ! i) = TP_Running p"
  shows "p = ps ! i" "task_ok p (sl_task (dm_slots d ! i))"
proof -
  have "slot_ok cq (dm_phase d) i (dm_slots d ! i) (ps ! i)" using assms(1,2) by (simp add: holds_def)
  then show "p = ps ! i" "task_ok p (sl_task (dm_slots d ! i))"
    by (cases rule: slot_ok_cases; use assms(3) in simp)+
qed

lemma one_steering:
  assumes "holds cq d ps" and "length ps < 2 ^ 16" and "i < length ps" "j < length ps"
    and "sl_phase (dm_slots d ! i) = TP_Running p" "sl_phase (dm_slots d ! j) = TP_Running p'"
    and "is_steering p" "is_steering p'"
  shows "i = j"
proof -
  have "length (filter is_steering ps) \<le> 1"
    using assms(1,2) by (simp add: holds_def instance_inv_def one_slave_def is_steering_def [abs_def])
  then show ?thesis
    by (rule filter_unique) (use assms(3-) running_ok [OF assms(1)] in auto)
qed

end

section \<open>An example daemon\<close>

definition example_daemon_env ::
  "(real, unit, sim_clock boxed_clock, unit, unit, unit, nat \<times> forwarded_tlv list, socket_addr_v4,
    (bytes \<times> socket_addr_v4) list, (unit, sim_clock boxed_clock, unit, unit) bmca_port list) daemon_env" where
  "example_daemon_env = \<lparr>
     de_host = daemon_host,
     de_broadcast = list_channel,
     de_channel = queue_ops 1,
     de_net = (\<lambda>_. example_net),
     de_transport = (\<lambda>_. udp_transport target_v4),
     de_clock_port_map = [Some 0],
     de_sync_senders = 1\<rparr>"

interpretation example_daemon: daemon_setting example_daemon_env "\<lambda>ch. ch" snd
  by (rule daemon_setting.intro)
    (simp_all add: example_daemon_env_def list_bc.broadcast_axioms queue.bounded_channel_axioms del: One_nat_def)

lemma example_daemon_started:
  obtains su inst ports where "daemon_startup (de_host example_daemon_env) () (\<lambda>_. ()) sim_unix (\<lambda>_. Some 3)
      [(''eth1'', Some [0, 1, 2, 3, 4, 5])] example_linux_config (5, 7, 37) = Ok (su, inst, ports)"
    "su_clock_port_map su = [Some 0]" "length (su_internal_sync_senders su) = 1" "length ports = 1"
    "in_log_bmca_interval inst = 1" "po_config (fst (hd ports)) = port_config_from (ho_num daemon_host) example_linux_port"
proof -
  have "\<exists>su inst ports. daemon_startup (de_host example_daemon_env) () (\<lambda>_. ()) sim_unix (\<lambda>_. Some 3)
      [(''eth1'', Some [0, 1, 2, 3, 4, 5])] example_linux_config (5, 7, 37) = Ok (su, inst, ports)
    \<and> su_clock_port_map su = [Some 0] \<and> length (su_internal_sync_senders su) = 1 \<and> length ports = 1
    \<and> in_log_bmca_interval inst = 1 \<and> po_config (fst (hd ports)) = port_config_from (ho_num daemon_host) example_linux_port"
    by (simp add: example_daemon_env_def daemon_startup_def example_linux_config_def example_linux_port_def
      port_config_deserialize_def field_def instance_config_of_def get_clock_id_def List.map_filter_def index_def
      sdo_id_try_from_def Let_def choose_clock_def add_hw_clock_def linux_open_idx_def linux_open_def sim_unix_def
      startup_new_def linux_init_def sim_stamp_def add_port_def port_new_def daemon_host_def announce_duration_def
      port_config_from_def interval_as_core_duration_def interval_as_f64_def numlib_exact_def
      default_announce_interval_def default_announce_receipt_timeout_def ptp_instance_new_def)
  then show ?thesis using that by blast
qed

lemma example_port_config:
  "pc_announce_interval (port_config_from lib example_linux_port) = 1" "pc_sync_interval (port_config_from lib example_linux_port) = 0"
  "pc_announce_receipt_timeout (port_config_from lib example_linux_port) = 3"
  "min_delay_req_interval (port_config_from lib example_linux_port) = 0"
  by (simp_all add: port_config_from_def example_linux_port_def port_config_deserialize_def field_def min_delay_req_interval_def
    default_announce_interval_def default_sync_interval_def default_announce_receipt_timeout_def default_delay_interval_def)

lemma example_daemon_total: "host_total daemon_host (port_config_from (ho_num daemon_host) example_linux_port)"
  unfolding host_total_def example_port_config announce_duration_def random_request_delay_def
  by (simp add: daemon_host_def interval_as_core_duration_def interval_as_f64_def numlib_exact_def)

lemma example_daemon_start:
  "list_all (\<lambda>mac. mac \<noteq> []) (candidates [(''eth1'', Some [0, 1, 2, 3, 4, 5])] (map lp_interface (lx_ports example_linux_config)))"
  "pred_option wf_clock_identity (lx_identity example_linux_config)"
  by (simp_all add: candidates_def List.map_filter_def example_linux_config_def example_linux_port_def
    port_config_deserialize_def field_def)

section \<open>Properties\<close>

text \<open>C6: the tasks of the daemon share the ports without conflict. After a start, in every state that the
  loop of \<open>run\<close> and the port tasks reach in any order, every port is in exactly one place: with
  \<open>run\<close>, with its task, or in one of the two channels between them. The best master clock algorithm
  stops the world: when \<open>run\<close> has all ports, no task has one and the channels are empty. At most one
  of the tasks runs a slave, and a task that runs a master has its announce and sync timers
  running.\<close>

theorem daemon_reachable_invariant:
  assumes "daemon_startup (de_host env) fc rng ux lookup_phc interfaces config w = Ok (su, inst, ports)"
    and "list_all (\<lambda>mac. mac \<noteq> []) (candidates interfaces (map lp_interface (lx_ports config)))"
    and "pred_option wf_clock_identity (lx_identity config)" and "length ports < 2 ^ 16"
    and "daemon_setting env cq unread" and "daemon_reachable env inst (map fst ports) d"
  shows "length (dm_slots d) = length ports
    \<and> (\<forall>i<length ports. length (places cq (dm_phase d) i (dm_slots d ! i)) = 1)
    \<and> (\<forall>ps. dm_phase d = MP_Collecting ps \<and> length ps = length ports \<longrightarrow>
        (\<forall>i<length ports. sl_phase (dm_slots d ! i) = TP_Receiving \<and> cq (sl_to_task (dm_slots d ! i)) = []
          \<and> cq (sl_to_main (dm_slots d ! i)) = []))
    \<and> (\<forall>i<length ports. \<forall>j<length ports. \<forall>p p'. sl_phase (dm_slots d ! i) = TP_Running p
        \<and> sl_phase (dm_slots d ! j) = TP_Running p' \<and> is_steering p \<and> is_steering p' \<longrightarrow> i = j)
    \<and> (\<forall>i<length ports. \<forall>p. sl_phase (dm_slots d ! i) = TP_Running p \<longrightarrow> task_ok p (sl_task (dm_slots d ! i)))"
proof -
  note s = daemon_started [OF assms(1-3)]
  have "instance_inv inst (map (fst \<circ> end_bmca) (map fst ports))" "list_all new_port (map fst ports)"
    using s(3,4) by (simp_all add: comp_assoc list.pred_map)
  then obtain ps where h: "holds cq d ps" "map po_config ps = map po_config (map fst ports)"
    using daemon_setting.reachable_holds [OF assms(5,6)] by blast
  then have n: "length ps = length ports" using map_eq_imp_length_eq [OF h(2)] by simp
  have "length (places cq (dm_phase d) i (dm_slots d ! i)) = 1" if "i < length ports" for i
    using h(1) that n by (auto simp: holds_def slot_ok_def)
  moreover have "length (dm_slots d) = length ports" using h(1) n by (simp add: holds_def)
  ultimately show ?thesis
    using collected(3) [OF h(1)] daemon_setting.one_steering [OF assms(5) h(1)] daemon_setting.running_ok(2) [OF assms(5) h(1)]
      assms(4) n by simp
qed

theorem daemon_reachable_invariant_witness:
  "\<exists>inst ports d. daemon_reachable example_daemon_env inst ports d \<and> length (dm_slots d) = 1
     \<and> length (places (\<lambda>ch. ch) (dm_phase d) 0 (dm_slots d ! 0)) = 1"
proof (rule example_daemon_started)
  fix su inst ports
  assume s: "daemon_startup (de_host example_daemon_env) () (\<lambda>_. ()) sim_unix (\<lambda>_. Some 3)
      [(''eth1'', Some [0, 1, 2, 3, 4, 5])] example_linux_config (5, 7, 37) = Ok (su, inst, ports)" and n: "length ports = 1"
  let ?d = "daemon_run example_daemon_env 0 (\<lambda>_. []) inst (map fst ports)"
  have r: "daemon_reachable example_daemon_env inst (map fst ports) ?d" by (rule daemon_reachable.started)
  show ?thesis
    using daemon_reachable_invariant [OF s example_daemon_start _ example_daemon.daemon_setting_axioms r] n r
    by (intro exI [of _ inst] exI [of _ "map fst ports"] exI [of _ ?d]) simp
qed



end
