(* ===== verification/Observer.thy ===== *)
theory Observer
  imports Metrics
begin

text \<open>
  \<open>statime-linux/src/observer.rs\<close>: the socket on which the daemon publishes its state. The file
  system is the parameter \<open>fs_ops\<close>; the locale \<open>file_system\<close> states what the calls do to the
  files, and the lemma inside it that creating the socket never destroys a file that is not a
  socket.
\<close>

record ('l, 'w) fs_ops =
  fs_exists :: "string \<Rightarrow> 'w \<Rightarrow> bool"
  fs_is_socket :: "string \<Rightarrow> 'w \<Rightarrow> bool option"
  fs_remove :: "string \<Rightarrow> 'w \<Rightarrow> bool \<times> 'w"
  fs_bind :: "string \<Rightarrow> 'w \<Rightarrow> 'l option \<times> 'w"
  fs_parent :: "string \<Rightarrow> string option"
  fs_set_permissions :: "string \<Rightarrow> u32 \<Rightarrow> 'w \<Rightarrow> bool \<times> 'w"

record observability_config =
  oc_observation_path :: "string option"
  oc_observation_permissions :: u32
  oc_metrics_exporter_listen :: string

definition default_observation_permissions :: u32 where
  "default_observation_permissions = 0x1b6"

definition observability_config_default :: observability_config where
  "observability_config_default = \<lparr>oc_observation_path = None,
     oc_observation_permissions = default_observation_permissions,
     oc_metrics_exporter_listen = ''127.0.0.1:9975''\<rparr>"

text \<open>\<open>SE_Os\<close> is an error of the operating system that is passed on.\<close>

datatype socket_error = SE_Os | SE_NotASocket | SE_NoParent | SE_Bind

definition bind_socket :: "('l, 'w) fs_ops \<Rightarrow> string \<Rightarrow> 'w \<Rightarrow> (socket_error + 'l) \<times> 'w" where
  "bind_socket fs path w =
     (case fs_bind fs path w of
        (Some listener, w') \<Rightarrow> (Inr listener, w')
      | (None, w') \<Rightarrow>
          (case fs_parent fs path of
             Some parent \<Rightarrow> (Inl (if fs_exists fs parent w' then SE_Bind else SE_NoParent), w')
           | None \<Rightarrow> (Inl SE_Bind, w')))"

definition create_unix_socket :: "('l, 'w) fs_ops \<Rightarrow> string \<Rightarrow> 'w \<Rightarrow> (socket_error + 'l) \<times> 'w" where
  "create_unix_socket fs path w =
     (if fs_exists fs path w then
        (case fs_is_socket fs path w of
           None \<Rightarrow> (Inl SE_Os, w)
         | Some socket \<Rightarrow>
             if \<not> socket then (Inl SE_NotASocket, w)
             else (let (removed, w') = fs_remove fs path w in
                   if removed then bind_socket fs path w' else (Inl SE_Os, w')))
      else bind_socket fs path w)"

definition create_unix_socket_with_permissions ::
  "('l, 'w) fs_ops \<Rightarrow> string \<Rightarrow> u32 \<Rightarrow> 'w \<Rightarrow> (socket_error + 'l) \<times> 'w" where
  "create_unix_socket_with_permissions fs path permissions w =
     (case create_unix_socket fs path w of
        (Inl e, w') \<Rightarrow> (Inl e, w')
      | (Inr listener, w') \<Rightarrow>
          (let (ok, w'') = fs_set_permissions fs path permissions w' in
           (if ok then Inr listener else Inl SE_Os, w'')))"

text \<open>\<open>observer\<close> up to its loop; \<open>None\<close> is the return without a configured path.\<close>

definition observer_start ::
  "('l, 'w) fs_ops \<Rightarrow> observability_config \<Rightarrow> 'w \<Rightarrow> (socket_error + 'l) option \<times> 'w" where
  "observer_start fs config w =
     (case oc_observation_path config of
        None \<Rightarrow> (None, w)
      | Some path \<Rightarrow>
          (let (r, w') = create_unix_socket_with_permissions fs path (oc_observation_permissions config) w
           in (Some r, w')))"

text \<open>What the loop writes to a client: the state of the last run of the best master clock algorithm.\<close>

definition observer_reply ::
  "'f floatlib \<Rightarrow> string \<Rightarrow> string \<Rightarrow> string \<Rightarrow> ('f observable_state \<Rightarrow> bytes) \<Rightarrow> 'f \<Rightarrow> observable_instance_state \<Rightarrow> bytes" where
  "observer_reply fl version commit date to_json elapsed inst =
     to_json \<lparr>os_program = with_uptime fl version commit date elapsed, os_instance = inst\<rparr>"

section \<open>The contract of a file system\<close>

datatype file_kind = FK_Socket u32 | FK_Other

locale file_system =
  fixes fs :: "('l, 'w) fs_ops" and files :: "'w \<Rightarrow> string \<rightharpoonup> file_kind"
  assumes fs_exists: "fs_exists fs path w \<longleftrightarrow> path \<in> dom (files w)"
    and fs_is_socket: "fs_is_socket fs path w = Some b \<Longrightarrow> b \<longleftrightarrow> (\<exists>p. files w path = Some (FK_Socket p))"
    and fs_remove: "fs_remove fs path w = (ok, w') \<Longrightarrow> files w' = (if ok then (files w)(path := None) else files w)"
    and fs_bind: "fs_bind fs path w = (r, w') \<Longrightarrow>
      (case r of None \<Rightarrow> files w' = files w
       | Some _ \<Rightarrow> path \<notin> dom (files w) \<and> (\<exists>p. files w' = (files w)(path \<mapsto> FK_Socket p)))"
    and fs_set_permissions: "fs_set_permissions fs path m w = (ok, w') \<Longrightarrow>
      files w' = (if ok \<and> (\<exists>p. files w path = Some (FK_Socket p)) then (files w)(path \<mapsto> FK_Socket m) else files w)"
begin

lemma bind_keeps:
  "bind_socket fs path w = (r, w') \<Longrightarrow>
    (\<forall>q. q \<noteq> path \<longrightarrow> files w' q = files w q) \<and> (files w path \<noteq> None \<longrightarrow> files w' path = files w path)
    \<and> (case r of Inl _ \<Rightarrow> True | Inr _ \<Rightarrow> \<exists>p. files w' path = Some (FK_Socket p))"
  using fs_bind [of path w] by (auto simp: bind_socket_def split: prod.splits option.splits)

lemma create_keeps:
  assumes "create_unix_socket fs path w = (r, w')"
  shows "(\<forall>q. q \<noteq> path \<longrightarrow> files w' q = files w q) \<and> (files w path = Some FK_Other \<longrightarrow> files w' path = Some FK_Other)
    \<and> (case r of Inl _ \<Rightarrow> True | Inr _ \<Rightarrow> \<exists>p. files w' path = Some (FK_Socket p))"
proof (cases "path \<in> dom (files w)")
  case False
  then show ?thesis using assms bind_keeps [of path w r w'] by (auto simp: create_unix_socket_def fs_exists)
next
  case True
  show ?thesis
  proof (cases "fs_is_socket fs path w = Some True")
    case socket: True
    then have s: "\<exists>p. files w path = Some (FK_Socket p)" using fs_is_socket by blast
    obtain ok w1 where w1: "fs_remove fs path w = (ok, w1)" by fastforce
    then show ?thesis
      using assms True socket s fs_remove [OF w1] bind_keeps [of path w1 r w']
      by (auto simp: create_unix_socket_def fs_exists split: if_splits)
  next
    case False
    then show ?thesis
      using assms True by (auto simp: create_unix_socket_def fs_exists split: option.splits bool.splits)
  qed
qed

lemma created_with_permissions:
  assumes "create_unix_socket_with_permissions fs path m w = (r, w')"
  shows "(\<forall>q. q \<noteq> path \<longrightarrow> files w' q = files w q) \<and> (files w path = Some FK_Other \<longrightarrow> files w' path = Some FK_Other)
    \<and> (case r of Inl _ \<Rightarrow> True | Inr _ \<Rightarrow> files w' path = Some (FK_Socket m))"
proof -
  obtain r1 w1 where c: "create_unix_socket fs path w = (r1, w1)" by fastforce
  obtain ok w2 where p: "fs_set_permissions fs path m w1 = (ok, w2)" by fastforce
  show ?thesis
    using assms create_keeps [OF c] c p fs_set_permissions [OF p]
    by (auto simp: create_unix_socket_with_permissions_def split: sum.splits if_splits)
qed

end

section \<open>A file system\<close>

definition map_fs :: "(unit, string \<rightharpoonup> file_kind) fs_ops" where
  "map_fs = \<lparr>
     fs_exists = (\<lambda>path w. w path \<noteq> None),
     fs_is_socket = (\<lambda>path w. map_option (\<lambda>k. k \<noteq> FK_Other) (w path)),
     fs_remove = (\<lambda>path w. (w path \<noteq> None, w(path := None))),
     fs_bind = (\<lambda>path w. if w path = None then (Some (), w(path \<mapsto> FK_Socket 0x1ed)) else (None, w)),
     fs_parent = (\<lambda>path. None),
     fs_set_permissions = (\<lambda>path m w. case w path of
        Some (FK_Socket _) \<Rightarrow> (True, w(path \<mapsto> FK_Socket m))
      | _ \<Rightarrow> (w path \<noteq> None, w))\<rparr>"

lemma not_other: "k \<noteq> FK_Other \<longleftrightarrow> (\<exists>p. k = FK_Socket p)"
  by (cases k) simp_all

interpretation mfs: file_system map_fs "\<lambda>w. w"
  by unfold_locales
    (auto simp: map_fs_def fun_upd_idem split: option.splits if_splits file_kind.splits dest: not_other [THEN iffD1])

section \<open>Properties\<close>

text \<open>Starting the observer on any file system never removes or replaces a file that is not a
  socket and changes no other file; when it succeeds, the configured path is a socket with the
  configured permissions.\<close>

theorem observer_keeps_files:
  assumes "file_system fs files" and "oc_observation_path config = Some path"
    and "observer_start fs config w = (r, w')"
  shows "(\<forall>q. q \<noteq> path \<longrightarrow> files w' q = files w q) \<and> (files w path = Some FK_Other \<longrightarrow> files w' path = Some FK_Other)
    \<and> (case r of Some (Inr listener) \<Rightarrow> files w' path = Some (FK_Socket (oc_observation_permissions config)) | _ \<Rightarrow> True)"
  using assms(2,3) file_system.created_with_permissions [OF assms(1), of path "oc_observation_permissions config" w]
  by (auto simp: observer_start_def split: prod.splits sum.splits)

theorem observer_keeps_files_witness:
  "snd (observer_start map_fs (observability_config_default\<lparr>oc_observation_path := Some ''/run/o''\<rparr>) [''/run/o'' \<mapsto> FK_Other]) ''/run/o''
    = Some FK_Other"
  using observer_keeps_files [OF mfs.file_system_axioms, of "observability_config_default\<lparr>oc_observation_path := Some ''/run/o''\<rparr>"
      "''/run/o''" "[''/run/o'' \<mapsto> FK_Other]"]
  by (cases "observer_start map_fs (observability_config_default\<lparr>oc_observation_path := Some ''/run/o''\<rparr>) [''/run/o'' \<mapsto> FK_Other]") simp

end
