(* ===== verification/Polyfill.thy ===== *)
theory Polyfill
  imports Kalman
begin

text \<open>
  \<open>statime/src/float_polyfill.rs\<close>: the floating point methods of a build without the standard
  library. \<open>libm\<close> is a parameter. Its \<open>signum\<close> differs from the one of the standard library,
  which is 1 or -1 also on a zero; the lemmas show that the Kalman filter cannot tell.
\<close>

section \<open>The methods\<close>

record 'f libm =
  lm_fabs :: "'f \<Rightarrow> 'f"
  lm_sqrt :: "'f \<Rightarrow> 'f"
  lm_pow :: "'f \<Rightarrow> 'f \<Rightarrow> 'f"
  lm_exp :: "'f \<Rightarrow> 'f"

definition polyfill_abs :: "'f libm \<Rightarrow> 'f \<Rightarrow> 'f" where
  "polyfill_abs lm x = lm_fabs lm x"

definition polyfill_signum :: "'f floatlib \<Rightarrow> 'f \<Rightarrow> 'f" where
  "polyfill_signum fl x =
     (if fl_lt fl x (fl_lit fl 0) then fl_lit fl (- 1)
      else if fl_lt fl (fl_lit fl 0) x then fl_lit fl 1
      else fl_lit fl 0)"

definition polyfill_sqrt :: "'f libm \<Rightarrow> 'f \<Rightarrow> 'f" where
  "polyfill_sqrt lm x = lm_sqrt lm x"

definition polyfill_powi :: "'f floatlib \<Rightarrow> 'f libm \<Rightarrow> 'f \<Rightarrow> int \<Rightarrow> 'f" where
  "polyfill_powi fl lm x n = lm_pow lm x (f_of_int (fl_num fl) n)"

definition polyfill_exp :: "'f libm \<Rightarrow> 'f \<Rightarrow> 'f" where
  "polyfill_exp lm x = lm_exp lm x"

text \<open>The numeric library of a build without the standard library.\<close>

definition polyfilled :: "'f libm \<Rightarrow> 'f floatlib \<Rightarrow> 'f floatlib" where
  "polyfilled lm fl = fl\<lparr>
     fl_num := (fl_num fl)\<lparr>f_powi2 := polyfill_powi fl lm (fl_lit fl 2)\<rparr>,
     fl_abs := polyfill_abs lm,
     fl_signum := polyfill_signum fl,
     fl_sqrt := polyfill_sqrt lm,
     fl_exp := polyfill_exp lm\<rparr>"

section \<open>Exact arithmetic\<close>

definition libm_real :: "real libm" where
  "libm_real = \<lparr>lm_fabs = abs, lm_sqrt = sqrt, lm_pow = (powr), lm_exp = exp\<rparr>"

text \<open>Only the sign of a zero differs.\<close>

lemma polyfilled_real:
  "polyfilled libm_real floatlib_real = floatlib_real\<lparr>fl_signum := sgn\<rparr>"
proof -
  have "(2::real) powr real_of_int n = (if 0 \<le> n then 2 ^ nat n else 1 / 2 ^ nat (- n))" for n
    by (simp add: powr_real_of_int inverse_eq_divide)
  then have "polyfill_powi floatlib_real libm_real (fl_lit floatlib_real 2) = f_powi2 numlib_exact"
    by (simp add: fun_eq_iff polyfill_powi_def libm_real_def floatlib_real_def numlib_exact_def)
  moreover have "polyfill_signum floatlib_real = sgn"
    by (simp add: fun_eq_iff polyfill_signum_def floatlib_real_def sgn_if)
  ultimately show ?thesis
    by (simp add: polyfilled_def floatlib_real_def polyfill_abs_def [abs_def] polyfill_sqrt_def [abs_def]
      polyfill_exp_def [abs_def] libm_real_def numlib_exact_def)
qed

section \<open>The functions that do not use the sign\<close>

named_theorems sign_free

lemma sign_free_matrix [sign_free]:
  "mat_symmetrize (fl\<lparr>fl_signum := s\<rparr>) = mat_symmetrize fl" "mat_unit (fl\<lparr>fl_signum := s\<rparr>) = mat_unit fl"
  "mat_inverse (fl\<lparr>fl_signum := s\<rparr>) = mat_inverse fl" "mat_mul (fl\<lparr>fl_signum := s\<rparr>) = mat_mul fl"
  "mat_scale (fl\<lparr>fl_signum := s\<rparr>) = mat_scale fl" "mat_add (fl\<lparr>fl_signum := s\<rparr>) = mat_add fl"
  "mat_sub (fl\<lparr>fl_signum := s\<rparr>) = mat_sub fl"
  by (simp_all add: fun_eq_iff mat_symmetrize_def mat_unit_def mat_inverse_def mat_mul_def fl_sum_def mat_scale_def
    mat_add_def mat_sub_def cong: if_cong)

lemma sign_free_basic [sign_free]:
  "duration_seconds (fl\<lparr>fl_signum := s\<rparr>) = duration_seconds fl" "fl_clamp (fl\<lparr>fl_signum := s\<rparr>) = fl_clamp fl"
  "sqr (fl\<lparr>fl_signum := s\<rparr>) = sqr fl" "chi_1 (fl\<lparr>fl_signum := s\<rparr>) = chi_1 fl"
  by (simp_all add: fun_eq_iff duration_seconds_def fl_clamp_def sqr_def chi_1_def cong: if_cong)

lemma sign_free_estimator [sign_free]:
  "estimator_mean (fl\<lparr>fl_signum := s\<rparr>) = estimator_mean fl"
  "estimator_variance (fl\<lparr>fl_signum := s\<rparr>) = estimator_variance fl"
  "estimator_range_size (fl\<lparr>fl_signum := s\<rparr>) = estimator_range_size fl"
  "estimator_measurement_variance (fl\<lparr>fl_signum := s\<rparr>) = estimator_measurement_variance fl"
  "estimator_absorb_sync (fl\<lparr>fl_signum := s\<rparr>) = estimator_absorb_sync fl"
  "estimator_absorb_delay (fl\<lparr>fl_signum := s\<rparr>) = estimator_absorb_delay fl"
  by (simp_all add: fun_eq_iff estimator_mean_def estimator_variance_def estimator_range_size_def fl_sum_def
    estimator_measurement_variance_def estimator_absorb_sync_def estimator_absorb_delay_def estimator_insert_entry_def
    Let_def sign_free cong: if_cong option.case_cong list.case_cong)

lemma sign_free_absorb [sign_free]: "estimator_absorb_measurement (fl\<lparr>fl_signum := s\<rparr>) = estimator_absorb_measurement fl"
  by (simp add: fun_eq_iff estimator_absorb_measurement_def sign_free)

lemma sign_free_inner [sign_free]:
  "inner_new (fl\<lparr>fl_signum := s\<rparr>) = inner_new fl"
  "inner_progress_filtertime (fl\<lparr>fl_signum := s\<rparr>) = inner_progress_filtertime fl"
  "inner_absorb_frequency_steer (fl\<lparr>fl_signum := s\<rparr>) = inner_absorb_frequency_steer fl"
  "inner_absorb_offset_steer (fl\<lparr>fl_signum := s\<rparr>) = inner_absorb_offset_steer fl"
  "inner_absorb_sync_offset (fl\<lparr>fl_signum := s\<rparr>) = inner_absorb_sync_offset fl"
  "inner_absorb_delay_offset (fl\<lparr>fl_signum := s\<rparr>) = inner_absorb_delay_offset fl"
  "inner_absorb_peer_delay (fl\<lparr>fl_signum := s\<rparr>) = inner_absorb_peer_delay fl"
  "inner_predict_offset (fl\<lparr>fl_signum := s\<rparr>) = inner_predict_offset fl"
  by (simp_all add: fun_eq_iff inner_new_def inner_progress_filtertime_def inner_predict_def inner_absorb_measurement_def
    inner_absorb_sync_offset_def inner_absorb_delay_offset_def inner_absorb_peer_delay_def inner_absorb_frequency_steer_def
    inner_absorb_offset_steer_def inner_predict_offset_def MEASUREMENT_SYNC_def MEASUREMENT_DELAY_def
    MEASUREMENT_PEER_DELAY_def Let_def sign_free cong: if_cong option.case_cong list.case_cong)

lemma sign_free_base [sign_free]:
  "base_progress_filtertime (fl\<lparr>fl_signum := s\<rparr>) = base_progress_filtertime fl"
  "base_absorb_sync_offset (fl\<lparr>fl_signum := s\<rparr>) = base_absorb_sync_offset fl"
  "base_absorb_delay_offset (fl\<lparr>fl_signum := s\<rparr>) = base_absorb_delay_offset fl"
  "base_absorb_peer_delay (fl\<lparr>fl_signum := s\<rparr>) = base_absorb_peer_delay fl"
  "base_absorb_frequency_steer (fl\<lparr>fl_signum := s\<rparr>) = base_absorb_frequency_steer fl"
  "base_absorb_offset_steer (fl\<lparr>fl_signum := s\<rparr>) = base_absorb_offset_steer fl"
  "base_offset (fl\<lparr>fl_signum := s\<rparr>) = base_offset fl"
  "base_offset_uncertainty (fl\<lparr>fl_signum := s\<rparr>) = base_offset_uncertainty fl"
  "base_freq_offset (fl\<lparr>fl_signum := s\<rparr>) = base_freq_offset fl"
  "base_mean_delay (fl\<lparr>fl_signum := s\<rparr>) = base_mean_delay fl"
  "base_predict_sync_offset (fl\<lparr>fl_signum := s\<rparr>) = base_predict_sync_offset fl"
  "base_predict_delay_offset (fl\<lparr>fl_signum := s\<rparr>) = base_predict_delay_offset fl"
  by (simp_all add: fun_eq_iff base_progress_filtertime_def base_absorb_sync_offset_def base_absorb_delay_offset_def
    too_far_def base_absorb_peer_delay_def base_absorb_frequency_steer_def base_absorb_offset_steer_def base_offset_def
    base_offset_uncertainty_def base_freq_offset_def base_mean_delay_def base_predict_sync_offset_def
    base_predict_delay_offset_def base_predict_offset_def MEASUREMENT_SYNC_def MEASUREMENT_DELAY_def
    Let_def sign_free cong: if_cong option.case_cong list.case_cong)

lemma sign_free_filter [sign_free]:
  "change_frequency (fl\<lparr>fl_signum := s\<rparr>) = change_frequency fl"
  "kalman_step (fl\<lparr>fl_signum := s\<rparr>) = kalman_step fl"
  "kalman_mean_delay (fl\<lparr>fl_signum := s\<rparr>) = kalman_mean_delay fl"
  "update_wander (fl\<lparr>fl_signum := s\<rparr>) = update_wander fl"
  "scaled_variance (fl\<lparr>fl_signum := s\<rparr>) = scaled_variance fl"
  "absorb_offset (fl\<lparr>fl_signum := s\<rparr>) = absorb_offset fl"
  by (simp_all add: fun_eq_iff change_frequency_def clamp_adjustment_def kalman_step_def kalman_mean_delay_def
    update_wander_def wander_score_update_def scaled_variance_def absorb_offset_def ensure_freq_init_def
    Let_def sign_free cong: if_cong option.case_cong list.case_cong)

section \<open>The filter\<close>

text \<open>A zero error is adjusted by zero with either sign.\<close>

lemma signed_adjust:
  fixes e u d :: real
  assumes "0 \<le> u" "0 \<le> d"
  shows "sgn e * max (\<bar>e\<bar> - u * d) 0 = (if 0 \<le> e then 1 else - 1) * max (\<bar>e\<bar> - u * d) 0"
  using assms by (cases "e = 0") (auto simp: sgn_if max_def)

definition nonneg_uncertainty :: "real kalman_filter \<Rightarrow> bool" where
  "nonneg_uncertainty k \<longleftrightarrow> 0 \<le> kc_deadzone (kf_config k)
     \<and> (\<forall>u. base_offset_uncertainty floatlib_real (kf_config k) (kf_running_filter k) = Ok u \<longrightarrow> 0 \<le> u)"

lemma steer_same:
  assumes "nonneg_uncertainty k"
  shows "kalman_steer (floatlib_real\<lparr>fl_signum := sgn\<rparr>) ops k clock = kalman_steer floatlib_real ops k clock"
proof (cases "base_offset_uncertainty floatlib_real (kf_config k) (kf_running_filter k)")
  case (Inr u)
  then have "0 \<le> u" "0 \<le> kc_deadzone (kf_config k)" using assms by (simp_all add: nonneg_uncertainty_def)
  then have "f_mul numlib_exact (sgn e) (fl_max floatlib_real
        (fl_sub floatlib_real (fl_abs floatlib_real e) (f_mul numlib_exact u (kc_deadzone (kf_config k)))) (fl_lit floatlib_real 0))
      = f_mul numlib_exact (fl_signum floatlib_real e) (fl_max floatlib_real
        (fl_sub floatlib_real (fl_abs floatlib_real e) (f_mul numlib_exact u (kc_deadzone (kf_config k)))) (fl_lit floatlib_real 0))" for e
    using signed_adjust [of u "kc_deadzone (kf_config k)" e] by (simp add: floatlib_real_def numlib_exact_def)
  then show ?thesis
    using Inr by (simp add: kalman_steer_def sign_free Let_def)
qed (simp add: kalman_steer_def sign_free Let_def)

section \<open>Properties\<close>


lemma new_filter_nonneg:
  assumes "kalman_new floatlib_real config = Ok k" and "0 \<le> kc_deadzone config" "0 \<le> kc_step_threshold config"
  shows "nonneg_uncertainty k"
proof -
  have "kf_config k = config" "kf_running_filter k = None" using assms(1) by (auto simp: kalman_new_def base_new_def)
  then show ?thesis
    using assms(2,3) by (simp add: nonneg_uncertainty_def base_offset_uncertainty_def duration_seconds_def floatlib_real_def)
qed

definition example_kalman :: "real kalman_configuration" where
  "example_kalman = (kalman_configuration_default floatlib_real)\<lparr>kc_step_threshold := 1000000 * 2 ^ 32\<rparr>"


end
