(* ===== verification/Fuzz.thy ===== *)
theory Fuzz
  imports Messages
begin

text \<open>
  The fuzz target of the message formats (\<open>fuzz/fuzz_targets/message_sound.rs\<close>) and the wrapper
  \<open>FuzzMessage\<close> it uses (\<open>statime/src/datastructures/messages/mod.rs\<close>). The fuzzer looks for an
  input on which the target panics; the theorem shows that there is none.
\<close>

section \<open>FuzzMessage\<close>

record fuzz_message =
  fm_inner :: message

definition fuzz_deserialize :: "bytes \<Rightarrow> fuzz_message res" where
  "fuzz_deserialize buffer = andthen (message_deserialize buffer) (\<lambda>inner. Ok \<lparr>fm_inner = inner\<rparr>)"

definition fuzz_serialize :: "fuzz_message \<Rightarrow> bytes \<Rightarrow> (bytes \<times> nat) res" where
  "fuzz_serialize m buffer = message_serialize (fm_inner m) buffer"

text \<open>\<open>tlv\<close> with the loop over all its items, which may panic.\<close>

definition fuzz_tlv :: "fuzz_message \<Rightarrow> tlv list res" where
  "fuzz_tlv m = tlvs (ms_suffix (fm_inner m))"

section \<open>The target\<close>

definition assert_res :: "bool \<Rightarrow> unit res" where
  "assert_res c = (if c then Ok () else panic)"

definition fuzz_message_sound :: "bytes \<Rightarrow> unit res" where
  "fuzz_message_sound data =
     (let buf1 = replicate 4096 0; buf2 = replicate 4096 0 in
      andthen (assert_res (length data \<le> length buf1)) (\<lambda>_.
      case fuzz_deserialize data of
        Inl Panic \<Rightarrow> panic
      | Inl (Wire error) \<Rightarrow> Ok ()
      | Inr a \<Rightarrow>
          andthen (fuzz_tlv a) (\<lambda>_.
          andthen (unwrap (fuzz_serialize a buf1)) (\<lambda>(buf1', written).
          andthen (assert_res (written \<le> length data)) (\<lambda>_.
          andthen (unwrap (fuzz_deserialize data)) (\<lambda>b.
          andthen (unwrap (fuzz_serialize b buf2)) (\<lambda>(buf2', _).
          assert_res (buf1' = buf2'))))))))"

section \<open>Properties\<close>

text \<open>C39: the fuzz target panics on no input that the fuzzer generates: it returns exactly on the inputs of
  at most 4096 bytes. The check that its author seems to mean, that parsing the serialized bytes
  gives the message back, holds as well.\<close>

theorem fuzz_target_sound:
  "(fuzz_message_sound data = Ok () \<longleftrightarrow> length data \<le> 4096)
   \<and> (\<forall>a. fuzz_deserialize data = Ok a \<longrightarrow> length data \<le> 4096 \<longrightarrow>
        (\<exists>buf n. fuzz_serialize a (replicate 4096 0) = Ok (buf, n) \<and> fuzz_deserialize (take n buf) = Ok a))"
proof -
  have m: "\<exists>buf. message_serialize m (replicate 4096 0) = Ok (buf, message_wire_size m)
      \<and> message_wire_size m \<le> length data \<and> message_deserialize (take (message_wire_size m) buf) = Ok m
      \<and> (\<exists>ts. tlvs (ms_suffix m) = Ok ts)"
    if "message_deserialize data = Inr m" "length data \<le> 4096" for m
  proof -
    have c: "canon_message m" "message_wire_size m \<le> length data" using message_deserialize_OkD that(1) by blast+
    then have w: "wf_message m" "message_wire_size m \<le> length (replicate 4096 (0 :: u8))"
      using that(2) canon_message_wf by simp_all
    then show ?thesis
      using c message_serialize_layout [OF w] length_message_layout [OF w] tlvs_wf
        message_deserialize_layout [OF c(1) w(2), of "[]"]
      by (fastforce simp: canon_message_def)
  qed
  have "fuzz_message_sound data = Ok ()" if "length data \<le> 4096"
  proof (cases "message_deserialize data")
    case (Inl e)
    then show ?thesis
      using that message_deserialize_not_panic [of data]
      by (cases e) (simp_all add: fuzz_message_sound_def fuzz_deserialize_def assert_res_def)
  next
    case (Inr a)
    then show ?thesis
      using that m [OF Inr that]
      by (auto simp: fuzz_message_sound_def fuzz_deserialize_def fuzz_serialize_def fuzz_tlv_def assert_res_def)
  qed
  moreover have "length data \<le> 4096" if "fuzz_message_sound data = Ok ()"
    using that by (auto simp: fuzz_message_sound_def assert_res_def split: if_splits)
  ultimately show ?thesis
    using m by (fastforce simp: fuzz_deserialize_def fuzz_serialize_def)
qed

theorem fuzz_target_sound_witness:
  "fuzz_message_sound (message_layout example_sync (replicate 44 0)) = Ok ()
    \<and> (\<exists>buf n. fuzz_serialize \<lparr>fm_inner = example_sync\<rparr> (replicate 4096 0) = Ok (buf, n)
        \<and> fuzz_deserialize (take n buf) = Ok \<lparr>fm_inner = example_sync\<rparr>)"
proof -
  let ?input = "message_layout example_sync (replicate 44 0)"
  have "length ?input = 44"
    using length_message_layout [OF canon_message_wf [OF canon_example_sync(1)], of "replicate 44 0"]
      canon_example_sync(2) by simp
  moreover have "fuzz_deserialize ?input = Ok \<lparr>fm_inner = example_sync\<rparr>"
    using message_deserialize_layout [OF canon_example_sync(1), of "replicate 44 0" "[]"] canon_example_sync(2)
    by (simp add: fuzz_deserialize_def)
  ultimately show ?thesis using fuzz_target_sound [of ?input] by simp
qed

end
