(* ===== verification/Stm32Port.thy ===== *)
theory Stm32Port
  imports PortTask Channels
begin

text \<open>
  \<open>statime-stm32/src/port.rs\<close>: the port of the embedded example. It wraps a port of the library,
  sends its packets through one network stack, and hands timer resets and packet identifiers to
  other tasks through bounded channels. A full channel, and a call in the wrong mode, are panics.
  The network stack (\<open>smoltcp\<close>, \<open>stm32_eth\<close>) and the channels (\<open>rtic_sync\<close>) are parameters.
\<close>

section \<open>Timers\<close>

datatype timer_name = TN_Announce | TN_Sync | TN_DelayRequest | TN_AnnounceReceipt | TN_FilterUpdate

section \<open>The network stack\<close>

datatype udp_send_error = SE_Unaddressable | SE_BufferFull
datatype udp_recv_error = RE_Exhausted | RE_Truncated
datatype tx_poll = TP_Pending | TP_NotFound | TP_Ready "i64 option"

text \<open>\<open>sn_preempted\<close> is what the interrupt handler does to the stack before a task gets its lock.
  \<open>sn_recv_slice\<close> returns the bytes it wrote to a buffer of the given size; the \<open>None\<close> of
  \<open>sn_rx_timestamp\<close> is an unknown packet identifier.\<close>

record ('h, 'i, 'n) stm_net =
  sn_preempted :: "'n \<Rightarrow> 'n"
  sn_next_packet_id :: "'n \<Rightarrow> 'i \<times> 'n"
  sn_send_slice :: "'h \<Rightarrow> bytes \<Rightarrow> socket_addr_v4 \<Rightarrow> 'i \<Rightarrow> 'n \<Rightarrow> udp_send_error option \<times> 'n"
  sn_poll :: "'n \<Rightarrow> 'n"
  sn_recv_slice :: "'h \<Rightarrow> nat \<Rightarrow> 'n \<Rightarrow> (udp_recv_error + bytes \<times> 'i) \<times> 'n"
  sn_rx_timestamp :: "'i \<Rightarrow> 'n \<Rightarrow> i64 option option"
  sn_poll_tx_timestamp :: "'i \<Rightarrow> 'n \<Rightarrow> tx_poll \<times> 'n"

definition stm_send ::
  "('h, 'i, 'n) stm_net \<Rightarrow> 'h \<Rightarrow> socket_addr_v4 \<Rightarrow> bytes \<Rightarrow> 'n \<Rightarrow> (udp_send_error + 'i) \<times> 'n" where
  "stm_send ops socket to data net =
     (let (packet_id, net1) = sn_next_packet_id ops (sn_preempted ops net);
          (result, net2) = sn_send_slice ops socket data to packet_id net1
      in case result of
           Some e \<Rightarrow> (Inl e, net2)
         | None \<Rightarrow> (Inr packet_id, sn_poll ops net2))"

section \<open>The mode of a port\<close>

datatype ('r, 'c, 'k, 'q) stm_state =
    XS_None
  | XS_Running "('r, 'c, 'k, 'q) running_port"
  | XS_InBmca "('r, 'c, 'k, 'q) bmca_port"

definition make_bmca_mode ::
  "('r, 'c, 'k, 'q) stm_state \<Rightarrow> (('r, 'c, 'k, 'q) bmca_port \<times> ('r, 'c, 'k, 'q) stm_state) res" where
  "make_bmca_mode s =
     (let s' = (case s of XS_Running port \<Rightarrow> XS_InBmca (start_bmca port) | val \<Rightarrow> val)
      in case s' of XS_InBmca port \<Rightarrow> Ok (port, s') | _ \<Rightarrow> panic)"

definition make_running ::
  "('r, 'c, 'k, 'q) stm_state \<Rightarrow> (('r, 'c, 'k, 'q) stm_state \<times> port_action_iterator) res" where
  "make_running s =
     (case s of
        XS_InBmca port \<Rightarrow> (let (port, acts) = end_bmca port in Ok (XS_Running port, acts))
      | _ \<Rightarrow> panic)"

definition take_running ::
  "('r, 'c, 'k, 'q) stm_state \<Rightarrow> (('r, 'c, 'k, 'q) running_port \<times> ('r, 'c, 'k, 'q) stm_state) res" where
  "take_running s = (case s of XS_Running v \<Rightarrow> Ok (v, XS_None) | _ \<Rightarrow> panic)"

definition set_running ::
  "('r, 'c, 'k, 'q) running_port \<Rightarrow> ('r, 'c, 'k, 'q) stm_state \<Rightarrow> ('r, 'c, 'k, 'q) stm_state res" where
  "set_running port s = (case s of XS_None \<Rightarrow> Ok (XS_Running port) | _ \<Rightarrow> panic)"

section \<open>The port\<close>

text \<open>A sender is the channel that it shares with a receiver.\<close>

type_synonym timer_msg = "timer_name \<times> core_duration"
type_synonym 'i packet_id_msg = "timestamp_context \<times> 'i"

record ('r, 'c, 'k, 'q, 'h, 't, 'd) stm_port =
  xp_timer_sender :: 't
  xp_packet_id_sender :: 'd
  xp_event_socket :: 'h
  xp_general_socket :: 'h
  xp_state :: "('r, 'c, 'k, 'q) stm_state"

text \<open>The parameters of the application; \<open>en_deadline now ms\<close> is the tick at which a delay of
  \<open>Systick\<close> ends.\<close>

record ('f, 'r, 'c, 'k, 'q, 'h, 'i, 'n, 't, 'd) stm_env =
  en_host :: "('f, 'r, 'c, 'k, 'q) host"
  en_net :: "('h, 'i, 'n) stm_net"
  en_timer_ch :: "(timer_msg, 't) channel_ops"
  en_packet_ch :: "('i packet_id_msg, 'd) channel_ops"
  en_deadline :: "nat \<Rightarrow> nat \<Rightarrow> nat"

definition stm_port_new ::
  "'t \<Rightarrow> 'd \<Rightarrow> 'h \<Rightarrow> 'h \<Rightarrow> ('r, 'c, 'k, 'q) bmca_port \<Rightarrow> ('r, 'c, 'k, 'q, 'h, 't, 'd) stm_port" where
  "stm_port_new timer_sender packet_id_sender event_socket general_socket state = \<lparr>
     xp_timer_sender = timer_sender,
     xp_packet_id_sender = packet_id_sender,
     xp_event_socket = event_socket,
     xp_general_socket = general_socket,
     xp_state = XS_InBmca state\<rparr>"

definition stm_event_to :: socket_addr_v4 where
  "stm_event_to = \<lparr>v4_ip = [224, 0, 1, 129], v4_port = 319\<rparr>"

definition stm_general_to :: socket_addr_v4 where
  "stm_general_to = \<lparr>v4_ip = [224, 0, 1, 129], v4_port = 320\<rparr>"

definition stm_send_timer ::
  "('f, 'r, 'c, 'k, 'q, 'h, 'i, 'n, 't, 'd) stm_env \<Rightarrow> timer_msg \<Rightarrow>
   ('r, 'c, 'k, 'q, 'h, 't, 'd) stm_port \<times> 'n \<Rightarrow> (('r, 'c, 'k, 'q, 'h, 't, 'd) stm_port \<times> 'n) res" where
  "stm_send_timer env m = (\<lambda>(p, net).
     case ch_try_send (en_timer_ch env) m (xp_timer_sender p) of
       None \<Rightarrow> panic
     | Some ch \<Rightarrow> Ok (p\<lparr>xp_timer_sender := ch\<rparr>, net))"

definition stm_handle_action ::
  "('f, 'r, 'c, 'k, 'q, 'h, 'i, 'n, 't, 'd) stm_env \<Rightarrow> port_action \<Rightarrow>
   ('r, 'c, 'k, 'q, 'h, 't, 'd) stm_port \<times> 'n \<Rightarrow> (('r, 'c, 'k, 'q, 'h, 't, 'd) stm_port \<times> 'n) res" where
  "stm_handle_action env action = (\<lambda>(p, net).
     case action of
       SendEvent context data link_local \<Rightarrow>
         (case stm_send (en_net env) (xp_event_socket p) stm_event_to data net of
            (Inr pid, net') \<Rightarrow>
              (case ch_try_send (en_packet_ch env) (context, pid) (xp_packet_id_sender p) of
                 None \<Rightarrow> panic
               | Some ch \<Rightarrow> Ok (p\<lparr>xp_packet_id_sender := ch\<rparr>, net'))
          | (Inl e, net') \<Rightarrow> Ok (p, net'))
     | SendGeneral data link_local \<Rightarrow>
         Ok (p, snd (stm_send (en_net env) (xp_general_socket p) stm_general_to data net))
     | ResetAnnounceTimer duration \<Rightarrow> stm_send_timer env (TN_Announce, duration) (p, net)
     | ResetSyncTimer duration \<Rightarrow> stm_send_timer env (TN_Sync, duration) (p, net)
     | ResetDelayRequestTimer duration \<Rightarrow> stm_send_timer env (TN_DelayRequest, duration) (p, net)
     | ResetAnnounceReceiptTimer duration \<Rightarrow> stm_send_timer env (TN_AnnounceReceipt, duration) (p, net)
     | ResetFilterUpdateTimer duration \<Rightarrow> stm_send_timer env (TN_FilterUpdate, duration) (p, net)
     | ForwardTLV tlv \<Rightarrow> Ok (p, net))"

fun stm_handle_list ::
  "('f, 'r, 'c, 'k, 'q, 'h, 'i, 'n, 't, 'd) stm_env \<Rightarrow> port_action list \<Rightarrow>
   ('r, 'c, 'k, 'q, 'h, 't, 'd) stm_port \<times> 'n \<Rightarrow> (('r, 'c, 'k, 'q, 'h, 't, 'd) stm_port \<times> 'n) res" where
  "stm_handle_list env [] pn = Ok pn"
| "stm_handle_list env (a # as) pn = andthen (stm_handle_action env a pn) (stm_handle_list env as)"

definition handle_port_actions ::
  "('f, 'r, 'c, 'k, 'q, 'h, 'i, 'n, 't, 'd) stm_env \<Rightarrow> port_action_iterator \<Rightarrow>
   ('r, 'c, 'k, 'q, 'h, 't, 'd) stm_port \<Rightarrow> 'n \<Rightarrow> (('r, 'c, 'k, 'q, 'h, 't, 'd) stm_port \<times> 'n) res" where
  "handle_port_actions env acts p net =
     andthen (drain acts) (\<lambda>as. stm_handle_list env as (p, net))"

section \<open>The calls\<close>

text \<open>What the calls share: the end of a call, which puts the running port back, and the whole.\<close>

type_synonym ('r, 'c, 'k, 'q) port_call =
  "('r, 'c, 'k, 'q) running_port \<Rightarrow> (ptp_instance_state \<times> ('r, 'c, 'k, 'q) running_port \<times> port_action_iterator) res"

type_synonym ('r, 'c, 'k, 'q, 'h, 't, 'd, 'n) stm_result =
  "(ptp_instance_state \<times> ('r, 'c, 'k, 'q, 'h, 't, 'd) stm_port \<times> 'n) res"

definition stm_finish ::
  "('f, 'r, 'c, 'k, 'q, 'h, 'i, 'n, 't, 'd) stm_env \<Rightarrow>
   ptp_instance_state \<times> ('r, 'c, 'k, 'q) running_port \<times> port_action_iterator \<Rightarrow>
   ('r, 'c, 'k, 'q, 'h, 't, 'd) stm_port \<Rightarrow> 'n \<Rightarrow> ('r, 'c, 'k, 'q, 'h, 't, 'd, 'n) stm_result" where
  "stm_finish env = (\<lambda>(state, running_port_state, acts) p net.
     andthen (handle_port_actions env acts p net) (\<lambda>(p', net').
     andthen (set_running running_port_state (xp_state p')) (\<lambda>s.
     Ok (state, p'\<lparr>xp_state := s\<rparr>, net'))))"

definition stm_call ::
  "('f, 'r, 'c, 'k, 'q, 'h, 'i, 'n, 't, 'd) stm_env \<Rightarrow> ('r, 'c, 'k, 'q) port_call \<Rightarrow>
   ('r, 'c, 'k, 'q, 'h, 't, 'd) stm_port \<Rightarrow> 'n \<Rightarrow> ('r, 'c, 'k, 'q, 'h, 't, 'd, 'n) stm_result" where
  "stm_call env call p net =
     andthen (take_running (xp_state p)) (\<lambda>(running_port_state, s).
     andthen (call running_port_state) (\<lambda>r. stm_finish env r (p\<lparr>xp_state := s\<rparr>) net))"

definition stm_handle_event_receive ::
  "('f, 'r, 'c, 'k, 'q, 'h, 'i, 'n, 't, 'd) stm_env \<Rightarrow> bytes \<Rightarrow> time \<Rightarrow> ptp_instance_state \<Rightarrow>
   ('r, 'c, 'k, 'q, 'h, 't, 'd) stm_port \<Rightarrow> 'n \<Rightarrow> ('r, 'c, 'k, 'q, 'h, 't, 'd, 'n) stm_result" where
  "stm_handle_event_receive env data timestamp state =
     stm_call env (handle_event_receive (en_host env) data timestamp state)"

definition stm_handle_general_receive ::
  "('f, 'r, 'c, 'k, 'q, 'h, 'i, 'n, 't, 'd) stm_env \<Rightarrow> bytes \<Rightarrow> ptp_instance_state \<Rightarrow>
   ('r, 'c, 'k, 'q, 'h, 't, 'd) stm_port \<Rightarrow> 'n \<Rightarrow> ('r, 'c, 'k, 'q, 'h, 't, 'd, 'n) stm_result" where
  "stm_handle_general_receive env data state =
     stm_call env (handle_general_receive (en_host env) data state)"

definition stm_handle_send_timestamp ::
  "('f, 'r, 'c, 'k, 'q, 'h, 'i, 'n, 't, 'd) stm_env \<Rightarrow> timestamp_context \<Rightarrow> time \<Rightarrow> ptp_instance_state \<Rightarrow>
   ('r, 'c, 'k, 'q, 'h, 't, 'd) stm_port \<Rightarrow> 'n \<Rightarrow> ('r, 'c, 'k, 'q, 'h, 't, 'd, 'n) stm_result" where
  "stm_handle_send_timestamp env context timestamp state =
     stm_call env (\<lambda>p. keep_state state (handle_send_timestamp (en_host env) context timestamp state p))"

text \<open>The loop over forwarded TLVs makes the announce timer partial.\<close>

definition stm_timer_call ::
  "('f, 'r, 'c, 'k, 'q) host \<Rightarrow> timer_name \<Rightarrow> ptp_instance_state \<Rightarrow> ('r, 'c, 'k, 'q) running_port \<Rightarrow>
   (ptp_instance_state \<times> ('r, 'c, 'k, 'q) running_port \<times> port_action_iterator) res option" where
  "stm_timer_call host timer state p =
     (case timer of
        TN_Announce \<Rightarrow>
          map_option (\<lambda>r. keep_state state (andthen r (\<lambda>(s, p', acts). Ok (p', acts))))
            (handle_announce_timer host no_forwarded_tlvs state () p)
      | TN_Sync \<Rightarrow> Some (keep_state state (handle_sync_timer host state p))
      | TN_DelayRequest \<Rightarrow> Some (keep_state state (handle_delay_request_timer host state p))
      | TN_AnnounceReceipt \<Rightarrow> Some (keep_state state (handle_announce_receipt_timer host state p))
      | TN_FilterUpdate \<Rightarrow> Some (keep_state state (handle_filter_update_timer host p)))"

definition stm_handle_timer ::
  "('f, 'r, 'c, 'k, 'q, 'h, 'i, 'n, 't, 'd) stm_env \<Rightarrow> timer_name \<Rightarrow> ptp_instance_state \<Rightarrow>
   ('r, 'c, 'k, 'q, 'h, 't, 'd) stm_port \<Rightarrow> 'n \<Rightarrow> ('r, 'c, 'k, 'q, 'h, 't, 'd, 'n) stm_result option" where
  "stm_handle_timer env timer state p net =
     (case take_running (xp_state p) of
        Inl e \<Rightarrow> Some (Inl e)
      | Inr (running_port_state, s) \<Rightarrow>
          map_option (\<lambda>r. andthen r (\<lambda>r. stm_finish env r (p\<lparr>xp_state := s\<rparr>) net))
            (stm_timer_call (en_host env) timer state running_port_state))"

text \<open>The closure \<open>f\<close> of \<open>perform_bmca\<close> changes the port and, beside it, a value \<open>'x\<close>.\<close>

definition perform_bmca ::
  "('f, 'r, 'c, 'k, 'q, 'h, 'i, 'n, 't, 'd) stm_env \<Rightarrow>
   (('r, 'c, 'k, 'q) bmca_port \<Rightarrow> ('x \<times> ('r, 'c, 'k, 'q) bmca_port) res) \<Rightarrow>
   ('r, 'c, 'k, 'q, 'h, 't, 'd) stm_port \<Rightarrow> 'n \<Rightarrow> ('x \<times> ('r, 'c, 'k, 'q, 'h, 't, 'd) stm_port \<times> 'n) res" where
  "perform_bmca env f p net =
     andthen (make_bmca_mode (xp_state p)) (\<lambda>(bmca_state, s).
     andthen (f bmca_state) (\<lambda>(x, bmca_state').
     andthen (make_running (XS_InBmca bmca_state')) (\<lambda>(s', acts).
     andthen (handle_port_actions env acts (p\<lparr>xp_state := s'\<rparr>) net) (\<lambda>(p', net').
     Ok (x, p', net')))))"

section \<open>Setup\<close>

text \<open>The configuration; \<open>clock\<close> is the \<open>PtpClock\<close> of the peripheral and \<open>filter_config\<close> the
  default configuration of the filter.\<close>

definition stm_instance_config :: "clock_identity \<Rightarrow> instance_config" where
  "stm_instance_config clock_identity = \<lparr>
     ic_clock_identity = clock_identity,
     ic_priority_1 = 128,
     ic_priority_2 = 128,
     ic_domain_number = 0,
     ic_sdo_id = 0,
     ic_slave_only = False,
     ic_path_trace = False,
     ic_clock_quality = clock_quality_default\<rparr>"

definition stm_port_config :: port_config where
  "stm_port_config = \<lparr>
     pc_acceptable_master_list = accept_any_master,
     pc_delay_mechanism = E2E 0,
     pc_announce_interval = 1,
     pc_announce_receipt_timeout = 3,
     pc_sync_interval = 0,
     pc_master_only = False,
     pc_delay_asymmetry = duration_ZERO,
     pc_minor_ptp_version = PMV_One\<rparr>"

definition setup_statime ::
  "('f, 'r, 'c, 'k, 'q) host \<Rightarrow> 'k \<Rightarrow> 'c \<Rightarrow> bytes \<Rightarrow> 'r \<Rightarrow> (ptp_instance \<times> ('r, 'c, 'k, 'q) bmca_port) res" where
  "setup_statime host filter_config ptp_clock mac_address rng =
     andthen (clock_identity_from_mac_address mac_address) (\<lambda>clock_identity.
     let ptp_instance = ptp_instance_new (stm_instance_config clock_identity)
           (new_arbitrary_time False False TS_InternalOscillator)
     in add_port host stm_port_config filter_config ptp_clock rng ptp_instance)"

section \<open>What the actions of a call do to the channels\<close>

fun reset_of :: "port_action \<Rightarrow> timer_msg option" where
  "reset_of (ResetAnnounceTimer d) = Some (TN_Announce, d)"
| "reset_of (ResetSyncTimer d) = Some (TN_Sync, d)"
| "reset_of (ResetDelayRequestTimer d) = Some (TN_DelayRequest, d)"
| "reset_of (ResetAnnounceReceiptTimer d) = Some (TN_AnnounceReceipt, d)"
| "reset_of (ResetFilterUpdateTimer d) = Some (TN_FilterUpdate, d)"
| "reset_of _ = None"

definition resets :: "port_action list \<Rightarrow> timer_msg list" where
  "resets as = List.map_filter reset_of as"

definition event_sends :: "port_action list \<Rightarrow> nat" where
  "event_sends as = length (filter is_event_send as)"

lemma resets_simps [simp]:
  "resets [] = []"
  "resets (a # as) = (case reset_of a of None \<Rightarrow> resets as | Some m \<Rightarrow> m # resets as)"
  "resets (as @ bs) = resets as @ resets bs"
  by (simp_all add: resets_def List.map_filter_def split: option.split)

lemma event_sends_simps [simp]:
  "event_sends [] = 0"
  "event_sends (a # as) = (if is_event_send a then Suc (event_sends as) else event_sends as)"
  by (simp_all add: event_sends_def)

lemma forwards_nothing: "resets (forwards s ts) = []" "event_sends (forwards s ts) = 0"
  by (auto simp: forwards_def resets_def event_sends_def List.map_filter_def filter_empty_conv)

lemma resets_le: "length (resets as) \<le> length as"
  by (induction as) (auto split: option.split)

text \<open>The actions \<open>as\<close> have been handled: the resets are queued in their order.\<close>

definition handled_to ::
  "('t \<Rightarrow> timer_msg list) \<Rightarrow> ('d \<Rightarrow> 'i packet_id_msg list) \<Rightarrow> port_action list \<Rightarrow>
   ('r, 'c, 'k, 'q, 'h, 't, 'd) stm_port \<Rightarrow> ('r, 'c, 'k, 'q, 'h, 't, 'd) stm_port \<Rightarrow> bool" where
  "handled_to tq dq as p p' \<longleftrightarrow> xp_state p' = xp_state p \<and> xp_event_socket p' = xp_event_socket p
     \<and> xp_general_socket p' = xp_general_socket p
     \<and> tq (xp_timer_sender p') = tq (xp_timer_sender p) @ resets as
     \<and> (length (tq (xp_timer_sender p)) \<le> 4 \<longrightarrow> length (tq (xp_timer_sender p')) \<le> 4)
     \<and> (length (dq (xp_packet_id_sender p)) \<le> 16 \<longrightarrow> length (dq (xp_packet_id_sender p')) \<le> 16)
     \<and> (\<exists>es. dq (xp_packet_id_sender p') = dq (xp_packet_id_sender p) @ es \<and> length es \<le> event_sends as
          \<and> (list_all fits as \<longrightarrow> list_all (wf_context \<circ> fst) es))"

lemma handled_to_trans: "handled_to tq dq [a] p q \<Longrightarrow> handled_to tq dq as q r \<Longrightarrow> handled_to tq dq (a # as) p r"
  unfolding handled_to_def
  by (elim conjE exE, intro conjI exI [of _ "_ @ _"]) (auto split: option.splits if_splits)

text \<open>The two channels of the application.\<close>

locale stm_channels =
  timer: bounded_channel "en_timer_ch env" 4 tq + packet: bounded_channel "en_packet_ch env" 16 dq
  for env :: "('f, 'r, 'c, 'k, 'q, 'h, 'i, 'n, 't, 'd) stm_env" and tq :: "'t \<Rightarrow> timer_msg list"
    and dq :: "'d \<Rightarrow> 'i packet_id_msg list"
begin

lemma send_timer_cases:
  "length (tq (xp_timer_sender p)) < 4 \<and> (\<exists>ch. stm_send_timer env m (p, net) = Ok (p\<lparr>xp_timer_sender := ch\<rparr>, net)
      \<and> tq ch = tq (xp_timer_sender p) @ [m])
    \<or> 4 \<le> length (tq (xp_timer_sender p)) \<and> stm_send_timer env m (p, net) = panic"
  using timer.accepts [of "xp_timer_sender p" m] timer.refuses [of "xp_timer_sender p" m]
  by (cases "length (tq (xp_timer_sender p)) < 4") (auto simp: stm_send_timer_def)

lemma send_event_cases:
  "(\<exists>net'. stm_handle_action env (SendEvent c data l) (p, net) = Ok (p, net'))
    \<or> length (dq (xp_packet_id_sender p)) < 16
      \<and> (\<exists>ch pid net'. stm_handle_action env (SendEvent c data l) (p, net) = Ok (p\<lparr>xp_packet_id_sender := ch\<rparr>, net')
          \<and> dq ch = dq (xp_packet_id_sender p) @ [(c, pid)])
    \<or> 16 \<le> length (dq (xp_packet_id_sender p)) \<and> stm_handle_action env (SendEvent c data l) (p, net) = panic"
proof (cases "stm_send (en_net env) (xp_event_socket p) stm_event_to data net")
  case (Pair r net')
  show ?thesis
  proof (cases r)
    case (Inr pid)
    then show ?thesis
      using Pair packet.accepts [of "xp_packet_id_sender p" "(c, pid)"] packet.refuses [of "xp_packet_id_sender p" "(c, pid)"]
      by (cases "length (dq (xp_packet_id_sender p)) < 16") (auto simp: stm_handle_action_def)
  qed (use Pair in \<open>simp add: stm_handle_action_def\<close>)
qed

lemma other_action:
  "reset_of a = None \<Longrightarrow> \<not> is_event_send a \<Longrightarrow> \<exists>net'. stm_handle_action env a (p, net) = Ok (p, net')"
  by (cases a) (simp_all add: stm_handle_action_def)

lemma reset_action: "reset_of a = Some m \<Longrightarrow> stm_handle_action env a (p, net) = stm_send_timer env m (p, net) \<and> \<not> is_event_send a"
  by (cases a) (auto simp: stm_handle_action_def)

lemma handle_action_Ok:
  assumes "stm_handle_action env a (p, net) = Inr (p', net')"
  shows "handled_to tq dq [a] p p'"
proof (cases "reset_of a")
  case (Some m)
  then show ?thesis
    using assms send_timer_cases [of p m net] reset_action [OF Some] by (auto simp: handled_to_def)
next
  case None
  show ?thesis
  proof (cases a)
    case (SendEvent c data l)
    then show ?thesis using assms send_event_cases [of c data l p net] by (auto simp: handled_to_def)
  qed (use assms None other_action [of a p net] in \<open>auto simp: handled_to_def\<close>)
qed

lemma handle_action_returns:
  assumes "reset_of a \<noteq> None \<longrightarrow> length (tq (xp_timer_sender p)) < 4"
    and "is_event_send a \<longrightarrow> length (dq (xp_packet_id_sender p)) < 16"
  shows "\<exists>p' net'. stm_handle_action env a (p, net) = Inr (p', net')"
proof (cases "reset_of a")
  case (Some m)
  then show ?thesis using send_timer_cases [of p m net] reset_action [OF Some] assms(1) by auto
next
  case None
  show ?thesis
  proof (cases a)
    case (SendEvent c data l)
    then show ?thesis using assms(2) send_event_cases [of c data l p net] by auto
  qed (use None other_action [of a p net] in auto)
qed

lemma handle_list_Ok:
  "stm_handle_list env as (p, net) = Inr (p', net') \<Longrightarrow> handled_to tq dq as p p'"
proof (induction as arbitrary: p net)
  case (Cons a as)
  then obtain q net1 where "stm_handle_action env a (p, net) = Inr (q, net1)" "stm_handle_list env as (q, net1) = Inr (p', net')"
    by auto
  then show ?case using Cons.IH handled_to_trans handle_action_Ok by blast
qed (simp add: handled_to_def)

lemma handle_list_returns:
  assumes "length (tq (xp_timer_sender p)) + length (resets as) \<le> 4"
    and "length (dq (xp_packet_id_sender p)) + event_sends as \<le> 16"
  shows "\<exists>p' net'. stm_handle_list env as (p, net) = Inr (p', net')"
  using assms
proof (induction as arbitrary: p net)
  case (Cons a as)
  have "\<exists>q net1. stm_handle_action env a (p, net) = Inr (q, net1)"
    by (rule handle_action_returns) (use Cons.prems in \<open>auto split: option.splits\<close>)
  then obtain q net1 where q: "stm_handle_action env a (p, net) = Inr (q, net1)" by blast
  have "\<exists>p' net'. stm_handle_list env as (q, net1) = Inr (p', net')"
    by (rule Cons.IH) (use handle_action_Ok [OF q] Cons.prems in \<open>auto simp: handled_to_def split: option.splits if_splits\<close>)
  with q show ?case by simp
qed simp

lemma handle_list_error: "stm_handle_list env as pn = Inl e \<Longrightarrow> e = Panic"
proof (induction as arbitrary: pn)
  case (Cons a as)
  have "e = Panic" if "stm_handle_action env a pn = Inl e"
    using that by (cases a; cases pn) (auto simp: stm_handle_action_def stm_send_timer_def split: prod.splits sum.splits option.splits)
  then show ?case using Cons by (auto simp: andthen_eq_Inl)
qed simp

end

text \<open>The actions of a call of the library: the resets of the iterator, and nothing for the TLVs.\<close>

lemma drain_good:
  assumes "good_actions p acts"
  obtains as where "drain acts = Ok as" "resets as = resets (ai_internal acts)" "event_sends as \<le> 1" "list_all fits as"
proof -
  obtain ts where ts: "wf_tlvs ts" "ai_tlvs acts = tlvs_enc ts"
    using assms tlvs_wf by (auto simp: good_actions_def)
  let ?as = "ai_internal acts @ forwards (ai_sender_identity acts) ts"
  have "drain acts = Ok ?as"
    using drain_eq [OF ts(1), of "ai_internal acts" "ai_sender_identity acts"] ts(2) by (cases acts) simp
  moreover have "is_send a" if "is_event_send a" for a using that by (cases a) simp_all
  then have "length (filter is_event_send xs) \<le> length (filter is_send xs)" for xs
    by (induction xs) auto
  then have "event_sends ?as \<le> 1"
    using assms forwards_nothing(2) [of "ai_sender_identity acts" ts]
    by (auto simp: good_actions_def event_sends_def intro: le_trans)
  moreover have "list_all fits ?as"
    using assms by (auto simp: good_actions_def forwards_def list_all_iff intro: sane_fits)
  ultimately show ?thesis by (intro that [of ?as]) (simp_all add: forwards_nothing)
qed

lemma good_resets: "good_actions p acts \<Longrightarrow> length (resets (ai_internal acts)) \<le> 2"
  using resets_le [of "ai_internal acts"] by (simp add: good_actions_def MAX_ACTIONS_def)

text \<open>What a call leaves behind: the resets of its actions at the end of the timer channel, and at
  most one identifier of a sent packet at the end of the other.\<close>

definition queued_by ::
  "('t \<Rightarrow> timer_msg list) \<Rightarrow> ('d \<Rightarrow> 'i packet_id_msg list) \<Rightarrow> timer_msg list \<Rightarrow>
   ('r, 'c, 'k, 'q, 'h, 't, 'd) stm_port \<Rightarrow> ('r, 'c, 'k, 'q, 'h, 't, 'd) stm_port \<Rightarrow> bool" where
  "queued_by tq dq ms p p' \<longleftrightarrow> xp_event_socket p' = xp_event_socket p \<and> xp_general_socket p' = xp_general_socket p
     \<and> tq (xp_timer_sender p') = tq (xp_timer_sender p) @ ms
     \<and> (length (tq (xp_timer_sender p)) \<le> 4 \<longrightarrow> length (tq (xp_timer_sender p')) \<le> 4)
     \<and> (length (dq (xp_packet_id_sender p)) \<le> 16 \<longrightarrow> length (dq (xp_packet_id_sender p')) \<le> 16)
     \<and> (\<exists>es. dq (xp_packet_id_sender p') = dq (xp_packet_id_sender p) @ es \<and> length es \<le> 1
          \<and> list_all (wf_context \<circ> fst) es)"

definition room :: "('t \<Rightarrow> timer_msg list) \<Rightarrow> ('d \<Rightarrow> 'i packet_id_msg list) \<Rightarrow> ('r, 'c, 'k, 'q, 'h, 't, 'd) stm_port \<Rightarrow> bool" where
  "room tq dq p \<longleftrightarrow> length (tq (xp_timer_sender p)) \<le> 2 \<and> length (dq (xp_packet_id_sender p)) < 16"

lemma room_state [simp]:
  "room tq dq (p\<lparr>xp_state := s\<rparr>) \<longleftrightarrow> room tq dq p"
  "queued_by tq dq ms (p\<lparr>xp_state := s\<rparr>) p' \<longleftrightarrow> queued_by tq dq ms p p'"
  "queued_by tq dq ms p (p'\<lparr>xp_state := s\<rparr>) \<longleftrightarrow> queued_by tq dq ms p p'"
  by (simp_all add: room_def queued_by_def)

context stm_channels
begin

lemma actions_Ok:
  assumes "good_actions q acts" and "handle_port_actions env acts p net = Inr (p', net')"
  shows "queued_by tq dq (resets (ai_internal acts)) p p'" "xp_state p' = xp_state p"
proof -
  obtain as where as: "drain acts = Ok as" "resets as = resets (ai_internal acts)" "event_sends as \<le> 1" "list_all fits as"
    using drain_good [OF assms(1)] by blast
  then have "handled_to tq dq as p p'"
    using assms(2) by (intro handle_list_Ok [of as p net p' net']) (simp add: handle_port_actions_def)
  then show "queued_by tq dq (resets (ai_internal acts)) p p'" "xp_state p' = xp_state p"
    using as(2-4) by (auto simp: handled_to_def queued_by_def)
qed

lemma actions_return:
  assumes "good_actions q acts" and "length (tq (xp_timer_sender p)) + length (resets (ai_internal acts)) \<le> 4"
    and "length (dq (xp_packet_id_sender p)) < 16"
  shows "\<exists>p' net'. handle_port_actions env acts p net = Inr (p', net')"
proof -
  obtain as where as: "drain acts = Ok as" "resets as = resets (ai_internal acts)" "event_sends as \<le> 1"
    using drain_good [OF assms(1)] by blast
  then show ?thesis
    using handle_list_returns [of p as net] assms(2,3) by (simp add: handle_port_actions_def)
qed

lemma outcome_actions:
  assumes "good_actions q acts" and "T \<longrightarrow> room tq dq p"
  shows "outcome T (handle_port_actions env acts p net) (\<lambda>(p', net').
    queued_by tq dq (resets (ai_internal acts)) p p' \<and> xp_state p' = xp_state p)"
proof (rule outcome_call)
  assume T
  then show "\<exists>x. handle_port_actions env acts p net = Inr x"
    using actions_return [OF assms(1), of p net] good_resets [OF assms(1)] assms(2) by (auto simp: room_def)
qed (use actions_Ok [OF assms(1)] in auto)

lemma actions_overflow:
  assumes "good_actions q acts" and "length (tq (xp_timer_sender p)) \<le> 4"
    and "4 < length (tq (xp_timer_sender p)) + length (resets (ai_internal acts))"
  shows "handle_port_actions env acts p net = panic"
proof (cases "handle_port_actions env acts p net")
  case (Inl e)
  obtain as where "drain acts = Ok as" using drain_good [OF assms(1)] by blast
  then show ?thesis using Inl handle_list_error [of as "(p, net)" e] by (simp add: handle_port_actions_def)
next
  case (Inr r)
  obtain p' net' where "r = (p', net')" by (cases r)
  then have "length (tq (xp_timer_sender p')) \<le> 4" "tq (xp_timer_sender p') = tq (xp_timer_sender p) @ resets (ai_internal acts)"
    using actions_Ok(1) [OF assms(1), of p net p' net'] Inr assms(2) by (auto simp: queued_by_def)
  then show ?thesis using assms(3) by simp
qed

end

section \<open>The invariant of the application's port\<close>

text \<open>Between two calls the port is running, or it is the new port in its first run of the best
  master clock algorithm. In both cases it is the only port of a well-formed instance.\<close>

definition stm_ok :: "ptp_instance \<Rightarrow> ('r, 'c, 'k, 'q) stm_state \<Rightarrow> bool" where
  "stm_ok inst s \<longleftrightarrow> in_log_bmca_interval inst = 1 \<and>
     (case s of
        XS_None \<Rightarrow> False
      | XS_Running p \<Rightarrow> instance_inv inst [p] \<and> po_config p = stm_port_config
      | XS_InBmca p \<Rightarrow> ready p \<and> instance_inv inst [fst (end_bmca p)] \<and> po_config p = stm_port_config)"

definition is_running :: "('r, 'c, 'k, 'q) stm_state \<Rightarrow> bool" where
  "is_running s \<longleftrightarrow> (\<exists>p. s = XS_Running p)"

lemma wf_mac_identity:
  assumes "clock_identity_from_mac_address mac = Inr ci"
  shows "wf_default_ds (default_ds_new (stm_instance_config ci))"
proof -
  have "wf_clock_identity ci"
    using assms by (auto simp: clock_identity_from_mac_address_def wf_clock_identity_def put_def split: if_splits)
  then show ?thesis by (simp add: wf_default_ds_def default_ds_new_def stm_instance_config_def)
qed

lemma setup_ok:
  assumes "setup_statime host fc clock mac rng = Inr (inst, p)"
  shows "stm_ok inst (XS_InBmca p)"
proof -
  obtain ci where ci: "clock_identity_from_mac_address mac = Inr ci"
      "add_port host stm_port_config fc clock rng (ptp_instance_new (stm_instance_config ci)
        (new_arbitrary_time False False TS_InternalOscillator)) = Inr (inst, p)"
    using assms by (auto simp: setup_statime_def)
  have "instance_inv inst ([] @ [fst (end_bmca p)])"
    by (rule inv_added [OF reachable_inv [OF reachable.created wf_mac_identity [OF ci(1)]] ci(2)])
  then have inv: "instance_inv inst [fst (end_bmca p)]" by simp
  have p: "po_config p = stm_port_config" "po_peer_delay_state p = PD_Empty" "po_port_state p = PS_Listening"
      "\<exists>d. ib_pending_action (po_lifecycle p) = actions [ResetAnnounceReceiptTimer d]"
      "length (po_packet_buffer p) = MAX_DATA_LEN"
    using ci(2) by (auto simp: add_port_def port_new_def Let_def)
  have "wf_port p" using inv p(5) by (simp add: instance_inv_def end_bmca_def wf_port_def change_lifecycle_def)
  then have "ready p" using p by (auto simp: ready_def settled_def idle_pending_def actions_def MAX_ACTIONS_def)
  moreover have "in_log_bmca_interval inst = 1"
    using ci(2) by (auto simp: add_port_def Let_def stm_port_config_def ptp_instance_new_def)
  ultimately show ?thesis using inv p(1) by (simp add: stm_ok_def)
qed

section \<open>A call\<close>

text \<open>What the library guarantees of a call, in the form the application needs.\<close>

definition called ::
  "ptp_instance_state \<Rightarrow> ('r, 'c, 'k, 'q) running_port \<Rightarrow>
   ptp_instance_state \<times> ('r, 'c, 'k, 'q) running_port \<times> port_action_iterator \<Rightarrow> bool" where
  "called state p = (\<lambda>(state', p', acts). wf_instance_state state' \<and> same_roots state state'
     \<and> wf_port p' \<and> settled p' \<and> same_port p p' \<and> good_actions p' acts
     \<and> (mode p' = mode p \<or> \<not> is_slave_state (po_port_state p')))"

lemma stepped_called: "stepped ev state p r \<Longrightarrow> called state p r"
  by (auto simp: stepped_def called_def is_slave_state_iff transition_to_slave)

lemma called_inv:
  assumes "instance_inv inst [p]" and "called (in_state inst) p (state', p', acts)"
  shows "instance_inv (inst\<lparr>in_state := state'\<rparr>) [p']"
  using inv_update [OF assms(1), of 0 state' p'] assms(2) by (auto simp: called_def)

lemma outcome_announce_call:
  assumes "T \<longrightarrow> host_total host (po_config p)" and "wf_port p" "settled p" "wf_instance_state state"
  obtains r where "handle_announce_timer host no_forwarded_tlvs state () p = Some r"
    "outcome T (keep_state state (andthen r (\<lambda>(s, p', acts). Ok (p', acts)))) (called state p)"
proof -
  obtain r where r: "handle_announce_timer host no_forwarded_tlvs state () p = Some r"
    using no_tlvs.send_announce_returns [of host state "()" p] by (auto simp: handle_announce_timer_def)
  have "outcome T (keep_state state (andthen r (\<lambda>(s, p', acts). Ok (p', acts)))) (called state p)"
  proof (rule outcome_call)
    assume T
    then obtain d where "interval_as_core_duration (ho_num host) (pc_announce_interval (po_config p)) = Ok d"
      using host_totalD(4) assms(1) by blast
    then have "\<exists>x. r = Inr x"
      using r no_tlvs.send_announce_master [OF assms(2,4)]
      by (cases "is_master p") (fastforce simp: handle_announce_timer_def is_master_def send_announce_def)+
    then show "\<exists>x. keep_state state (andthen r (\<lambda>(s, p', acts). Ok (p', acts))) = Inr x"
      by (auto simp: keep_state_def)
  next
    fix x assume "keep_state state (andthen r (\<lambda>(s, p', acts). Ok (p', acts))) = Inr x"
    then obtain p' acts where x: "r = Inr ((), p', acts)" "x = (state, p', acts)" by (auto simp: keep_state_def)
    then have "sent p (p', acts)"
      using send_announce_sent [of host no_forwarded_tlvs state "()" p "()" p' acts] r assms(2,4)
      by (simp add: handle_announce_timer_def)
    then have "stepped EvSyncTimer state p (state, p', acts)" by (rule stepped_sent [OF assms(4,2,3)])
    then show "called state p x" using x stepped_called by simp
  qed
  with r that show ?thesis by blast
qed

lemma outcome_timer_call:
  assumes "T \<longrightarrow> host_total host (po_config p)" and "wf_port p" "settled p" "wf_instance_state state"
  obtains r where "stm_timer_call host timer state p = Some r" "outcome T r (called state p)"
proof (cases "timer = TN_Announce")
  case True
  then show ?thesis using outcome_announce_call [OF assms] that by (auto simp: stm_timer_call_def)
next
  case False
  then obtain ev where ev: "stm_timer_call host timer state p = Some (port_step host ev state p)" "wf_event ev" "short_event ev"
    by (cases timer) (auto simp: stm_timer_call_def intro: that [of EvSyncTimer] that [of EvDelayRequestTimer]
      that [of EvAnnounceReceiptTimer] that [of EvFilterUpdateTimer])
  show ?thesis
    by (rule that [OF ev(1)], rule outcome_mono [OF outcome_step stepped_called]) (use assms ev in auto)
qed

text \<open>The closure that the application passes to \<open>perform_bmca\<close>: a run over the slice of one port.\<close>

definition bmca_closure ::
  "('f, 'r, 'c, 'k, 'q) host \<Rightarrow> ptp_instance \<Rightarrow> ('r, 'c, 'k, 'q) bmca_port \<Rightarrow>
   (ptp_instance \<times> ('r, 'c, 'k, 'q) bmca_port) res" where
  "bmca_closure host ptp_instance bmca_port =
     andthen (instance_bmca host ptp_instance [bmca_port]) (\<lambda>(inst, ports). Ok (inst, hd ports))"

lemma bmca_mode_ok:
  assumes "stm_ok inst s"
  obtains q where "make_bmca_mode s = Ok (q, XS_InBmca q)" "ready q" "instance_inv inst [fst (end_bmca q)]"
    "po_config q = stm_port_config" "in_log_bmca_interval inst = 1"
proof (cases s)
  case (XS_Running p)
  then have p: "instance_inv inst [p]" "po_config p = stm_port_config" "in_log_bmca_interval inst = 1"
    using assms by (simp_all add: stm_ok_def)
  moreover from p(1) have "ready (start_bmca p)" by (auto simp: instance_inv_def intro: ready_start)
  moreover have "instance_inv inst [fst (end_bmca (start_bmca p))]"
    using p(1) one_slave_map [of "[p]" "\<lambda>p. fst (end_bmca (start_bmca p))" "in_state inst"]
    by (simp add: instance_inv_def end_bmca_def wf_change_lifecycle settled_change_lifecycle numbered_def start_bmca_def)
  ultimately show ?thesis using XS_Running that by (simp add: make_bmca_mode_def)
qed (use assms that in \<open>auto simp: stm_ok_def make_bmca_mode_def\<close>)

text \<open>A run of the algorithm on the only port of an instance.\<close>

lemma outcome_closure:
  assumes "T \<longrightarrow> host_total host (po_config q)" and "ready q" and "instance_inv inst [fst (end_bmca q)]"
  shows "outcome T (bmca_closure host inst q) (\<lambda>(inst', q').
    instance_inv inst' [fst (end_bmca q')] \<and> same_port q q' \<and> good_actions q' (snd (end_bmca q'))
    \<and> in_log_bmca_interval inst' = in_log_bmca_interval inst)"
proof -
  let ?R = "\<lambda>state' ports'. \<exists>best_ports ebest. bmca_ran (in_state inst) [q] best_ports ebest state' ports'"
  have wf: "wf_instance_state (in_state inst)" using assms(3) by (simp add: instance_inv_def)
  have run: "outcome T (instance_bmca host inst [q]) (\<lambda>(inst', ports'). ?R (in_state inst') ports'
      \<and> in_log_bmca_interval inst' = in_log_bmca_interval inst)"
    unfolding instance_bmca_def Let_def
    by (rule outcome_bind_pair [where Q = ?R], rule outcome_state_bmca) (use assms wf in auto)
  have "instance_inv inst' [fst (end_bmca q')] \<and> same_port q q' \<and> good_actions q' (snd (end_bmca q'))" "ports' = [q']"
    if r: "bmca_ran (in_state inst) [q] best_ports ebest (in_state inst') ports'" and "q' = hd ports'" for best_ports ebest inst' ports' q'
  proof -
    have ports: "list_all (\<lambda>p. wf_port p \<and> settled p) ports'" "list_all2 same_port [q] ports'"
      by (rule bmca_ran_ports [OF r])+
    then show q': "ports' = [q']" using \<open>q' = hd ports'\<close> by (auto simp: list_all2_Cons1)
    have "one_slave (in_state inst') [q']" using bmca_ran_one_slave [OF r] q' by simp
    then have "one_slave (in_state inst') [fst (end_bmca q')]"
      using one_slave_map [of "[q']" "fst \<circ> end_bmca"] by (simp add: end_bmca_def)
    moreover have "good_actions q' (ib_pending_action (po_lifecycle q'))"
      using r q' by (auto simp: bmca_ran_def list_all2_Cons2 port_ran_def)
    moreover have "numbered (in_state inst') [fst (end_bmca q')]"
      using assms(3) ports(2) q' r by (auto simp: instance_inv_def numbered_def end_bmca_def same_port_def bmca_ran_def)
    ultimately show "instance_inv inst' [fst (end_bmca q')] \<and> same_port q q' \<and> good_actions q' (snd (end_bmca q'))"
      using ports q' r
      by (auto simp: instance_inv_def end_bmca_def bmca_ran_def wf_change_lifecycle settled_change_lifecycle good_actions_def)
  qed
  then show ?thesis
    unfolding bmca_closure_def by (intro outcome_bind_pair [OF run]) auto
qed

text \<open>After a call or a run, the port is running, and has queued at most two timer resets.\<close>

definition stm_kept ::
  "('t \<Rightarrow> timer_msg list) \<Rightarrow> ('d \<Rightarrow> 'i packet_id_msg list) \<Rightarrow> ('r, 'c, 'k, 'q, 'h, 't, 'd) stm_port \<Rightarrow>
   ptp_instance \<Rightarrow> ('r, 'c, 'k, 'q, 'h, 't, 'd) stm_port \<Rightarrow> bool" where
  "stm_kept tq dq p inst' p' \<longleftrightarrow> stm_ok inst' (xp_state p') \<and> is_running (xp_state p')
     \<and> (\<exists>ms. length ms \<le> 2 \<and> queued_by tq dq ms p p')"

lemma good_actions_end: "good_actions q acts \<Longrightarrow> good_actions (fst (end_bmca q)) acts"
  by (simp add: good_actions_def end_bmca_def change_lifecycle_def is_master_def)

context stm_channels
begin

lemma outcome_finish:
  assumes "instance_inv inst [p]" and "po_config p = stm_port_config" and "called (in_state inst) p r"
    and "xp_state xp = XS_None" and "T \<longrightarrow> room tq dq xp"
    and "in_log_bmca_interval inst = 1"
  shows "outcome T (stm_finish env r xp net) (\<lambda>(state', xp', net'). stm_kept tq dq xp (inst\<lparr>in_state := state'\<rparr>) xp')"
proof -
  obtain state' p' acts where r: "r = (state', p', acts)" by (cases r)
  have p': "good_actions p' acts" "po_config p' = stm_port_config"
    using assms(2,3) r by (auto simp: called_def same_port_def)
  have inv: "instance_inv (inst\<lparr>in_state := state'\<rparr>) [p']" by (rule called_inv [OF assms(1) assms(3) [unfolded r]])
  show ?thesis
    unfolding stm_finish_def r prod.case
    by (rule outcome_bind_pair [OF outcome_actions [OF p'(1) assms(5)]])
      (use assms(4,6) inv p'(2) good_resets [OF p'(1)]
        in \<open>auto simp: set_running_def stm_kept_def stm_ok_def is_running_def intro!: exI [of _ "resets (ai_internal acts)"]\<close>)
qed

lemma outcome_stm_call:
  assumes "stm_ok inst (xp_state xp)" and "xp_state xp = XS_Running p"
    and "outcome T (call p) (called (in_state inst) p)" and "T \<longrightarrow> room tq dq xp"
  shows "outcome T (stm_call env call xp net) (\<lambda>(state', xp', net'). stm_kept tq dq xp (inst\<lparr>in_state := state'\<rparr>) xp')"
proof -
  have p: "instance_inv inst [p]" "po_config p = stm_port_config" "in_log_bmca_interval inst = 1"
    using assms(1,2) by (simp_all add: stm_ok_def)
  have "outcome T (andthen (call p) (\<lambda>r. stm_finish env r (xp\<lparr>xp_state := XS_None\<rparr>) net))
      (\<lambda>(state', xp', net'). stm_kept tq dq xp (inst\<lparr>in_state := state'\<rparr>) xp')"
    by (rule outcome_bind [OF assms(3)], rule outcome_mono [OF outcome_finish [OF p(1,2)]])
      (use assms(4) p(3) in \<open>auto simp: stm_kept_def\<close>)
  then show ?thesis using assms(2) by (simp add: stm_call_def take_running_def)
qed

lemma outcome_stm_timer:
  assumes "stm_ok inst (xp_state xp)" and "is_running (xp_state xp)"
    and "T \<longrightarrow> room tq dq xp" and "T \<longrightarrow> host_total (en_host env) stm_port_config"
  obtains r where "stm_handle_timer env timer (in_state inst) xp net = Some r"
    "outcome T r (\<lambda>(state', xp', net'). stm_kept tq dq xp (inst\<lparr>in_state := state'\<rparr>) xp')"
proof -
  obtain p where p: "xp_state xp = XS_Running p" "instance_inv inst [p]" "po_config p = stm_port_config"
    using assms(1,2) by (auto simp: is_running_def stm_ok_def)
  obtain r where r: "stm_timer_call (en_host env) timer (in_state inst) p = Some r" "outcome T r (called (in_state inst) p)"
    using outcome_timer_call [of T "en_host env" p "in_state inst" timer] p assms(4) by (auto simp: instance_inv_def)
  have "stm_handle_timer env timer (in_state inst) xp net = Some (stm_call env (\<lambda>_. r) xp net)"
    using p(1) r(1) by (simp add: stm_handle_timer_def stm_call_def take_running_def)
  then show ?thesis using that outcome_stm_call [OF assms(1) p(1) r(2) assms(3)] by blast
qed

lemma outcome_bmca:
  assumes "stm_ok inst (xp_state xp)" and "T \<longrightarrow> room tq dq xp" and "T \<longrightarrow> host_total (en_host env) stm_port_config"
  shows "outcome T (perform_bmca env (bmca_closure (en_host env) inst) xp net) (\<lambda>(inst', xp', net'). stm_kept tq dq xp inst' xp')"
proof -
  obtain q where q: "make_bmca_mode (xp_state xp) = Ok (q, XS_InBmca q)" "ready q" "instance_inv inst [fst (end_bmca q)]"
      "po_config q = stm_port_config" "in_log_bmca_interval inst = 1"
    by (rule bmca_mode_ok [OF assms(1)])
  have after: "outcome T (andthen (make_running (XS_InBmca q')) (\<lambda>(s', acts).
       andthen (handle_port_actions env acts (xp\<lparr>xp_state := s'\<rparr>) net) (\<lambda>(p', net'). Ok (inst', p', net'))))
      (\<lambda>(inst', xp', net'). stm_kept tq dq xp inst' xp')"
    if *: "instance_inv inst' [fst (end_bmca q')] \<and> same_port q q' \<and> good_actions q' (snd (end_bmca q'))
      \<and> in_log_bmca_interval inst' = in_log_bmca_interval inst" for inst' q'
  proof -
    have "po_config (fst (end_bmca q')) = stm_port_config" using * q(4) by (simp add: same_port_def end_bmca_def change_lifecycle_def)
    then show ?thesis
      using * q(5) good_resets [of q'] outcome_actions [of q' "snd (end_bmca q')" T "xp\<lparr>xp_state := XS_Running (fst (end_bmca q'))\<rparr>" net] assms(2)
      by (cases "end_bmca q'")
        (auto simp: make_running_def stm_kept_def stm_ok_def is_running_def intro!: outcome_bind_pair, blast+)
  qed
  show ?thesis
    unfolding perform_bmca_def q(1) andthen.simps prod.case
    by (rule outcome_bind_pair [OF outcome_closure [OF _ q(2,3)] after]) (use assms(3) q(4) in auto)
qed

end

section \<open>An example application\<close>

text \<open>A network stack that counts packets, accepts every packet, has received nothing, and knows no
  transmit time stamps.\<close>

definition example_stm_net :: "(unit, nat, nat) stm_net" where
  "example_stm_net = \<lparr>
     sn_preempted = (\<lambda>net. net),
     sn_next_packet_id = (\<lambda>net. (net, Suc net)),
     sn_send_slice = (\<lambda>socket data to pid net. (None, net)),
     sn_poll = (\<lambda>net. net),
     sn_recv_slice = (\<lambda>socket len net. (Inl RE_Exhausted, net)),
     sn_rx_timestamp = (\<lambda>pid net. None),
     sn_poll_tx_timestamp = (\<lambda>pid net. (TP_Pending, net))\<rparr>"

definition example_stm_env ::
  "(rat, unit, time_properties_ds option, unit, measurement list, unit, nat, nat, timer_msg list, nat packet_id_msg list) stm_env" where
  "example_stm_env = \<lparr>
     en_host = recording_host, en_net = example_stm_net, en_timer_ch = queue_ops 4, en_packet_ch = queue_ops 16,
     en_deadline = (\<lambda>now ms. now + ms + 1)\<rparr>"

interpretation example_stm: stm_channels example_stm_env "\<lambda>ch. ch" "\<lambda>ch. ch"
  by (simp add: stm_channels_def example_stm_env_def queue.bounded_channel_axioms)

lemma recording_host_stm: "host_total recording_host stm_port_config"
  by (simp add: host_total_def recording_host_def stm_port_config_def interval_as_core_duration_def
    interval_as_f64_def announce_duration_def random_request_delay_def min_delay_req_interval_def
    numlib_ref_def Let_def)

section \<open>Properties\<close>

text \<open>C38: whether the embedded example survives the actions of a call of the library depends on the timer
  channel alone, as long as the other channel has room. A call resets at most two timers. If the
  resets fit into the four places of the channel they are queued in their order; if they do not,
  the example panics.\<close>

theorem stm_timer_channel:
  assumes "stm_channels env tq dq" and "port_step (en_host env) ev state q = Ok (state', q', acts)"
    and "wf_port q" "settled q" "wf_instance_state state" "wf_event ev"
    and "length (tq (xp_timer_sender p)) \<le> 4" and "length (dq (xp_packet_id_sender p)) < 16"
  shows "length (resets (ai_internal acts)) \<le> 2
    \<and> (if length (tq (xp_timer_sender p)) + length (resets (ai_internal acts)) \<le> 4
       then \<exists>p' net'. handle_port_actions env acts p net = Ok (p', net')
         \<and> tq (xp_timer_sender p') = tq (xp_timer_sender p) @ resets (ai_internal acts) \<and> xp_state p' = xp_state p
       else handle_port_actions env acts p net = panic)"
proof -
  have "stepped ev state q (state', q', acts)"
    using outcome_OkD [OF outcome_step [of False "en_host env" q ev state] assms(2)] assms(3-6) by simp
  then have good: "good_actions q' acts" by (simp add: stepped_def)
  have "\<exists>p' net'. handle_port_actions env acts p net = Ok (p', net')
      \<and> tq (xp_timer_sender p') = tq (xp_timer_sender p) @ resets (ai_internal acts) \<and> xp_state p' = xp_state p"
    if fit: "length (tq (xp_timer_sender p)) + length (resets (ai_internal acts)) \<le> 4"
  proof -
    obtain p' net' where p': "handle_port_actions env acts p net = Inr (p', net')"
      using stm_channels.actions_return [OF assms(1) good fit assms(8)] by blast
    then show ?thesis using stm_channels.actions_Ok [OF assms(1) good p'] by (auto simp: queued_by_def)
  qed
  moreover have "handle_port_actions env acts p net = panic"
    if "\<not> length (tq (xp_timer_sender p)) + length (resets (ai_internal acts)) \<le> 4"
    using stm_channels.actions_overflow [OF assms(1) good assms(7)] that by simp
  ultimately show ?thesis using good_resets [OF good] by simp
qed

text \<open>Three resets are queued when the announce receipt timer makes the port a master.\<close>

theorem stm_timer_channel_witness:
  "handle_port_actions example_stm_env (actions [ResetAnnounceTimer 0, ResetSyncTimer 0])
     \<lparr>xp_timer_sender = [(TN_FilterUpdate, 5), (TN_FilterUpdate, 6), (TN_FilterUpdate, 7)], xp_packet_id_sender = [],
      xp_event_socket = (), xp_general_socket = (), xp_state = XS_None\<rparr> (0 :: nat) = panic"
proof -
  have "port_step (en_host example_stm_env) EvAnnounceReceiptTimer (example_state False) (example_port PS_Listening PD_Empty)
      = Ok (example_state False, example_port PS_Master PD_Empty, actions [ResetAnnounceTimer 0, ResetSyncTimer 0])"
    by (simp add: example_stm_env_def keep_state_def handle_announce_receipt_timer_def set_forced_port_state_def
      example_state_def example_port_def Let_def)
  from stm_timer_channel [OF example_stm.stm_channels_axioms this wf_example_port settled_example(1) wf_example_state, of
      "\<lparr>xp_timer_sender = [(TN_FilterUpdate, 5), (TN_FilterUpdate, 6), (TN_FilterUpdate, 7)], xp_packet_id_sender = [],
      xp_event_socket = (), xp_general_socket = (), xp_state = XS_None\<rparr>" 0]
  show ?thesis by (simp add: actions_def)
qed

end
