(* ===== verification/Stm32Clock.thy ===== *)
theory Stm32Clock
  imports LinuxClock
begin

text \<open>
  \<open>statime-stm32/src/ptp_clock.rs\<close>: the clock of the Ethernet peripheral as \<open>Clock\<close>. The
  peripheral and the casts of the \<open>az\<close> crate are the parameter \<open>ptp_lib\<close>. A time stamp of the
  peripheral is the 64 bits of an \<open>I33F31\<close> number of seconds. The critical section that guards
  the peripheral makes every access one step on its state \<open>'e\<close>.
\<close>

section \<open>The clock\<close>

text \<open>\<open>ep_cast_I33F31 r\<close> is the cast of \<open>r\<close> units of \<open>2 ^ -31\<close> seconds, \<open>ep_cast_u32\<close> the
  saturating cast, which panics on a NaN.\<close>

record ('e, 'f) ptp_lib =
  ep_addend :: "'e \<Rightarrow> u32"
  ep_get_time :: "'e \<Rightarrow> i64"
  ep_update_time :: "i64 \<Rightarrow> 'e \<Rightarrow> 'e"
  ep_set_addend :: "u32 \<Rightarrow> 'e \<Rightarrow> 'e"
  ep_cast_I33F31 :: "int \<Rightarrow> i64"
  ep_cast_u32 :: "'f \<Rightarrow> u32 res"

record ('e, 'f) ptp_clock =
  pk_inner :: 'e
  pk_addend_starter_frequency :: 'f

definition ptp_clock_new :: "'f floatlib \<Rightarrow> ('e, 'f) ptp_lib \<Rightarrow> 'e \<Rightarrow> ('e, 'f) ptp_clock" where
  "ptp_clock_new fl ep ethernet_ptp =
     (let start_addend = ep_addend ep ethernet_ptp in
      \<lparr>pk_inner = ethernet_ptp,
       pk_addend_starter_frequency =
         fl_div fl (f_of_int (fl_num fl) (2 ^ 32 - 1)) (f_of_int (fl_num fl) (uint start_addend))\<rparr>)"

definition ptp_clock_access :: "('e \<Rightarrow> 'e) \<Rightarrow> ('e, 'f) ptp_clock \<Rightarrow> ('e, 'f) ptp_clock" where
  "ptp_clock_access f c = c\<lparr>pk_inner := f (pk_inner c)\<rparr>"

text \<open>The product of a fixed-point number and an integer is a product of the bits.\<close>

definition stm_time_to_statime :: "'f numlib \<Rightarrow> i64 \<Rightarrow> time" where
  "stm_time_to_statime lib timestamp =
     (let seconds = fx_fit lib U96F32 (sint timestamp * 2)
      in fx_fit lib U96F32 (seconds * 1000000000))"

definition ptp_clock_now :: "'f numlib \<Rightarrow> ('e, 'f) ptp_lib \<Rightarrow> ('e, 'f) ptp_clock \<Rightarrow> time" where
  "ptp_clock_now lib ep c = stm_time_to_statime lib (ep_get_time ep (pk_inner c))"

text \<open>The quotient of a fixed-point number and an integer is the quotient of the bits, towards zero;
  the cast to \<open>I33F31\<close> drops the last of the 32 fractional bits.\<close>

definition ptp_clock_step_clock ::
  "'f numlib \<Rightarrow> ('e, 'f) ptp_lib \<Rightarrow> duration \<Rightarrow> ('e, 'f) ptp_clock \<Rightarrow> time option \<times> ('e, 'f) ptp_clock" where
  "ptp_clock_step_clock lib ep offset c =
     (let seconds = trunc_div offset 1000000000;
          c' = ptp_clock_access (ep_update_time ep (ep_cast_I33F31 ep (seconds div 2))) c
      in (Some (ptp_clock_now lib ep c'), c'))"

definition ptp_clock_set_frequency ::
  "'f floatlib \<Rightarrow> ('e, 'f) ptp_lib \<Rightarrow> 'f \<Rightarrow> ('e, 'f) ptp_clock \<Rightarrow> (time option \<times> ('e, 'f) ptp_clock) res" where
  "ptp_clock_set_frequency fl ep ppm c =
     (let freq = fadd fl (fl_lit fl 1) (fl_div fl ppm (fl_lit fl 1000000));
          total_frequency = fl_div fl (pk_addend_starter_frequency c) freq;
          addend = fl_div fl (f_of_int (fl_num fl) (2 ^ 32 - 1)) total_frequency
      in andthen (ep_cast_u32 ep addend) (\<lambda>addend.
         let c' = ptp_clock_access (ep_set_addend ep addend) c
         in Ok (Some (ptp_clock_now (fl_num fl) ep c'), c')))"

definition ptp_clock_set_properties ::
  "time_properties_ds \<Rightarrow> ('e, 'f) ptp_clock \<Rightarrow> bool \<times> ('e, 'f) ptp_clock" where
  "ptp_clock_set_properties time_properties_ds c = (True, c)"

section \<open>The peripheral\<close>

text \<open>Its documented behaviour: an update adds a signed number of time units to the clock, a write of
  the addend is what is read afterwards, and neither changes the other. A cast of a representable value is exact.\<close>

locale eth_ptp =
  fixes ep :: "('e, 'f) ptp_lib"
  assumes time_updated: "ep_get_time ep (ep_update_time ep r e) = ep_get_time ep e + r"
    and addend_updated: "ep_addend ep (ep_update_time ep r e) = ep_addend ep e"
    and addend_set: "ep_addend ep (ep_set_addend ep a e) = a"
    and time_kept: "ep_get_time ep (ep_set_addend ep a e) = ep_get_time ep e"
    and cast_exact: "- (2 ^ 63) \<le> n \<Longrightarrow> n < 2 ^ 63 \<Longrightarrow> ep_cast_I33F31 ep n = word_of_int n"

text \<open>Casts of real numbers: truncation, then saturation.\<close>

definition real_cast_u32 :: "real \<Rightarrow> u32 res" where
  "real_cast_u32 x = Ok (word_of_int (max 0 (min (2 ^ 32 - 1) (if 0 \<le> x then \<lfloor>x\<rfloor> else \<lceil>x\<rceil>))))"

type_synonym sim_ptp = "u32 \<times> i64"

definition sim_ptp_lib :: "(sim_ptp, real) ptp_lib" where
  "sim_ptp_lib = \<lparr>
     ep_addend = fst, ep_get_time = snd,
     ep_update_time = (\<lambda>r e. (fst e, snd e + r)),
     ep_set_addend = (\<lambda>a e. (a, snd e)),
     ep_cast_I33F31 = word_of_int,
     ep_cast_u32 = real_cast_u32\<rparr>"

interpretation sim_ptp: eth_ptp sim_ptp_lib
  by unfold_locales (simp_all add: sim_ptp_lib_def)

section \<open>Conversions\<close>

lemma sint_i64_range: "- (2 ^ 63) \<le> sint (x :: i64)" "sint (x :: i64) < 2 ^ 63"
  using sint_ge [of x] sint_lt [of x] by simp_all

lemma stm_time_exact:
  assumes "fixed_point lib" and "0 \<le> sint ts"
  shows "stm_time_to_statime lib ts = sint ts * 2000000000"
proof -
  have "in_range U96F32 (sint ts * 2)" "in_range U96F32 (sint ts * 2 * 1000000000)"
    using assms(2) sint_i64_range(2) [of ts] by simp_all
  then show ?thesis
    using fixed_point.fit [OF assms(1)] by (simp add: stm_time_to_statime_def del: in_range.simps)
qed

text \<open>The offset in units of \<open>2 ^ -31\<close> seconds, and how far it is from the offset.\<close>

lemma step_rounding: "\<bar>trunc_div d 1000000000 div 2 * 2000000000 - d\<bar> < 2000000000"
  using trunc_div_error [of 1000000000 d] by linarith

lemma pow_simps: "(2::int) ^ 63 = 9223372036854775808" "(2::int) ^ 93 = 9903520314283042199192993792"
  by simp_all

lemma step_range:
  assumes "\<bar>d\<bar> < 2 ^ 93"
  shows "- (2 ^ 63) \<le> trunc_div d 1000000000 div 2" "trunc_div d 1000000000 div 2 < 2 ^ 63"
  using assms step_rounding [of d] unfolding pow_simps by linarith+

lemma step_bounds:
  fixes n r d :: int
  assumes "2000000000 \<le> n * 2000000000 + d" "n * 2000000000 + d < (2 ^ 63 - 1) * 2000000000"
    and "\<bar>r * 2000000000 - d\<bar> < 2000000000"
  shows "0 \<le> n + r" "n + r < 2 ^ 63"
proof -
  have "(n + r) * 2000000000 < 2 ^ 63 * 2000000000" "- 1 * 2000000000 < (n + r) * 2000000000"
    using assms by (simp_all add: distrib_right left_diff_distrib)
  then show "0 \<le> n + r" "n + r < 2 ^ 63"
    by (simp_all only: mult_less_cancel_right) simp_all
qed

lemma sint_plus_exact:
  assumes "- (2 ^ 63) \<le> sint a + r" "sint a + r < 2 ^ 63"
  shows "sint (a + word_of_int r :: i64) = sint a + r"
proof -
  have "sint (a + word_of_int r :: i64) = sint (word_of_int (sint a + r) :: i64)" by simp
  also have "\<dots> = sint a + r"
    using assms by (simp add: signed_take_bit_int_eq_self sint_sbintrunc' del: of_int_add of_int_sint)
  finally show ?thesis .
qed

lemma starter_cancel:
  assumes "0 < a" "0 < (f::real)"
  shows "4294967295 / (4294967295 / a / f) = a * f"
  using assms by (simp add: field_simps)

section \<open>Properties\<close>

text \<open>A step of the clock of the peripheral. As long as the time stays in the range of the
  peripheral, a step by an offset moves the time that the clock shows by the offset, up to the
  resolution of the peripheral, which is less than half a nanosecond; the call returns the new time;
  and the rate of the clock stays the same.\<close>

theorem ptp_clock_step_moves:
  assumes "fixed_point lib" and "eth_ptp ep"
    and "0 \<le> sint (ep_get_time ep (pk_inner c))" and "\<bar>offset\<bar> < 2 ^ 93"
    and "2000000000 \<le> ptp_clock_now lib ep c + offset" "ptp_clock_now lib ep c + offset < (2 ^ 63 - 1) * 2000000000"
  shows "\<exists>t c'. ptp_clock_step_clock lib ep offset c = (Some t, c') \<and> t = ptp_clock_now lib ep c'
    \<and> \<bar>t - (ptp_clock_now lib ep c + offset)\<bar> < 2000000000
    \<and> ep_addend ep (pk_inner c') = ep_addend ep (pk_inner c)"
proof -
  let ?now = "sint (ep_get_time ep (pk_inner c))"
  let ?r = "trunc_div offset 1000000000 div 2"
  let ?e = "ep_update_time ep (ep_cast_I33F31 ep ?r) (pk_inner c)"
  note r = step_rounding [of offset] step_range [OF assms(4)]
  have now: "ptp_clock_now lib ep c = ?now * 2000000000"
    using stm_time_exact [OF assms(1,3)] by (simp add: ptp_clock_now_def)
  have range: "0 \<le> ?now + ?r" "?now + ?r < 2 ^ 63"
    using assms(5,6) r(1) unfolding now by (rule step_bounds)+
  have "ep_get_time ep ?e = ep_get_time ep (pk_inner c) + word_of_int ?r"
    using eth_ptp.time_updated [OF assms(2)] eth_ptp.cast_exact [OF assms(2) r(2,3)] by simp
  then have "sint (ep_get_time ep ?e) = ?now + ?r"
    using sint_plus_exact [of "ep_get_time ep (pk_inner c)" ?r] range by simp
  then have "stm_time_to_statime lib (ep_get_time ep ?e) = (?now + ?r) * 2000000000"
    using stm_time_exact [OF assms(1), of "ep_get_time ep ?e"] range(1) by simp
  then show ?thesis
    using r(1) eth_ptp.addend_updated [OF assms(2)]
    by (auto simp: ptp_clock_step_clock_def Let_def ptp_clock_access_def ptp_clock_now_def now
      stm_time_exact [OF assms(1,3)] algebra_simps)
qed

theorem ptp_clock_step_moves_witness:
  "\<exists>t c'. ptp_clock_step_clock numlib_exact sim_ptp_lib (- 6442450944000000000)
      \<lparr>pk_inner = (2147483648, 21474836480), pk_addend_starter_frequency = 2\<rparr> = (Some t, c')
    \<and> \<bar>t - 8500000000 * 2 ^ 32\<bar> < 2000000000"
proof -
  let ?c = "\<lparr>pk_inner = (2147483648, 21474836480), pk_addend_starter_frequency = 2\<rparr> :: (sim_ptp, real) ptp_clock"
  have "sint (21474836480 :: i64) = 21474836480" by simp
  then have "ptp_clock_now numlib_exact sim_ptp_lib ?c = 21474836480 * 2000000000"
    using stm_time_exact [OF num_exact.fixed_point_axioms, of 21474836480]
    by (simp add: ptp_clock_now_def sim_ptp_lib_def)
  then show ?thesis
    using ptp_clock_step_moves [OF num_exact.fixed_point_axioms sim_ptp.eth_ptp_axioms, of ?c "- 6442450944000000000"]
    by (auto simp: sim_ptp_lib_def)
qed

text \<open>The rate, in exact arithmetic: \<open>set_frequency\<close> never panics and writes the addend that the
  peripheral had when the clock was created, times \<open>1 + ppm / 10 ^ 6\<close>, truncated and limited to 32 bits;
  it does not depend on the frequencies set before, and does not change the time.\<close>

theorem ptp_clock_frequency_absolute:
  assumes "eth_ptp ep" and "ep_cast_u32 ep = real_cast_u32"
    and "pk_addend_starter_frequency c = pk_addend_starter_frequency (ptp_clock_new floatlib_real ep e)"
    and "0 < ep_addend ep e" and "- 1000000 < ppm"
  shows "\<exists>c'. ptp_clock_set_frequency floatlib_real ep ppm c = Ok (Some (ptp_clock_now numlib_exact ep c), c')
    \<and> int (unat (ep_addend ep (pk_inner c'))) = min (2 ^ 32 - 1) \<lfloor>real (unat (ep_addend ep e)) * (1 + ppm / 1000000)\<rfloor>
    \<and> pk_addend_starter_frequency c' = pk_addend_starter_frequency c"
proof -
  let ?a = "real (unat (ep_addend ep e))" and ?f = "1 + ppm / 1000000"
  let ?n = "min (2 ^ 32 - 1) \<lfloor>?a * ?f\<rfloor>"
  have "0 < unat (ep_addend ep e)" using assms(4) by (simp only: word_less_nat_alt unat_0)
  then have pos: "0 < ?a" "0 < ?f" using assms(5) by (simp_all only: of_nat_0_less_iff)
  have "pk_addend_starter_frequency c = 4294967295 / ?a"
    unfolding assms(3) by (simp add: ptp_clock_new_def Let_def floatlib_real_def numlib_exact_def)
  then have "fl_div floatlib_real (f_of_int numlib_exact (2 ^ 32 - 1))
      (fl_div floatlib_real (pk_addend_starter_frequency c)
        (fadd floatlib_real (fl_lit floatlib_real 1) (fl_div floatlib_real ppm (fl_lit floatlib_real 1000000)))) = ?a * ?f"
    using starter_cancel [OF pos] by (simp add: floatlib_real_def numlib_exact_def)
  moreover have "real_cast_u32 (?a * ?f) = Ok (word_of_int ?n)" "0 \<le> ?n"
    using pos by (simp_all add: real_cast_u32_def)
  moreover have "int (unat (word_of_int ?n :: u32)) = ?n"
    using \<open>0 \<le> ?n\<close> by (simp add: uint_word_of_int)
  ultimately show ?thesis
    using eth_ptp.time_kept [OF assms(1)] eth_ptp.addend_set [OF assms(1)]
    by (simp add: ptp_clock_set_frequency_def assms(2) Let_def ptp_clock_access_def ptp_clock_now_def)
qed

end
