(* ===== verification/Stm32App.thy ===== *)
theory Stm32App
  imports Stm32Port Stm32Clock
begin

text \<open>
  The embedded example as a system (\<open>statime-stm32/src/main.rs\<close>, \<open>ethernet.rs\<close>): the tasks share
  the port and the network stack. An access to the port holds its lock, which no other task can
  preempt, so each iteration of a task is one step on the state \<open>app\<close>; the interrupt handler can
  only run between two locks of the network stack. The register setup of \<open>init\<close> is left out.
\<close>

section \<open>The hardware address\<close>

text \<open>\<open>adler\<close> is a parameter. The target is little endian, which \<open>to_ne_bytes\<close> depends on.\<close>

record 's hasher =
  ha_new :: 's
  ha_write_slice :: "bytes \<Rightarrow> 's \<Rightarrow> 's"
  ha_checksum :: "'s \<Rightarrow> u32"

definition to_ne_bytes :: "u32 \<Rightarrow> bytes" where
  "to_ne_bytes w = map (\<lambda>i. ucast (drop_bit (8 * i) w)) [0..<4]"

definition generate_mac_address :: "'s hasher \<Rightarrow> bytes \<Rightarrow> bytes \<Rightarrow> bytes" where
  "generate_mac_address ha bin_name uid =
     (let h1 = ha_write_slice ha bin_name (ha_new ha);
          oui = to_ne_bytes (ha_checksum ha h1);
          h2 = ha_write_slice ha uid h1;
          nic = to_ne_bytes (ha_checksum ha h2)
      in [(oui ! 0 AND 0xfc) OR 0x02, oui ! 1, oui ! 2, nic ! 0, nic ! 1, nic ! 2])"

section \<open>Receiving\<close>

datatype stm_recv_error = SR_Exhausted | SR_Truncated | SR_PacketIdNotFound | SR_NoTimestampRecorded

definition recv_error_from_udp :: "udp_recv_error \<Rightarrow> stm_recv_error" where
  "recv_error_from_udp value = (case value of RE_Exhausted \<Rightarrow> SR_Exhausted | RE_Truncated \<Rightarrow> SR_Truncated)"

text \<open>One poll of the future of \<open>recv_slice\<close>; \<open>None\<close> is \<open>Poll::Pending\<close>.\<close>

definition stm_recv_slice ::
  "('h, 'i, 'n) stm_net \<Rightarrow> 'h \<Rightarrow> nat \<Rightarrow> 'n \<Rightarrow> (stm_recv_error + bytes \<times> i64) option \<times> 'n" where
  "stm_recv_slice ops socket len net =
     (let (received, net') = sn_recv_slice ops socket len (sn_preempted ops net);
          result = (case received of
              Inl e \<Rightarrow> Inl (recv_error_from_udp e)
            | Inr (data, packet_id) \<Rightarrow>
                (case sn_rx_timestamp ops packet_id net' of
                   Some (Some ts) \<Rightarrow> Inr (data, ts)
                 | Some None \<Rightarrow> Inl SR_NoTimestampRecorded
                 | None \<Rightarrow> Inl SR_PacketIdNotFound))
      in case result of
           Inr r \<Rightarrow> (Some (Inr r), net')
         | Inl SR_Exhausted \<Rightarrow> (None, net')
         | Inl e \<Rightarrow> (Some (Inl e), net'))"

section \<open>The state\<close>

text \<open>Instants are ticks of one millisecond. A delay of \<open>statime_timers\<close> is the tick at which it
  completes; a completed one is \<open>None\<close> and, being fused, not ready again. \<open>ap_listener\<close> is where
  \<open>tx_timestamp_listener\<close> waits.\<close>

datatype 'i listener = LI_Waiting | LI_Polling timestamp_context 'i nat

record ('r, 'c, 'k, 'q, 'h, 'i, 'n, 't, 'd) app =
  ap_instance :: ptp_instance
  ap_port :: "('r, 'c, 'k, 'q, 'h, 't, 'd) stm_port"
  ap_net :: 'n
  ap_now :: nat
  ap_timers :: "timer_name \<Rightarrow> nat option"
  ap_bmca_delay :: nat
  ap_listener :: "'i listener"

definition as_millis :: "core_duration \<Rightarrow> nat" where
  "as_millis d = d div 1000000 mod 2 ^ 64"

text \<open>The end of \<open>init\<close>: the instance, its port and the channels.\<close>

definition stm_init ::
  "('f, 'r, 'c, 'k, 'q, 'h, 'i, 'n, 't, 'd) stm_env \<Rightarrow> 'k \<Rightarrow> 'c \<Rightarrow> bytes \<Rightarrow> 'r \<Rightarrow> 'h \<Rightarrow> 'h \<Rightarrow> 'n \<Rightarrow> nat \<Rightarrow>
   ('r, 'c, 'k, 'q, 'h, 'i, 'n, 't, 'd) app res" where
  "stm_init env filter_config ptp mac_address rng event_socket general_socket net now =
     andthen (setup_statime (en_host env) filter_config ptp mac_address rng) (\<lambda>(ptp_instance, ptp_port).
     Ok \<lparr>ap_instance = ptp_instance,
         ap_port = stm_port_new (ch_make (en_timer_ch env)) (ch_make (en_packet_ch env)) event_socket general_socket ptp_port,
         ap_net = net,
         ap_now = now,
         ap_timers = (\<lambda>_. Some (en_deadline env now (24 * 60 * 60 * 1000))),
         ap_bmca_delay = now,
         ap_listener = LI_Waiting\<rparr>)"

section \<open>The tasks\<close>

text \<open>The result of a call on the port, stored.\<close>

definition stored ::
  "('r, 'c, 'k, 'q, 'h, 'i, 'n, 't, 'd) app \<Rightarrow> ('r, 'c, 'k, 'q, 'h, 't, 'd, 'n) stm_result \<Rightarrow>
   ('r, 'c, 'k, 'q, 'h, 'i, 'n, 't, 'd) app res" where
  "stored a r = andthen r (\<lambda>(state, port, net).
     Ok (a\<lparr>ap_instance := (ap_instance a)\<lparr>in_state := state\<rparr>, ap_port := port, ap_net := net\<rparr>))"

definition stm_instance_bmca ::
  "('f, 'r, 'c, 'k, 'q, 'h, 'i, 'n, 't, 'd) stm_env \<Rightarrow> ('r, 'c, 'k, 'q, 'h, 'i, 'n, 't, 'd) app \<Rightarrow>
   ('r, 'c, 'k, 'q, 'h, 'i, 'n, 't, 'd) app res" where
  "stm_instance_bmca env a =
     andthen (perform_bmca env (bmca_closure (en_host env) (ap_instance a)) (ap_port a) (ap_net a)) (\<lambda>(inst, port, net).
     andthen (bmca_interval (ho_num (en_host env)) inst) (\<lambda>wait_duration.
     Ok (a\<lparr>ap_instance := inst, ap_port := port, ap_net := net,
           ap_bmca_delay := en_deadline env (ap_now a) (as_millis wait_duration)\<rparr>)))"

text \<open>\<open>select_biased!\<close> takes the first branch that is ready.\<close>

definition timer_order :: "timer_name list" where
  "timer_order = [TN_Announce, TN_Sync, TN_DelayRequest, TN_AnnounceReceipt, TN_FilterUpdate]"

definition expired :: "('r, 'c, 'k, 'q, 'h, 'i, 'n, 't, 'd) app \<Rightarrow> timer_name \<Rightarrow> bool" where
  "expired a timer \<longleftrightarrow> (case ap_timers a timer of None \<Rightarrow> False | Some d \<Rightarrow> d \<le> ap_now a)"

definition statime_timers ::
  "('f, 'r, 'c, 'k, 'q, 'h, 'i, 'n, 't, 'd) stm_env \<Rightarrow> ('r, 'c, 'k, 'q, 'h, 'i, 'n, 't, 'd) app \<Rightarrow>
   ('r, 'c, 'k, 'q, 'h, 'i, 'n, 't, 'd) app res option" where
  "statime_timers env a =
     (case find (expired a) timer_order of
        Some timer \<Rightarrow>
          map_option (stored (a\<lparr>ap_timers := (ap_timers a)(timer := None)\<rparr>))
            (stm_handle_timer env timer (in_state (ap_instance a)) (ap_port a) (ap_net a))
      | None \<Rightarrow>
          Some (case ch_recv (en_timer_ch env) (xp_timer_sender (ap_port a)) of
                  NoSender \<Rightarrow> panic
                | Pend \<Rightarrow> Ok a
                | Received (timer, delay_time) ch \<Rightarrow>
                    Ok (a\<lparr>ap_port := (ap_port a)\<lparr>xp_timer_sender := ch\<rparr>,
                          ap_timers := (ap_timers a)(timer \<mapsto> en_deadline env (ap_now a) (as_millis delay_time))\<rparr>)))"

text \<open>One wake-up of \<open>tx_timestamp_listener\<close>.\<close>

definition tx_timestamp_listener ::
  "('f, 'r, 'c, 'k, 'q, 'h, 'i, 'n, 't, 'd) stm_env \<Rightarrow> ('r, 'c, 'k, 'q, 'h, 'i, 'n, 't, 'd) app \<Rightarrow>
   ('r, 'c, 'k, 'q, 'h, 'i, 'n, 't, 'd) app res" where
  "tx_timestamp_listener env a =
     (case ap_listener a of
        LI_Waiting \<Rightarrow>
          (case ch_recv (en_packet_ch env) (xp_packet_id_sender (ap_port a)) of
             NoSender \<Rightarrow> panic
           | Pend \<Rightarrow> Ok a
           | Received (timestamp_context, packet_id) ch \<Rightarrow>
               Ok (a\<lparr>ap_port := (ap_port a)\<lparr>xp_packet_id_sender := ch\<rparr>,
                     ap_listener := LI_Polling timestamp_context packet_id 10\<rparr>))
      | LI_Polling timestamp_context packet_id tries \<Rightarrow>
          (let (r, net) = sn_poll_tx_timestamp (en_net env) packet_id (sn_preempted (en_net env) (ap_net a));
               finish = (\<lambda>timestamp.
                 let a' = a\<lparr>ap_net := net, ap_listener := LI_Waiting\<rparr> in
                 case timestamp of
                   None \<Rightarrow> Ok a'
                 | Some timestamp \<Rightarrow>
                     stored a' (stm_handle_send_timestamp env timestamp_context
                       (stm_time_to_statime (ho_num (en_host env)) timestamp) (in_state (ap_instance a)) (ap_port a) net))
           in case r of
                TP_Ready ts \<Rightarrow> finish ts
              | _ \<Rightarrow>
                  if 0 < tries then Ok (a\<lparr>ap_net := net, ap_listener := LI_Polling timestamp_context packet_id (tries - 1)\<rparr>)
                  else finish None))"

text \<open>\<open>listen_and_handle\<close>; its buffer has 1500 bytes.\<close>

definition listen_and_handle ::
  "('f, 'r, 'c, 'k, 'q, 'h, 'i, 'n, 't, 'd) stm_env \<Rightarrow> bool \<Rightarrow> 'h \<Rightarrow> ('r, 'c, 'k, 'q, 'h, 'i, 'n, 't, 'd) app \<Rightarrow>
   ('r, 'c, 'k, 'q, 'h, 'i, 'n, 't, 'd) app res" where
  "listen_and_handle env is_event socket a =
     (let (received, net) = stm_recv_slice (en_net env) socket 1500 (ap_net a) in
      case received of
        None \<Rightarrow> Ok (a\<lparr>ap_net := net\<rparr>)
      | Some (Inl e) \<Rightarrow> Ok (a\<lparr>ap_net := net\<rparr>)
      | Some (Inr (data, timestamp)) \<Rightarrow>
          stored a
            (if is_event
             then stm_handle_event_receive env data (stm_time_to_statime (ho_num (en_host env)) timestamp)
                    (in_state (ap_instance a)) (ap_port a) net
             else stm_handle_general_receive env data (in_state (ap_instance a)) (ap_port a) net))"

definition event_listen ::
  "('f, 'r, 'c, 'k, 'q, 'h, 'i, 'n, 't, 'd) stm_env \<Rightarrow> ('r, 'c, 'k, 'q, 'h, 'i, 'n, 't, 'd) app \<Rightarrow>
   ('r, 'c, 'k, 'q, 'h, 'i, 'n, 't, 'd) app res" where
  "event_listen env a = listen_and_handle env True (xp_event_socket (ap_port a)) a"

definition general_listen ::
  "('f, 'r, 'c, 'k, 'q, 'h, 'i, 'n, 't, 'd) stm_env \<Rightarrow> ('r, 'c, 'k, 'q, 'h, 'i, 'n, 't, 'd) app \<Rightarrow>
   ('r, 'c, 'k, 'q, 'h, 'i, 'n, 't, 'd) app res" where
  "general_listen env a = listen_and_handle env False (xp_general_socket (ap_port a)) a"

definition eth_interrupt ::
  "('f, 'r, 'c, 'k, 'q, 'h, 'i, 'n, 't, 'd) stm_env \<Rightarrow> ('r, 'c, 'k, 'q, 'h, 'i, 'n, 't, 'd) app \<Rightarrow>
   ('r, 'c, 'k, 'q, 'h, 'i, 'n, 't, 'd) app" where
  "eth_interrupt env a = a\<lparr>ap_net := sn_poll (en_net env) (ap_net a)\<rparr>"

section \<open>The system\<close>

text \<open>The tasks in any order, and the passing of time. The best master clock algorithm runs when its
  delay is over.\<close>

datatype stm_task = T_Bmca | T_Timers | T_Listener | T_Event | T_General | T_Interrupt | T_Tick nat

inductive app_step ::
  "('f, 'r, 'c, 'k, 'q, 'h, 'i, 'n, 't, 'd) stm_env \<Rightarrow> stm_task \<Rightarrow> ('r, 'c, 'k, 'q, 'h, 'i, 'n, 't, 'd) app \<Rightarrow>
   ('r, 'c, 'k, 'q, 'h, 'i, 'n, 't, 'd) app \<Rightarrow> bool"
  for env :: "('f, 'r, 'c, 'k, 'q, 'h, 'i, 'n, 't, 'd) stm_env" where
  bmca: "ap_bmca_delay a \<le> ap_now a \<Longrightarrow> stm_instance_bmca env a = Ok a' \<Longrightarrow> app_step env T_Bmca a a'"
| timers: "statime_timers env a = Some (Ok a') \<Longrightarrow> app_step env T_Timers a a'"
| listener: "tx_timestamp_listener env a = Ok a' \<Longrightarrow> app_step env T_Listener a a'"
| event: "event_listen env a = Ok a' \<Longrightarrow> app_step env T_Event a a'"
| general: "general_listen env a = Ok a' \<Longrightarrow> app_step env T_General a a'"
| interrupt: "app_step env T_Interrupt a (eth_interrupt env a)"
| tick: "app_step env (T_Tick n) a (a\<lparr>ap_now := ap_now a + n\<rparr>)"

inductive app_reachable ::
  "('f, 'r, 'c, 'k, 'q, 'h, 'i, 'n, 't, 'd) stm_env \<Rightarrow> ('r, 'c, 'k, 'q, 'h, 'i, 'n, 't, 'd) app \<Rightarrow> bool"
  for env :: "('f, 'r, 'c, 'k, 'q, 'h, 'i, 'n, 't, 'd) stm_env" where
  started: "stm_init env fc ptp mac rng es gs net now = Ok a \<Longrightarrow> app_reachable env a"
| stepped: "app_reachable env a \<Longrightarrow> app_step env t a a' \<Longrightarrow> app_reachable env a'"

section \<open>The invariant of the system\<close>

text \<open>Before the first run of the algorithm nothing has been queued. The abstract contents of the two
  channels are \<open>tq\<close> and \<open>dq\<close>.\<close>

definition running :: "('r, 'c, 'k, 'q, 'h, 'i, 'n, 't, 'd) app \<Rightarrow> bool" where
  "running a \<longleftrightarrow> is_running (xp_state (ap_port a))"

definition app_inv ::
  "('t \<Rightarrow> timer_msg list) \<Rightarrow> ('d \<Rightarrow> 'i packet_id_msg list) \<Rightarrow> ('r, 'c, 'k, 'q, 'h, 'i, 'n, 't, 'd) app \<Rightarrow> bool" where
  "app_inv tq dq a \<longleftrightarrow> stm_ok (ap_instance a) (xp_state (ap_port a))
     \<and> length (tq (xp_timer_sender (ap_port a))) \<le> 4 \<and> length (dq (xp_packet_id_sender (ap_port a))) \<le> 16
     \<and> list_all (wf_context \<circ> fst) (dq (xp_packet_id_sender (ap_port a)))
     \<and> (case ap_listener a of LI_Waiting \<Rightarrow> True | LI_Polling c pid tries \<Rightarrow> wf_context c \<and> tries \<le> 10)
     \<and> (running a \<or> tq (xp_timer_sender (ap_port a)) = [] \<and> dq (xp_packet_id_sender (ap_port a)) = []
          \<and> ap_listener a = LI_Waiting)"

lemma app_inv_frame:
  assumes "app_inv tq dq a"
  shows "app_inv tq dq (a\<lparr>ap_net := net\<rparr>)" "app_inv tq dq (a\<lparr>ap_now := now\<rparr>)" "app_inv tq dq (a\<lparr>ap_timers := ts\<rparr>)"
    "app_inv tq dq (a\<lparr>ap_net := net, ap_listener := LI_Waiting\<rparr>)"
  using assms by (auto simp: app_inv_def running_def)

lemma app_inv_delay [simp]:
  "app_inv tq dq (a\<lparr>ap_bmca_delay := d\<rparr>) \<longleftrightarrow> app_inv tq dq a" "running (a\<lparr>ap_bmca_delay := d\<rparr>) \<longleftrightarrow> running a"
  by (simp_all add: app_inv_def running_def)

lemma app_inv_kept:
  assumes "app_inv tq dq a" and "stm_kept tq dq (ap_port a) inst port"
  shows "app_inv tq dq (a\<lparr>ap_instance := inst, ap_port := port, ap_net := net\<rparr>)"
    "running (a\<lparr>ap_instance := inst, ap_port := port, ap_net := net\<rparr>)"
  using assms by (auto simp: app_inv_def running_def stm_kept_def queued_by_def)

lemma outcome_stored:
  assumes "app_inv tq dq a"
    and "outcome T r (\<lambda>(state', port, net). stm_kept tq dq (ap_port a) ((ap_instance a)\<lparr>in_state := state'\<rparr>) port)"
  shows "outcome T (stored a r) (\<lambda>a'. app_inv tq dq a' \<and> running a')"
  unfolding stored_def by (rule outcome_bind [OF assms(2)]) (use app_inv_kept [OF assms(1)] in auto)

lemma not_running_panics:
  assumes "\<not> is_running (xp_state p)"
  shows "stm_call env call p net = panic" "stm_handle_timer env timer state p net = Some panic"
  using assms by (auto simp: stm_call_def stm_handle_timer_def take_running_def is_running_def split: stm_state.splits)

text \<open>What the environment has to provide so that a step does not panic: the functions of the host
  return, and packets are short.\<close>

definition sound_env :: "('f, 'r, 'c, 'k, 'q, 'h, 'i, 'n, 't, 'd) stm_env \<Rightarrow> bool" where
  "sound_env env \<longleftrightarrow> host_total (en_host env) stm_port_config
     \<and> (\<forall>socket net data pid net'. sn_recv_slice (en_net env) socket 1500 net = (Inr (data, pid), net') \<longrightarrow> length data < 1100)"

definition can_step ::
  "('f, 'r, 'c, 'k, 'q, 'h, 'i, 'n, 't, 'd) stm_env \<Rightarrow> ('t \<Rightarrow> timer_msg list) \<Rightarrow> ('d \<Rightarrow> 'i packet_id_msg list) \<Rightarrow>
   ('r, 'c, 'k, 'q, 'h, 'i, 'n, 't, 'd) app \<Rightarrow> bool" where
  "can_step env tq dq a \<longleftrightarrow> sound_env env \<and> running a \<and> room tq dq (ap_port a)"

lemma received_short:
  assumes "sound_env env" and "stm_recv_slice (en_net env) socket 1500 net = (Some (Inr (data, ts)), net')"
  shows "length data < 1100"
  using assms
  by (cases "sn_recv_slice (en_net env) socket 1500 (sn_preempted (en_net env) net)")
    (auto simp: stm_recv_slice_def sound_env_def split: sum.splits stm_recv_error.splits option.splits, blast)

context stm_channels
begin

lemma outcome_event_call:
  assumes "app_inv tq dq a" and "T \<longrightarrow> can_step env tq dq a \<and> short_event ev" and "wf_event ev"
  shows "outcome T (stm_call env (port_step (en_host env) ev (in_state (ap_instance a))) (ap_port a) net)
    (\<lambda>(state', port, net). stm_kept tq dq (ap_port a) ((ap_instance a)\<lparr>in_state := state'\<rparr>) port)"
proof (cases "xp_state (ap_port a)")
  case (XS_Running p)
  then have p: "wf_port p" "settled p" "wf_instance_state (in_state (ap_instance a))" "po_config p = stm_port_config"
    using assms(1) by (auto simp: app_inv_def stm_ok_def instance_inv_def)
  have "outcome T (port_step (en_host env) ev (in_state (ap_instance a)) p) (called (in_state (ap_instance a)) p)"
    by (rule outcome_mono [OF outcome_step stepped_called]) (use p assms(2,3) in \<open>auto simp: can_step_def sound_env_def\<close>)
  then show ?thesis
    by (intro outcome_stm_call [OF _ XS_Running]) (use assms(1,2) in \<open>auto simp: app_inv_def can_step_def\<close>)
qed (use assms(2) not_running_panics(1) [of "ap_port a" env] in \<open>auto simp: outcome_def can_step_def running_def is_running_def\<close>)

lemma outcome_listen:
  assumes "app_inv tq dq a" and "T \<longrightarrow> can_step env tq dq a"
  shows "outcome T (listen_and_handle env is_event socket a) (\<lambda>a'. app_inv tq dq a' \<and> (running a \<longrightarrow> running a'))"
proof -
  obtain r net where s: "stm_recv_slice (en_net env) socket 1500 (ap_net a) = (r, net)"
    by (cases "stm_recv_slice (en_net env) socket 1500 (ap_net a)")
  have idle: "app_inv tq dq (a\<lparr>ap_net := net\<rparr>) \<and> (running a \<longrightarrow> running (a\<lparr>ap_net := net\<rparr>))"
    using app_inv_frame(1) [OF assms(1)] by (simp add: running_def)
  have "outcome T (stored a
            (if is_event
             then stm_handle_event_receive env data (stm_time_to_statime (ho_num (en_host env)) ts)
                    (in_state (ap_instance a)) (ap_port a) net
             else stm_handle_general_receive env data (in_state (ap_instance a)) (ap_port a) net))
      (\<lambda>a'. app_inv tq dq a' \<and> (running a \<longrightarrow> running a'))" if "r = Some (Inr (data, ts))" for data ts
  proof -
    have short: "T \<longrightarrow> length data < 1100"
      using received_short [of env socket "ap_net a" data ts net] s that assms(2) by (auto simp: can_step_def)
    let ?ev = "if is_event then EvEventReceive data (stm_time_to_statime (ho_num (en_host env)) ts) else EvGeneralReceive data"
    have "outcome T (stored a (stm_call env (port_step (en_host env) ?ev (in_state (ap_instance a))) (ap_port a) net))
        (\<lambda>a'. app_inv tq dq a' \<and> running a')"
      by (intro outcome_stored outcome_event_call) (use assms short in auto)
    moreover have "port_step (en_host env) (EvEventReceive data t) s = handle_event_receive (en_host env) data t s"
        "port_step (en_host env) (EvGeneralReceive data) s = handle_general_receive (en_host env) data s" for s t
      by (simp_all add: fun_eq_iff)
    ultimately show ?thesis
      by (cases is_event) (auto simp: stm_handle_event_receive_def stm_handle_general_receive_def elim: outcome_mono)
  qed
  then show ?thesis
    using s idle by (cases r rule: option.exhaust; cases "the r") (auto simp: listen_and_handle_def)
qed

lemma outcome_timers:
  assumes "app_inv tq dq a" and "T \<longrightarrow> can_step env tq dq a"
  obtains r where "statime_timers env a = Some r" "outcome T r (\<lambda>a'. app_inv tq dq a' \<and> (running a \<longrightarrow> running a'))"
proof (cases "find (expired a) timer_order")
  case None
  let ?r = "case ch_recv (en_timer_ch env) (xp_timer_sender (ap_port a)) of
                  NoSender \<Rightarrow> panic
                | Pend \<Rightarrow> Ok a
                | Received (timer, delay_time) ch \<Rightarrow>
                    Ok (a\<lparr>ap_port := (ap_port a)\<lparr>xp_timer_sender := ch\<rparr>,
                          ap_timers := (ap_timers a)(timer \<mapsto> en_deadline env (ap_now a) (as_millis delay_time))\<rparr>)"
  have "outcome T ?r (\<lambda>a'. app_inv tq dq a' \<and> (running a \<longrightarrow> running a'))"
    using timer.recv_cases [of "xp_timer_sender (ap_port a)"] assms(1) by (auto simp: app_inv_def running_def)
  then show ?thesis using None that by (simp add: statime_timers_def)
next
  case (Some t)
  let ?a = "a\<lparr>ap_timers := (ap_timers a)(t := None)\<rparr>"
  have inv: "app_inv tq dq ?a" by (rule app_inv_frame(3) [OF assms(1)])
  show ?thesis
  proof (cases "running a")
    case True
    obtain r where r: "stm_handle_timer env t (in_state (ap_instance a)) (ap_port a) (ap_net a) = Some r"
        "outcome T r (\<lambda>(state', port, net). stm_kept tq dq (ap_port a) ((ap_instance a)\<lparr>in_state := state'\<rparr>) port)"
      using outcome_stm_timer [of "ap_instance a" "ap_port a" T t "ap_net a"] assms True
      by (auto simp: app_inv_def running_def can_step_def sound_env_def)
    then have "statime_timers env a = Some (stored ?a r)" using Some by (simp add: statime_timers_def)
    moreover have "outcome T (stored ?a r) (\<lambda>a'. app_inv tq dq a' \<and> running a')"
      by (rule outcome_stored [OF inv]) (use r(2) in simp)
    then have "outcome T (stored ?a r) (\<lambda>a'. app_inv tq dq a' \<and> (running a \<longrightarrow> running a'))"
      by (rule outcome_mono) simp
    ultimately show ?thesis using that by blast
  next
    case False
    then have "statime_timers env a = Some panic"
      using Some not_running_panics(2) [of "ap_port a" env] by (simp add: statime_timers_def stored_def running_def)
    then show ?thesis using that [of panic] assms(2) False by (auto simp: outcome_def can_step_def)
  qed
qed

end

context stm_channels
begin

lemma outcome_bmca_task:
  assumes "app_inv tq dq a" and "T \<longrightarrow> sound_env env \<and> room tq dq (ap_port a)"
  shows "outcome T (stm_instance_bmca env a) (\<lambda>a'. app_inv tq dq a' \<and> running a')"
proof -
  have T: "T \<longrightarrow> host_total (en_host env) stm_port_config" "T \<longrightarrow> room tq dq (ap_port a)"
    using assms(2) by (auto simp: sound_env_def)
  have wait: "outcome T (bmca_interval (ho_num (en_host env)) inst) (\<lambda>_. True)" if "in_log_bmca_interval inst = 1" for inst
    using host_totalD(4) [of "en_host env" stm_port_config] T(1) that
    by (intro outcome_returns) (simp add: bmca_interval_def interval_as_core_duration_def interval_as_f64_def stm_port_config_def)
  have "outcome T (andthen (bmca_interval (ho_num (en_host env)) inst) (\<lambda>wait_duration.
       Ok (a\<lparr>ap_instance := inst, ap_port := port, ap_net := net,
           ap_bmca_delay := en_deadline env (ap_now a) (as_millis wait_duration)\<rparr>)))
      (\<lambda>a'. app_inv tq dq a' \<and> running a')" if "stm_kept tq dq (ap_port a) inst port" for inst port net
    by (rule outcome_bind [OF wait])
      (use app_inv_kept [OF assms(1) that, of net] that in \<open>simp_all add: stm_kept_def stm_ok_def\<close>)
  then show ?thesis
    unfolding stm_instance_bmca_def
    by (intro outcome_bind [OF outcome_bmca]) (use assms(1) T in \<open>auto simp: app_inv_def\<close>)
qed

lemma outcome_poll:
  assumes "app_inv tq dq a" and "T \<longrightarrow> can_step env tq dq a"
  shows "outcome T (tx_timestamp_listener env a) (\<lambda>a'. app_inv tq dq a' \<and> (running a \<longrightarrow> running a'))"
proof (cases "ap_listener a")
  case LI_Waiting
  show ?thesis
    using packet.recv_cases [of "xp_packet_id_sender (ap_port a)"] assms(1) LI_Waiting
    by (auto simp: tx_timestamp_listener_def app_inv_def running_def split: prod.splits)
next
  case (LI_Polling c pid tries)
  obtain r net where s: "sn_poll_tx_timestamp (en_net env) pid (sn_preempted (en_net env) (ap_net a)) = (r, net)"
    by (cases "sn_poll_tx_timestamp (en_net env) pid (sn_preempted (en_net env) (ap_net a))")
  let ?a = "a\<lparr>ap_net := net, ap_listener := LI_Waiting\<rparr>"
  have run: "running a" "wf_context c" "tries \<le> 10" using assms(1) LI_Polling by (simp_all add: app_inv_def)
  have inv: "app_inv tq dq ?a" by (rule app_inv_frame(4) [OF assms(1)])
  have retry: "app_inv tq dq (a\<lparr>ap_net := net, ap_listener := LI_Polling c pid (tries - 1)\<rparr>)"
    using assms(1) run by (auto simp: app_inv_def running_def)
  have call: "stm_handle_send_timestamp env c t s = stm_call env (port_step (en_host env) (EvSendTimestamp c t) s)" for t s
    by (rule arg_cong [of _ _ "stm_call env", THEN trans [OF stm_handle_send_timestamp_def]]) (simp add: fun_eq_iff)
  have "outcome T (stored ?a (stm_handle_send_timestamp env c t (in_state (ap_instance a)) (ap_port a) net))
      (\<lambda>a'. app_inv tq dq a' \<and> running a')" for t
    unfolding call
    by (rule outcome_stored [OF inv])
      (use outcome_event_call [OF assms(1), of T "EvSendTimestamp c t" net] assms(2) run(2) in \<open>simp add: wf_send_event\<close>)
  then have "outcome T (stored ?a (stm_handle_send_timestamp env c t (in_state (ap_instance a)) (ap_port a) net))
      (\<lambda>a'. app_inv tq dq a' \<and> (running a \<longrightarrow> running a'))" for t
    by (rule outcome_mono) simp
  then show ?thesis
    using s LI_Polling inv retry run(1)
    by (cases r) (auto simp: tx_timestamp_listener_def Let_def running_def split: option.split)
qed

text \<open>All tasks.\<close>

lemma step_inv:
  assumes "app_step env t a a'" and "app_inv tq dq a"
  shows "app_inv tq dq a'" "running a \<or> t = T_Bmca \<Longrightarrow> running a'"
proof -
  have "app_inv tq dq a' \<and> (running a \<or> t = T_Bmca \<longrightarrow> running a')"
    using assms(1)
  proof (cases rule: app_step.cases)
    case bmca
    then show ?thesis using outcome_OkD [OF outcome_bmca_task [OF assms(2), of False]] by auto
  next
    case timers
    then show ?thesis using outcome_timers [OF assms(2), of False] by (auto simp: outcome_def)
  next
    case listener
    then show ?thesis using outcome_OkD [OF outcome_poll [OF assms(2), of False]] by auto
  next
    case event
    then show ?thesis
      using outcome_OkD [OF outcome_listen [OF assms(2), of False]] by (auto simp: event_listen_def)
  next
    case general
    then show ?thesis
      using outcome_OkD [OF outcome_listen [OF assms(2), of False]] by (auto simp: general_listen_def)
  qed (use app_inv_frame [OF assms(2)] in \<open>auto simp: eth_interrupt_def running_def\<close>)
  then show "app_inv tq dq a'" "running a \<or> t = T_Bmca \<Longrightarrow> running a'" by blast+
qed

lemma init_inv:
  assumes "stm_init env fc ptp mac rng es gs net now = Inr a"
  shows "app_inv tq dq a" "\<not> running a"
proof -
  obtain inst p where "setup_statime (en_host env) fc ptp mac rng = Inr (inst, p)"
      "ap_instance a = inst" "xp_state (ap_port a) = XS_InBmca p" "xp_timer_sender (ap_port a) = ch_make (en_timer_ch env)"
      "xp_packet_id_sender (ap_port a) = ch_make (en_packet_ch env)" "ap_listener a = LI_Waiting"
    using assms by (auto simp: stm_init_def stm_port_new_def)
  then show "app_inv tq dq a" "\<not> running a"
    using setup_ok timer.made packet.made by (auto simp: app_inv_def running_def is_running_def)
qed

lemma reachable_app_inv: "app_reachable env a \<Longrightarrow> app_inv tq dq a"
  by (induction rule: app_reachable.induct) (blast intro: init_inv(1) step_inv(1))+

end

section \<open>The retries of the listener\<close>

text \<open>A run: the tasks with the states after them.\<close>

fun is_run ::
  "('f, 'r, 'c, 'k, 'q, 'h, 'i, 'n, 't, 'd) stm_env \<Rightarrow> ('r, 'c, 'k, 'q, 'h, 'i, 'n, 't, 'd) app \<Rightarrow>
   (stm_task \<times> ('r, 'c, 'k, 'q, 'h, 'i, 'n, 't, 'd) app) list \<Rightarrow> bool" where
  "is_run env a [] \<longleftrightarrow> True"
| "is_run env a ((t, a') # run) \<longleftrightarrow> app_step env t a a' \<and> is_run env a' run"

text \<open>How often the listener can still be polled for its packet.\<close>

fun polls_left :: "'i listener \<Rightarrow> nat" where
  "polls_left LI_Waiting = 0"
| "polls_left (LI_Polling c pid tries) = Suc tries"

lemma stored_listener: "stored a r = Inr a' \<Longrightarrow> ap_listener a' = ap_listener a"
  by (auto simp: stored_def)

lemma listen_listener: "listen_and_handle env e socket a = Inr a' \<Longrightarrow> ap_listener a' = ap_listener a"
  by (auto simp: listen_and_handle_def Let_def dest: stored_listener split: prod.splits option.splits sum.splits)

lemma other_listener:
  assumes "app_step env t a a'" and "t \<noteq> T_Listener"
  shows "ap_listener a' = ap_listener a"
  using assms
proof (cases rule: app_step.cases)
  case timers
  then show ?thesis
    by (auto simp: statime_timers_def dest: stored_listener split: option.splits polled.splits prod.splits)
qed (auto simp: stm_instance_bmca_def event_listen_def general_listen_def eth_interrupt_def dest: listen_listener)

lemma polled_listener:
  assumes "tx_timestamp_listener env a = Inr a'" and "ap_listener a = LI_Polling c pid tries"
  shows "polls_left (ap_listener a') < polls_left (ap_listener a)"
  using assms
  by (auto simp: tx_timestamp_listener_def Let_def dest!: stored_listener
    split: prod.splits tx_poll.splits if_splits option.splits)

lemma run_ends:
  assumes "is_run env a run" and "polls_left (ap_listener a) \<le> length (filter (\<lambda>s. fst s = T_Listener) run)"
    and "0 < polls_left (ap_listener a)"
  shows "\<exists>s\<in>set run. ap_listener (snd s) = LI_Waiting"
  using assms
proof (induction run arbitrary: a)
  case (Cons s run)
  obtain t b where s: "s = (t, b)" by (cases s)
  have step: "app_step env t a b" and run: "is_run env b run" using Cons.prems(1) s by simp_all
  show ?case
  proof (cases "t = T_Listener")
    case True
    obtain c pid tries where l: "ap_listener a = LI_Polling c pid tries"
      using Cons.prems(3) by (cases "ap_listener a") auto
    have "tx_timestamp_listener env a = Inr b" using step True by (auto elim: app_step.cases)
    then have "polls_left (ap_listener b) < polls_left (ap_listener a)" by (rule polled_listener [OF _ l])
    then show ?thesis
      using Cons.IH [OF run] Cons.prems(2) True s
      by (cases "polls_left (ap_listener b) = 0"; cases "ap_listener b") auto
  next
    case False
    then have "ap_listener b = ap_listener a" by (rule other_listener [OF step])
    then show ?thesis using Cons.IH [OF run] Cons.prems(2,3) False s by auto
  qed
qed simp

section \<open>The example application\<close>

context stm_channels
begin

text \<open>The first run of the algorithm leaves room in the channels.\<close>

lemma first_run:
  assumes "stm_init env fc ptp mac rng es gs net now = Inr a" and "sound_env env"
  shows "\<exists>a'. app_step env T_Bmca a a' \<and> running a' \<and> room tq dq (ap_port a')"
proof -
  have inv: "app_inv tq dq a" and empty: "tq (xp_timer_sender (ap_port a)) = []" "dq (xp_packet_id_sender (ap_port a)) = []"
    using init_inv [OF assms(1)] by (simp_all add: app_inv_def)
  then have r: "room tq dq (ap_port a)" by (simp add: room_def)
  obtain a' where a': "stm_instance_bmca env a = Inr a'" "running a'"
    using outcome_bmca_task [OF inv, of True] assms(2) r by (auto simp: outcome_def split: sum.splits)
  then obtain inst port net' where "perform_bmca env (bmca_closure (en_host env) (ap_instance a)) (ap_port a) (ap_net a) = Inr (inst, port, net')"
      "ap_port a' = port"
    by (auto simp: stm_instance_bmca_def)
  then have "stm_kept tq dq (ap_port a) inst (ap_port a')"
    using outcome_OkD [OF outcome_bmca [of "ap_instance a" "ap_port a" False]] inv by (auto simp: app_inv_def)
  then have "room tq dq (ap_port a')" using empty by (auto simp: stm_kept_def queued_by_def room_def)
  moreover have "ap_bmca_delay a \<le> ap_now a" using assms(1) by (auto simp: stm_init_def)
  ultimately show ?thesis using a' by (auto intro: app_step.bmca)
qed

end

lemma example_sound: "sound_env example_stm_env"
  using recording_host_stm by (simp add: sound_env_def example_stm_env_def example_stm_net_def)

lemma example_started:
  "\<exists>a. stm_init example_stm_env () None [2, 1, 2, 3, 4, 5] () () () 0 0 = Inr a"
  by (simp add: stm_init_def setup_statime_def clock_identity_from_mac_address_def put_def add_port_def Let_def port_new_def
    example_stm_env_def recording_host_def announce_duration_def stm_port_config_def interval_as_core_duration_def
    interval_as_f64_def numlib_exact_def)

lemma example_running:
  obtains a where "app_reachable example_stm_env a" "running a" "room (\<lambda>ch. ch) (\<lambda>ch. ch) (ap_port a)"
proof -
  obtain a0 where a0: "stm_init example_stm_env () None [2, 1, 2, 3, 4, 5] () () () 0 0 = Inr a0"
    using example_started by blast
  then obtain a where a: "app_step example_stm_env T_Bmca a0 a" "running a" "room (\<lambda>ch. ch) (\<lambda>ch. ch) (ap_port a)"
    using example_stm.first_run [OF a0 example_sound] by blast
  from app_reachable.stepped [OF app_reachable.started [OF a0] a(1)] a(2,3) show ?thesis by (rule that)
qed

section \<open>Properties\<close>

text \<open>C35: in every state that the tasks of the embedded example can reach, in whatever order they run, the
  channels are within their capacities, and the port is the only port of a well-formed instance.
  The port is either running or waits for the first run of the best master clock algorithm, and
  then nothing has been queued yet; the algorithm makes it run, and then no task leaves it in
  another mode.\<close>

theorem stm_reachable_invariant:
  assumes "stm_channels env tq dq" and "app_reachable env a"
  shows "length (tq (xp_timer_sender (ap_port a))) \<le> 4 \<and> length (dq (xp_packet_id_sender (ap_port a))) \<le> 16
    \<and> (case xp_state (ap_port a) of
         XS_None \<Rightarrow> False
       | XS_Running p \<Rightarrow> instance_inv (ap_instance a) [p] \<and> po_config p = stm_port_config
       | XS_InBmca p \<Rightarrow> instance_inv (ap_instance a) [fst (end_bmca p)] \<and> po_config p = stm_port_config
           \<and> tq (xp_timer_sender (ap_port a)) = [] \<and> dq (xp_packet_id_sender (ap_port a)) = [] \<and> ap_listener a = LI_Waiting)
    \<and> (\<forall>t a'. app_step env t a a' \<longrightarrow> running a \<or> t = T_Bmca \<longrightarrow> running a')"
proof -
  have "app_inv tq dq a" by (rule stm_channels.reachable_app_inv [OF assms])
  then show ?thesis
    using stm_channels.step_inv(2) [OF assms(1)]
    by (auto simp: app_inv_def stm_ok_def running_def is_running_def split: stm_state.splits)
qed

theorem stm_reachable_invariant_witness:
  "\<exists>a p. app_reachable example_stm_env a \<and> xp_state (ap_port a) = XS_Running p \<and> instance_inv (ap_instance a) [p]
    \<and> length (xp_timer_sender (ap_port a)) \<le> 4"
proof -
  obtain a where a: "app_reachable example_stm_env a" "running a" by (rule example_running)
  then obtain p where "xp_state (ap_port a) = XS_Running p" by (auto simp: running_def is_running_def)
  then show ?thesis using stm_reachable_invariant [OF example_stm.stm_channels_axioms a(1)] a(1) by auto
qed



text \<open>C37: the wait for a transmit time stamp ends. When the listener has received the identifier of a
  packet, then in every run of the tasks, after at most eleven of its polls it has given up or
  handed the time stamp to the port, whatever the other tasks do in between.\<close>

theorem stm_listener_ends:
  assumes "ap_listener a0 = LI_Waiting" and "tx_timestamp_listener env a0 = Ok a" and "ap_listener a \<noteq> LI_Waiting"
    and "is_run env a run" and "11 \<le> length (filter (\<lambda>s. fst s = T_Listener) run)"
  shows "\<exists>s\<in>set run. ap_listener (snd s) = LI_Waiting"
proof -
  have "polls_left (ap_listener a) = 11"
    using assms(1-3) by (auto simp: tx_timestamp_listener_def split: polled.splits prod.splits)
  then show ?thesis by (intro run_ends [OF assms(4)]) (use assms(5) in simp_all)
qed

definition example_app ::
  "nat packet_id_msg list \<Rightarrow> nat listener \<Rightarrow>
   (unit, time_properties_ds option, unit, measurement list, unit, nat, nat, timer_msg list, nat packet_id_msg list) app" where
  "example_app ids l = \<lparr>
     ap_instance = ptp_instance_new (stm_instance_config (replicate 8 1)) (new_arbitrary_time False False TS_InternalOscillator),
     ap_port = \<lparr>xp_timer_sender = [], xp_packet_id_sender = ids, xp_event_socket = (), xp_general_socket = (), xp_state = XS_None\<rparr>,
     ap_net = 0, ap_now = 0, ap_timers = (\<lambda>_. None), ap_bmca_delay = 0, ap_listener = l\<rparr>"

lemma example_app_polls:
  "tx_timestamp_listener example_stm_env (example_app [(TC_Sync 3, 7)] LI_Waiting)
    = Ok (example_app [] (LI_Polling (TC_Sync 3) 7 10))"
  "tx_timestamp_listener example_stm_env (example_app [] (LI_Polling c pid (Suc n))) = Ok (example_app [] (LI_Polling c pid n))"
  "tx_timestamp_listener example_stm_env (example_app [] (LI_Polling c pid 0)) = Ok (example_app [] LI_Waiting)"
  by (simp_all add: tx_timestamp_listener_def example_app_def example_stm_env_def queue_ops_def example_stm_net_def)

lemma example_run:
  "\<exists>run. is_run example_stm_env (example_app [] (LI_Polling c pid n)) run
    \<and> length run = Suc n \<and> filter (\<lambda>s. fst s = T_Listener) run = run"
proof (induction n)
  case 0
  show ?case
    using app_step.listener [OF example_app_polls(3)]
    by (intro exI [of _ "[(T_Listener, example_app [] LI_Waiting)]"]) simp
next
  case (Suc n)
  then obtain run where "is_run example_stm_env (example_app [] (LI_Polling c pid n)) run"
      "length run = Suc n" "filter (\<lambda>s. fst s = T_Listener) run = run" by blast
  then show ?case
    using app_step.listener [OF example_app_polls(2)]
    by (intro exI [of _ "(T_Listener, example_app [] (LI_Polling c pid n)) # run"]) simp
qed

theorem stm_listener_ends_witness:
  "\<exists>run. is_run example_stm_env (example_app [] (LI_Polling (TC_Sync 3) 7 10)) run
    \<and> length run = 11 \<and> (\<exists>s\<in>set run. ap_listener (snd s) = LI_Waiting)"
proof -
  obtain run where run: "is_run example_stm_env (example_app [] (LI_Polling (TC_Sync 3) 7 10)) run"
      "length run = Suc 10" "filter (\<lambda>s. fst s = T_Listener) run = run"
    using example_run by blast
  then show ?thesis
    using stm_listener_ends [OF _ example_app_polls(1) _ run(1)] by (auto simp: example_app_def)
qed

text \<open>Before the first run of the algorithm a packet makes the example panic: nothing orders the task
  that runs the algorithm before those that receive.\<close>

theorem stm_early_packet_panics:
  assumes "stm_init env fc ptp mac rng es gs net now = Ok a"
    and "stm_recv_slice (en_net env) es 1500 net = (Some (Inr (data, timestamp)), net')"
  shows "event_listen env a = panic"
proof -
  have "\<not> is_running (xp_state (ap_port a))" "xp_event_socket (ap_port a) = es" "ap_net a = net"
    using assms(1) by (auto simp: stm_init_def stm_port_new_def is_running_def)
  then show ?thesis
    using assms(2) not_running_panics(1) [of "ap_port a" env]
    by (simp add: event_listen_def listen_and_handle_def stm_handle_event_receive_def stored_def)
qed

text \<open>The generated hardware address has six bytes, is unicast and locally administered.\<close>

lemma mac_local:
  "length (generate_mac_address ha bin_name uid) = 6"
  "generate_mac_address ha bin_name uid ! 0 AND 3 = 2"
proof -
  have "((x AND 0xfc) OR 2) AND 3 = (2 :: u8)" for x
    by (simp add: bit.conj_disj_distrib2 and.assoc)
  then show "length (generate_mac_address ha bin_name uid) = 6" "generate_mac_address ha bin_name uid ! 0 AND 3 = 2"
    by (simp_all add: generate_mac_address_def Let_def)
qed

end
