(* ===== verification/Spec2Isabelle.thy ===== *)
theory Spec2Isabelle
  imports InstanceExample TlvForwarder BasicFilter KalmanProps Exporter DaemonLoop Observer Polyfill Fuzz Stm32App
begin

text \<open>
  \<^bold>\<open>Statime\<close>, an implementation of the Precision Time Protocol (IEEE 1588-2019), its Linux daemon, and
  its example for an embedded board.

  \<^bold>\<open>The program.\<close> The library (\<open>statime/src\<close>) does no input or output. An application creates a
  \<open>PtpInstance\<close> with data sets that all ports share, adds ports, hands each port the packets and
  timer events that concern it, and carries out the actions that the call returns: packets to send,
  timers to set, TLVs to forward. From time to time it stops all ports and runs the best master
  clock algorithm on them, which decides for every port whether it is a master, a slave or passive.
  A slave port measures the offset of its clock and hands the measurements to a filter, which
  steers the clock. The daemon (\<open>statime-linux/src\<close>) is such an application: a task for every
  port, a main loop that runs the algorithm, a task for every hardware clock that keeps it together
  with the system clock, a socket on which the state is observed, and an exporter that turns this
  state into metrics. The embedded example (\<open>statime-stm32/src\<close>) is another: one port, driven by
  tasks of an interrupt-driven runtime that share it behind a lock.

  \<^bold>\<open>Conventions.\<close> A call is a function to \<open>'a res\<close>, a sum of a failure (an error of the wire format, or
  \<open>panic\<close>) and a result. A method that changes its object returns the changed record. Machine
  integers are words; an operation that the release profile lets wrap wraps. Fixed point numbers
  are their bits (\<open>time\<close>, \<open>duration\<close>), and what the \<open>fixed\<close> crate, \<open>f64\<close> and
  \<open>core::time\<close> do with them are the parameters \<open>numlib\<close> and \<open>floatlib\<close>, with the documented
  behaviour stated in the locale \<open>fixed_point\<close> and, for the filters, exact arithmetic in
  \<open>exact_floats\<close>, \<open>basic_arith\<close> and \<open>overlay_arith\<close>. \<open>outcome T m Q\<close> says that \<open>m\<close> returns
  if \<open>T\<close> holds, and that its result satisfies \<open>Q\<close>: one lemma of this form for every handler gives
  both its invariant and the absence of panics.

  \<^bold>\<open>Theories of the library.\<close>
  \<^item> \<open>Prelude\<close>: results, slices with bounds checks, big-endian integers, \<open>outcome\<close>.
  \<^item> \<open>Timebase\<close> (\<open>time/\<close>): times, durations, intervals.
  \<^item> \<open>CommonTypes\<close>, \<open>Tlv\<close>, \<open>MsgHeader\<close>, \<open>Messages\<close> (\<open>datastructures/\<close>): the wire format. The
    locales \<open>wire_format\<close> and \<open>message_content\<close> are the contract of an encoder and a decoder, and are
    interpreted on every type. Parsing never panics, and printing and parsing are inverse.
  \<^item> \<open>Datasets\<close> (\<open>datastructures/datasets/\<close>, \<open>config/\<close>), \<open>DatasetComparison\<close>,
    \<open>ForeignMaster\<close>, \<open>Bmca\<close> (\<open>bmc/\<close>): the data sets, the comparison as a lexicographic order, the
    list of foreign masters with its invariant, the state decision.
  \<^item> \<open>PortTypes\<close>, \<open>Port\<close>, \<open>PortMaster\<close>, \<open>PortSlave\<close>, \<open>PortBmca\<close>, \<open>PortRun\<close>
    (\<open>port/\<close>): the state of a port, what it sends and measures, and its entry points \<open>handle_*\<close>. The
    type parameters of a port (filter, clock, random numbers) are the record \<open>host\<close>. \<open>PortRun\<close> shows
    that every call keeps the invariant of a port and is a transition of an abstract machine over port
    modes, and that it does not panic on a packet below 1100 bytes: a longer one can carry more
    than 128 identities of a path trace, which panics. The locale \<open>tlv_source\<close> is the contract of a
    provider of forwarded TLVs.
  \<^item> \<open>Instance\<close>, \<open>InstanceRun\<close>, \<open>InstanceExample\<close> (\<open>ptp_instance.rs\<close>): a run of the algorithm and
    the states that any sequence of calls reaches, with an example of a slave.
  \<^item> \<open>Filters\<close>, \<open>BasicFilter\<close>, \<open>Matrix\<close>, \<open>Kalman\<close>, \<open>KalmanProps\<close> (\<open>filters/\<close>): both
    filters satisfy the contract \<open>filter_contract\<close>, so no sequence of measurements makes them panic.
    Measurements are bounded by \<open>2 ^ 100\<close> units there, far beyond any time of the protocol.
  \<^item> \<open>Clocks\<close> (\<open>overlay_clock.rs\<close>, \<open>shared_clock.rs\<close>): the clocks over other clocks.
  \<^item> \<open>Polyfill\<close> (\<open>float_polyfill.rs\<close>): the functions on floats of a build without the standard
    library, over \<open>libm\<close>; the Kalman filter steers alike with both.
  \<^item> \<open>Fuzz\<close> (\<open>fuzz_targets/message_sound.rs\<close>): the fuzz target of the messages panics on no input.

  \<^bold>\<open>Theories of the daemon.\<close>
  \<^item> \<open>TlvForwarder\<close> (\<open>tlvforwarder.rs\<close>): a queue over the contract \<open>broadcast\<close> of the channel.
  \<^item> \<open>LinuxClock\<close> (\<open>clock/mod.rs\<close>): the clocks of the kernel, over the contract \<open>unix_kernel\<close>.
  \<^item> \<open>LinuxConfig\<close> (\<open>config/mod.rs\<close>, \<open>tracing.rs\<close>): defaults and the configuration of a port.
  \<^item> \<open>PortTask\<close> (\<open>socket.rs\<close> and the port tasks of \<open>main.rs\<close>): an iteration of a task is the event,
    the call of the port, and the handling of its actions. The lemmas show that it ends and that a
    master always has its announce and sync timers running.
  \<^item> \<open>Daemon\<close> (the rest of \<open>main.rs\<close>): the start, an iteration of \<open>run\<close>, the steps of \<open>clock_task\<close>.
  \<^item> \<open>Channels\<close>, \<open>DaemonLoop\<close>: the bounded channels between tasks, as the contract
    \<open>bounded_channel\<close>, and the system of \<open>run\<close> and all port tasks, which hand the ports to each
    other. Its states are reached from a start of the daemon by steps in any order. Every port is in
    one place, the algorithm runs while no task does, and no task waits forever: a measure bounds
    the steps until all ports run again.
  \<^item> \<open>Metrics\<close>, \<open>MetricsProps\<close>, \<open>Exporter\<close> (\<open>metrics/\<close>): the text that is exported. The
    specification is a reader of the text format: it reads back the samples of the state. The
    stream of a client satisfies the contract \<open>tcp_stream\<close>; its headers are read up to 2048 bytes.
  \<^item> \<open>Observer\<close> (\<open>observer.rs\<close>): the socket, over the contract \<open>file_system\<close>.

  \<^bold>\<open>Theories of the embedded example.\<close>
  \<^item> \<open>Stm32Clock\<close> (\<open>ptp_clock.rs\<close>): the clock of the peripheral, over the contract \<open>eth_ptp\<close>.
  \<^item> \<open>Stm32Port\<close> (\<open>port.rs\<close>): the port with its modes, and the actions that go to the network stack
    and into two bounded channels. The lemmas say exactly when a full channel makes it panic.
  \<^item> \<open>Stm32App\<close> (\<open>main.rs\<close>, \<open>ethernet.rs\<close>): the tasks as steps of one system. Its reachable states
    keep the invariant of the library, its tasks return while the channels have room, and the wait
    for a transmit time stamp ends after its ten tries.

  \<^bold>\<open>Loops.\<close> Loops over lists are recursive functions. Those that may not end are
  \<open>partial_function (option)\<close>, where \<open>None\<close> is not returning: the loop over a provider of TLVs
  (\<open>forward_tlvs\<close>, \<open>fill_peek\<close>, \<open>drain_receiver\<close>), the handling of time stamps
  (\<open>process_actions\<close>) and the reading of a request (\<open>read_request\<close>). Each has a lemma that says when it
  returns. An iteration of a task is atomic: in the daemon tasks interleave at the awaits within
  one, but a port is used by its own task only and the data sets are behind a lock. The loops of the
  daemon and of the tasks of the embedded example that never end are step relations; \<open>daemon_step\<close> and
  \<open>app_step\<close> take any interleaving of their iterations.

  \<^bold>\<open>This theory\<close> holds the properties of an instance with all its ports: at most one slave, the
  refinement of the state decision, progress, the numbering of ports, and the slave-only mode.

  \<^bold>\<open>Not modelled.\<close> Logging, \<open>Display\<close> beyond the metrics, serde, debug assertions, the command line; the
  parsing of TOML, JSON and hexadecimal strings by libraries; the asynchronous runtimes and opening
  the sockets; the derived traits, and the tests. Of the embedded example the setup of registers, of
  the PHY and of the network interface, the LED, and the tasks for polling and DHCP, which it does
  not start; its mutex around the data sets is explicit state. Rounding of \<open>f64\<close> is not modelled:
  the theorems about the filters and the overlay clock hold in exact arithmetic.
\<close>

section \<open>Properties of an instance with its ports\<close>

text \<open>C1: whatever sequence of calls an application makes, at most one port of an instance is a slave,
  the master that it follows is the parent in the data sets of the instance, and it is not a port
  that is configured to be master only. The numbers of ports are below \<open>2 ^ 16\<close>, so that the
  port numbers do not wrap.\<close>

theorem reachable_one_slave:
  assumes "reachable host next_tlv config tp inst ports" and "wf_default_ds (default_ds_new config)"
    and "length ports < 2 ^ 16"
  shows "length (filter is_steering ports) \<le> 1
    \<and> list_all (\<lambda>p. case po_port_state p of
        PS_Slave s \<Rightarrow> ss_remote_master s = pd_parent_port_identity (is_parent_ds (in_state inst))
          \<and> \<not> pc_master_only (po_config p)
      | _ \<Rightarrow> True) ports"
proof -
  have "one_slave (in_state inst) ports"
    using reachable_inv [OF assms(1,2)] assms(3) by (simp add: instance_inv_def)
  then show ?thesis
    by (auto simp: one_slave_def follows_def list_all_iff is_steering_def [abs_def] split: port_state.split)
qed

theorem reachable_one_slave_witness:
  "\<exists>inst p1 p2 s. reachable recording_host no_forwarded_tlvs example_instance_config
       (new_arbitrary_time False False TS_InternalOscillator) inst [p1, p2]
     \<and> po_port_state p1 = PS_Slave s \<and> ss_remote_master s = master_0
     \<and> pd_parent_port_identity (is_parent_ds (in_state inst)) = master_0"
proof (rule example_slave_run)
  fix inst p1 p2 s
  assume r: "reachable recording_host no_forwarded_tlvs example_instance_config
       (new_arbitrary_time False False TS_InternalOscillator) inst [p1, p2]"
    "po_port_state p1 = PS_Slave s" "ss_remote_master s = master_0"
  then show ?thesis
    using reachable_one_slave [OF r(1) wf_example_config]
    by (intro exI [of _ inst] exI [of _ p1] exI [of _ p2] exI [of _ s]) simp
qed

text \<open>C4: the ports of an instance have the identities that the standard requires: the clock identity
  of the instance and the numbers from 1 in the order in which the ports were added; each port keeps
  the invariant of ports and leaves no complete measurement behind.\<close>

theorem reachable_ports:
  assumes "reachable host next_tlv config tp inst ports" and "wf_default_ds (default_ds_new config)"
  shows "map po_port_identity ports = map (\<lambda>n. \<lparr>pi_clock_identity = dd_clock_identity (is_default_ds (in_state inst)),
      pi_port_number = word_of_nat n\<rparr>) [1..<Suc (length ports)]
    \<and> dd_number_ports (is_default_ds (in_state inst)) = word_of_nat (length ports)
    \<and> wf_instance_state (in_state inst) \<and> list_all (\<lambda>p. wf_port p \<and> settled p) ports"
  using reachable_inv [OF assms] unfolding instance_inv_def numbered_def by blast

theorem reachable_ports_witness:
  "\<exists>inst p1 p2. reachable recording_host no_forwarded_tlvs example_instance_config
       (new_arbitrary_time False False TS_InternalOscillator) inst [p1, p2]
     \<and> pi_port_number (po_port_identity p1) = 1 \<and> pi_port_number (po_port_identity p2) = 2"
proof (rule example_slave_run)
  fix inst p1 p2 s
  assume r: "reachable recording_host no_forwarded_tlvs example_instance_config
       (new_arbitrary_time False False TS_InternalOscillator) inst [p1, p2]"
  then show ?thesis
    using reachable_ports [OF r wf_example_config]
    by (intro exI [of _ inst] exI [of _ p1] exI [of _ p2]) simp
qed





text \<open>C5: the slave-only flag takes effect at the next run of the algorithm, as its documentation says:
  after the run no port is a master, whatever the ports were before.\<close>

theorem slave_only_takes_effect:
  assumes "reachable host next_tlv config tp inst ports" and "wf_default_ds (default_ds_new config)"
    and "instance_bmca host (set_slave_only True inst) (map start_bmca ports) = Ok (inst', ports')"
  shows "list_all (\<lambda>p. \<not> is_master p) ports'"
proof -
  let ?i = "set_slave_only True inst"
  have i: "reachable host next_tlv config tp ?i ports" using assms(1) by (rule slave_only_set)
  obtain best_ports ebest where
    "bmca_ran (in_state ?i) (map start_bmca ports) best_ports ebest (in_state inst') ports'"
    by (rule reachable_ran [OF i assms(2,3)])
  then have "list_all2 (port_ran (is_default_ds (in_state ?i)) ebest) best_ports ports'" by (simp add: bmca_ran_def)
  then have "list_all2 (\<lambda>p p'. \<not> is_master p') best_ports ports'"
    by (rule list_all2_mono) (auto simp: is_master_def set_slave_only_def dest!: port_ran_master)
  then show ?thesis by (simp add: list_all2_conv_all_nth list_all_length)
qed

theorem slave_only_takes_effect_witness:
  "\<exists>inst p1 p2 s inst' ports'. po_port_state p1 = PS_Slave s
     \<and> instance_bmca recording_host (set_slave_only True inst) (map start_bmca [p1, p2]) = Ok (inst', ports')
     \<and> list_all (\<lambda>p. \<not> is_master p) ports'"
proof (rule example_slave_run)
  fix inst p1 p2 s
  assume r: "reachable recording_host no_forwarded_tlvs example_instance_config
       (new_arbitrary_time False False TS_InternalOscillator) inst [p1, p2]"
    and s: "po_port_state p1 = PS_Slave s" and c: "po_config p1 = example_config" "po_config p2 = example_config"
  have "list_all (\<lambda>p. host_total recording_host (po_config p)) [p1, p2]"
    using c recording_host_total by simp
  then obtain inst' ports' where
    b: "instance_bmca recording_host (set_slave_only True inst) (map start_bmca [p1, p2]) = Ok (inst', ports')"
    using outcome_total [OF bmca_returns [OF reachable_inv [OF slave_only_set [OF r, of True] wf_example_config],
      of True recording_host]] by auto
  show ?thesis using slave_only_takes_effect [OF r wf_example_config b] s b by fast
qed

end
